(* ===== verification/Prelude.thy ===== *)
theory Prelude
  imports Main "HOL-Library.Word" "HOL-Library.List_Lexorder" "HOL-Library.Product_Lexorder"
begin

text \<open>
  The shared vocabulary of the development: machine integers, identifiers, Rust strings and
  results, and the generic facts on lists, filters and association lists that the component
  theories use.
\<close>

section \<open>Machine integers and identifiers\<close>

type_synonym byte = "8 word"
type_synonym u16 = "16 word"
type_synonym u32 = "32 word"
type_synonym u64 = "64 word"

text \<open>A \<open>uuid::Uuid\<close> is a 128-bit value.\<close>

type_synonym uuid = "128 word"

text \<open>
  A Rust \<open>char\<close> is a Unicode scalar value, here its code point; a \<open>String\<close> is the sequence of
  its characters. \<open>str\<close> turns a literal of the source into that form.
\<close>

type_synonym rchar = nat
type_synonym rstring = "nat list"

definition str :: "string \<Rightarrow> rstring" where
  "str s = map of_char s"

lemma length_str [simp]: "length (str s) = length s"
  by (simp add: str_def)

lemma str_Nil [simp]: "str [] = []"
  by (simp add: str_def)

lemma str_eq_Nil [simp]: "str s = [] \<longleftrightarrow> s = []"
  by (simp add: str_def)

lemma str_Cons: "str (c # cs) = of_char c # str cs"
  by (simp add: str_def)

text \<open>\<open>i64::MAX\<close>, and the fallible conversions between \<open>u64\<close> and \<open>i64\<close>.\<close>

definition i64_max :: int where
  "i64_max = 9223372036854775807"

definition i64_of_u64 :: "u64 \<Rightarrow> int option" where
  "i64_of_u64 w = (if uint w \<le> i64_max then Some (uint w) else None)"

definition u64_of_i64 :: "int \<Rightarrow> u64 option" where
  "u64_of_i64 n = (if 0 \<le> n then Some (word_of_int n) else None)"

lemma uint_u64_of_i64:
  assumes "u64_of_i64 n = Some w" "n \<le> i64_max"
  shows "uint w = n"
  using assms
  by (auto simp: u64_of_i64_def i64_max_def uint_word_of_int split: if_splits)

lemma u64_of_i64_nonneg [simp]: "0 \<le> n \<Longrightarrow> u64_of_i64 n = Some (word_of_int n)"
  by (simp add: u64_of_i64_def)

lemma i64_u64_roundtrip: "i64_of_u64 w = Some n \<Longrightarrow> u64_of_i64 n = Some w"
  by (auto simp: i64_of_u64_def u64_of_i64_def split: if_splits)

section \<open>Collections of facts\<close>

text \<open>
  \<open>limits\<close> holds the numeric constants of the source, \<open>frame\<close> the facts that an operation leaves
  a table or a field alone.
\<close>

named_theorems limits
named_theorems frame

section \<open>Results\<close>

text \<open>
  \<open>Result<T>\<close> is a sum with the error on the left. \<open>collect_result\<close> is
  \<open>iter.map(f).collect::<Result<Vec<_>>>()\<close>: the first error, or all results in order.
\<close>

fun collect_result :: "('a \<Rightarrow> 'e + 'b) \<Rightarrow> 'a list \<Rightarrow> 'e + 'b list" where
  "collect_result f [] = Inr []"
| "collect_result f (x # xs) =
     (case f x of Inl e \<Rightarrow> Inl e
      | Inr y \<Rightarrow> (case collect_result f xs of Inl e \<Rightarrow> Inl e | Inr ys \<Rightarrow> Inr (y # ys)))"

definition is_ok :: "'e + 'a \<Rightarrow> bool" where
  "is_ok r = (case r of Inl _ \<Rightarrow> False | Inr _ \<Rightarrow> True)"

lemma is_ok_simps [simp]: "is_ok (Inl e) = False" "is_ok (Inr x) = True"
  by (simp_all add: is_ok_def)

lemma is_okE: "is_ok r \<Longrightarrow> (\<And>x. r = Inr x \<Longrightarrow> P) \<Longrightarrow> P"
  by (cases r) auto

text \<open>The \<open>?\<close> operator: the first error ends the computation.\<close>

definition and_then :: "'e + 'a \<Rightarrow> ('a \<Rightarrow> 'e + 'b) \<Rightarrow> 'e + 'b" where
  "and_then r f = (case r of Inl e \<Rightarrow> Inl e | Inr x \<Rightarrow> f x)"

lemma and_then_simps [simp]:
  "and_then (Inl e) f = Inl e"
  "and_then (Inr x) f = f x"
  by (simp_all add: and_then_def)

lemma and_then_Inr: "and_then r f = Inr y \<longleftrightarrow> (\<exists>x. r = Inr x \<and> f x = Inr y)"
  by (cases r) auto

text \<open>\<open>Option<Result<T>>::transpose\<close>.\<close>

definition transpose_option :: "('e + 'a) option \<Rightarrow> 'e + 'a option" where
  "transpose_option r = (case r of None \<Rightarrow> Inr None | Some (Inl e) \<Rightarrow> Inl e | Some (Inr x) \<Rightarrow> Inr (Some x))"

lemma transpose_option_simps [simp]:
  "transpose_option None = Inr None"
  "transpose_option (Some (Inl e)) = Inl e"
  "transpose_option (Some (Inr x)) = Inr (Some x)"
  by (simp_all add: transpose_option_def)

lemma collect_result_all_ok:
  "(\<And>x. x \<in> set xs \<Longrightarrow> f x = Inr (g x)) \<Longrightarrow> collect_result f xs = Inr (map g xs)"
  by (induction xs) auto

lemma collect_result_length: "collect_result f xs = Inr ys \<Longrightarrow> length ys = length xs"
  by (induction xs arbitrary: ys) (auto split: sum.splits)

lemma collect_result_nth:
  "collect_result f xs = Inr ys \<Longrightarrow> i < length xs \<Longrightarrow> f (xs ! i) = Inr (ys ! i)"
proof (induction xs arbitrary: ys i)
  case Nil
  then show ?case by simp
next
  case (Cons x xs)
  from Cons.prems(1) obtain y ys' where
    "f x = Inr y" "collect_result f xs = Inr ys'" "ys = y # ys'"
    by (auto split: sum.splits)
  with Cons.IH [of ys'] Cons.prems(2) show ?case by (cases i) auto
qed

lemma collect_result_set:
  assumes "collect_result f xs = Inr ys" "y \<in> set ys"
  obtains x where "x \<in> set xs" "f x = Inr y"
  using assms by (metis collect_result_length collect_result_nth in_set_conv_nth)

lemma collect_result_fixpoint:
  assumes "collect_result f xs = Inr ys" "\<And>x y. x \<in> set xs \<Longrightarrow> f x = Inr y \<Longrightarrow> g y = Inr y"
  shows "collect_result g ys = Inr ys"
proof -
  have "g y = Inr (id y)" if "y \<in> set ys" for y
    using assms that by (auto elim: collect_result_set)
  then show ?thesis using collect_result_all_ok [of ys g id] by simp
qed

section \<open>Lists\<close>

lemma find_eq_Some_filter: "find P xs = Some x \<Longrightarrow> x \<in> set xs \<and> P x"
  by (auto simp: find_Some_iff)

lemma find_eq_None: "find P xs = None \<longleftrightarrow> (\<forall>x\<in>set xs. \<not> P x)"
  by (auto simp: find_None_iff)

text \<open>
  A lookup by a unique key finds the row that has it.
\<close>

lemma distinct_map_eqD:
  "distinct (map key xs) \<Longrightarrow> x \<in> set xs \<Longrightarrow> y \<in> set xs \<Longrightarrow> key x = key y \<Longrightarrow> x = y"
  by (meson distinct_map inj_onD)

lemma find_by_key:
  assumes dist: "distinct (map key xs)" and x: "x \<in> set xs" "P x"
    and key: "\<And>y. P y \<Longrightarrow> key y = key x"
  shows "find P xs = Some x"
proof (cases "find P xs")
  case None
  with x show ?thesis by (simp add: find_eq_None)
next
  case (Some y)
  then have "y \<in> set xs" "P y" by (auto dest: find_eq_Some_filter)
  with key [of y] have "y = x" using distinct_map_eqD [OF dist _ x(1)] by blast
  with Some show ?thesis by simp
qed

lemma length_filter_le_card:
  "distinct xs \<Longrightarrow> length (filter P xs) = card {x \<in> set xs. P x}"
  by (metis distinct_card distinct_filter set_filter)

text \<open>
  An SQL \<open>UPDATE ... WHERE\<close> over a table kept as a list of rows.
\<close>

definition update_where :: "('r \<Rightarrow> bool) \<Rightarrow> ('r \<Rightarrow> 'r) \<Rightarrow> 'r list \<Rightarrow> 'r list" where
  "update_where P f rows = map (\<lambda>r. if P r then f r else r) rows"

definition rows_matching :: "('r \<Rightarrow> bool) \<Rightarrow> 'r list \<Rightarrow> nat" where
  "rows_matching P rows = length (filter P rows)"

lemma update_where_map:
  "(\<And>r. P r \<Longrightarrow> g (f r) = g r) \<Longrightarrow> map g (update_where P f rows) = map g rows"
  by (auto simp: update_where_def)

lemma set_update_where:
  "r' \<in> set (update_where P f rows) \<longleftrightarrow>
     (\<exists>r\<in>set rows. (P r \<and> r' = f r) \<or> (\<not> P r \<and> r' = r))"
  by (auto simp: update_where_def)

lemma list_all_update_where:
  "list_all Q rows \<Longrightarrow> (\<And>r. Q r \<Longrightarrow> P r \<Longrightarrow> Q (f r)) \<Longrightarrow> list_all Q (update_where P f rows)"
  by (auto simp: update_where_def list_all_iff)

lemma image_update_where:
  assumes "\<And>r. P r \<Longrightarrow> g (f r) = g r"
  shows "g ` set (update_where P f rows) = g ` set rows"
proof -
  have "map g (update_where P f rows) = map g rows"
    using assms by (rule update_where_map)
  then have "set (map g (update_where P f rows)) = set (map g rows)" by (rule arg_cong)
  then show ?thesis by simp
qed

lemma length_update_where [simp]: "length (update_where P f rows) = length rows"
  by (simp add: update_where_def)

lemma filter_update_where_length:
  "(\<And>r. P r \<Longrightarrow> Q (f r) \<Longrightarrow> Q r) \<Longrightarrow>
   length (filter Q (update_where P f rows)) \<le> length (filter Q rows)"
  by (induction rows) (auto simp: update_where_def)

lemma filter_update_where_same:
  "(\<And>r. P r \<Longrightarrow> Q (f r) = Q r) \<Longrightarrow>
   length (filter Q (update_where P f rows)) = length (filter Q rows)"
  by (induction rows) (auto simp: update_where_def)

lemma rows_matching_pos: "0 < rows_matching P rows \<longleftrightarrow> (\<exists>r\<in>set rows. P r)"
  by (auto simp: rows_matching_def filter_empty_conv)

lemma rows_matching_one: "rows_matching P rows = 1 \<Longrightarrow> \<exists>r\<in>set rows. P r"
  using rows_matching_pos [of P rows] by simp

lemma rows_matching_append [simp]:
  "rows_matching P (xs @ [x]) = rows_matching P xs + (if P x then 1 else 0)"
  by (simp add: rows_matching_def)

lemma rows_matching_filter: "rows_matching P (filter Q xs) \<le> rows_matching P xs"
  by (induction xs) (auto simp: rows_matching_def)

lemma rows_matching_update_where:
  "(\<And>r. P r \<Longrightarrow> Q (f r) \<Longrightarrow> Q r) \<Longrightarrow> rows_matching Q (update_where P f rows) \<le> rows_matching Q rows"
  unfolding rows_matching_def by (rule filter_update_where_length)

lemma update_where_mem: "r \<in> set rows \<Longrightarrow> (if P r then f r else r) \<in> set (update_where P f rows)"
  by (auto simp: update_where_def)

lemma update_where_keeps:
  assumes "r \<in> set rows" "\<And>r. P r \<Longrightarrow> g (f r) = g r"
  shows "\<exists>r'\<in>set (update_where P f rows). g r' = g r"
  by (rule bexI [OF _ update_where_mem [OF assms(1)]]) (simp add: assms(2))

lemma update_whereE:
  assumes "r' \<in> set (update_where P f rows)"
  obtains r where "r \<in> set rows" "r' = (if P r then f r else r)"
  using assms by (auto simp: update_where_def)

lemma singleton_list:
  assumes "distinct xs" "x \<in> set xs" "\<And>y. y \<in> set xs \<Longrightarrow> y = x"
  shows "xs = [x]"
proof (cases xs)
  case (Cons a as)
  with assms(3) have "a = x" "\<forall>b\<in>set as. b = x" by auto
  with assms(1) Cons have "as = []" by (cases as) auto
  with Cons \<open>a = x\<close> show ?thesis by simp
qed (use assms(2) in simp)

lemma update_where_none: "\<forall>r\<in>set rows. \<not> P r \<Longrightarrow> update_where P f rows = rows"
  by (simp add: update_where_def map_idI)

lemma rows_matching_unique:
  assumes "distinct (map k rows)" "r \<in> set rows" "P r" "\<And>s. P s \<Longrightarrow> k s = k r"
  shows "rows_matching P rows = 1"
proof -
  have "s = r" if "s \<in> set (filter P rows)" for s
    using that assms(2,4) by (auto intro: distinct_map_eqD [OF assms(1)])
  moreover have "distinct (filter P rows)" "r \<in> set (filter P rows)" using assms(1-3) by (auto simp: distinct_map)
  ultimately have "filter P rows = [r]" by (intro singleton_list)
  then show ?thesis by (simp add: rows_matching_def)
qed

text \<open>
  \<open>ORDER BY key ... LIMIT n OFFSET k\<close>.
\<close>

definition page :: "nat \<Rightarrow> nat \<Rightarrow> 'r list \<Rightarrow> 'r list" where
  "page offset limit rows = take limit (drop offset rows)"

lemma length_page: "length (page offset limit rows) = min limit (length rows - offset)"
  by (simp add: page_def min.commute)

lemma set_page_subset: "set (page offset limit rows) \<subseteq> set rows"
  unfolding page_def by (meson order_trans set_drop_subset set_take_subset)

section \<open>Association lists\<close>

text \<open>
  A \<open>HashMap\<close> is an association list with distinct keys; the position of an entry stands for the
  unspecified iteration order. \<open>amap_put\<close> is \<open>insert\<close>, \<open>amap_remove\<close> is \<open>remove\<close>.
\<close>

fun amap_put :: "'k \<Rightarrow> 'v \<Rightarrow> ('k \<times> 'v) list \<Rightarrow> ('k \<times> 'v) list" where
  "amap_put k v [] = [(k, v)]"
| "amap_put k v ((k', v') # m) = (if k = k' then (k, v) # m else (k', v') # amap_put k v m)"

definition amap_remove :: "'k \<Rightarrow> ('k \<times> 'v) list \<Rightarrow> ('k \<times> 'v) list" where
  "amap_remove k m = filter (\<lambda>e. fst e \<noteq> k) m"

text \<open>\<open>get_mut\<close> followed by an assignment through the reference, and \<open>values_mut\<close>.\<close>

definition amap_adjust :: "'k \<Rightarrow> ('v \<Rightarrow> 'v) \<Rightarrow> ('k \<times> 'v) list \<Rightarrow> ('k \<times> 'v) list" where
  "amap_adjust k f m = map (\<lambda>e. if fst e = k then (fst e, f (snd e)) else e) m"

definition amap_map :: "('k \<Rightarrow> 'v \<Rightarrow> 'w) \<Rightarrow> ('k \<times> 'v) list \<Rightarrow> ('k \<times> 'w) list" where
  "amap_map f m = map (\<lambda>e. (fst e, f (fst e) (snd e))) m"

lemma map_of_amap_put [simp]: "map_of (amap_put k v m) = (map_of m)(k \<mapsto> v)"
  by (induction k v m rule: amap_put.induct) auto

lemma map_of_amap_remove [simp]: "map_of (amap_remove k m) = (map_of m)(k := None)"
  by (induction m) (auto simp: amap_remove_def)

lemma map_of_amap_adjust [simp]:
  "map_of (amap_adjust k f m) = (\<lambda>j. if j = k then map_option f (map_of m k) else map_of m j)"
  by (induction m) (auto simp: amap_adjust_def fun_eq_iff)

lemma map_of_amap_map [simp]: "map_of (amap_map f m) = (\<lambda>k. map_option (f k) (map_of m k))"
  by (induction m) (auto simp: amap_map_def fun_eq_iff)

lemma keys_amap_put: "fst ` set (amap_put k v m) = insert k (fst ` set m)"
  by (induction k v m rule: amap_put.induct) auto

lemma keys_amap_adjust [simp]: "map fst (amap_adjust k f m) = map fst m"
  by (auto simp: amap_adjust_def)

lemma keys_amap_map [simp]: "map fst (amap_map f m) = map fst m"
  by (auto simp: amap_map_def)

lemma distinct_amap_put: "distinct (map fst m) \<Longrightarrow> distinct (map fst (amap_put k v m))"
proof (induction k v m rule: amap_put.induct)
  case (2 k v k' v' m)
  have "fst ` set (amap_put k v m) = insert k (fst ` set m)" by (rule keys_amap_put)
  with 2 show ?case by auto
qed simp

lemma distinct_amap_remove: "distinct (map fst m) \<Longrightarrow> distinct (map fst (amap_remove k m))"
  by (simp add: amap_remove_def distinct_map_filter)

end
