(* ===== verification/Text.thy ===== *)
theory Text
  imports Prelude
begin

text \<open>
  The character and string operations of Rust's standard library that the program uses: character
  classes, \<open>trim\<close>, ASCII folding and UTF-8. Nothing here is specific to the chat program; the
  code under \<open>src/\<close> calls all of it.
\<close>

section \<open>Character classes\<close>

text \<open>\<open>char::is_whitespace\<close> is Unicode's \<open>White_Space\<close>, \<open>char::is_control\<close> its category \<open>Cc\<close>.\<close>

definition is_whitespace :: "rchar \<Rightarrow> bool" where
  "is_whitespace c \<longleftrightarrow>
     9 \<le> c \<and> c \<le> 13 \<or> c = 32 \<or> c = 0x85 \<or> c = 0xA0 \<or> c = 0x1680 \<or>
     0x2000 \<le> c \<and> c \<le> 0x200A \<or> c = 0x2028 \<or> c = 0x2029 \<or> c = 0x202F \<or> c = 0x205F \<or> c = 0x3000"

definition is_control :: "rchar \<Rightarrow> bool" where
  "is_control c \<longleftrightarrow> c < 32 \<or> 0x7F \<le> c \<and> c \<le> 0x9F"

definition is_ascii_digit :: "rchar \<Rightarrow> bool" where
  "is_ascii_digit c \<longleftrightarrow> 48 \<le> c \<and> c \<le> 57"

definition is_ascii_alphanumeric :: "rchar \<Rightarrow> bool" where
  "is_ascii_alphanumeric c \<longleftrightarrow> is_ascii_digit c \<or> 65 \<le> c \<and> c \<le> 90 \<or> 97 \<le> c \<and> c \<le> 122"

definition is_ascii_hexdigit :: "rchar \<Rightarrow> bool" where
  "is_ascii_hexdigit c \<longleftrightarrow> is_ascii_digit c \<or> 65 \<le> c \<and> c \<le> 70 \<or> 97 \<le> c \<and> c \<le> 102"

text \<open>\<open>to_ascii_lowercase\<close>, and the comparison \<open>eq_ignore_ascii_case\<close>.\<close>

definition ascii_lower :: "rchar \<Rightarrow> rchar" where
  "ascii_lower c = (if 65 \<le> c \<and> c \<le> 90 then c + 32 else c)"

definition nocase :: "rstring \<Rightarrow> rstring" where
  "nocase s = map ascii_lower s"

definition eq_ignore_ascii_case :: "rstring \<Rightarrow> rstring \<Rightarrow> bool" where
  "eq_ignore_ascii_case s t \<longleftrightarrow> nocase s = nocase t"

lemma eq_ignore_ascii_case_refl [simp]: "eq_ignore_ascii_case s s"
  by (simp add: eq_ignore_ascii_case_def)

lemma eq_ignore_ascii_case_sym: "eq_ignore_ascii_case s t \<Longrightarrow> eq_ignore_ascii_case t s"
  by (simp add: eq_ignore_ascii_case_def)

section \<open>Trimming\<close>

definition trim_start :: "rstring \<Rightarrow> rstring" where
  "trim_start s = dropWhile is_whitespace s"

definition trim_end :: "rstring \<Rightarrow> rstring" where
  "trim_end s = rev (dropWhile is_whitespace (rev s))"

definition trim :: "rstring \<Rightarrow> rstring" where
  "trim s = trim_end (trim_start s)"

definition trimmed :: "rstring \<Rightarrow> bool" where
  "trimmed s \<longleftrightarrow> s \<noteq> [] \<longrightarrow> \<not> is_whitespace (hd s) \<and> \<not> is_whitespace (last s)"

lemma trim_start_hd: "trim_start s \<noteq> [] \<Longrightarrow> \<not> is_whitespace (hd (trim_start s))"
  unfolding trim_start_def by (rule hd_dropWhile)

lemma trim_end_last: "trim_end s \<noteq> [] \<Longrightarrow> \<not> is_whitespace (last (trim_end s))"
  unfolding trim_end_def by (simp add: last_rev hd_dropWhile)

lemma trim_end_prefix: "\<exists>w. s = trim_end s @ w"
proof -
  have "rev s = takeWhile is_whitespace (rev s) @ dropWhile is_whitespace (rev s)" by simp
  then have "s = rev (dropWhile is_whitespace (rev s)) @ rev (takeWhile is_whitespace (rev s))"
    by (metis rev_append rev_rev_ident)
  then show ?thesis unfolding trim_end_def by blast
qed

lemma trim_end_hd: "trim_end s \<noteq> [] \<Longrightarrow> hd (trim_end s) = hd s"
  using trim_end_prefix [of s] by (metis hd_append2)

lemma trimmed_trim: "trimmed (trim s)"
  unfolding trimmed_def
proof (intro impI conjI)
  assume ne: "trim s \<noteq> []"
  then have "trim_start s \<noteq> []" by (auto simp: trim_def trim_end_def)
  then have "\<not> is_whitespace (hd (trim_start s))" by (rule trim_start_hd)
  then show "\<not> is_whitespace (hd (trim s))"
    using ne by (simp add: trim_def trim_end_hd)
  show "\<not> is_whitespace (last (trim s))"
    using ne unfolding trim_def by (rule trim_end_last)
qed

lemma trim_trimmed:
  assumes "trimmed s"
  shows "trim s = s"
proof (cases "s = []")
  case True
  then show ?thesis by (simp add: trim_def trim_start_def trim_end_def)
next
  case False
  with assms have h: "\<not> is_whitespace (hd s)" and l: "\<not> is_whitespace (last s)"
    by (auto simp: trimmed_def)
  from False h have "trim_start s = s"
    by (cases s) (auto simp: trim_start_def)
  moreover from False l have "dropWhile is_whitespace (rev s) = rev s"
    by (metis dropWhile_eq_self_iff hd_rev)
  then have "trim_end s = s" by (simp add: trim_end_def)
  ultimately show ?thesis by (simp add: trim_def)
qed

lemma trim_idem [simp]: "trim (trim s) = trim s"
  by (simp add: trim_trimmed trimmed_trim)

lemma set_trim: "set (trim s) \<subseteq> set s"
  unfolding trim_def trim_end_def trim_start_def
  by (auto dest!: set_dropWhileD)

lemma length_trim: "length (trim s) \<le> length s"
  unfolding trim_def trim_end_def trim_start_def
  by (metis le_trans length_dropWhile_le length_rev)

text \<open>\<open>trim\<close> keeps a contiguous part of the string.\<close>

lemma trim_infix: "\<exists>a b. s = a @ trim s @ b"
proof -
  have "s = takeWhile is_whitespace s @ trim_start s" by (simp add: trim_start_def)
  with trim_end_prefix [of "trim_start s"] show ?thesis
    unfolding trim_def by metis
qed

section \<open>UTF-8\<close>

text \<open>A \<open>char\<close> is a scalar value: not a surrogate and below \<open>0x110000\<close>.\<close>

definition scalar :: "rchar \<Rightarrow> bool" where
  "scalar c \<longleftrightarrow> c < 0xD800 \<or> 0xE000 \<le> c \<and> c < 0x110000"

definition valid_str :: "rstring \<Rightarrow> bool" where
  "valid_str s = list_all scalar s"

text \<open>\<open>char::len_utf8\<close>, and \<open>str::len\<close>, which counts bytes.\<close>

definition len_utf8 :: "rchar \<Rightarrow> nat" where
  "len_utf8 c = (if c < 0x80 then 1 else if c < 0x800 then 2 else if c < 0x10000 then 3 else 4)"

definition byte_len :: "rstring \<Rightarrow> nat" where
  "byte_len s = sum_list (map len_utf8 s)"

text \<open>\<open>as u8\<close> on a value below 256.\<close>

definition byte_of :: "nat \<Rightarrow> byte" where
  "byte_of n = of_nat n"

lemma unat_byte_of [simp]: "n < 256 \<Longrightarrow> unat (byte_of n) = n"
  by (simp add: byte_of_def unat_of_nat)

lemma unat_byte_of_cont [simp]: "unat (byte_of (128 + n mod 64)) = 128 + n mod 64"
  by (simp add: trans_less_add2)

definition encode_char :: "rchar \<Rightarrow> byte list" where
  "encode_char c =
     (if c < 0x80 then [byte_of c]
      else if c < 0x800 then [byte_of (0xC0 + c div 64), byte_of (0x80 + c mod 64)]
      else if c < 0x10000 then
        [byte_of (0xE0 + c div 4096), byte_of (0x80 + c div 64 mod 64), byte_of (0x80 + c mod 64)]
      else
        [byte_of (0xF0 + c div 262144), byte_of (0x80 + c div 4096 mod 64),
         byte_of (0x80 + c div 64 mod 64), byte_of (0x80 + c mod 64)])"

text \<open>\<open>str::as_bytes\<close>.\<close>

definition utf8 :: "rstring \<Rightarrow> byte list" where
  "utf8 s = concat (map encode_char s)"

text \<open>
  \<open>String::from_utf8\<close>: it refuses stray continuation bytes, truncated sequences, overlong forms,
  surrogates and values above \<open>0x10FFFF\<close>.
\<close>

definition cont :: "byte \<Rightarrow> bool" where
  "cont b \<longleftrightarrow> 0x80 \<le> unat b \<and> unat b < 0xC0"

definition low6 :: "byte \<Rightarrow> nat" where
  "low6 b = unat b - 0x80"

fun decode_char :: "byte list \<Rightarrow> (rchar \<times> byte list) option" where
  "decode_char [] = None"
| "decode_char (b # bs) =
    (if unat b < 0x80 then Some (unat b, bs)
     else if 0xC0 \<le> unat b \<and> unat b < 0xE0 then
       (case bs of
          b1 # r \<Rightarrow>
            let c = (unat b - 0xC0) * 64 + low6 b1
            in if cont b1 \<and> 0x80 \<le> c then Some (c, r) else None
        | _ \<Rightarrow> None)
     else if 0xE0 \<le> unat b \<and> unat b < 0xF0 then
       (case bs of
          b1 # b2 # r \<Rightarrow>
            let c = (unat b - 0xE0) * 4096 + low6 b1 * 64 + low6 b2
            in if cont b1 \<and> cont b2 \<and> 0x800 \<le> c \<and> scalar c then Some (c, r) else None
        | _ \<Rightarrow> None)
     else if 0xF0 \<le> unat b \<and> unat b < 0xF8 then
       (case bs of
          b1 # b2 # b3 # r \<Rightarrow>
            let c = (unat b - 0xF0) * 262144 + low6 b1 * 4096 + low6 b2 * 64 + low6 b3
            in if cont b1 \<and> cont b2 \<and> cont b3 \<and> 0x10000 \<le> c \<and> scalar c then Some (c, r) else None
        | _ \<Rightarrow> None)
     else None)"

lemma decode_char_shorter: "decode_char bs = Some (c, r) \<Longrightarrow> length r < length bs"
  by (induction bs rule: decode_char.induct) (auto simp: Let_def split: if_splits list.splits)

function from_utf8 :: "byte list \<Rightarrow> rstring option" where
  "from_utf8 bs =
     (if bs = [] then Some []
      else case decode_char bs of None \<Rightarrow> None
           | Some (c, r) \<Rightarrow> map_option (Cons c) (from_utf8 r))"
  by pat_completeness auto
termination
  by (relation "measure length") (auto dest: decode_char_shorter)

declare from_utf8.simps [simp del]

lemma from_utf8_Nil [simp]: "from_utf8 [] = Some []"
  by (subst from_utf8.simps) simp

lemma base64_digits2: "(c::nat) div 4096 * 4096 + c div 64 mod 64 * 64 + c mod 64 = c"
proof -
  have "c div 4096 = c div 64 div 64" by (simp add: div_mult2_eq [symmetric])
  then have "c div 4096 * 64 + c div 64 mod 64 = c div 64" by simp
  moreover have "c = c div 64 * 64 + c mod 64" by simp
  ultimately show ?thesis by linarith
qed

lemma base64_digits3:
  "(c::nat) div 262144 * 262144 + c div 4096 mod 64 * 4096 + c div 64 mod 64 * 64 + c mod 64 = c"
proof -
  have "c div 262144 = c div 64 div 4096" "c div 4096 = c div 64 div 64"
    by (simp_all add: div_mult2_eq [symmetric])
  then have "c div 262144 * 4096 + c div 4096 mod 64 * 64 + c div 64 mod 64 = c div 64"
    using base64_digits2 [of "c div 64"] by simp
  moreover have "c = c div 64 * 64 + c mod 64" by simp
  ultimately show ?thesis by linarith
qed

lemma decode_encode_char:
  assumes "scalar c"
  shows "decode_char (encode_char c @ r) = Some (c, r)"
proof -
  have c: "c < 1114112" using assms by (auto simp: scalar_def)
  consider "c < 0x80" | "0x80 \<le> c" "c < 0x800" | "0x800 \<le> c" "c < 0x10000" | "0x10000 \<le> c"
    by linarith
  then show ?thesis
  proof cases
    case 1
    then show ?thesis by (simp add: encode_char_def)
  next
    case 2
    then have "c div 64 < 32" by auto
    with 2 show ?thesis
      by (simp add: encode_char_def cont_def low6_def Let_def)
  next
    case 3
    then have "c div 4096 < 16" by auto
    moreover have "c div 4096 * 4096 + c div 64 mod 64 * 64 + c mod 64 = c"
      by (rule base64_digits2)
    ultimately show ?thesis using 3 assms
      by (simp add: encode_char_def cont_def low6_def Let_def)
  next
    case 4
    with c have "c div 262144 < 5" by auto
    moreover have "c div 262144 * 262144 + c div 4096 mod 64 * 4096 + c div 64 mod 64 * 64 + c mod 64 = c"
      by (rule base64_digits3)
    ultimately show ?thesis using 4 assms
      by (simp add: encode_char_def cont_def low6_def Let_def)
  qed
qed

lemma encode_char_not_Nil [simp]: "encode_char c \<noteq> []"
  by (simp add: encode_char_def)

theorem from_utf8_utf8: "valid_str s \<Longrightarrow> from_utf8 (utf8 s) = Some s"
proof (induction s)
  case Nil
  then show ?case by (simp add: utf8_def)
next
  case (Cons c s)
  then have "scalar c" "from_utf8 (utf8 s) = Some s" by (auto simp: valid_str_def)
  then show ?case
    by (subst from_utf8.simps) (simp add: utf8_def decode_encode_char)
qed

lemma length_encode_char: "length (encode_char c) = len_utf8 c"
  by (simp add: encode_char_def len_utf8_def)

lemma length_utf8: "length (utf8 s) = byte_len s"
  by (induction s) (auto simp: utf8_def byte_len_def length_encode_char)

lemma len_utf8_pos: "0 < len_utf8 c"
  by (simp add: len_utf8_def)

lemma byte_len_append [simp]: "byte_len (s @ t) = byte_len s + byte_len t"
  by (simp add: byte_len_def)

lemma byte_len_filter: "byte_len (filter P s) \<le> byte_len s"
  by (induction s) (auto simp: byte_len_def)

lemma byte_len_trim: "byte_len (trim s) \<le> byte_len s"
proof -
  obtain a b where "s = a @ trim s @ b" using trim_infix by blast
  then have "byte_len s = byte_len a + byte_len (trim s) + byte_len b"
    by (metis add.assoc byte_len_append)
  then show ?thesis by simp
qed

lemma length_le_byte_len: "length s \<le> byte_len s"
proof (induction s)
  case (Cons c s)
  then show ?case using len_utf8_pos [of c] by (simp add: byte_len_def)
qed (simp add: byte_len_def)

lemma utf8_Nil_iff [simp]: "utf8 s = [] \<longleftrightarrow> s = []"
  by (cases s) (auto simp: utf8_def)

text \<open>
  The bytes of a string that satisfy an ASCII-only test come from ASCII characters that satisfy it,
  because every byte of a longer sequence is at least \<open>0x80\<close>.
\<close>

lemma bytes_all_ascii:
  assumes ascii: "\<And>n. P n \<Longrightarrow> n < 128"
  shows "(\<forall>b\<in>set (utf8 s). P (unat b)) \<longleftrightarrow> (\<forall>c\<in>set s. c < 128 \<and> P c)"
proof (induction s)
  case Nil
  then show ?case by (simp add: utf8_def)
next
  case (Cons c s)
  have "(\<forall>b\<in>set (encode_char c). P (unat b)) \<longleftrightarrow> c < 128 \<and> P c"
  proof (cases "c < 128")
    case True
    then show ?thesis by (simp add: encode_char_def)
  next
    case False
    have "\<exists>b\<in>set (encode_char c). 128 \<le> unat b"
    proof -
      have "128 \<le> unat (byte_of (0x80 + c mod 64))" by simp
      moreover have "byte_of (0x80 + c mod 64) \<in> set (encode_char c)"
        using False by (simp add: encode_char_def)
      ultimately show ?thesis by blast
    qed
    with False ascii show ?thesis by fastforce
  qed
  with Cons show ?case by (auto simp: utf8_def)
qed

end
