(* ===== verification/Errors.thy ===== *)
theory Errors
  imports Text
begin

text \<open>
  The errors of the program, \<open>anyhow::Error\<close>: a \<open>bail!\<close> or \<open>context\<close> message of the source, or a
  failure of a library call. \<open>error_text\<close> is \<open>to_string\<close>; only messages of the sanitizers are ever
  sent to a client, library failures are logged on the gateway.
\<close>

datatype error =
    Bail rstring
  | Sqlite_Constraint
  | Query_Returned_No_Rows
  | Unexpected_Eof
  | Io_Error

fun error_text :: "error \<Rightarrow> rstring" where
  "error_text (Bail message) = message"
| "error_text _ = []"

text \<open>Decimal rendering of an unsigned integer.\<close>

fun show_nat :: "nat \<Rightarrow> rstring" where
  "show_nat n = (if n < 10 then [48 + n] else show_nat (n div 10) @ [48 + n mod 10])"

declare show_nat.simps [simp del]

lemma show_nat_digits: "c \<in> set (show_nat n) \<Longrightarrow> is_ascii_digit c"
proof (induction n rule: show_nat.induct)
  case (1 n)
  then show ?case
    by (subst (asm) show_nat.simps) (auto simp: is_ascii_digit_def split: if_splits)
qed

end
