(* ===== verification/Protocol.thy ===== *)
theory Protocol
  imports Errors
begin

text \<open>
  \<open>src/protocol.rs\<close>: the data of the wire protocol, with the constructors and fields of the source.
  The JSON rendering of these types is serde's and is a parameter where a definition needs it.
\<close>

section \<open>Constants\<close>

definition PROTOCOL_MIN :: u16 where "PROTOCOL_MIN = 5"
definition PROTOCOL_MAX :: u16 where "PROTOCOL_MAX = 5"
definition DEFAULT_ROOM_ID :: rstring where "DEFAULT_ROOM_ID = str ''general''"
definition DEFAULT_ROOM_NAME :: rstring where "DEFAULT_ROOM_NAME = str ''general''"
definition MAX_PLAINTEXT_FRAME :: nat where [limits]: "MAX_PLAINTEXT_FRAME = 16 * 1024"
definition MAX_CIPHERTEXT_FRAME :: nat where [limits]: "MAX_CIPHERTEXT_FRAME = MAX_PLAINTEXT_FRAME + 1024"

section \<open>Peers, rooms and groups\<close>

text \<open>\<open>std::net::SocketAddr\<close>.\<close>

datatype ip_addr = V4 "32 word" | V6 "128 word"

record socket_addr =
  sa_ip :: ip_addr
  sa_port :: u16

record direct_peer_info =
  dpi_endpoint :: socket_addr
  dpi_fingerprint :: rstring

record peer =
  p_session_id :: uuid
  p_member_id :: uuid
  p_nickname :: rstring
  p_direct :: "direct_peer_info option"

datatype room_visibility = Public_Room | Private_Room

fun visibility_as_str :: "room_visibility \<Rightarrow> rstring" where
  "visibility_as_str Public_Room = str ''public''"
| "visibility_as_str Private_Room = str ''private''"

record room_summary =
  rs_room_id :: rstring
  rs_room_name :: rstring
  rs_visibility :: room_visibility

datatype group_access_mode = Public | Invite | Approval

fun access_mode_as_str :: "group_access_mode \<Rightarrow> rstring" where
  "access_mode_as_str Public = str ''public''"
| "access_mode_as_str Invite = str ''invite''"
| "access_mode_as_str Approval = str ''approval''"

record group_summary =
  gs_group_id :: uuid
  gs_group_name :: rstring
  gs_access_mode :: group_access_mode

datatype group_role = Member | Admin

datatype group_member_status = Active | Banned

text \<open>
  The status order of the member list, \<open>CASE status WHEN 'active' THEN 0 ELSE 1 END\<close>.
\<close>

instantiation group_member_status :: linorder
begin

definition less_eq_group_member_status :: "group_member_status \<Rightarrow> group_member_status \<Rightarrow> bool" where
  "less_eq_group_member_status s t \<longleftrightarrow> s = Active \<or> t = Banned"

definition less_group_member_status :: "group_member_status \<Rightarrow> group_member_status \<Rightarrow> bool" where
  "less_group_member_status s t \<longleftrightarrow> s = Active \<and> t = Banned"

instance
proof
  fix x y z :: group_member_status
  show "(x < y) = (x \<le> y \<and> \<not> y \<le> x)"
    by (cases x; cases y) (simp_all add: less_eq_group_member_status_def less_group_member_status_def)
  show "x \<le> x" by (cases x) (simp_all add: less_eq_group_member_status_def)
  show "x \<le> y \<Longrightarrow> y \<le> z \<Longrightarrow> x \<le> z"
    by (cases x; cases y; cases z) (simp_all add: less_eq_group_member_status_def)
  show "x \<le> y \<Longrightarrow> y \<le> x \<Longrightarrow> x = y"
    by (cases x; cases y) (simp_all add: less_eq_group_member_status_def)
  show "x \<le> y \<or> y \<le> x" by (cases x; cases y) (simp_all add: less_eq_group_member_status_def)
qed

end

record group_member_summary =
  gms_member_id :: uuid
  gms_nickname :: rstring
  gms_role :: group_role
  gms_status :: group_member_status

record room_member_summary =
  rms_member_id :: uuid
  rms_nickname :: rstring
  rms_group_role :: group_role
  rms_included :: bool
  rms_is_owner :: bool

datatype group_token_kind = Member_Token | Admin_Token | Invite_Token

record issued_group_credentials =
  igc_admin_token :: rstring
  igc_invite_token :: "rstring option"

record join_request_summary =
  jrs_request_id :: uuid
  jrs_nickname :: rstring
  jrs_requested_at_ms :: u64

section \<open>Messages\<close>

record chat_record =
  cr_sequence :: u64
  cr_message_id :: uuid
  cr_sender :: peer
  cr_room_id :: rstring
  cr_sent_at_ms :: u64
  cr_text :: rstring

record direct_record =
  dr_message_id :: uuid
  dr_sender :: peer
  dr_recipient_session_id :: uuid
  dr_sent_at_ms :: u64
  dr_text :: rstring

datatype private_conversation_status = Awaiting_Reply uuid | Active_Conversation

text \<open>The arguments follow the fields of the source's variants, in order.\<close>

datatype client_message =
    Hello u16 u16 rstring "u16 option" "rstring option"
  | Join_Group uuid "rstring option"
  | Create_Group rstring group_access_mode
  | Chat rstring uuid rstring
  | Create_Room rstring room_visibility
  | Join_Room rstring
  | Leave_Room rstring
  | Load_History rstring u64 u16
  | List_Join_Requests
  | Decide_Join_Request uuid bool
  | List_Group_Members u32
  | Set_Member_Banned uuid bool
  | Rotate_Group_Token group_token_kind
  | List_Room_Members rstring u32
  | Set_Room_Member rstring uuid bool
  | Private_Chat uuid uuid rstring
  | Ping

record welcome_message =
  w_protocol_version :: u16
  w_group_id :: uuid
  w_group_name :: rstring
  w_access_mode :: group_access_mode
  w_role :: group_role
  w_issued_credentials :: "issued_group_credentials option"
  w_issued_member_token :: "rstring option"
  w_room_id :: rstring
  w_room_name :: rstring
  w_rooms :: "room_summary list"
  w_session_id :: uuid
  w_members :: "peer list"
  w_history :: "chat_record list"

datatype server_message =
    Gateway_Welcome u16 uuid rstring "group_summary list"
  | Join_Pending uuid uuid rstring
  | Welcome welcome_message
  | Server_Chat chat_record
  | Room_Created room_summary
  | Room_Joined room_summary "chat_record list"
  | Room_Left rstring
  | History_Page rstring "chat_record list" bool
  | Join_Requests "join_request_summary list"
  | Group_Members "group_member_summary list" u32 bool
  | Group_Token_Rotated group_token_kind rstring
  | Room_Members rstring "room_member_summary list" u32 bool
  | Private_Message direct_record private_conversation_status
  | Private_Closed uuid
  | Member_Joined peer
  | Member_Left uuid
  | Server_Error rstring rstring
  | Pong

record discovery_beacon =
  beacon_app :: rstring
  beacon_protocol_min :: u16
  beacon_protocol_max :: u16
  beacon_gateway_id :: uuid
  beacon_gateway_name :: rstring
  beacon_port :: u16
  beacon_server_fingerprint :: rstring

end
