(* ===== verification/Schema.thy ===== *)
theory Schema
  imports Protocol
begin

text \<open>
  The gateway database of \<open>src/storage.rs\<close>: one list of rows per table of \<open>initialize_schema\<close>, in
  insertion order, and the constraints the schema declares. SQLite checks them at every statement,
  so \<open>execute\<close> runs a statement and refuses the outcome when a constraint fails. UUID and
  enumeration columns hold the values themselves; the \<open>parse_*\<close> functions, which read the columns
  back, are shown to invert the rendering at the end.
\<close>

section \<open>Tables\<close>

record group_row =
  g_id :: uuid
  g_name :: rstring
  g_access :: group_access_mode
  g_admin_hash :: "byte list option"
  g_invite_hash :: "byte list option"
  g_created :: int

record room_row =
  r_id :: rstring
  r_group :: uuid
  r_name :: rstring
  r_visibility :: room_visibility
  r_next_sequence :: int
  r_created :: int

record message_row =
  m_id :: uuid
  m_group :: uuid
  m_room :: rstring
  m_sequence :: int
  m_sender_session :: uuid
  m_sender_member :: uuid
  m_sender_nickname :: rstring
  m_sent_at :: int
  m_body :: "byte list"

datatype request_status = Request_Pending | Request_Approved | Request_Rejected

record request_row =
  q_id :: uuid
  q_group :: uuid
  q_nickname :: rstring
  q_token_hash :: "byte list"
  q_status :: request_status
  q_requested_at :: int

record member_row =
  gm_id :: uuid
  gm_group :: uuid
  gm_hash :: "byte list"
  gm_role :: group_role
  gm_status :: group_member_status
  gm_nickname :: rstring
  gm_created :: int
  gm_updated :: int

datatype room_role = Owner | Room_Member

record room_member_row =
  rm_group :: uuid
  rm_room :: rstring
  rm_member :: uuid
  rm_role :: room_role
  rm_added :: int

record database =
  db_gateway_id :: "uuid option"
  t_groups :: "group_row list"
  t_rooms :: "room_row list"
  t_messages :: "message_row list"
  t_requests :: "request_row list"
  t_members :: "member_row list"
  t_room_members :: "room_member_row list"

definition empty_database :: database where
  "empty_database = \<lparr>db_gateway_id = None, t_groups = [], t_rooms = [], t_messages = [],
     t_requests = [], t_members = [], t_room_members = []\<rparr>"

section \<open>Keys and constraints\<close>

definition room_key :: "room_row \<Rightarrow> uuid \<times> rstring" where
  "room_key r = (r_group r, r_id r)"

definition room_name_key :: "room_row \<Rightarrow> uuid \<times> rstring" where
  "room_name_key r = (r_group r, r_name r)"

definition message_key :: "message_row \<Rightarrow> uuid \<times> rstring \<times> int" where
  "message_key m = (m_group m, m_room m, m_sequence m)"

definition request_key :: "request_row \<Rightarrow> uuid \<times> byte list" where
  "request_key q = (q_group q, q_token_hash q)"

definition member_key :: "member_row \<Rightarrow> uuid \<times> byte list" where
  "member_key m = (gm_group m, gm_hash m)"

definition room_member_key :: "room_member_row \<Rightarrow> uuid \<times> rstring \<times> uuid" where
  "room_member_key m = (rm_group m, rm_room m, rm_member m)"

text \<open>Primary keys, unique indexes, foreign keys and checks, one definition per table.\<close>

definition groups_ok :: "group_row list \<Rightarrow> bool" where
  "groups_ok gs \<longleftrightarrow> distinct (map g_id gs) \<and> distinct (map (\<lambda>g. nocase (g_name g)) gs)"

definition rooms_ok :: "group_row list \<Rightarrow> room_row list \<Rightarrow> bool" where
  "rooms_ok gs rs \<longleftrightarrow>
     distinct (map room_key rs) \<and> distinct (map room_name_key rs) \<and>
     list_all (\<lambda>r. r_group r \<in> g_id ` set gs) rs \<and>
     list_all (\<lambda>r. 1 \<le> r_next_sequence r \<and> r_next_sequence r \<le> i64_max) rs"

definition messages_ok :: "room_row list \<Rightarrow> message_row list \<Rightarrow> bool" where
  "messages_ok rs ms \<longleftrightarrow>
     distinct (map m_id ms) \<and> distinct (map message_key ms) \<and>
     list_all (\<lambda>m. (m_group m, m_room m) \<in> room_key ` set rs) ms \<and>
     list_all (\<lambda>m. 1 \<le> m_sequence m) ms"

definition requests_ok :: "group_row list \<Rightarrow> request_row list \<Rightarrow> bool" where
  "requests_ok gs qs \<longleftrightarrow>
     distinct (map q_id qs) \<and> distinct (map request_key qs) \<and>
     list_all (\<lambda>q. q_group q \<in> g_id ` set gs) qs"

definition members_ok :: "group_row list \<Rightarrow> member_row list \<Rightarrow> bool" where
  "members_ok gs ms \<longleftrightarrow>
     distinct (map gm_id ms) \<and> distinct (map member_key ms) \<and>
     list_all (\<lambda>m. gm_group m \<in> g_id ` set gs) ms"

definition room_members_ok :: "room_row list \<Rightarrow> member_row list \<Rightarrow> room_member_row list \<Rightarrow> bool" where
  "room_members_ok rs ms rms \<longleftrightarrow>
     distinct (map room_member_key rms) \<and>
     list_all (\<lambda>m. rm_member m \<in> gm_id ` set ms) rms \<and>
     list_all (\<lambda>m. (rm_group m, rm_room m) \<in> room_key ` set rs) rms"

definition schema_ok :: "database \<Rightarrow> bool" where
  "schema_ok d \<longleftrightarrow>
     groups_ok (t_groups d) \<and> rooms_ok (t_groups d) (t_rooms d) \<and>
     messages_ok (t_rooms d) (t_messages d) \<and> requests_ok (t_groups d) (t_requests d) \<and>
     members_ok (t_groups d) (t_members d) \<and>
     room_members_ok (t_rooms d) (t_members d) (t_room_members d)"

lemmas table_ok_defs = groups_ok_def rooms_ok_def messages_ok_def requests_ok_def members_ok_def
  room_members_ok_def

lemmas key_defs = room_key_def room_name_key_def message_key_def request_key_def member_key_def
  room_member_key_def

text \<open>One SQL statement that writes.\<close>

definition execute :: "database \<Rightarrow> (database \<Rightarrow> database) \<Rightarrow> error + database" where
  "execute d stmt = (if schema_ok (stmt d) then Inr (stmt d) else Inl Sqlite_Constraint)"

lemma execute_Inr: "execute d stmt = Inr d' \<longleftrightarrow> schema_ok (stmt d) \<and> d' = stmt d"
  by (auto simp: execute_def)

lemma execute_ok: "execute d stmt = Inr d' \<Longrightarrow> schema_ok d'"
  by (auto simp: execute_Inr)

lemma execute_succeeds: "schema_ok (stmt d) \<Longrightarrow> execute d stmt = Inr (stmt d)"
  by (simp add: execute_def)

lemma schema_ok_empty: "schema_ok empty_database"
  by (simp add: schema_ok_def table_ok_defs empty_database_def)

section \<open>Columns read back\<close>

fun parse_access_mode :: "rstring \<Rightarrow> error + group_access_mode" where
  "parse_access_mode value =
     (if value = str ''public'' then Inr Public
      else if value = str ''invite'' then Inr Invite
      else if value = str ''approval'' then Inr Approval
      else Inl (Bail (str ''database contains an invalid group access mode'')))"

fun parse_room_visibility :: "rstring \<Rightarrow> error + room_visibility" where
  "parse_room_visibility value =
     (if value = str ''public'' then Inr Public_Room
      else if value = str ''private'' then Inr Private_Room
      else Inl (Bail (str ''database contains an invalid room visibility'')))"

fun parse_group_role :: "rstring \<Rightarrow> error + group_role" where
  "parse_group_role value =
     (if value = str ''member'' then Inr Member
      else if value = str ''admin'' then Inr Admin
      else Inl (Bail (str ''database contains an invalid group role'')))"

fun parse_member_status :: "rstring \<Rightarrow> error + group_member_status" where
  "parse_member_status value =
     (if value = str ''active'' then Inr Active
      else if value = str ''banned'' then Inr Banned
      else Inl (Bail (str ''database contains an invalid member status'')))"

lemma parse_access_mode_as_str: "parse_access_mode (access_mode_as_str mode) = Inr mode"
  by (cases mode) (simp_all add: str_def)

lemma parse_room_visibility_as_str: "parse_room_visibility (visibility_as_str v) = Inr v"
  by (cases v) (simp_all add: str_def)

section \<open>Lookups\<close>

definition find_group :: "database \<Rightarrow> uuid \<Rightarrow> group_row option" where
  "find_group d gid = find (\<lambda>g. g_id g = gid) (t_groups d)"

definition find_room :: "database \<Rightarrow> uuid \<Rightarrow> rstring \<Rightarrow> room_row option" where
  "find_room d gid rid = find (\<lambda>r. r_group r = gid \<and> r_id r = rid) (t_rooms d)"

definition find_member :: "database \<Rightarrow> uuid \<Rightarrow> uuid \<Rightarrow> member_row option" where
  "find_member d gid mid = find (\<lambda>m. gm_group m = gid \<and> gm_id m = mid) (t_members d)"

lemma find_group_iff:
  assumes "schema_ok d"
  shows "find_group d gid = Some g \<longleftrightarrow> g \<in> set (t_groups d) \<and> g_id g = gid"
proof -
  have "find (\<lambda>g'. g_id g' = g_id g) (t_groups d) = Some g" if "g \<in> set (t_groups d)"
    using assms that by (intro find_by_key [where key = g_id]) (auto simp: schema_ok_def groups_ok_def)
  then show ?thesis
    unfolding find_group_def by (auto dest: find_eq_Some_filter)
qed

lemma find_room_iff:
  assumes "schema_ok d"
  shows "find_room d gid rid = Some r \<longleftrightarrow> r \<in> set (t_rooms d) \<and> r_group r = gid \<and> r_id r = rid"
proof -
  have "find (\<lambda>r'. r_group r' = r_group r \<and> r_id r' = r_id r) (t_rooms d) = Some r"
    if "r \<in> set (t_rooms d)"
    using assms that by (intro find_by_key [where key = room_key])
      (auto simp: schema_ok_def rooms_ok_def room_key_def)
  then show ?thesis
    unfolding find_room_def by (auto dest: find_eq_Some_filter)
qed

lemma find_member_iff:
  assumes "schema_ok d"
  shows "find_member d gid mid = Some m \<longleftrightarrow> m \<in> set (t_members d) \<and> gm_group m = gid \<and> gm_id m = mid"
proof -
  have "find (\<lambda>m'. gm_group m' = gm_group m \<and> gm_id m' = gm_id m) (t_members d) = Some m"
    if "m \<in> set (t_members d)"
    using assms that by (intro find_by_key [where key = gm_id])
      (auto simp: schema_ok_def members_ok_def)
  then show ?thesis
    unfolding find_member_def by (auto dest: find_eq_Some_filter)
qed

end
