(* ===== verification/Security.thy ===== *)
theory Security
  imports Errors
begin

text \<open>
  \<open>src/security.rs\<close>: the filters that every name, message, identifier, fingerprint and credential
  passes at the trust boundaries of gateway and client. The locale \<open>display_sanitizer\<close> states what a
  caller relies on, \<open>stable_sanitizer\<close> adds that a second boundary changes nothing; the interpretations
  at the end discharge them for the five filters.
\<close>

section \<open>Constants\<close>

definition MAX_NICKNAME_CHARS :: nat where [limits]: "MAX_NICKNAME_CHARS = 32"
definition MAX_GROUP_NAME_CHARS :: nat where [limits]: "MAX_GROUP_NAME_CHARS = 64"
definition MAX_STATUS_CHARS :: nat where [limits]: "MAX_STATUS_CHARS = 256"
definition MAX_MESSAGE_BYTES :: nat where [limits]: "MAX_MESSAGE_BYTES = 4096"
definition MAX_MESSAGE_LINES :: nat where [limits]: "MAX_MESSAGE_LINES = 40"
definition MAX_GROUP_CREDENTIAL_BYTES :: nat where [limits]: "MAX_GROUP_CREDENTIAL_BYTES = 128"

section \<open>Functions\<close>

definition is_forbidden_terminal_char :: "rchar \<Rightarrow> bool" where
  "is_forbidden_terminal_char ch \<longleftrightarrow>
     ch = 0x1B \<or> ch = 0x7F \<or> (is_control ch \<and> ch \<noteq> 10 \<and> ch \<noteq> 13 \<and> ch \<noteq> 9) \<or> 0x80 \<le> ch \<and> ch \<le> 0x9F"

definition flatten_char :: "rchar \<Rightarrow> rchar" where
  "flatten_char ch = (if ch = 10 \<or> ch = 13 \<or> ch = 9 then 32 else ch)"

definition sanitize_single_line :: "rstring \<Rightarrow> rstring \<Rightarrow> nat \<Rightarrow> error + rstring" where
  "sanitize_single_line raw field max_chars =
     (let sanitized = map flatten_char (filter (\<lambda>ch. \<not> is_forbidden_terminal_char ch) (trim raw))
      in if sanitized = [] then Inl (Bail (field @ str '' cannot be empty''))
         else if length sanitized > max_chars then Inl (Bail (field @ str '' is longer than '' @ show_nat max_chars @ str '' characters''))
         else Inr sanitized)"

definition sanitize_nickname :: "rstring \<Rightarrow> error + rstring" where
  "sanitize_nickname raw = sanitize_single_line raw (str ''nickname'') MAX_NICKNAME_CHARS"

definition sanitize_group_name :: "rstring \<Rightarrow> error + rstring" where
  "sanitize_group_name raw = sanitize_single_line raw (str ''group name'') MAX_GROUP_NAME_CHARS"

definition sanitize_room_name :: "rstring \<Rightarrow> error + rstring" where
  "sanitize_room_name raw = sanitize_single_line raw (str ''room name'') MAX_NICKNAME_CHARS"

definition sanitize_status_text :: "rstring \<Rightarrow> error + rstring" where
  "sanitize_status_text raw = sanitize_single_line raw (str ''status text'') MAX_STATUS_CHARS"

text \<open>The tests over \<open>bytes()\<close> look at the UTF-8 encoding; the closures are named here.\<close>

definition identifier_byte :: "nat \<Rightarrow> bool" where
  "identifier_byte b \<longleftrightarrow> is_ascii_alphanumeric b \<or> b = 45 \<or> b = 95 \<or> b = 46"

definition credential_byte :: "nat \<Rightarrow> bool" where
  "credential_byte b \<longleftrightarrow> is_ascii_alphanumeric b \<or> b = 95"

definition is_safe_identifier :: "rstring \<Rightarrow> bool" where
  "is_safe_identifier v \<longleftrightarrow>
     v \<noteq> [] \<and> byte_len v \<le> 64 \<and> list_all (\<lambda>b. identifier_byte (unat b)) (utf8 v)"

definition is_valid_group_credential :: "rstring \<Rightarrow> bool" where
  "is_valid_group_credential v \<longleftrightarrow>
     v \<noteq> [] \<and> byte_len v \<le> MAX_GROUP_CREDENTIAL_BYTES \<and>
     list_all (\<lambda>b. credential_byte (unat b)) (utf8 v)"

text \<open>\<open>char_indices\<close> pairs each character with its byte offset.\<close>

fun char_indices :: "nat \<Rightarrow> rstring \<Rightarrow> (nat \<times> rchar) list" where
  "char_indices i [] = []"
| "char_indices i (c # cs) = (i, c) # char_indices (i + len_utf8 c) cs"

definition fingerprint_char :: "nat \<Rightarrow> rchar \<Rightarrow> bool" where
  "fingerprint_char index ch \<longleftrightarrow>
     (if index = 4 \<or> index = 9 \<or> index = 14 \<or> index = 19 \<or> index = 24 then ch = 58
      else is_ascii_hexdigit ch)"

definition is_valid_fingerprint :: "rstring \<Rightarrow> bool" where
  "is_valid_fingerprint v \<longleftrightarrow>
     byte_len v = 29 \<and> list_all (\<lambda>(index, ch). fingerprint_char index ch) (char_indices 0 v)"

definition sanitize_group_credential :: "rstring \<Rightarrow> error + rstring" where
  "sanitize_group_credential raw =
     (let credential = trim raw
      in if \<not> is_valid_group_credential credential then Inl (Bail (str ''group credential has an invalid format'')) else Inr credential)"

text \<open>The loop of \<open>sanitize_chat_text\<close>, with the line counter and the output built so far.\<close>

fun chat_loop :: "rstring \<Rightarrow> nat \<Rightarrow> rstring \<Rightarrow> error + rstring" where
  "chat_loop [] lines out = Inr out"
| "chat_loop (ch # rest) lines out =
     (if ch = 10 then
        (if lines + 1 > MAX_MESSAGE_LINES then Inl (Bail (str ''message has more than '' @ show_nat MAX_MESSAGE_LINES @ str '' lines''))
         else chat_loop rest (lines + 1) (out @ [ch]))
      else if ch = 9 then chat_loop rest lines (out @ [ch])
      else if ch = 13 then chat_loop rest lines out
      else if is_forbidden_terminal_char ch then chat_loop rest lines out
      else chat_loop rest lines (out @ [ch]))"

definition sanitize_chat_text :: "rstring \<Rightarrow> error + rstring" where
  "sanitize_chat_text raw =
     (if byte_len raw > MAX_MESSAGE_BYTES then Inl (Bail (str ''message is larger than '' @ show_nat MAX_MESSAGE_BYTES @ str '' bytes''))
      else case chat_loop raw 1 [] of
             Inl e \<Rightarrow> Inl e
           | Inr out \<Rightarrow>
               (let sanitized = trim out
                in if sanitized = [] then Inl (Bail (str ''message cannot be empty'')) else Inr sanitized))"

definition sanitize_paste_for_input :: "rstring \<Rightarrow> rstring" where
  "sanitize_paste_for_input raw =
     take MAX_MESSAGE_BYTES (map flatten_char (filter (\<lambda>ch. \<not> is_forbidden_terminal_char ch) raw))"

section \<open>Facts about the filters\<close>

text \<open>A character that cannot drive a terminal.\<close>

definition display_safe :: "rstring \<Rightarrow> bool" where
  "display_safe s = list_all (\<lambda>ch. \<not> is_forbidden_terminal_char ch) s"

text \<open>What the chat filter keeps: everything but carriage returns and forbidden characters.\<close>

definition chat_keeps :: "rchar \<Rightarrow> bool" where
  "chat_keeps ch \<longleftrightarrow> ch \<noteq> 13 \<and> \<not> is_forbidden_terminal_char ch"

lemma flatten_char_not_control:
  "\<not> is_forbidden_terminal_char ch \<Longrightarrow> \<not> is_control (flatten_char ch)"
  by (auto simp: flatten_char_def is_forbidden_terminal_char_def is_control_def)

lemma not_control_not_forbidden: "\<not> is_control ch \<Longrightarrow> \<not> is_forbidden_terminal_char ch"
  by (auto simp: is_forbidden_terminal_char_def is_control_def)

lemma flatten_char_id: "\<not> is_control ch \<Longrightarrow> flatten_char ch = ch"
  by (auto simp: flatten_char_def is_control_def)

lemma flatten_char_whitespace [simp]: "is_whitespace (flatten_char ch) = is_whitespace ch"
  by (auto simp: flatten_char_def is_whitespace_def)

lemma sanitize_single_line_out:
  assumes "sanitize_single_line raw field n = Inr out"
  shows "out \<noteq> []" "length out \<le> n" "list_all (\<lambda>ch. \<not> is_control ch) out"
  using assms flatten_char_not_control
  by (auto simp: sanitize_single_line_def Let_def list_all_iff split: if_splits)

lemma sanitize_single_line_clean:
  assumes "list_all (\<lambda>ch. \<not> is_control ch) s" "trimmed s" "s \<noteq> []" "length s \<le> n"
  shows "sanitize_single_line s field n = Inr s"
proof -
  have "filter (\<lambda>ch. \<not> is_forbidden_terminal_char ch) s = s"
    using assms(1) by (auto simp: filter_id_conv list_all_iff not_control_not_forbidden)
  moreover have "map flatten_char s = s"
    using assms(1) by (intro map_idI) (auto simp: list_all_iff flatten_char_id)
  ultimately show ?thesis
    using assms(2-4) by (simp add: sanitize_single_line_def trim_trimmed)
qed

text \<open>Input without forbidden characters comes out trimmed, hence unchanged by a second pass.\<close>

lemma sanitize_single_line_trimmed:
  assumes "sanitize_single_line raw field n = Inr out" "display_safe raw"
  shows "trimmed out"
proof -
  have "filter (\<lambda>ch. \<not> is_forbidden_terminal_char ch) (trim raw) = trim raw"
    using assms(2) set_trim by (auto simp: display_safe_def list_all_iff filter_id_conv)
  then have "out = map flatten_char (trim raw)"
    using assms(1) by (auto simp: sanitize_single_line_def Let_def split: if_splits)
  then show ?thesis
    using trimmed_trim [of raw] by (auto simp: trimmed_def hd_map last_map)
qed

lemma sanitize_single_line_stable:
  assumes "sanitize_single_line raw field n = Inr out" "display_safe raw"
  shows "sanitize_single_line out field' n = Inr out"
  using sanitize_single_line_out [OF assms(1)] sanitize_single_line_trimmed [OF assms]
  by (simp add: sanitize_single_line_clean)

text \<open>The chat loop fails exactly when the newlines overrun the limit, and otherwise filters.\<close>

lemma chat_loop_eq:
  "lines \<le> MAX_MESSAGE_LINES \<Longrightarrow>
   chat_loop s lines out =
     (if lines + count_list s 10 \<le> MAX_MESSAGE_LINES then Inr (out @ filter chat_keeps s)
      else Inl (Bail (str ''message has more than '' @ show_nat MAX_MESSAGE_LINES @ str '' lines'')))"
proof (induction s lines out rule: chat_loop.induct)
  case (1 lines out)
  then show ?case by simp
next
  case (2 ch rest lines out)
  have keeps: "chat_keeps 10" "chat_keeps 9" "\<not> chat_keeps 13"
    by (auto simp: chat_keeps_def is_forbidden_terminal_char_def is_control_def)
  consider "ch = 10" | "ch \<noteq> 10" "chat_keeps ch" | "ch \<noteq> 10" "\<not> chat_keeps ch" by blast
  then show ?case
  proof cases
    case 1
    with 2 keeps show ?thesis by auto
  next
    case 2
    with "2.IH" "2.prems" keeps show ?thesis by (auto simp: chat_keeps_def)
  next
    case 3
    with "2.IH" "2.prems" keeps show ?thesis by (auto simp: chat_keeps_def)
  qed
qed

lemma sanitize_chat_text_eq:
  "sanitize_chat_text raw =
     (if byte_len raw > MAX_MESSAGE_BYTES then Inl (Bail (str ''message is larger than '' @ show_nat MAX_MESSAGE_BYTES @ str '' bytes''))
      else if count_list raw 10 \<ge> MAX_MESSAGE_LINES then Inl (Bail (str ''message has more than '' @ show_nat MAX_MESSAGE_LINES @ str '' lines''))
      else let t = trim (filter chat_keeps raw) in if t = [] then Inl (Bail (str ''message cannot be empty'')) else Inr t)"
  using chat_loop_eq [of 1 raw "[]"]
  by (auto simp: sanitize_chat_text_def Let_def limits)

lemma count_list_filter_le: "count_list (filter P s) x \<le> count_list s x"
  by (induction s) auto

lemma count_list_trim: "count_list (trim s) x \<le> count_list s x"
proof -
  obtain a b where "s = a @ trim s @ b" using trim_infix by blast
  then have "count_list s x = count_list a x + (count_list (trim s) x + count_list b x)"
    by (metis count_list_append)
  then show ?thesis by simp
qed

lemma sanitize_chat_text_out:
  assumes "sanitize_chat_text raw = Inr out"
  shows "out \<noteq> []" "byte_len out \<le> MAX_MESSAGE_BYTES" "count_list out 10 < MAX_MESSAGE_LINES"
    "list_all chat_keeps out" "trimmed out"
proof -
  let ?f = "filter chat_keeps raw"
  from assms have out: "out = trim ?f" "out \<noteq> []" "byte_len raw \<le> MAX_MESSAGE_BYTES"
    "count_list raw 10 < MAX_MESSAGE_LINES"
    by (auto simp: sanitize_chat_text_eq Let_def split: if_splits)
  show "out \<noteq> []" by fact
  show "byte_len out \<le> MAX_MESSAGE_BYTES"
    using out(1,3) byte_len_trim [of ?f] byte_len_filter [of chat_keeps raw] by simp
  show "count_list out 10 < MAX_MESSAGE_LINES"
    using out(1,4) count_list_trim [of ?f 10] count_list_filter_le [of chat_keeps raw 10] by simp
  show "list_all chat_keeps out"
    using out(1) set_trim [of ?f] by (auto simp: list_all_iff)
  show "trimmed out" using out(1) by (simp add: trimmed_trim)
qed

lemma sanitize_chat_text_stable:
  assumes "sanitize_chat_text raw = Inr out"
  shows "sanitize_chat_text out = Inr out"
proof -
  note o = sanitize_chat_text_out [OF assms]
  have "filter chat_keeps out = out" using o(4) by (simp add: filter_id_conv list_all_iff)
  with o show ?thesis by (simp add: sanitize_chat_text_eq trim_trimmed)
qed

section \<open>Identifiers, credentials and fingerprints\<close>

lemma identifier_byte_ascii: "identifier_byte n \<Longrightarrow> n < 128"
  by (auto simp: identifier_byte_def is_ascii_alphanumeric_def is_ascii_digit_def)

lemma credential_byte_ascii: "credential_byte n \<Longrightarrow> n < 128"
  by (auto simp: credential_byte_def is_ascii_alphanumeric_def is_ascii_digit_def)

lemma is_safe_identifier_ascii:
  "is_safe_identifier v \<longleftrightarrow> v \<noteq> [] \<and> byte_len v \<le> 64 \<and> list_all identifier_byte v"
  using bytes_all_ascii [of identifier_byte, OF identifier_byte_ascii] identifier_byte_ascii
  by (fastforce simp: is_safe_identifier_def list_all_iff)

lemma is_valid_group_credential_ascii:
  "is_valid_group_credential v \<longleftrightarrow>
     v \<noteq> [] \<and> byte_len v \<le> MAX_GROUP_CREDENTIAL_BYTES \<and> list_all credential_byte v"
  using bytes_all_ascii [of credential_byte, OF credential_byte_ascii] credential_byte_ascii
  by (fastforce simp: is_valid_group_credential_def list_all_iff)

lemma byte_len_ascii: "(\<forall>c\<in>set s. c < 128) \<Longrightarrow> byte_len s = length s"
  by (induction s) (auto simp: byte_len_def len_utf8_def)

lemma byte_len_length_ascii: "byte_len s = length s \<Longrightarrow> \<forall>c\<in>set s. c < 128"
proof (induction s)
  case (Cons c s)
  then have "len_utf8 c + byte_len s = Suc (length s)" by (simp add: byte_len_def)
  with length_le_byte_len [of s] len_utf8_pos [of c]
  have "len_utf8 c = 1" "byte_len s = length s" by linarith+
  with Cons.IH show ?case by (auto simp: len_utf8_def split: if_splits)
qed simp

lemma char_indices_ascii:
  "\<forall>c\<in>set s. c < 128 \<Longrightarrow> char_indices i s = zip [i..<i + length s] s"
proof (induction s arbitrary: i)
  case (Cons c s)
  have "len_utf8 c = 1" using Cons.prems by (simp add: len_utf8_def)
  moreover have "[i..<i + length (c # s)] = i # [Suc i..<Suc i + length s]"
    using upt_conv_Cons [of i "i + length (c # s)"] by simp
  moreover have "char_indices (Suc i) s = zip [Suc i..<Suc i + length s] s"
    using Cons.prems by (intro Cons.IH) simp
  ultimately show ?case by simp
qed simp

text \<open>A character accepted by the fingerprint test is ASCII, so byte offsets are positions.\<close>

lemma fingerprint_char_ascii: "fingerprint_char i ch \<Longrightarrow> ch < 128"
  by (auto simp: fingerprint_char_def is_ascii_hexdigit_def is_ascii_digit_def split: if_splits)

lemma fingerprint_all_ascii:
  assumes "list_all (\<lambda>(i, ch). fingerprint_char i ch) (char_indices k s)"
  shows "\<forall>c\<in>set s. c < 128"
  using assms
  by (induction k s rule: char_indices.induct) (auto dest: fingerprint_char_ascii)

lemma is_valid_fingerprint_nth:
  "is_valid_fingerprint v \<longleftrightarrow> length v = 29 \<and> (\<forall>i<length v. fingerprint_char i (v ! i))"
proof -
  have zip: "list_all (\<lambda>(i, ch). fingerprint_char i ch) (zip [0..<length v] v)
      \<longleftrightarrow> (\<forall>i<length v. fingerprint_char i (v ! i))"
    by (auto simp: list_all_length)
  have ascii: "byte_len v = length v" "char_indices 0 v = zip [0..<length v] v"
    if "\<forall>c\<in>set v. c < 128"
    using that by (simp_all add: byte_len_ascii char_indices_ascii)
  have "\<forall>c\<in>set v. c < 128" if "is_valid_fingerprint v"
    using that by (auto simp: is_valid_fingerprint_def intro!: fingerprint_all_ascii)
  moreover have "\<forall>c\<in>set v. c < 128" if "\<forall>i<length v. fingerprint_char i (v ! i)"
    using that fingerprint_char_ascii by (metis in_set_conv_nth)
  ultimately show ?thesis
    using ascii zip by (auto simp: is_valid_fingerprint_def)
qed

section \<open>The contract of a sanitizer\<close>

text \<open>
  What the callers rely on: accepted text is not empty and cannot drive a terminal. A stable
  sanitizer accepts its own output unchanged, so text that passed the gateway passes the client too.
\<close>

locale display_sanitizer =
  fixes sanitize :: "rstring \<Rightarrow> error + rstring"
  assumes accepted_safe: "sanitize raw = Inr out \<Longrightarrow> display_safe out"
    and accepted_nonempty: "sanitize raw = Inr out \<Longrightarrow> out \<noteq> []"
begin

lemma collect_safe:
  "collect_result sanitize raws = Inr outs \<Longrightarrow> \<forall>out\<in>set outs. display_safe out \<and> out \<noteq> []"
  by (metis accepted_nonempty accepted_safe collect_result_set)

lemma escape_free: "sanitize raw = Inr out \<Longrightarrow> 0x1B \<notin> set out"
  using accepted_safe by (auto simp: display_safe_def list_all_iff is_forbidden_terminal_char_def)

end

locale stable_sanitizer = display_sanitizer +
  assumes accepted_stable: "sanitize raw = Inr out \<Longrightarrow> sanitize out = Inr out"
begin

lemma collect_stable: "collect_result sanitize raws = Inr outs \<Longrightarrow> collect_result sanitize outs = Inr outs"
  by (rule collect_result_fixpoint) (auto intro: accepted_stable)

end

lemma display_safe_single_line:
  assumes "sanitize_single_line raw field n = Inr out"
  shows "display_safe out" "out \<noteq> []"
  using sanitize_single_line_out [OF assms]
  by (auto simp: display_safe_def list_all_iff not_control_not_forbidden)

interpretation nickname: display_sanitizer sanitize_nickname
  by unfold_locales (auto simp: sanitize_nickname_def dest: display_safe_single_line)

interpretation group_name: display_sanitizer sanitize_group_name
  by unfold_locales (auto simp: sanitize_group_name_def dest: display_safe_single_line)

interpretation room_name: display_sanitizer sanitize_room_name
  by unfold_locales (auto simp: sanitize_room_name_def dest: display_safe_single_line)

interpretation status_text: display_sanitizer sanitize_status_text
  by unfold_locales (auto simp: sanitize_status_text_def dest: display_safe_single_line)

interpretation chat_text: stable_sanitizer sanitize_chat_text
proof unfold_locales
  fix raw out
  assume san: "sanitize_chat_text raw = Inr out"
  show "display_safe out"
    using sanitize_chat_text_out(4) [OF san] by (auto simp: display_safe_def chat_keeps_def list_all_iff)
  show "out \<noteq> []" by (rule sanitize_chat_text_out(1) [OF san])
  show "sanitize_chat_text out = Inr out" by (rule sanitize_chat_text_stable [OF san])
qed

end
