(* ===== verification/Tokens.thy ===== *)
theory Tokens
  imports Security
begin

text \<open>
  The bearer credentials of \<open>src/storage.rs\<close>: how a token is drawn, hashed and compared, and the
  libraries these and the message bodies rest on. BLAKE3, the constant-time comparison and the
  AEAD cipher are third-party code: the record \<open>externals\<close> is the parameter that stands for them,
  and the predicates after it state what their documentation promises.
\<close>

section \<open>Third-party functions\<close>

record externals =
  x_blake3 :: "byte list \<Rightarrow> byte list"
  x_ct_eq :: "byte list \<Rightarrow> byte list \<Rightarrow> bool"
  x_encrypt :: "byte list \<Rightarrow> byte list \<Rightarrow> byte list \<Rightarrow> byte list \<Rightarrow> byte list option"
  x_decrypt :: "byte list \<Rightarrow> byte list \<Rightarrow> byte list \<Rightarrow> byte list \<Rightarrow> byte list option"

text \<open>\<open>subtle::ConstantTimeEq\<close> on slices of one length is equality.\<close>

definition ct_eq_is_equality :: "externals \<Rightarrow> bool" where
  "ct_eq_is_equality X \<longleftrightarrow> (\<forall>a b. length a = length b \<longrightarrow> (x_ct_eq X a b \<longleftrightarrow> a = b))"

text \<open>
  XChaCha20-Poly1305: a sealed message opens under the same key, nonce and associated data, and
  carries a 16-byte tag. The arguments are key, nonce, associated data and text.
\<close>

definition aead_opens :: "externals \<Rightarrow> bool" where
  "aead_opens X \<longleftrightarrow>
     (\<forall>key nonce aad msg ct. x_encrypt X key nonce aad msg = Some ct \<longrightarrow>
        x_decrypt X key nonce aad ct = Some msg \<and> length ct = length msg + 16)"

section \<open>Drawing, hashing and comparing\<close>

definition hex_digit :: "nat \<Rightarrow> rchar" where
  "hex_digit n = (if n < 10 then 48 + n else 87 + n)"

text \<open>\<open>format!("{byte:02x}")\<close>.\<close>

definition hex_byte :: "byte \<Rightarrow> rstring" where
  "hex_byte b = [hex_digit (unat b div 16), hex_digit (unat b mod 16)]"

text \<open>The 32 random bytes are an argument, absent when \<open>getrandom\<close> fails.\<close>

definition generate_credential :: "rstring \<Rightarrow> byte list option \<Rightarrow> error + rstring" where
  "generate_credential kind entropy =
     (case entropy of
        None \<Rightarrow> Inl (Bail (str ''failed to generate a group credential''))
      | Some random \<Rightarrow> Inr (str ''lc_'' @ kind @ str ''_'' @ concat (map hex_byte random)))"

definition credential_hash :: "externals \<Rightarrow> rstring \<Rightarrow> error + byte list" where
  "credential_hash X credential =
     (if \<not> is_valid_group_credential credential
      then Inl (Bail (str ''group credential has an invalid format''))
      else Inr (x_blake3 X (utf8 credential)))"

definition hash_matches :: "externals \<Rightarrow> byte list \<Rightarrow> byte list \<Rightarrow> bool" where
  "hash_matches X supplied stored \<longleftrightarrow> length supplied = length stored \<and> x_ct_eq X supplied stored"

section \<open>Facts\<close>

lemma hash_matches_iff: "ct_eq_is_equality X \<Longrightarrow> hash_matches X a b \<longleftrightarrow> a = b"
  by (auto simp: hash_matches_def ct_eq_is_equality_def)

lemma hex_digit_inj: "m < 16 \<Longrightarrow> n < 16 \<Longrightarrow> hex_digit m = hex_digit n \<Longrightarrow> m = n"
  by (auto simp: hex_digit_def split: if_splits)

lemma hex_digit_credential: "n < 16 \<Longrightarrow> credential_byte (hex_digit n)"
  by (auto simp: hex_digit_def credential_byte_def is_ascii_alphanumeric_def is_ascii_digit_def)

lemma hex_digit_hex: "n < 16 \<Longrightarrow> is_ascii_hexdigit (hex_digit n)"
  by (auto simp: hex_digit_def is_ascii_hexdigit_def is_ascii_digit_def)

lemma byte_nibbles: "unat (b :: byte) div 16 < 16" "unat (b :: byte) mod 16 < 16"
  using unsigned_less [of b, where ?'a = nat] by (auto simp: less_mult_imp_div_less)

lemma hex_byte_inj: "hex_byte a = hex_byte b \<Longrightarrow> a = b"
proof -
  assume "hex_byte a = hex_byte b"
  then have "unat a div 16 = unat b div 16" "unat a mod 16 = unat b mod 16"
    using hex_digit_inj byte_nibbles by (auto simp: hex_byte_def)
  then have "unat a = unat b" by (metis div_mult_mod_eq)
  then show ?thesis by (rule unsigned_word_eqI)
qed

lemma length_hex [simp]: "length (hex_byte b) = 2"
  by (simp add: hex_byte_def)

lemma concat_hex_inj: "concat (map hex_byte xs) = concat (map hex_byte ys) \<Longrightarrow> xs = ys"
proof (induction xs arbitrary: ys)
  case Nil
  then show ?case by (cases ys) (auto simp: hex_byte_def)
next
  case (Cons x xs)
  then obtain y ys' where ys: "ys = y # ys'" by (cases ys) (auto simp: hex_byte_def)
  with Cons.prems have "hex_byte x = hex_byte y" "concat (map hex_byte xs) = concat (map hex_byte ys')"
    by (auto simp: append_eq_append_conv)
  with Cons.IH ys show ?case by (simp add: hex_byte_inj)
qed

lemma concat_hex_credential: "list_all credential_byte (concat (map hex_byte random))"
  using hex_digit_credential byte_nibbles by (auto simp: list_all_iff hex_byte_def)

lemma length_concat_hex: "length (concat (map hex_byte random)) = 2 * length random"
  by (induction random) auto

text \<open>The kinds the program draws tokens for.\<close>

definition token_kinds :: "rstring set" where
  "token_kinds = {str ''admin'', str ''invite'', str ''member'', str ''request''}"

lemma token_kinds_credential:
  "kind \<in> token_kinds \<Longrightarrow> list_all credential_byte kind \<and> length kind \<le> 7"
  by (auto simp: token_kinds_def str_def credential_byte_def is_ascii_alphanumeric_def is_ascii_digit_def)

lemma generate_credential_valid:
  assumes "generate_credential kind (Some random) = Inr token" "kind \<in> token_kinds" "length random = 32"
  shows "is_valid_group_credential token"
proof -
  have token: "token = str ''lc_'' @ kind @ str ''_'' @ concat (map hex_byte random)"
    using assms(1) by (simp add: generate_credential_def)
  have "list_all credential_byte token"
    using token_kinds_credential [OF assms(2)] concat_hex_credential [of random]
    by (simp add: token str_def credential_byte_def is_ascii_alphanumeric_def is_ascii_digit_def)
  moreover have "byte_len token = length token"
    using \<open>list_all credential_byte token\<close> credential_byte_ascii
    by (intro byte_len_ascii) (auto simp: list_all_iff)
  moreover have "length token \<le> 75"
    using token_kinds_credential [OF assms(2)] assms(3) by (simp add: token length_concat_hex)
  ultimately show ?thesis
    by (simp add: is_valid_group_credential_ascii limits) (simp add: token)
qed

lemma generate_credential_inj:
  "generate_credential kind (Some r1) = generate_credential kind (Some r2) \<Longrightarrow> r1 = r2"
  by (simp add: generate_credential_def concat_hex_inj)

end
