(* ===== verification/Statements.thy ===== *)
theory Statements
  imports Schema Tokens
begin

text \<open>
  How the operations of \<open>GatewayStore\<close> run their SQL: transactions that roll back
  on an early return, and the \<open>INSERT\<close>, \<open>UPDATE\<close> and \<open>DELETE\<close> statements they share. Every operation
  holds the connection lock for its whole run, so it is one step of the store.
\<close>

section \<open>Transactions\<close>

text \<open>
  A transaction commits what its body leaves, or is rolled back when the body returns an error.
\<close>

definition transaction :: "database \<Rightarrow> error + database \<times> 'a \<Rightarrow> database \<times> (error + 'a)" where
  "transaction d body = (case body of Inl e \<Rightarrow> (d, Inl e) | Inr (d', r) \<Rightarrow> (d', Inr r))"

lemma transaction_simps [simp]:
  "transaction d (Inl e) = (d, Inl e)"
  "transaction d (Inr (d', r)) = (d', Inr r)"
  by (simp_all add: transaction_def)

lemma transaction_Inr: "transaction d body = (d', Inr r) \<longleftrightarrow> body = Inr (d', r)"
  by (auto simp: transaction_def split: sum.splits prod.splits)

lemma transaction_Inl: "transaction d body = (d', Inl e) \<longleftrightarrow> body = Inl e \<and> d' = d"
  by (auto simp: transaction_def split: sum.splits prod.splits)

lemma transaction_cases:
  assumes "transaction d body = (d', r)"
  obtains (rollback) e where "body = Inl e" "d' = d" "r = Inl e"
    | (commit) x where "body = Inr (d', x)" "r = Inr x"
  using assms by (cases r) (auto simp: transaction_Inr transaction_Inl)

section \<open>Inserts\<close>

definition insert_group_row :: "group_row \<Rightarrow> database \<Rightarrow> database" where
  "insert_group_row g d = d\<lparr>t_groups := t_groups d @ [g]\<rparr>"

definition insert_room_row :: "room_row \<Rightarrow> database \<Rightarrow> database" where
  "insert_room_row r d = d\<lparr>t_rooms := t_rooms d @ [r]\<rparr>"

definition insert_message_row :: "message_row \<Rightarrow> database \<Rightarrow> database" where
  "insert_message_row m d = d\<lparr>t_messages := t_messages d @ [m]\<rparr>"

definition insert_request_row :: "request_row \<Rightarrow> database \<Rightarrow> database" where
  "insert_request_row q d = d\<lparr>t_requests := t_requests d @ [q]\<rparr>"

definition insert_member_row :: "member_row \<Rightarrow> database \<Rightarrow> database" where
  "insert_member_row m d = d\<lparr>t_members := t_members d @ [m]\<rparr>"

definition insert_room_member_row :: "room_member_row \<Rightarrow> database \<Rightarrow> database" where
  "insert_room_member_row m d = d\<lparr>t_room_members := t_room_members d @ [m]\<rparr>"

lemmas insert_defs = insert_group_row_def insert_room_row_def insert_message_row_def
  insert_request_row_def insert_member_row_def insert_room_member_row_def

section \<open>Updates and deletes\<close>

definition update_groups :: "(group_row \<Rightarrow> bool) \<Rightarrow> (group_row \<Rightarrow> group_row) \<Rightarrow> database \<Rightarrow> database" where
  "update_groups P f d = d\<lparr>t_groups := update_where P f (t_groups d)\<rparr>"

definition update_rooms :: "(room_row \<Rightarrow> bool) \<Rightarrow> (room_row \<Rightarrow> room_row) \<Rightarrow> database \<Rightarrow> database" where
  "update_rooms P f d = d\<lparr>t_rooms := update_where P f (t_rooms d)\<rparr>"

definition update_requests :: "(request_row \<Rightarrow> bool) \<Rightarrow> (request_row \<Rightarrow> request_row) \<Rightarrow> database \<Rightarrow> database" where
  "update_requests P f d = d\<lparr>t_requests := update_where P f (t_requests d)\<rparr>"

definition update_members :: "(member_row \<Rightarrow> bool) \<Rightarrow> (member_row \<Rightarrow> member_row) \<Rightarrow> database \<Rightarrow> database" where
  "update_members P f d = d\<lparr>t_members := update_where P f (t_members d)\<rparr>"

definition delete_requests :: "(request_row \<Rightarrow> bool) \<Rightarrow> database \<Rightarrow> database" where
  "delete_requests P d = d\<lparr>t_requests := filter (\<lambda>q. \<not> P q) (t_requests d)\<rparr>"

definition delete_room_members :: "(room_member_row \<Rightarrow> bool) \<Rightarrow> database \<Rightarrow> database" where
  "delete_room_members P d = d\<lparr>t_room_members := filter (\<lambda>m. \<not> P m) (t_room_members d)\<rparr>"

lemmas write_defs = insert_defs update_groups_def update_rooms_def update_requests_def
  update_members_def delete_requests_def delete_room_members_def

section \<open>Statements that cannot violate a constraint\<close>

text \<open>An update that leaves the keys of a table alone keeps every constraint.\<close>

lemma schema_ok_update_members:
  assumes ok: "schema_ok d" and keep: "\<And>m. P m \<Longrightarrow> gm_id (f m) = gm_id m"
    "\<And>m. P m \<Longrightarrow> gm_group (f m) = gm_group m" "\<And>m. P m \<Longrightarrow> gm_hash (f m) = gm_hash m"
  shows "schema_ok (update_members P f d)"
proof -
  let ?rows = "update_where P f (t_members d)"
  have "map gm_id ?rows = map gm_id (t_members d)" "map member_key ?rows = map member_key (t_members d)"
    by (rule update_where_map, simp add: keep member_key_def)+
  moreover have "gm_id ` set ?rows = gm_id ` set (t_members d)"
    by (rule image_update_where) (rule keep)
  moreover have "list_all (\<lambda>m. gm_group m \<in> g_id ` set (t_groups d)) ?rows"
    using ok by (intro list_all_update_where) (auto simp: schema_ok_def members_ok_def keep)
  ultimately show ?thesis
    using ok by (simp add: schema_ok_def update_members_def members_ok_def room_members_ok_def)
qed

lemma schema_ok_update_requests:
  assumes ok: "schema_ok d" and keep: "\<And>q. P q \<Longrightarrow> q_id (f q) = q_id q"
    "\<And>q. P q \<Longrightarrow> q_group (f q) = q_group q" "\<And>q. P q \<Longrightarrow> q_token_hash (f q) = q_token_hash q"
  shows "schema_ok (update_requests P f d)"
proof -
  let ?rows = "update_where P f (t_requests d)"
  have "map q_id ?rows = map q_id (t_requests d)" "map request_key ?rows = map request_key (t_requests d)"
    by (rule update_where_map, simp add: keep request_key_def)+
  moreover have "list_all (\<lambda>q. q_group q \<in> g_id ` set (t_groups d)) ?rows"
    using ok by (intro list_all_update_where) (auto simp: schema_ok_def requests_ok_def keep)
  ultimately show ?thesis
    using ok by (simp add: schema_ok_def update_requests_def requests_ok_def)
qed

lemma schema_ok_delete_requests: "schema_ok d \<Longrightarrow> schema_ok (delete_requests P d)"
  by (auto simp: schema_ok_def delete_requests_def requests_ok_def list_all_iff distinct_map_filter)

lemma schema_ok_delete_room_members: "schema_ok d \<Longrightarrow> schema_ok (delete_room_members P d)"
  by (auto simp: schema_ok_def delete_room_members_def room_members_ok_def list_all_iff distinct_map_filter)

text \<open>An insert of a row with fresh keys whose references exist keeps them too.\<close>

lemma schema_ok_insert_message:
  assumes "schema_ok d" "m_id m \<notin> m_id ` set (t_messages d)"
    "message_key m \<notin> message_key ` set (t_messages d)"
    "(m_group m, m_room m) \<in> room_key ` set (t_rooms d)" "1 \<le> m_sequence m"
  shows "schema_ok (insert_message_row m d)"
  using assms by (auto simp: schema_ok_def insert_message_row_def messages_ok_def)

lemma schema_ok_insert_member:
  assumes "schema_ok d" "gm_id m \<notin> gm_id ` set (t_members d)"
    "member_key m \<notin> member_key ` set (t_members d)" "gm_group m \<in> g_id ` set (t_groups d)"
  shows "schema_ok (insert_member_row m d)"
  using assms by (auto simp: schema_ok_def insert_member_row_def members_ok_def room_members_ok_def list_all_iff)

lemma schema_ok_insert_request:
  assumes "schema_ok d" "q_id q \<notin> q_id ` set (t_requests d)"
    "request_key q \<notin> request_key ` set (t_requests d)" "q_group q \<in> g_id ` set (t_groups d)"
  shows "schema_ok (insert_request_row q d)"
  using assms by (auto simp: schema_ok_def insert_request_row_def requests_ok_def)

lemma schema_ok_insert_room:
  assumes "schema_ok d" "room_key r \<notin> room_key ` set (t_rooms d)"
    "room_name_key r \<notin> room_name_key ` set (t_rooms d)" "r_group r \<in> g_id ` set (t_groups d)"
    "1 \<le> r_next_sequence r" "r_next_sequence r \<le> i64_max"
  shows "schema_ok (insert_room_row r d)"
  using assms
  by (auto simp: schema_ok_def insert_room_row_def rooms_ok_def messages_ok_def room_members_ok_def list_all_iff)

lemma schema_ok_insert_group:
  assumes "schema_ok d" "g_id g \<notin> g_id ` set (t_groups d)"
    "nocase (g_name g) \<notin> (\<lambda>g. nocase (g_name g)) ` set (t_groups d)"
  shows "schema_ok (insert_group_row g d)"
  using assms
  by (auto simp: schema_ok_def insert_group_row_def groups_ok_def rooms_ok_def requests_ok_def
      members_ok_def list_all_iff)

lemma schema_ok_insert_room_member:
  assumes "schema_ok d" "room_member_key m \<notin> room_member_key ` set (t_room_members d)"
    "rm_member m \<in> gm_id ` set (t_members d)" "(rm_group m, rm_room m) \<in> room_key ` set (t_rooms d)"
  shows "schema_ok (insert_room_member_row m d)"
  using assms by (auto simp: schema_ok_def insert_room_member_row_def room_members_ok_def)

end
