(* ===== verification/Store_Groups.thy ===== *)
theory Store_Groups
  imports Statements
begin

text \<open>
  Groups and admission in \<open>src/storage.rs\<close>: creating and listing groups, authorizing a join, and the
  join requests of approval groups. Random draws (UUIDs, token entropy) and the clock are arguments;
  the clock is read once per operation.
\<close>

section \<open>Constants and results\<close>

definition MAX_PENDING_JOIN_REQUESTS :: nat where [limits]: "MAX_PENDING_JOIN_REQUESTS = 256"
definition JOIN_REQUEST_PAGE_SIZE :: nat where [limits]: "JOIN_REQUEST_PAGE_SIZE = 100"
definition MAX_GROUP_MEMBERS :: nat where [limits]: "MAX_GROUP_MEMBERS = 10000"

record created_group =
  cg_summary :: group_summary
  cg_credentials :: issued_group_credentials
  cg_creator_member_id :: uuid

datatype join_authorization =
    Allowed group_role uuid "rstring option"
  | Invite_Required
  | Approval_Required
  | Auth_Pending uuid rstring
  | Auth_Rejected
  | Auth_Banned
  | Member_Limit
  | Invalid_Credential

section \<open>Groups\<close>

definition gateway_id :: "uuid \<Rightarrow> database \<Rightarrow> database \<times> uuid" where
  "gateway_id fresh d =
     (case db_gateway_id d of Some i \<Rightarrow> (d, i) | None \<Rightarrow> (d\<lparr>db_gateway_id := Some fresh\<rparr>, fresh))"

definition summary_of_group :: "group_row \<Rightarrow> group_summary" where
  "summary_of_group g = \<lparr>gs_group_id = g_id g, gs_group_name = g_name g, gs_access_mode = g_access g\<rparr>"

text \<open>\<open>ORDER BY name COLLATE NOCASE, group_id\<close>.\<close>

definition list_groups :: "database \<Rightarrow> group_summary list" where
  "list_groups d = map summary_of_group (sort_key (\<lambda>g. (nocase (g_name g), g_id g)) (t_groups d))"

definition group :: "database \<Rightarrow> uuid \<Rightarrow> group_summary option" where
  "group d gid = map_option summary_of_group (find_group d gid)"

definition create_group_with_access ::
  "externals \<Rightarrow> int \<Rightarrow> uuid \<Rightarrow> uuid \<Rightarrow> byte list option \<Rightarrow> byte list option \<Rightarrow> rstring \<Rightarrow>
   group_access_mode \<Rightarrow> database \<Rightarrow> database \<times> (error + created_group)" where
  "create_group_with_access X now gid mid admin_entropy invite_entropy name mode d =
     (if \<exists>g\<in>set (t_groups d). nocase (g_name g) = nocase name
      then (d, Inl (Bail (str ''a group with that name already exists'')))
      else transaction d (
        and_then (generate_credential (str ''admin'') admin_entropy) (\<lambda>admin_token.
        and_then (transpose_option (if mode = Invite then Some (generate_credential (str ''invite'') invite_entropy)
                                    else None)) (\<lambda>invite_token.
        and_then (credential_hash X admin_token) (\<lambda>admin_hash.
        and_then (transpose_option (map_option (credential_hash X) invite_token)) (\<lambda>invite_hash.
        and_then (execute d (insert_group_row
          \<lparr>g_id = gid, g_name = name, g_access = mode, g_admin_hash = Some admin_hash,
           g_invite_hash = invite_hash, g_created = now\<rparr>)) (\<lambda>d1.
        and_then (execute d1 (insert_room_row
          \<lparr>r_id = DEFAULT_ROOM_ID, r_group = gid, r_name = DEFAULT_ROOM_NAME,
           r_visibility = Public_Room, r_next_sequence = 1, r_created = now\<rparr>)) (\<lambda>d2.
        and_then (credential_hash X admin_token) (\<lambda>creator_hash.
        and_then (execute d2 (insert_member_row
          \<lparr>gm_id = mid, gm_group = gid, gm_hash = creator_hash, gm_role = Admin, gm_status = Active,
           gm_nickname = str ''administrator'', gm_created = now, gm_updated = now\<rparr>)) (\<lambda>d3.
        Inr (d3, \<lparr>cg_summary = \<lparr>gs_group_id = gid, gs_group_name = name, gs_access_mode = mode\<rparr>,
                  cg_credentials = \<lparr>igc_admin_token = admin_token, igc_invite_token = invite_token\<rparr>,
                  cg_creator_member_id = mid\<rparr>)))))))))))"

definition create_group ::
  "externals \<Rightarrow> int \<Rightarrow> uuid \<Rightarrow> uuid \<Rightarrow> byte list option \<Rightarrow> byte list option \<Rightarrow> rstring \<Rightarrow>
   database \<Rightarrow> database \<times> (error + group_summary)" where
  "create_group X now gid mid admin_entropy invite_entropy name d =
     (case create_group_with_access X now gid mid admin_entropy invite_entropy name Public d of
        (d', Inl e) \<Rightarrow> (d', Inl e)
      | (d', Inr created) \<Rightarrow> (d', Inr (cg_summary created)))"

section \<open>Issuing memberships\<close>

definition insert_group_member ::
  "externals \<Rightarrow> int \<Rightarrow> uuid \<Rightarrow> uuid \<Rightarrow> rstring \<Rightarrow> group_role \<Rightarrow> rstring \<Rightarrow> database \<Rightarrow> error + database" where
  "insert_group_member X now mid gid credential role nick d =
     and_then (credential_hash X credential) (\<lambda>hash.
       execute d (insert_member_row
         \<lparr>gm_id = mid, gm_group = gid, gm_hash = hash, gm_role = role, gm_status = Active,
          gm_nickname = nick, gm_created = now, gm_updated = now\<rparr>))"

definition issue_member ::
  "externals \<Rightarrow> int \<Rightarrow> uuid \<Rightarrow> byte list option \<Rightarrow> uuid \<Rightarrow> rstring \<Rightarrow> database \<Rightarrow>
   database \<times> (error + join_authorization)" where
  "issue_member X now mid entropy gid nick d =
     (if rows_matching (\<lambda>m. gm_group m = gid) (t_members d) \<ge> MAX_GROUP_MEMBERS
      then (d, Inr Member_Limit)
      else case generate_credential (str ''member'') entropy of
        Inl e \<Rightarrow> (d, Inl e)
      | Inr token \<Rightarrow>
          (case insert_group_member X now mid gid token Member nick d of
             Inl e \<Rightarrow> (d, Inl e)
           | Inr d' \<Rightarrow> (d', Inr (Allowed Member mid (Some token)))))"

section \<open>Authorizing a join\<close>

text \<open>The lookup of the supplied credential among the group's memberships.\<close>

definition member_by_hash :: "database \<Rightarrow> uuid \<Rightarrow> byte list \<Rightarrow> member_row option" where
  "member_by_hash d gid hash = find (\<lambda>m. gm_group m = gid \<and> gm_hash m = hash) (t_members d)"

definition request_by_hash :: "database \<Rightarrow> uuid \<Rightarrow> byte list \<Rightarrow> request_row option" where
  "request_by_hash d gid hash = find (\<lambda>q. q_group q = gid \<and> q_token_hash q = hash) (t_requests d)"

text \<open>A known membership: refused when banned, otherwise its nickname is refreshed.\<close>

definition authorize_known_member ::
  "int \<Rightarrow> uuid \<Rightarrow> rstring \<Rightarrow> member_row \<Rightarrow> database \<Rightarrow> database \<times> (error + join_authorization)" where
  "authorize_known_member now gid nick m d =
     (if gm_status m = Banned then (d, Inr Auth_Banned)
      else case execute d (update_members (\<lambda>m'. gm_id m' = gm_id m \<and> gm_group m' = gid)
                  (\<lambda>m'. m'\<lparr>gm_nickname := nick, gm_updated := now\<rparr>)) of
        Inl e \<Rightarrow> (d, Inl e)
      | Inr d' \<Rightarrow> (d', Inr (Allowed (gm_role m) (gm_id m) None)))"

text \<open>\<open>supplied.zip(stored).is_some_and(hash_matches)\<close>.\<close>

definition both_match :: "externals \<Rightarrow> byte list option \<Rightarrow> byte list option \<Rightarrow> bool" where
  "both_match X supplied stored =
     (case (supplied, stored) of (Some a, Some b) \<Rightarrow> hash_matches X a b | _ \<Rightarrow> False)"

text \<open>The approval branch: an approved request is consumed by the join it admits.\<close>

definition authorize_approval ::
  "externals \<Rightarrow> int \<Rightarrow> uuid \<Rightarrow> byte list option \<Rightarrow> uuid \<Rightarrow> rstring option \<Rightarrow> rstring \<Rightarrow> database \<Rightarrow>
   database \<times> (error + join_authorization)" where
  "authorize_approval X now mid entropy gid credential nick d =
     (case credential of
        None \<Rightarrow> (d, Inr Approval_Required)
      | Some c \<Rightarrow>
        (case credential_hash X c of
           Inl e \<Rightarrow> (d, Inl e)
         | Inr hash \<Rightarrow>
           (case request_by_hash d gid hash of
              None \<Rightarrow> (d, Inr Invalid_Credential)
            | Some q \<Rightarrow>
              (case q_status q of
                 Request_Approved \<Rightarrow>
                   (case issue_member X now mid entropy gid nick d of
                      (d1, Inl e) \<Rightarrow> (d1, Inl e)
                    | (d1, Inr auth) \<Rightarrow>
                      (case execute d1 (delete_requests (\<lambda>r. q_group r = gid \<and> q_id r = q_id q)) of
                         Inl e \<Rightarrow> (d1, Inl e)
                       | Inr d2 \<Rightarrow> (d2, Inr auth)))
               | Request_Pending \<Rightarrow> (d, Inr (Auth_Pending (q_id q) c))
               | Request_Rejected \<Rightarrow> (d, Inr Auth_Rejected)))))"

definition authorize_join ::
  "externals \<Rightarrow> int \<Rightarrow> uuid \<Rightarrow> byte list option \<Rightarrow> uuid \<Rightarrow> rstring option \<Rightarrow> rstring \<Rightarrow> database \<Rightarrow>
   database \<times> (error + join_authorization)" where
  "authorize_join X now mid entropy gid credential nick d =
     (case find_group d gid of
        None \<Rightarrow> (d, Inl (Bail (str ''group not found'')))
      | Some g \<Rightarrow>
        (case transpose_option (map_option (credential_hash X) credential) of
           Inl e \<Rightarrow> (d, Inl e)
         | Inr supplied \<Rightarrow>
           (case Option.bind supplied (member_by_hash d gid) of
              Some m \<Rightarrow> authorize_known_member now gid nick m d
            | None \<Rightarrow>
              if both_match X supplied (g_admin_hash g) then
                (case credential of
                   None \<Rightarrow> (d, Inl (Bail (str ''admin credential is missing'')))
                 | Some c \<Rightarrow>
                   (case insert_group_member X now mid gid c Admin nick d of
                      Inl e \<Rightarrow> (d, Inl e)
                    | Inr d' \<Rightarrow> (d', Inr (Allowed Admin mid None))))
              else
                (case g_access g of
                   Public \<Rightarrow>
                     if credential \<noteq> None then (d, Inr Invalid_Credential)
                     else issue_member X now mid entropy gid nick d
                 | Invite \<Rightarrow>
                     if credential = None then (d, Inr Invite_Required)
                     else if both_match X supplied (g_invite_hash g)
                     then issue_member X now mid entropy gid nick d
                     else (d, Inr Invalid_Credential)
                 | Approval \<Rightarrow> authorize_approval X now mid entropy gid credential nick d))))"

section \<open>Join requests\<close>

definition create_join_request ::
  "externals \<Rightarrow> int \<Rightarrow> uuid \<Rightarrow> byte list option \<Rightarrow> uuid \<Rightarrow> rstring \<Rightarrow> database \<Rightarrow>
   database \<times> (error + uuid \<times> rstring)" where
  "create_join_request X now rid entropy gid nick d =
     transaction d (
       and_then (generate_credential (str ''request'') entropy) (\<lambda>request_token.
         if map_option g_access (find_group d gid) \<noteq> Some Approval
         then Inl (Bail (str ''group does not accept approval requests''))
         else if rows_matching (\<lambda>q. q_group q = gid \<and> q_status q = Request_Pending) (t_requests d)
                \<ge> MAX_PENDING_JOIN_REQUESTS
         then Inl (Bail (str ''this group has too many pending join requests''))
         else and_then (credential_hash X request_token) (\<lambda>hash.
           and_then (execute d (insert_request_row
             \<lparr>q_id = rid, q_group = gid, q_nickname = nick, q_token_hash = hash,
              q_status = Request_Pending, q_requested_at = now\<rparr>)) (\<lambda>d'.
           Inr (d', (rid, request_token))))))"

definition update_member_nickname ::
  "int \<Rightarrow> uuid \<Rightarrow> uuid \<Rightarrow> rstring \<Rightarrow> database \<Rightarrow> database \<times> (error + unit)" where
  "update_member_nickname now gid mid nick d =
     (case execute d (update_members (\<lambda>m. gm_group m = gid \<and> gm_id m = mid)
             (\<lambda>m. m\<lparr>gm_nickname := nick, gm_updated := now\<rparr>)) of
        Inl e \<Rightarrow> (d, Inl e)
      | Inr d' \<Rightarrow>
          if rows_matching (\<lambda>m. gm_group m = gid \<and> gm_id m = mid) (t_members d) \<noteq> 1
          then (d', Inl (Bail (str ''member not found''))) else (d', Inr ()))"

text \<open>\<open>ORDER BY requested_at_ms, request_id LIMIT 100\<close>, with \<open>u64::try_from(..).unwrap_or_default()\<close>.\<close>

definition u64_or_default :: "int \<Rightarrow> u64" where
  "u64_or_default n = (case u64_of_i64 n of Some w \<Rightarrow> w | None \<Rightarrow> 0)"

definition pending_join_requests :: "database \<Rightarrow> uuid \<Rightarrow> join_request_summary list" where
  "pending_join_requests d gid =
     map (\<lambda>q. \<lparr>jrs_request_id = q_id q, jrs_nickname = q_nickname q,
               jrs_requested_at_ms = u64_or_default (q_requested_at q)\<rparr>)
       (page 0 JOIN_REQUEST_PAGE_SIZE
         (sort_key (\<lambda>q. (q_requested_at q, q_id q))
           (filter (\<lambda>q. q_group q = gid \<and> q_status q = Request_Pending) (t_requests d))))"

definition decide_join_request ::
  "uuid \<Rightarrow> uuid \<Rightarrow> bool \<Rightarrow> database \<Rightarrow> database \<times> (error + bool)" where
  "decide_join_request gid rid approve d =
     (let hit = (\<lambda>q. q_group q = gid \<and> q_id q = rid \<and> q_status q = Request_Pending)
      in case execute d (update_requests hit
                (\<lambda>q. q\<lparr>q_status := (if approve then Request_Approved else Request_Rejected)\<rparr>)) of
        Inl e \<Rightarrow> (d, Inl e)
      | Inr d' \<Rightarrow> (d', Inr (rows_matching hit (t_requests d) = 1)))"

end
