(* ===== verification/Store_Members.thy ===== *)
theory Store_Members
  imports Store_Groups
begin

text \<open>
  Persistent members in \<open>src/storage.rs\<close>: the paged member list, bans and token rotation.
\<close>

definition MEMBER_PAGE_SIZE :: nat where [limits]: "MEMBER_PAGE_SIZE = 40"

text \<open>One row more than a page is read, so its presence tells that there is a next page.\<close>

definition page_with_more :: "u32 \<Rightarrow> 'r list \<Rightarrow> 'r list \<times> bool" where
  "page_with_more offset rows =
     (let window = page (unat offset) (MEMBER_PAGE_SIZE + 1) rows
      in (take MEMBER_PAGE_SIZE window, length window > MEMBER_PAGE_SIZE))"

definition group_members :: "database \<Rightarrow> uuid \<Rightarrow> u32 \<Rightarrow> group_member_summary list \<times> bool" where
  "group_members d gid offset =
     (let (rows, has_more) = page_with_more offset
            (sort_key (\<lambda>m. (gm_status m, nocase (gm_nickname m), gm_id m))
              (filter (\<lambda>m. gm_group m = gid) (t_members d)))
      in (map (\<lambda>m. \<lparr>gms_member_id = gm_id m, gms_nickname = gm_nickname m, gms_role = gm_role m,
                    gms_status = gm_status m\<rparr>) rows, has_more))"

definition set_member_banned ::
  "int \<Rightarrow> uuid \<Rightarrow> uuid \<Rightarrow> bool \<Rightarrow> database \<Rightarrow> database \<times> (error + bool)" where
  "set_member_banned now gid mid banned d =
     (let hit = (\<lambda>m. gm_group m = gid \<and> gm_id m = mid \<and> gm_role m \<noteq> Admin)
      in case execute d (update_members hit
                (\<lambda>m. m\<lparr>gm_status := (if banned then Banned else Active), gm_updated := now\<rparr>)) of
        Inl e \<Rightarrow> (d, Inl e)
      | Inr d' \<Rightarrow> (d', Inr (rows_matching hit (t_members d) = 1)))"

fun token_kind_name :: "group_token_kind \<Rightarrow> rstring" where
  "token_kind_name Member_Token = str ''member''"
| "token_kind_name Admin_Token = str ''admin''"
| "token_kind_name Invite_Token = str ''invite''"

fun rotation_permitted :: "group_token_kind \<Rightarrow> group_role option \<Rightarrow> bool" where
  "rotation_permitted Member_Token role \<longleftrightarrow> role = Some Member"
| "rotation_permitted Admin_Token role \<longleftrightarrow> role = Some Admin"
| "rotation_permitted Invite_Token role \<longleftrightarrow> role = Some Admin"

text \<open>The statements of the rotation, inside its transaction.\<close>

fun rotation_statements ::
  "group_token_kind \<Rightarrow> int \<Rightarrow> uuid \<Rightarrow> uuid \<Rightarrow> byte list \<Rightarrow> database \<Rightarrow> error + database" where
  "rotation_statements Member_Token now gid actor hash d =
     (let hit = (\<lambda>m. gm_group m = gid \<and> gm_id m = actor \<and> gm_role m = Member \<and> gm_status m = Active)
      in and_then (execute d (update_members hit (\<lambda>m. m\<lparr>gm_hash := hash, gm_updated := now\<rparr>))) (\<lambda>d'.
         if rows_matching hit (t_members d) \<noteq> 1
         then Inl (Bail (str ''active member membership is required'')) else Inr d'))"
| "rotation_statements Admin_Token now gid actor hash d =
     and_then (execute d (update_groups (\<lambda>g. g_id g = gid) (\<lambda>g. g\<lparr>g_admin_hash := Some hash\<rparr>))) (\<lambda>d1.
     execute d1 (update_members (\<lambda>m. gm_group m = gid \<and> gm_id m = actor \<and> gm_role m = Admin)
       (\<lambda>m. m\<lparr>gm_hash := hash, gm_updated := now\<rparr>)))"
| "rotation_statements Invite_Token now gid actor hash d =
     (let hit = (\<lambda>g. g_id g = gid \<and> g_access g = Invite)
      in and_then (execute d (update_groups hit (\<lambda>g. g\<lparr>g_invite_hash := Some hash\<rparr>))) (\<lambda>d'.
         if rows_matching hit (t_groups d) \<noteq> 1
         then Inl (Bail (str ''only invite groups have an invite token'')) else Inr d'))"

definition rotate_group_token ::
  "externals \<Rightarrow> int \<Rightarrow> byte list option \<Rightarrow> uuid \<Rightarrow> uuid \<Rightarrow> group_token_kind \<Rightarrow> database \<Rightarrow>
   database \<times> (error + rstring)" where
  "rotate_group_token X now entropy gid actor kind d =
     (let actor_role = map_option gm_role
            (find (\<lambda>m. gm_group m = gid \<and> gm_id m = actor \<and> gm_status m = Active) (t_members d))
      in if \<not> rotation_permitted kind actor_role
         then (d, Inl (Bail (str ''the active membership cannot rotate this token'')))
         else transaction d (
           and_then (generate_credential (token_kind_name kind) entropy) (\<lambda>token.
           and_then (credential_hash X token) (\<lambda>hash.
           and_then (rotation_statements kind now gid actor hash d) (\<lambda>d'.
           Inr (d', token))))))"

end
