(* ===== verification/Store_Rooms.thy ===== *)
theory Store_Rooms
  imports Store_Members
begin

text \<open>
  Rooms and their access lists in \<open>src/storage.rs\<close>: listing, creation, the access test that guards
  every private room, and the management of its members.
\<close>

section \<open>Listing and access\<close>

definition summary_of_room :: "room_row \<Rightarrow> room_summary" where
  "summary_of_room r = \<lparr>rs_room_id = r_id r, rs_room_name = r_name r, rs_visibility = r_visibility r\<rparr>"

text \<open>\<open>ORDER BY CASE WHEN room_id = 'general' THEN 0 ELSE 1 END, name COLLATE NOCASE\<close>.\<close>

definition room_order :: "room_row \<Rightarrow> nat \<times> rstring" where
  "room_order r = (if r_id r = str ''general'' then 0 else 1, nocase (r_name r))"

definition rooms :: "database \<Rightarrow> uuid \<Rightarrow> room_summary list" where
  "rooms d gid = map summary_of_room (sort_key room_order (filter (\<lambda>r. r_group r = gid) (t_rooms d)))"

text \<open>The \<open>WHERE\<close> clause shared by \<open>rooms_for_member\<close> and \<open>member_can_access_room\<close>.\<close>

definition on_access_list :: "database \<Rightarrow> uuid \<Rightarrow> rstring \<Rightarrow> uuid \<Rightarrow> bool" where
  "on_access_list d gid rid mid \<longleftrightarrow>
     (\<exists>rm\<in>set (t_room_members d). rm_group rm = gid \<and> rm_room rm = rid \<and> rm_member rm = mid)"

definition active_admin :: "database \<Rightarrow> uuid \<Rightarrow> uuid \<Rightarrow> bool" where
  "active_admin d gid mid \<longleftrightarrow>
     (\<exists>m\<in>set (t_members d). gm_group m = gid \<and> gm_id m = mid \<and> gm_role m = Admin \<and> gm_status m = Active)"

definition row_accessible :: "database \<Rightarrow> uuid \<Rightarrow> room_row \<Rightarrow> bool" where
  "row_accessible d mid r \<longleftrightarrow>
     r_visibility r = Public_Room \<or> on_access_list d (r_group r) (r_id r) mid \<or> active_admin d (r_group r) mid"

definition rooms_for_member :: "database \<Rightarrow> uuid \<Rightarrow> uuid \<Rightarrow> room_summary list" where
  "rooms_for_member d gid mid =
     map summary_of_room
       (sort_key room_order (filter (\<lambda>r. r_group r = gid \<and> row_accessible d mid r) (t_rooms d)))"

definition member_can_access_room :: "database \<Rightarrow> uuid \<Rightarrow> rstring \<Rightarrow> uuid \<Rightarrow> bool" where
  "member_can_access_room d gid rid mid \<longleftrightarrow>
     find (\<lambda>r. r_group r = gid \<and> r_id r = rid \<and> row_accessible d mid r) (t_rooms d) \<noteq> None"

section \<open>Creating rooms\<close>

text \<open>The fresh identifier is \<open>Uuid::new_v4().simple().to_string()\<close>.\<close>

definition create_room_with_visibility ::
  "int \<Rightarrow> rstring \<Rightarrow> uuid \<Rightarrow> rstring \<Rightarrow> room_visibility \<Rightarrow> uuid option \<Rightarrow> database \<Rightarrow>
   database \<times> (error + room_summary)" where
  "create_room_with_visibility now fresh_id gid name vis creator d =
     (if \<exists>r\<in>set (t_rooms d). r_group r = gid \<and> nocase (r_name r) = nocase name
      then (d, Inl (Bail (str ''a room with that name already exists'')))
      else if vis = Private_Room \<and> creator = None
      then (d, Inl (Bail (str ''a private room requires an owner'')))
      else transaction d (
        and_then (execute d (insert_room_row
          \<lparr>r_id = fresh_id, r_group = gid, r_name = name, r_visibility = vis,
           r_next_sequence = 1, r_created = now\<rparr>)) (\<lambda>d1.
        and_then (case creator of
            Some mid \<Rightarrow> if vis = Private_Room
              then execute d1 (insert_room_member_row
                \<lparr>rm_group = gid, rm_room = fresh_id, rm_member = mid, rm_role = Owner, rm_added = now\<rparr>)
              else Inr d1
          | None \<Rightarrow> Inr d1) (\<lambda>d2.
        Inr (d2, \<lparr>rs_room_id = fresh_id, rs_room_name = name, rs_visibility = vis\<rparr>)))))"

definition create_room ::
  "int \<Rightarrow> rstring \<Rightarrow> uuid \<Rightarrow> rstring \<Rightarrow> database \<Rightarrow> database \<times> (error + room_summary)" where
  "create_room now fresh_id gid name d =
     create_room_with_visibility now fresh_id gid name Public_Room None d"

section \<open>Managing a private room\<close>

definition room_visibility_of :: "database \<Rightarrow> uuid \<Rightarrow> rstring \<Rightarrow> room_visibility option" where
  "room_visibility_of d gid rid = map_option r_visibility (find_room d gid rid)"

text \<open>The role a member has in a room, from the \<open>LEFT JOIN\<close> of the member list.\<close>

definition room_role_of :: "database \<Rightarrow> uuid \<Rightarrow> rstring \<Rightarrow> uuid \<Rightarrow> room_role option" where
  "room_role_of d gid rid mid =
     map_option rm_role (find (\<lambda>rm. rm_group rm = gid \<and> rm_room rm = rid \<and> rm_member rm = mid) (t_room_members d))"

definition room_role_rank :: "room_role option \<Rightarrow> nat" where
  "room_role_rank role = (case role of Some Owner \<Rightarrow> 0 | Some Room_Member \<Rightarrow> 1 | None \<Rightarrow> 2)"

definition room_members ::
  "database \<Rightarrow> uuid \<Rightarrow> rstring \<Rightarrow> u32 \<Rightarrow> error + room_member_summary list \<times> bool" where
  "room_members d gid rid offset =
     (if room_visibility_of d gid rid \<noteq> Some Private_Room then Inl (Bail (str ''room is not private''))
      else let (rows, has_more) = page_with_more offset
             (sort_key (\<lambda>m. (room_role_rank (room_role_of d gid rid (gm_id m)), nocase (gm_nickname m), gm_id m))
               (filter (\<lambda>m. gm_group m = gid \<and> gm_status m = Active) (t_members d)))
           in Inr (map (\<lambda>m. let role = room_role_of d gid rid (gm_id m)
                 in \<lparr>rms_member_id = gm_id m, rms_nickname = gm_nickname m, rms_group_role = gm_role m,
                     rms_included = (role \<noteq> None \<or> gm_role m = Admin), rms_is_owner = (role = Some Owner)\<rparr>) rows,
               has_more))"

definition is_room_owner :: "database \<Rightarrow> uuid \<Rightarrow> rstring \<Rightarrow> uuid \<Rightarrow> bool" where
  "is_room_owner d gid rid mid \<longleftrightarrow>
     (\<exists>rm\<in>set (t_room_members d). rm_group rm = gid \<and> rm_room rm = rid \<and> rm_member rm = mid \<and> rm_role rm = Owner)"

definition member_can_manage_room :: "database \<Rightarrow> uuid \<Rightarrow> rstring \<Rightarrow> uuid \<Rightarrow> group_role \<Rightarrow> bool" where
  "member_can_manage_room d gid rid actor role = (if role = Admin then True else is_room_owner d gid rid actor)"

text \<open>\<open>ON CONFLICT DO NOTHING\<close> makes an insert of an existing key change no row.\<close>

definition set_room_member ::
  "int \<Rightarrow> uuid \<Rightarrow> rstring \<Rightarrow> uuid \<Rightarrow> group_role \<Rightarrow> uuid \<Rightarrow> bool \<Rightarrow> database \<Rightarrow>
   database \<times> (error + bool)" where
  "set_room_member now gid rid actor role target included d =
     transaction d (
       if room_visibility_of d gid rid \<noteq> Some Private_Room then Inl (Bail (str ''room is not private''))
       else if role \<noteq> Admin \<and> \<not> is_room_owner d gid rid actor
       then Inl (Bail (str ''room owner or group administrator is required''))
       else if \<not> (\<exists>m\<in>set (t_members d). gm_group m = gid \<and> gm_id m = target \<and> gm_status m = Active \<and> gm_role m \<noteq> Admin)
       then Inl (Bail (str ''target member is not active''))
       else if included then
         (if on_access_list d gid rid target then Inr (d, False)
          else and_then (execute d (insert_room_member_row
            \<lparr>rm_group = gid, rm_room = rid, rm_member = target, rm_role = Room_Member, rm_added = now\<rparr>))
            (\<lambda>d'. Inr (d', True)))
       else
         (let hit = (\<lambda>rm. rm_group rm = gid \<and> rm_room rm = rid \<and> rm_member rm = target \<and> rm_role rm = Room_Member)
          in and_then (execute d (delete_room_members hit))
               (\<lambda>d'. Inr (d', rows_matching hit (t_room_members d) = 1))))"

end
