(* ===== verification/Store_Messages.thy ===== *)
theory Store_Messages
  imports Store_Rooms
begin

text \<open>
  Group messages in \<open>src/storage.rs\<close>: the sealed message body, the append that numbers and stores a
  message, and the two history queries.
\<close>

section \<open>Message bodies\<close>

definition ENCRYPTED_BODY_VERSION :: byte where "ENCRYPTED_BODY_VERSION = 1"
definition NONCE_LENGTH :: nat where [limits]: "NONCE_LENGTH = 24"

text \<open>\<open>to_be_bytes\<close> of a 64-bit value and \<open>Uuid::as_bytes\<close>: big-endian bytes.\<close>

definition be_bytes :: "nat \<Rightarrow> nat \<Rightarrow> byte list" where
  "be_bytes n v = map (\<lambda>i. byte_of (v div 256 ^ i mod 256)) (rev [0..<n])"

definition uuid_bytes :: "uuid \<Rightarrow> byte list" where
  "uuid_bytes u = be_bytes 16 (unat u)"

definition u64_be_bytes :: "u64 \<Rightarrow> byte list" where
  "u64_be_bytes v = be_bytes 8 (unat v)"

definition message_aad :: "uuid \<Rightarrow> rstring \<Rightarrow> uuid \<Rightarrow> u64 \<Rightarrow> byte list" where
  "message_aad gid rid mid sequence =
     uuid_bytes gid @ utf8 rid @ uuid_bytes mid @ u64_be_bytes sequence"

definition encrypt_body ::
  "externals \<Rightarrow> byte list \<Rightarrow> byte list option \<Rightarrow> uuid \<Rightarrow> rstring \<Rightarrow> uuid \<Rightarrow> u64 \<Rightarrow> byte list \<Rightarrow> error + byte list" where
  "encrypt_body X key nonce_entropy gid rid mid sequence plaintext =
     (case nonce_entropy of
        None \<Rightarrow> Inl (Bail (str ''failed to generate a message encryption nonce''))
      | Some nonce \<Rightarrow>
        (case x_encrypt X key nonce (message_aad gid rid mid sequence) plaintext of
           None \<Rightarrow> Inl (Bail (str ''failed to encrypt a stored group message''))
         | Some ciphertext \<Rightarrow> Inr (ENCRYPTED_BODY_VERSION # nonce @ ciphertext)))"

definition decrypt_body ::
  "externals \<Rightarrow> byte list \<Rightarrow> uuid \<Rightarrow> rstring \<Rightarrow> uuid \<Rightarrow> u64 \<Rightarrow> byte list \<Rightarrow> error + byte list" where
  "decrypt_body X key gid rid mid sequence encoded =
     (if length encoded \<le> 1 + NONCE_LENGTH \<or> hd encoded \<noteq> ENCRYPTED_BODY_VERSION
      then Inl (Bail (str ''stored message has an unsupported encrypted body format''))
      else let nonce = take NONCE_LENGTH (tl encoded); ciphertext = drop NONCE_LENGTH (tl encoded)
           in case x_decrypt X key nonce (message_aad gid rid mid sequence) ciphertext of
                None \<Rightarrow> Inl (Bail (str ''stored message authentication failed''))
              | Some plaintext \<Rightarrow> Inr plaintext)"

section \<open>Appending\<close>

text \<open>
  The \<open>UPDATE ... RETURNING\<close> that takes a sequence number. Past \<open>i64::MAX\<close> the increment is no
  longer an integer and the strict column refuses it, which \<open>schema_ok\<close> models.
\<close>

definition take_sequence :: "uuid \<Rightarrow> rstring \<Rightarrow> database \<Rightarrow> error + database \<times> int" where
  "take_sequence gid rid d =
     (case find_room d gid rid of
        None \<Rightarrow> Inl Query_Returned_No_Rows
      | Some r \<Rightarrow>
          and_then (execute d (update_rooms (\<lambda>r. r_id r = rid \<and> r_group r = gid)
              (\<lambda>r. r\<lparr>r_next_sequence := r_next_sequence r + 1\<rparr>)))
            (\<lambda>d'. Inr (d', r_next_sequence r)))"

definition append_message ::
  "externals \<Rightarrow> byte list \<Rightarrow> byte list option \<Rightarrow> uuid \<Rightarrow> rstring \<Rightarrow> uuid \<Rightarrow> peer \<Rightarrow> u64 \<Rightarrow> rstring \<Rightarrow>
   database \<Rightarrow> database \<times> (error + chat_record)" where
  "append_message X key nonce_entropy gid rid mid sender sent_at text d =
     transaction d (
       and_then (take_sequence gid rid d) (\<lambda>(d1, next).
         case u64_of_i64 next of
           None \<Rightarrow> Inl (Bail (str ''room sequence overflowed''))
         | Some sequence \<Rightarrow>
           and_then (encrypt_body X key nonce_entropy gid rid mid sequence (utf8 text)) (\<lambda>encrypted.
             case i64_of_u64 sequence of
               None \<Rightarrow> Inl (Bail (str ''room sequence exceeds SQLite range''))
             | Some stored_sequence \<Rightarrow>
               and_then (execute d1 (insert_message_row
                 \<lparr>m_id = mid, m_group = gid, m_room = rid, m_sequence = stored_sequence,
                  m_sender_session = p_session_id sender, m_sender_member = p_member_id sender,
                  m_sender_nickname = p_nickname sender,
                  m_sent_at = (case i64_of_u64 sent_at of Some n \<Rightarrow> n | None \<Rightarrow> i64_max),
                  m_body = encrypted\<rparr>)) (\<lambda>d2.
               Inr (d2, \<lparr>cr_sequence = sequence, cr_message_id = mid, cr_sender = sender,
                         cr_room_id = rid, cr_sent_at_ms = sent_at, cr_text = text\<rparr>)))))"

section \<open>History\<close>

text \<open>One stored row turned back into a record.\<close>

definition decode_row :: "externals \<Rightarrow> byte list \<Rightarrow> uuid \<Rightarrow> rstring \<Rightarrow> message_row \<Rightarrow> error + chat_record" where
  "decode_row X key gid rid row =
     (case u64_of_i64 (m_sequence row) of
        None \<Rightarrow> Inl (Bail (str ''negative room sequence''))
      | Some sequence \<Rightarrow>
        and_then (decrypt_body X key gid rid (m_id row) sequence (m_body row)) (\<lambda>plaintext.
          case from_utf8 plaintext of
            None \<Rightarrow> Inl (Bail (str ''stored message contains invalid UTF-8''))
          | Some text \<Rightarrow> Inr
              \<lparr>cr_sequence = sequence, cr_message_id = m_id row,
               cr_sender = \<lparr>p_session_id = m_sender_session row, p_member_id = m_sender_member row,
                            p_nickname = m_sender_nickname row, p_direct = None\<rparr>,
               cr_room_id = rid, cr_sent_at_ms = u64_or_default (m_sent_at row), cr_text = text\<rparr>))"

text \<open>\<open>ORDER BY sequence DESC LIMIT n\<close> over the rows of a room below a bound.\<close>

definition newest_rows :: "database \<Rightarrow> uuid \<Rightarrow> rstring \<Rightarrow> (int \<Rightarrow> bool) \<Rightarrow> nat \<Rightarrow> message_row list" where
  "newest_rows d gid rid below n =
     take n (sort_key (\<lambda>m. - m_sequence m)
       (filter (\<lambda>m. m_group m = gid \<and> m_room m = rid \<and> below (m_sequence m)) (t_messages d)))"

definition clamp :: "nat \<Rightarrow> nat \<Rightarrow> nat \<Rightarrow> nat" where
  "clamp lo hi n = max lo (min hi n)"

definition history ::
  "externals \<Rightarrow> byte list \<Rightarrow> database \<Rightarrow> uuid \<Rightarrow> rstring \<Rightarrow> nat \<Rightarrow> error + chat_record list" where
  "history X key d gid rid limit =
     and_then (collect_result (decode_row X key gid rid)
         (newest_rows d gid rid (\<lambda>_. True) (clamp 1 1000 limit)))
       (\<lambda>records. Inr (rev records))"

definition history_before ::
  "externals \<Rightarrow> byte list \<Rightarrow> database \<Rightarrow> uuid \<Rightarrow> rstring \<Rightarrow> u64 \<Rightarrow> nat \<Rightarrow> error + chat_record list" where
  "history_before X key d gid rid before limit =
     (let bound = (case i64_of_u64 before of Some n \<Rightarrow> n | None \<Rightarrow> i64_max)
      in and_then (collect_result (decode_row X key gid rid)
             (newest_rows d gid rid (\<lambda>s. s < bound) (clamp 1 1000 limit)))
           (\<lambda>records. Inr (rev records)))"

end
