(* ===== verification/Store_Effects.thy ===== *)
theory Store_Effects
  imports Store_Messages
begin

text \<open>
  What the operations of \<open>GatewayStore\<close> can do to the tables: \<open>effect\<close> is the abstract store, one
  rule per kind of committed change with the guards that hold when it happens, and every operation
  is shown to refine it: it leaves the database alone or makes changes of the abstract store.
\<close>

section \<open>The abstract store\<close>

inductive effect :: "externals \<Rightarrow> byte list \<Rightarrow> database \<Rightarrow> database \<Rightarrow> bool"
  for X :: externals and key :: "byte list"
  where
    eff_gateway: "effect X key d (d\<lparr>db_gateway_id := Some i\<rparr>)"
  | eff_group: "effect X key d d'"
      if "d' = insert_member_row m (insert_room_row r (insert_group_row g d))" "schema_ok d'"
        "r_id r = DEFAULT_ROOM_ID" "r_group r = g_id g" "r_visibility r = Public_Room"
        "r_next_sequence r = 1" "gm_group m = g_id g" "gm_role m = Admin" "gm_status m = Active"
        "g_admin_hash g = Some (gm_hash m)" "(g_invite_hash g \<noteq> None) = (g_access g = Invite)"
  | eff_member: "effect X key d d'"
      if "d' = insert_member_row m d" "schema_ok d'" "gm_role m = Member" "gm_status m = Active"
        "rows_matching (\<lambda>m'. gm_group m' = gm_group m) (t_members d) < MAX_GROUP_MEMBERS"
  | eff_admin: "effect X key d d'"
      if "d' = insert_member_row m d" "schema_ok d'" "gm_role m = Admin" "gm_status m = Active"
        "find_group d (gm_group m) = Some g" "both_match X (Some (gm_hash m)) (g_admin_hash g)"
        "member_by_hash d (gm_group m) (gm_hash m) = None"
  | eff_nickname: "effect X key d d'"
      if "d' = update_members P (\<lambda>m. m\<lparr>gm_nickname := nick, gm_updated := now\<rparr>) d" "schema_ok d'"
  | eff_ban: "effect X key d d'"
      if "d' = update_members P (\<lambda>m. m\<lparr>gm_status := s, gm_updated := now\<rparr>) d" "schema_ok d'"
        "\<And>m. P m \<Longrightarrow> gm_role m \<noteq> Admin"
  | eff_member_token: "effect X key d d'"
      if "d' = update_members P (\<lambda>m. m\<lparr>gm_hash := h, gm_updated := now\<rparr>) d" "schema_ok d'"
        "\<And>m. P m \<Longrightarrow> gm_role m = Member"
  | eff_admin_token: "effect X key d d'"
      if "d' = update_members (\<lambda>m. gm_group m = gid \<and> gm_id m = actor \<and> gm_role m = Admin)
                 (\<lambda>m. m\<lparr>gm_hash := h, gm_updated := now\<rparr>)
                 (update_groups (\<lambda>g. g_id g = gid) (\<lambda>g. g\<lparr>g_admin_hash := Some h\<rparr>) d)"
        "schema_ok d'" "active_admin d gid actor"
  | eff_invite_token: "effect X key d d'"
      if "d' = update_groups (\<lambda>g. g_id g = gid \<and> g_access g = Invite) (\<lambda>g. g\<lparr>g_invite_hash := Some h\<rparr>) d"
        "schema_ok d'"
  | eff_request: "effect X key d d'"
      if "d' = insert_request_row q d" "schema_ok d'" "q_status q = Request_Pending"
        "rows_matching (\<lambda>q'. q_group q' = q_group q \<and> q_status q' = Request_Pending) (t_requests d)
           < MAX_PENDING_JOIN_REQUESTS"
  | eff_decide: "effect X key d d'"
      if "d' = update_requests P (\<lambda>q. q\<lparr>q_status := s\<rparr>) d" "schema_ok d'" "s \<noteq> Request_Pending"
        "\<And>q. P q \<Longrightarrow> q_status q = Request_Pending"
  | eff_consume: "effect X key d d'"
      if "d' = delete_requests P d" "schema_ok d'"
  | eff_public_room: "effect X key d d'"
      if "d' = insert_room_row r d" "schema_ok d'" "r_next_sequence r = 1" "r_visibility r = Public_Room"
  | eff_private_room: "effect X key d d'"
      if "d' = insert_room_member_row w (insert_room_row r d)" "schema_ok (insert_room_row r d)"
        "schema_ok d'" "r_next_sequence r = 1" "r_visibility r = Private_Room"
        "rm_group w = r_group r" "rm_room w = r_id r" "rm_role w = Owner"
  | eff_include: "effect X key d d'"
      if "d' = insert_room_member_row w d" "schema_ok d'" "rm_role w = Room_Member"
        "room_visibility_of d (rm_group w) (rm_room w) = Some Private_Room"
  | eff_exclude: "effect X key d d'"
      if "d' = delete_room_members P d" "schema_ok d'" "\<And>w. P w \<Longrightarrow> rm_role w = Room_Member"
  | eff_append: "effect X key d d'"
      if "d' = insert_message_row m (update_rooms (\<lambda>r. r_id r = m_room m \<and> r_group r = m_group m)
                 (\<lambda>r. r\<lparr>r_next_sequence := r_next_sequence r + 1\<rparr>) d)"
        "schema_ok d'" "find_room d (m_group m) (m_room m) = Some r" "m_sequence m = r_next_sequence r"
        "m_sequence m \<le> i64_max"
        "encrypt_body X key nonce (m_group m) (m_room m) (m_id m) (word_of_int (m_sequence m))
           (utf8 text) = Inr (m_body m)"
        "valid_str text" "\<And>n. nonce = Some n \<Longrightarrow> length n = NONCE_LENGTH"

text \<open>A store operation makes no change, or changes of the abstract store.\<close>

abbreviation effects :: "externals \<Rightarrow> byte list \<Rightarrow> database \<Rightarrow> database \<Rightarrow> bool" where
  "effects X key \<equiv> (effect X key)\<^sup>*\<^sup>*"

lemma effects_one: "effect X key d d' \<Longrightarrow> effects X key d d'"
  by (rule r_into_rtranclp)

lemma effect_schema_ok: "effect X key d d' \<Longrightarrow> schema_ok d \<Longrightarrow> schema_ok d'"
  by (induction rule: effect.induct) (simp_all add: schema_ok_def)

section \<open>Every operation refines it\<close>

text \<open>Reading a chain of fallible steps.\<close>

lemmas chain_simps = and_then_Inr execute_Inr

lemma gateway_id_effects: "gateway_id fresh d = (d', i) \<Longrightarrow> effects X key d d'"
  by (auto simp: gateway_id_def intro: effects_one eff_gateway split: option.splits)

lemma credential_hash_transpose:
  "transpose_option (map_option (credential_hash X) t) = Inr h \<Longrightarrow> (h \<noteq> None) = (t \<noteq> None)"
  by (cases t) (auto simp: transpose_option_def split: sum.splits)

lemma transpose_if:
  "transpose_option (if b then Some r else None) = Inr t \<Longrightarrow> (t \<noteq> None) = b"
  by (cases b) (auto simp: transpose_option_def split: sum.splits)

lemma create_group_with_access_effects:
  assumes "create_group_with_access X now gid mid ae ie name mode d = (d', r)"
  shows "effects X key d d'"
proof (cases "\<exists>g\<in>set (t_groups d). nocase (g_name g) = nocase name")
  case True
  with assms show ?thesis by (simp add: create_group_with_access_def)
next
  case False
  note run = assms [unfolded create_group_with_access_def if_not_P [OF False]]
  from run show ?thesis
  proof (cases rule: transaction_cases)
    case rollback
    then show ?thesis by simp
  next
    case (commit x)
    from commit(1) show ?thesis
      by (auto simp: chain_simps dest!: transpose_if credential_hash_transpose
          intro!: effects_one eff_group)
  qed
qed

lemma create_group_effects:
  "create_group X now gid mid ae ie name d = (d', r) \<Longrightarrow> effects X key d d'"
  by (auto simp: create_group_def split: prod.splits sum.splits dest: create_group_with_access_effects)

lemma insert_group_member_Inr:
  "insert_group_member X now mid gid c role nick d = Inr d' \<longleftrightarrow>
     (\<exists>h. credential_hash X c = Inr h \<and> schema_ok d' \<and> d' = insert_member_row
       \<lparr>gm_id = mid, gm_group = gid, gm_hash = h, gm_role = role, gm_status = Active,
        gm_nickname = nick, gm_created = now, gm_updated = now\<rparr> d)"
  by (auto simp: insert_group_member_def chain_simps)

lemma issue_member_effects:
  "issue_member X now mid entropy gid nick d = (d', r) \<Longrightarrow> effects X key d d'"
  by (auto simp: issue_member_def insert_group_member_Inr split: if_splits sum.splits
      intro!: effects_one eff_member)

lemma authorize_known_member_effects:
  "authorize_known_member now gid nick m d = (d', r) \<Longrightarrow> effects X key d d'"
  by (auto simp: authorize_known_member_def execute_Inr split: if_splits sum.splits
      intro!: effects_one eff_nickname)

lemma authorize_approval_effects:
  "authorize_approval X now mid entropy gid credential nick d = (d', r) \<Longrightarrow> effects X key d d'"
  by (auto simp: authorize_approval_def execute_Inr
      split: option.splits sum.splits request_status.splits prod.splits
      intro: issue_member_effects rtranclp.rtrancl_into_rtrancl [OF issue_member_effects eff_consume])

lemma authorize_join_effects:
  assumes "authorize_join X now mid entropy gid credential nick d = (d', r)"
  shows "effects X key d d'"
proof -
  have admin: "effects X key d d'"
    if "find_group d gid = Some g" "credential_hash X c = Inr h" "both_match X (Some h) (g_admin_hash g)"
      "member_by_hash d gid h = None" "insert_group_member X now mid gid c Admin nick d = Inr d'" for g h c
    using that by (auto simp: insert_group_member_Inr intro!: effects_one eff_admin)
  show ?thesis
    using assms unfolding authorize_join_def
    by (cases credential)
      (auto simp: transpose_option_def both_match_def
        split: option.splits sum.splits if_splits group_access_mode.splits
        intro: admin issue_member_effects authorize_approval_effects authorize_known_member_effects)
qed

lemma create_join_request_effects:
  "create_join_request X now rid entropy gid nick d = (d', r) \<Longrightarrow> effects X key d d'"
  unfolding create_join_request_def
  by (erule transaction_cases)
    (auto simp: chain_simps split: if_splits intro!: effects_one eff_request)

lemma update_member_nickname_effects:
  "update_member_nickname now gid mid nick d = (d', r) \<Longrightarrow> effects X key d d'"
  by (auto simp: update_member_nickname_def execute_Inr split: sum.splits if_splits
      intro!: effects_one eff_nickname)

lemma decide_join_request_effects:
  "decide_join_request gid rid approve d = (d', r) \<Longrightarrow> effects X key d d'"
  by (auto simp: decide_join_request_def Let_def execute_Inr split: sum.splits if_splits
      intro!: effects_one eff_decide [OF refl])

lemma set_member_banned_effects:
  "set_member_banned now gid mid banned d = (d', r) \<Longrightarrow> effects X key d d'"
  by (auto simp: set_member_banned_def Let_def execute_Inr split: sum.splits
      intro!: effects_one eff_ban [OF refl])

lemma rotation_statements_effects:
  assumes "rotation_statements kind now gid actor hash d = Inr d'"
    and "kind = Admin_Token \<Longrightarrow> active_admin d gid actor"
  shows "effects X key d d'"
  using assms
  by (cases kind) (auto simp: chain_simps Let_def split: if_splits
      intro!: effects_one eff_member_token [OF refl] eff_admin_token [OF refl] eff_invite_token [OF refl])

lemma rotate_group_token_effects:
  assumes "rotate_group_token X now entropy gid actor kind d = (d', r)"
  shows "effects X key d d'"
proof (cases "rotation_permitted kind (map_option gm_role
            (find (\<lambda>m. gm_group m = gid \<and> gm_id m = actor \<and> gm_status m = Active) (t_members d)))")
  case True
  have active: "kind = Admin_Token \<Longrightarrow> active_admin d gid actor"
    using True by (auto simp: active_admin_def dest: find_eq_Some_filter)
  from assms True show ?thesis
    unfolding rotate_group_token_def Let_def
    by (simp only: not_True_eq_False if_False) (erule transaction_cases,
        auto simp: chain_simps intro: rotation_statements_effects active)
next
  case False
  with assms show ?thesis by (simp add: rotate_group_token_def)
qed

lemma create_room_with_visibility_effects:
  assumes "create_room_with_visibility now fresh gid name vis creator d = (d', r)"
  shows "effects X key d d'"
  using assms unfolding create_room_with_visibility_def
  by (cases vis; cases creator)
    (auto simp: chain_simps split: if_splits elim!: transaction_cases
      intro: effects_one [OF eff_public_room] effects_one [OF eff_private_room])

lemma create_room_effects: "create_room now fresh gid name d = (d', r) \<Longrightarrow> effects X key d d'"
  unfolding create_room_def by (rule create_room_with_visibility_effects)

lemma set_room_member_effects:
  "set_room_member now gid rid actor role target included d = (d', r) \<Longrightarrow> effects X key d d'"
  unfolding set_room_member_def Let_def
  by (erule transaction_cases)
    (auto simp: chain_simps split: if_splits intro!: effects_one intro: eff_include eff_exclude [OF refl])

lemma take_sequence_Inr:
  assumes "take_sequence gid rid d = Inr (d', n)"
  obtains r where "find_room d gid rid = Some r" "n = r_next_sequence r" "1 \<le> n + 1" "n < i64_max"
    "d' = update_rooms (\<lambda>r. r_id r = rid \<and> r_group r = gid)
            (\<lambda>r. r\<lparr>r_next_sequence := r_next_sequence r + 1\<rparr>) d" "schema_ok d'"
proof -
  let ?P = "\<lambda>r. r_id r = rid \<and> r_group r = gid" and ?f = "\<lambda>r. r\<lparr>r_next_sequence := r_next_sequence r + 1\<rparr>"
  from assms obtain r where r: "find_room d gid rid = Some r" "n = r_next_sequence r"
    "d' = update_rooms ?P ?f d" "schema_ok d'"
    by (auto simp: take_sequence_def chain_simps split: option.splits)
  from r(1) have mem: "r \<in> set (t_rooms d)" "?P r"
    unfolding find_room_def by (auto dest: find_eq_Some_filter)
  have "?f r \<in> set (t_rooms d')"
    unfolding r(3) update_rooms_def using mem by (simp add: set_update_where) blast
  then have "1 \<le> n + 1" "n + 1 \<le> i64_max"
    using r(2,4) by (auto simp: schema_ok_def rooms_ok_def list_all_iff)
  with r that show thesis by simp
qed

lemma append_message_Inr:
  assumes "append_message X key nonce gid rid mid sender sent_at text d = (d', Inr msg)"
  obtains r d1 m where
    "take_sequence gid rid d = Inr (d1, r_next_sequence r)" "find_room d gid rid = Some r"
    "0 \<le> r_next_sequence r" "r_next_sequence r < i64_max"
    "d' = insert_message_row m d1" "schema_ok d'"
    "encrypt_body X key nonce gid rid mid (word_of_int (r_next_sequence r)) (utf8 text) = Inr (m_body m)"
    "m = \<lparr>m_id = mid, m_group = gid, m_room = rid, m_sequence = r_next_sequence r,
          m_sender_session = p_session_id sender, m_sender_member = p_member_id sender,
          m_sender_nickname = p_nickname sender,
          m_sent_at = (case i64_of_u64 sent_at of Some n \<Rightarrow> n | None \<Rightarrow> i64_max), m_body = m_body m\<rparr>"
    "msg = \<lparr>cr_sequence = word_of_int (r_next_sequence r), cr_message_id = mid, cr_sender = sender,
               cr_room_id = rid, cr_sent_at_ms = sent_at, cr_text = text\<rparr>"
proof -
  from assms obtain d1 taken sequence encrypted stored where
    t: "take_sequence gid rid d = Inr (d1, taken)" and
    s: "u64_of_i64 taken = Some sequence" "i64_of_u64 sequence = Some stored" and
    e: "encrypt_body X key nonce gid rid mid sequence (utf8 text) = Inr encrypted" and
    ok: "schema_ok d'" and
    d': "d' = insert_message_row
                 \<lparr>m_id = mid, m_group = gid, m_room = rid, m_sequence = stored,
                  m_sender_session = p_session_id sender, m_sender_member = p_member_id sender,
                  m_sender_nickname = p_nickname sender,
                  m_sent_at = (case i64_of_u64 sent_at of Some n \<Rightarrow> n | None \<Rightarrow> i64_max),
                  m_body = encrypted\<rparr> d1" and
    rec: "msg = \<lparr>cr_sequence = sequence, cr_message_id = mid, cr_sender = sender,
               cr_room_id = rid, cr_sent_at_ms = sent_at, cr_text = text\<rparr>"
    unfolding append_message_def transaction_Inr
    by (auto simp: chain_simps split: option.splits prod.splits)
  from t obtain r where r: "find_room d gid rid = Some r" "taken = r_next_sequence r" "taken < i64_max"
    by (rule take_sequence_Inr)
  have "sequence = word_of_int taken" "0 \<le> taken"
    using s(1) by (auto simp: u64_of_i64_def split: if_splits)
  moreover have "stored = taken"
    using s r(3) by (auto simp: i64_of_u64_def uint_u64_of_i64 split: if_splits)
  ultimately show thesis
    using that [of d1 r] t r e ok d' rec by simp
qed

lemma append_message_effects:
  assumes "append_message X key nonce gid rid mid sender sent_at text d = (d', r)"
    and input: "valid_str text" "\<And>n. nonce = Some n \<Longrightarrow> length n = NONCE_LENGTH"
  shows "effects X key d d'"
proof (cases r)
  case (Inl e)
  with assms show ?thesis by (simp add: append_message_def transaction_Inl)
next
  case (Inr msg)
  with assms have run: "append_message X key nonce gid rid mid sender sent_at text d = (d', Inr msg)"
    by simp
  then obtain r d1 m where
    t: "take_sequence gid rid d = Inr (d1, r_next_sequence r)" and r: "find_room d gid rid = Some r"
      "r_next_sequence r < i64_max" and d': "d' = insert_message_row m d1" "schema_ok d'" and
    e: "encrypt_body X key nonce gid rid mid (word_of_int (r_next_sequence r)) (utf8 text) = Inr (m_body m)" and
    m: "m = \<lparr>m_id = mid, m_group = gid, m_room = rid, m_sequence = r_next_sequence r,
          m_sender_session = p_session_id sender, m_sender_member = p_member_id sender,
          m_sender_nickname = p_nickname sender,
          m_sent_at = (case i64_of_u64 sent_at of Some n \<Rightarrow> n | None \<Rightarrow> i64_max), m_body = m_body m\<rparr>"
    by (rule append_message_Inr)
  have mf: "m_id m = mid" "m_group m = gid" "m_room m = rid" "m_sequence m = r_next_sequence r"
    by (subst m, simp)+
  from t obtain r' where r': "d1 = update_rooms (\<lambda>r. r_id r = rid \<and> r_group r = gid)
            (\<lambda>r. r\<lparr>r_next_sequence := r_next_sequence r + 1\<rparr>) d"
    by (rule take_sequence_Inr)
  show ?thesis
    by (rule effects_one, rule eff_append [where m = m and r = r]) (use d' r' r e mf input in simp_all)
qed

section \<open>Runs of the store\<close>

text \<open>
  One call of a writing operation, with any arguments, random draws and clock. Message text is a
  Rust string and a nonce has its length, as the types of the source say.
\<close>

inductive store_step :: "externals \<Rightarrow> byte list \<Rightarrow> database \<Rightarrow> database \<Rightarrow> bool"
  for X :: externals and key :: "byte list"
  where
    step_gateway_id: "gateway_id fresh d = (d', i) \<Longrightarrow> store_step X key d d'"
  | step_create_group:
      "create_group_with_access X now gid mid ae ie name mode d = (d', r1) \<Longrightarrow> store_step X key d d'"
  | step_authorize_join:
      "authorize_join X now mid entropy gid credential nick d = (d', r2) \<Longrightarrow> store_step X key d d'"
  | step_create_join_request:
      "create_join_request X now rid entropy gid nick d = (d', r3) \<Longrightarrow> store_step X key d d'"
  | step_update_member_nickname:
      "update_member_nickname now gid mid nick d = (d', r4) \<Longrightarrow> store_step X key d d'"
  | step_decide_join_request: "decide_join_request gid rid approve d = (d', r5) \<Longrightarrow> store_step X key d d'"
  | step_set_member_banned: "set_member_banned now gid mid banned d = (d', r5) \<Longrightarrow> store_step X key d d'"
  | step_rotate_group_token:
      "rotate_group_token X now entropy gid actor kind d = (d', r6) \<Longrightarrow> store_step X key d d'"
  | step_create_room:
      "create_room_with_visibility now fresh_id gid name vis creator d = (d', r7) \<Longrightarrow> store_step X key d d'"
  | step_set_room_member:
      "set_room_member now gid rid actor role target included d = (d', r5) \<Longrightarrow> store_step X key d d'"
  | step_append_message:
      "append_message X key nonce gid rid mid sender sent_at text d = (d', r8) \<Longrightarrow> valid_str text \<Longrightarrow>
       (\<And>n. nonce = Some n \<Longrightarrow> length n = NONCE_LENGTH) \<Longrightarrow> store_step X key d d'"

lemmas operation_effects = gateway_id_effects create_group_with_access_effects authorize_join_effects
  create_join_request_effects update_member_nickname_effects decide_join_request_effects
  set_member_banned_effects rotate_group_token_effects create_room_with_visibility_effects
  set_room_member_effects append_message_effects

lemma store_step_effects: "store_step X key d d' \<Longrightarrow> effects X key d d'"
  by (induction rule: store_step.induct) (erule operation_effects; assumption)+

inductive reachable :: "externals \<Rightarrow> byte list \<Rightarrow> database \<Rightarrow> bool"
  for X :: externals and key :: "byte list"
  where
    reachable_init: "reachable X key empty_database"
  | reachable_step: "reachable X key d \<Longrightarrow> store_step X key d d' \<Longrightarrow> reachable X key d'"

lemma reachable_effects: "reachable X key d \<Longrightarrow> effects X key empty_database d"
  by (induction rule: reachable.induct) (auto dest: store_step_effects)

text \<open>A property of the empty store that every change keeps holds in every reachable store.\<close>

lemma reachable_invariant:
  assumes "reachable X key d" "I empty_database" "\<And>a b. I a \<Longrightarrow> effect X key a b \<Longrightarrow> I b"
  shows "I d"
  using reachable_effects [OF assms(1)] assms(2,3) by (induction rule: rtranclp_induct) blast+

end
