(* ===== verification/Store_Invariants.thy ===== *)
theory Store_Invariants
  imports Store_Effects
begin

text \<open>
  The invariants of the gateway database over every run of \<open>GatewayStore\<close>: the room logs have no gap,
  every group has exactly one administrator, whose credential is the group's, private rooms have
  exactly one owner, the limits on members and pending requests hold, and every stored body opens.
\<close>

section \<open>The invariants\<close>

definition room_log :: "database \<Rightarrow> uuid \<Rightarrow> rstring \<Rightarrow> message_row list" where
  "room_log d gid rid = filter (\<lambda>m. m_group m = gid \<and> m_room m = rid) (t_messages d)"

definition logs_gapless :: "database \<Rightarrow> bool" where
  "logs_gapless d \<longleftrightarrow>
     (\<forall>r\<in>set (t_rooms d). map m_sequence (room_log d (r_group r) (r_id r)) = [1..r_next_sequence r - 1])"

definition admin_of :: "group_row \<Rightarrow> member_row \<Rightarrow> bool" where
  "admin_of g m \<longleftrightarrow> gm_group m = g_id g \<and> gm_role m = Admin \<and> g_admin_hash g = Some (gm_hash m)"

definition admins_hold_token :: "database \<Rightarrow> bool" where
  "admins_hold_token d \<longleftrightarrow>
     (\<forall>m\<in>set (t_members d). gm_role m = Admin \<longrightarrow>
        gm_status m = Active \<and> (\<exists>g\<in>set (t_groups d). admin_of g m))"

definition groups_have_admin :: "database \<Rightarrow> bool" where
  "groups_have_admin d \<longleftrightarrow> (\<forall>g\<in>set (t_groups d). \<exists>m\<in>set (t_members d). admin_of g m)"

definition invite_hashes_ok :: "database \<Rightarrow> bool" where
  "invite_hashes_ok d \<longleftrightarrow> (\<forall>g\<in>set (t_groups d). (g_invite_hash g \<noteq> None) = (g_access g = Invite))"

definition groups_have_general :: "database \<Rightarrow> bool" where
  "groups_have_general d \<longleftrightarrow>
     (\<forall>g\<in>set (t_groups d). \<exists>r\<in>set (t_rooms d).
        r_group r = g_id g \<and> r_id r = DEFAULT_ROOM_ID \<and> r_visibility r = Public_Room)"

definition access_rows :: "database \<Rightarrow> room_row \<Rightarrow> room_member_row list" where
  "access_rows d r = filter (\<lambda>w. rm_group w = r_group r \<and> rm_room w = r_id r) (t_room_members d)"

fun access_ok :: "room_visibility \<Rightarrow> room_member_row list \<Rightarrow> bool" where
  "access_ok Public_Room ws \<longleftrightarrow> ws = []"
| "access_ok Private_Room ws \<longleftrightarrow> length (filter (\<lambda>w. rm_role w = Owner) ws) = 1"

definition access_lists_ok :: "database \<Rightarrow> bool" where
  "access_lists_ok d \<longleftrightarrow> (\<forall>r\<in>set (t_rooms d). access_ok (r_visibility r) (access_rows d r))"

definition pending_bounded :: "database \<Rightarrow> bool" where
  "pending_bounded d \<longleftrightarrow>
     (\<forall>gid. rows_matching (\<lambda>q. q_group q = gid \<and> q_status q = Request_Pending) (t_requests d)
        \<le> MAX_PENDING_JOIN_REQUESTS)"

definition members_bounded :: "database \<Rightarrow> bool" where
  "members_bounded d \<longleftrightarrow> (\<forall>gid. rows_matching (\<lambda>m. gm_group m = gid) (t_members d) \<le> MAX_GROUP_MEMBERS)"

definition bodies_open :: "externals \<Rightarrow> byte list \<Rightarrow> database \<Rightarrow> bool" where
  "bodies_open X key d \<longleftrightarrow>
     (\<forall>m\<in>set (t_messages d). \<exists>text. valid_str text \<and>
        decrypt_body X key (m_group m) (m_room m) (m_id m) (word_of_int (m_sequence m)) (m_body m) = Inr (utf8 text))"

lemmas invariant_defs = logs_gapless_def admins_hold_token_def groups_have_admin_def
  invite_hashes_ok_def groups_have_general_def access_lists_ok_def pending_bounded_def
  members_bounded_def bodies_open_def

section \<open>Sealed bodies\<close>

lemma decrypt_encrypt_body:
  assumes opens: "aead_opens X" and nonce: "\<And>n. nonce = Some n \<Longrightarrow> length n = NONCE_LENGTH"
    and enc: "encrypt_body X key nonce gid rid mid sequence text = Inr body"
  shows "decrypt_body X key gid rid mid sequence body = Inr text"
proof -
  from enc obtain n ct where n: "nonce = Some n" "x_encrypt X key n (message_aad gid rid mid sequence) text = Some ct"
    "body = ENCRYPTED_BODY_VERSION # n @ ct"
    by (auto simp: encrypt_body_def split: option.splits)
  with opens have "x_decrypt X key n (message_aad gid rid mid sequence) ct = Some text" "length ct = length text + 16"
    by (auto simp: aead_opens_def)
  with n nonce show ?thesis by (simp add: decrypt_body_def limits Let_def)
qed

section \<open>Preservation\<close>

lemma effect_invite_hashes_ok:
  "effect X key d d' \<Longrightarrow> invite_hashes_ok d \<Longrightarrow> invite_hashes_ok d'"
  by (induction rule: effect.induct)
    (auto simp: invite_hashes_ok_def write_defs update_where_def split: if_splits)

lemma effect_groups_have_general:
  "effect X key d d' \<Longrightarrow> groups_have_general d \<Longrightarrow> groups_have_general d'"
proof (induction rule: effect.induct)
  case (eff_append d' m d r nonce body)
  have rooms: "update_where (\<lambda>r. r_id r = m_room m \<and> r_group r = m_group m)
      (\<lambda>r. r\<lparr>r_next_sequence := r_next_sequence r + 1\<rparr>) (t_rooms d) = t_rooms d'"
    by (simp add: eff_append.hyps(1) write_defs)
  have "\<exists>r'\<in>set (t_rooms d'). r_group r' = r_group r \<and> r_id r' = r_id r \<and> r_visibility r' = r_visibility r"
    if "r \<in> set (t_rooms d)" for r
    unfolding rooms [symmetric] by (rule bexI [OF _ update_where_mem [OF that]]) simp
  then show ?case
    using eff_append.prems by (fastforce simp: eff_append.hyps(1) groups_have_general_def write_defs)
qed (fastforce simp: groups_have_general_def write_defs set_update_where)+

lemma effect_pending_bounded: "effect X key d d' \<Longrightarrow> pending_bounded d \<Longrightarrow> pending_bounded d'"
proof (induction rule: effect.induct)
  case (eff_decide d' P s d)
  have "rows_matching (\<lambda>q. q_group q = gid \<and> q_status q = Request_Pending) (t_requests d')
     \<le> rows_matching (\<lambda>q. q_group q = gid \<and> q_status q = Request_Pending) (t_requests d)" for gid
    unfolding eff_decide.hyps(1) update_requests_def using eff_decide.hyps(3)
    by (auto intro: rows_matching_update_where)
  then show ?case using eff_decide.prems order_trans by (fastforce simp: pending_bounded_def)
next
  case (eff_consume d' P d)
  then show ?case
    by (auto simp: pending_bounded_def delete_requests_def intro: order_trans [OF rows_matching_filter])
qed (auto simp: pending_bounded_def write_defs)

lemma rows_matching_update_members:
  "(\<And>m. gm_group (f m) = gm_group m) \<Longrightarrow>
   rows_matching (\<lambda>m. gm_group m = gid) (update_where P f rows) = rows_matching (\<lambda>m. gm_group m = gid) rows"
  by (simp add: rows_matching_def filter_update_where_same)

text \<open>The facts the other invariants need travel with the schema.\<close>

lemma schema_members_group: "schema_ok d \<Longrightarrow> m \<in> set (t_members d) \<Longrightarrow> gm_group m \<in> g_id ` set (t_groups d)"
  by (auto simp: schema_ok_def members_ok_def list_all_iff)

lemma no_member_of_new_group:
  assumes "schema_ok d" "gid \<notin> g_id ` set (t_groups d)"
  shows "rows_matching (\<lambda>m. gm_group m = gid) (t_members d) = 0"
  using assms schema_members_group [OF assms(1)] by (auto simp: rows_matching_def filter_empty_conv)

lemma admin_branch_dead:
  assumes ct: "ct_eq_is_equality X" and ok: "schema_ok d" and adm: "groups_have_admin d"
    and g: "find_group d gid = Some g" and h: "both_match X (Some h) (g_admin_hash g)"
    and none: "member_by_hash d gid h = None"
  shows False
proof -
  from g ok have "g \<in> set (t_groups d)" "g_id g = gid" by (auto simp: find_group_iff)
  with adm obtain m where m: "m \<in> set (t_members d)" "admin_of g m" by (auto simp: groups_have_admin_def)
  with h ct have "gm_hash m = h" by (auto simp: both_match_def admin_of_def hash_matches_iff split: option.splits)
  with m none \<open>g_id g = gid\<close> show False
    by (auto simp: member_by_hash_def admin_of_def find_eq_None)
qed

lemma effect_members_bounded:
  assumes "ct_eq_is_equality X"
  shows "effect X key d d' \<Longrightarrow> schema_ok d \<Longrightarrow> groups_have_admin d \<Longrightarrow> members_bounded d \<Longrightarrow> members_bounded d'"
proof (induction rule: effect.induct)
  case (eff_group d' m r g d)
  have "g_id g \<notin> g_id ` set (t_groups d)"
    using eff_group.hyps(1,2) by (auto simp: schema_ok_def groups_ok_def insert_defs)
  then have "rows_matching (\<lambda>m. gm_group m = g_id g) (t_members d) = 0"
    by (rule no_member_of_new_group [OF eff_group.prems(1)])
  with eff_group show ?case by (auto simp: members_bounded_def insert_defs limits)
next
  case (eff_admin d' m d g)
  then show ?case using admin_branch_dead [OF assms] by blast
qed (auto simp: members_bounded_def write_defs rows_matching_update_members)

text \<open>The administrators of one group are one row: its hash is the key.\<close>

lemma group_row_unique:
  "schema_ok d \<Longrightarrow> g \<in> set (t_groups d) \<Longrightarrow> h \<in> set (t_groups d) \<Longrightarrow> g_id g = g_id h \<Longrightarrow> g = h"
  by (auto simp: schema_ok_def groups_ok_def intro: distinct_map_eqD [of g_id])

lemma admin_holdsE:
  assumes "admins_hold_token d" "m \<in> set (t_members d)" "gm_role m = Admin"
  obtains g where "g \<in> set (t_groups d)" "admin_of g m" "gm_status m = Active"
  using assms by (auto simp: admins_hold_token_def)

lemma admin_unique:
  assumes ok: "schema_ok d" and adm: "admins_hold_token d" and mem: "m \<in> set (t_members d)" "n \<in> set (t_members d)"
    and role: "gm_role m = Admin" "gm_role n = Admin" and same: "gm_group m = gm_group n"
  shows "m = n"
proof -
  obtain g where g: "g \<in> set (t_groups d)" "admin_of g m" using admin_holdsE [OF adm mem(1) role(1)] .
  obtain h where h: "h \<in> set (t_groups d)" "admin_of h n" using admin_holdsE [OF adm mem(2) role(2)] .
  from g h same have "g = h" by (auto simp: admin_of_def intro: group_row_unique [OF ok])
  with g h same have "member_key m = member_key n" by (auto simp: admin_of_def member_key_def)
  with ok mem show ?thesis
    by (auto simp: schema_ok_def members_ok_def intro: distinct_map_eqD [of member_key])
qed

text \<open>The administrator invariants.\<close>

lemma effect_admins_hold_token:
  assumes ct: "ct_eq_is_equality X"
  shows "effect X key d d' \<Longrightarrow> schema_ok d \<Longrightarrow> groups_have_admin d \<Longrightarrow> admins_hold_token d \<Longrightarrow>
    admins_hold_token d'"
proof (induction rule: effect.induct)
  case (eff_admin d' m d g)
  then show ?case using admin_branch_dead [OF ct] by blast
next
  case (eff_admin_token d' gid actor now h d)
  show ?case
    unfolding admins_hold_token_def
  proof (intro ballI impI)
    fix m' assume m': "m' \<in> set (t_members d')" "gm_role m' = Admin"
    then obtain m where m: "m \<in> set (t_members d)" "gm_role m = Admin" "gm_group m' = gm_group m"
        "gm_status m' = gm_status m" and new: "gm_group m = gid \<and> gm_id m = actor \<Longrightarrow> gm_hash m' = h"
        and old: "\<not> (gm_group m = gid \<and> gm_id m = actor) \<Longrightarrow> m' = m"
      by (auto simp: eff_admin_token.hyps(1) write_defs update_where_def)
    from eff_admin_token.prems(3) m obtain g where g: "g \<in> set (t_groups d)" "admin_of g m" "gm_status m = Active"
      by (auto simp: admins_hold_token_def)
    show "gm_status m' = Active \<and> (\<exists>g\<in>set (t_groups d'). admin_of g m')"
    proof (cases "gm_group m = gid")
      case False
      with old have "m' = m" by blast
      moreover have "g \<in> set (t_groups d')"
        using g False by (auto simp: eff_admin_token.hyps(1) write_defs update_where_def admin_of_def)
      ultimately show ?thesis using g by auto
    next
      case True
      from eff_admin_token.hyps(3) obtain a where a: "a \<in> set (t_members d)" "gm_group a = gid" "gm_id a = actor"
        "gm_role a = Admin" by (auto simp: active_admin_def)
      have "a = m" using eff_admin_token.prems(1,3) a m True by (auto intro: admin_unique)
      with new a True have "gm_hash m' = h" by simp
      moreover have "g\<lparr>g_admin_hash := Some h\<rparr> \<in> set (t_groups d')"
        using g True update_where_mem [of g "t_groups d" "\<lambda>g. g_id g = gid" "\<lambda>g. g\<lparr>g_admin_hash := Some h\<rparr>"]
        by (auto simp: eff_admin_token.hyps(1) write_defs admin_of_def)
      ultimately show ?thesis
        using g m m' True by (intro conjI bexI [of _ "g\<lparr>g_admin_hash := Some h\<rparr>"]) (auto simp: admin_of_def)
    qed
  qed
next
  case (eff_invite_token d' gid h d)
  have "\<exists>g'\<in>set (t_groups d'). g_id g' = g_id g \<and> g_admin_hash g' = g_admin_hash g" if "g \<in> set (t_groups d)" for g
    using update_where_keeps [OF that, of "\<lambda>g. g_id g = gid \<and> g_access g = Invite"
        "\<lambda>g. (g_id g, g_admin_hash g)" "\<lambda>g. g\<lparr>g_invite_hash := Some h\<rparr>"]
    by (simp add: eff_invite_token.hyps(1) write_defs)
  moreover have "t_members d' = t_members d" by (simp add: eff_invite_token.hyps(1) write_defs)
  ultimately show ?case
    using eff_invite_token.prems(3) unfolding admins_hold_token_def admin_of_def by metis
qed (fastforce simp: admins_hold_token_def admin_of_def write_defs update_where_def split: if_splits)+

definition admin_keys :: "member_row \<Rightarrow> uuid \<times> group_role \<times> byte list" where
  "admin_keys m = (gm_group m, gm_role m, gm_hash m)"

lemma groups_have_admin_keep:
  assumes "groups_have_admin d" "t_groups d' = t_groups d"
    "\<And>m. m \<in> set (t_members d) \<Longrightarrow> gm_role m = Admin \<Longrightarrow> \<exists>m'\<in>set (t_members d'). admin_keys m' = admin_keys m"
  shows "groups_have_admin d'"
  unfolding groups_have_admin_def
proof
  fix g assume "g \<in> set (t_groups d')"
  with assms(1,2) obtain m where m: "m \<in> set (t_members d)" "admin_of g m" by (auto simp: groups_have_admin_def)
  with assms(3) [of m] obtain m' where "m' \<in> set (t_members d')" "admin_keys m' = admin_keys m"
    by (auto simp: admin_of_def)
  with m show "\<exists>m\<in>set (t_members d'). admin_of g m" by (auto simp: admin_keys_def admin_of_def)
qed

lemma groups_have_admin_update:
  assumes "groups_have_admin d" "d' = update_members P f d" "\<And>m. P m \<Longrightarrow> admin_keys (f m) = admin_keys m"
  shows "groups_have_admin d'"
  using assms(1)
  by (rule groups_have_admin_keep)
    (simp_all add: assms(2,3) update_members_def update_where_keeps [where g = admin_keys])

lemma effect_groups_have_admin: "effect X key d d' \<Longrightarrow> groups_have_admin d \<Longrightarrow> groups_have_admin d'"
proof (induction rule: effect.induct)
  case (eff_admin_token d' gid actor now h d)
  let ?P = "\<lambda>m. gm_group m = gid \<and> gm_id m = actor \<and> gm_role m = Admin" and ?f = "\<lambda>m. m\<lparr>gm_hash := h, gm_updated := now\<rparr>"
  have members: "t_members d' = update_where ?P ?f (t_members d)"
    by (simp add: eff_admin_token.hyps(1) write_defs)
  show ?case
    unfolding groups_have_admin_def
  proof
    fix g' assume "g' \<in> set (t_groups d')"
    then obtain g where g: "g \<in> set (t_groups d)" "g_id g' = g_id g"
        and new: "g_id g = gid \<Longrightarrow> g_admin_hash g' = Some h" and old: "g_id g \<noteq> gid \<Longrightarrow> g' = g"
      by (auto simp: eff_admin_token.hyps(1) write_defs update_where_def)
    show "\<exists>m\<in>set (t_members d'). admin_of g' m"
    proof (cases "g_id g = gid")
      case True
      from eff_admin_token.hyps(3) obtain a where a: "a \<in> set (t_members d)" "?P a" by (auto simp: active_admin_def)
      with update_where_mem [of a "t_members d" ?P ?f] have "?f a \<in> set (t_members d')" by (simp add: members)
      with a g new True show ?thesis by (intro bexI [of _ "?f a"]) (auto simp: admin_of_def)
    next
      case False
      with eff_admin_token.prems g obtain m where m: "m \<in> set (t_members d)" "admin_of g m"
        by (auto simp: groups_have_admin_def)
      with False have "\<not> ?P m" by (auto simp: admin_of_def)
      with m update_where_mem [of m "t_members d" ?P ?f] have "m \<in> set (t_members d')" by (simp add: members)
      with m old False show ?thesis by auto
    qed
  qed
next
  case (eff_nickname d' P now nick d)
  show ?case
    by (rule groups_have_admin_update [OF eff_nickname.prems eff_nickname.hyps(1)]) (simp add: admin_keys_def)
next
  case (eff_ban d' P now s d)
  show ?case
    by (rule groups_have_admin_update [OF eff_ban.prems eff_ban.hyps(1)]) (simp add: admin_keys_def)
next
  case (eff_member_token d' P now h d)
  have "m \<in> set (t_members d')" if "m \<in> set (t_members d)" "gm_role m = Admin" for m
    using update_where_mem [OF that(1), of P "\<lambda>m. m\<lparr>gm_hash := h, gm_updated := now\<rparr>"] that(2)
      eff_member_token.hyps(1) eff_member_token.hyps(3) [of m]
    by (cases "P m") (simp_all add: write_defs)
  with eff_member_token show ?case
    by (elim groups_have_admin_keep) (auto simp: write_defs)
qed (fastforce simp: groups_have_admin_def admin_of_def write_defs update_where_def)+

text \<open>The access lists.\<close>

lemma access_rows_new_room:
  assumes "schema_ok d" "(r_group r, r_id r) \<notin> room_key ` set (t_rooms d)"
  shows "access_rows d r = []"
  using assms by (auto simp: access_rows_def schema_ok_def room_members_ok_def list_all_iff filter_empty_conv)

lemma fresh_room:
  "schema_ok (insert_room_row r d) \<Longrightarrow> (r_group r, r_id r) \<notin> room_key ` set (t_rooms d)"
  by (auto simp: schema_ok_def rooms_ok_def insert_room_row_def room_key_def)

lemma room_row_unique:
  "schema_ok d \<Longrightarrow> r \<in> set (t_rooms d) \<Longrightarrow> s \<in> set (t_rooms d) \<Longrightarrow>
   r_group r = r_group s \<Longrightarrow> r_id r = r_id s \<Longrightarrow> r = s"
  by (auto simp: schema_ok_def rooms_ok_def room_key_def intro: distinct_map_eqD [of room_key])

lemma access_rows_frame: "t_room_members d' = t_room_members d \<Longrightarrow> access_rows d' = access_rows d"
  by (simp add: access_rows_def fun_eq_iff)

lemma access_lists_ok_rooms:
  assumes "access_lists_ok d" "t_room_members d' = t_room_members d"
    "\<And>r. r \<in> set (t_rooms d') \<Longrightarrow>
       (\<exists>s\<in>set (t_rooms d). r_group s = r_group r \<and> r_id s = r_id r \<and> r_visibility s = r_visibility r) \<or>
       r_visibility r = Public_Room \<and> access_rows d r = []"
  shows "access_lists_ok d'"
  unfolding access_lists_ok_def access_rows_frame [OF assms(2)]
proof
  fix r assume "r \<in> set (t_rooms d')"
  from assms(3) [OF this] show "access_ok (r_visibility r) (access_rows d r)"
    using assms(1) by (auto simp: access_lists_ok_def access_rows_def)
qed

lemma effect_access_lists_ok:
  "effect X key d d' \<Longrightarrow> schema_ok d \<Longrightarrow> access_lists_ok d \<Longrightarrow> access_lists_ok d'"
proof (induction rule: effect.induct)
  case (eff_group d' m r g d)
  have "(r_group r, r_id r) \<notin> room_key ` set (t_rooms d)"
    using eff_group.hyps(1,2) by (auto simp: schema_ok_def rooms_ok_def insert_defs room_key_def)
  then have "access_rows d r = []" by (rule access_rows_new_room [OF eff_group.prems(1)])
  then show ?case
    by (intro access_lists_ok_rooms [OF eff_group.prems(2)]) (auto simp: eff_group.hyps insert_defs)
next
  case (eff_public_room d' r d)
  have "access_rows d r = []"
    using access_rows_new_room [OF eff_public_room.prems(1)] fresh_room eff_public_room.hyps(1,2) by simp
  then show ?case
    by (intro access_lists_ok_rooms [OF eff_public_room.prems(2)]) (auto simp: eff_public_room.hyps insert_defs)
next
  case (eff_private_room d' w r d)
  have fresh: "(r_group r, r_id r) \<notin> room_key ` set (t_rooms d)" by (rule fresh_room [OF eff_private_room.hyps(2)])
  have "access_rows d r = []" using access_rows_new_room [OF eff_private_room.prems(1) fresh] .
  then have "access_rows d' r = [w]"
    by (simp add: eff_private_room.hyps insert_defs access_rows_def)
  moreover have "access_rows d' s = access_rows d s" if "s \<in> set (t_rooms d)" for s
    using that fresh by (auto simp: eff_private_room.hyps insert_defs access_rows_def room_key_def)
  moreover have "t_rooms d' = t_rooms d @ [r]" by (simp add: eff_private_room.hyps insert_defs)
  ultimately show ?case using eff_private_room.prems(2) eff_private_room.hyps(5,8)
    by (auto simp: access_lists_ok_def)
next
  case (eff_include d' w d)
  have rooms: "t_rooms d' = t_rooms d" by (simp add: eff_include.hyps(1) insert_defs)
  have "access_ok (r_visibility r) (access_rows d' r)" if r: "r \<in> set (t_rooms d)" for r
  proof (cases "rm_group w = r_group r \<and> rm_room w = r_id r")
    case True
    with eff_include.hyps(4) eff_include.prems(1) r have "r_visibility r = Private_Room"
      by (auto simp: room_visibility_of_def find_room_iff dest: room_row_unique [OF eff_include.prems(1) r])
    moreover have "access_rows d' r = access_rows d r @ [w]"
      using True by (simp add: eff_include.hyps(1) insert_defs access_rows_def)
    ultimately show ?thesis using eff_include.prems(2) eff_include.hyps(3) r by (auto simp: access_lists_ok_def)
  next
    case False
    then have "access_rows d' r = access_rows d r"
      by (auto simp: eff_include.hyps(1) insert_defs access_rows_def)
    with eff_include.prems(2) r show ?thesis by (auto simp: access_lists_ok_def)
  qed
  then show ?case by (simp add: access_lists_ok_def rooms)
next
  case (eff_exclude d' P d)
  have rows: "access_rows d' r = filter (\<lambda>w. \<not> P w) (access_rows d r)" for r
    by (auto simp: eff_exclude.hyps(1) delete_room_members_def access_rows_def conj_commute)
  have "access_ok v (filter (\<lambda>w. \<not> P w) ws)" if "access_ok v ws" for v ws
  proof -
    have "(\<lambda>w. \<not> P w \<and> rm_role w = Owner) = (\<lambda>w. rm_role w = Owner)"
      using eff_exclude.hyps(3) by force
    with that show ?thesis by (cases v) (auto simp: conj_commute)
  qed
  then show ?case using eff_exclude.prems(2)
    by (simp add: access_lists_ok_def rows) (simp add: eff_exclude.hyps(1) delete_room_members_def)
next
  case (eff_append d' m d r nonce body)
  then show ?case
    by (intro access_lists_ok_rooms [OF eff_append.prems(2)]) (auto simp: write_defs set_update_where)
qed (elim access_lists_ok_rooms, auto simp: write_defs)+

text \<open>The room logs.\<close>

lemma room_log_frame: "t_messages d' = t_messages d \<Longrightarrow> room_log d' = room_log d"
  by (simp add: room_log_def fun_eq_iff)

lemma room_log_new_room:
  "schema_ok d \<Longrightarrow> (gid, rid) \<notin> room_key ` set (t_rooms d) \<Longrightarrow> room_log d gid rid = []"
  by (auto simp: room_log_def schema_ok_def messages_ok_def list_all_iff filter_empty_conv)

lemma logs_gapless_rooms:
  assumes "logs_gapless d" "t_messages d' = t_messages d"
    "\<And>r. r \<in> set (t_rooms d') \<Longrightarrow> r \<in> set (t_rooms d) \<or>
       room_log d (r_group r) (r_id r) = [] \<and> r_next_sequence r = 1"
  shows "logs_gapless d'"
  unfolding logs_gapless_def room_log_frame [OF assms(2)]
proof
  fix r assume "r \<in> set (t_rooms d')"
  from assms(3) [OF this] show "map m_sequence (room_log d (r_group r) (r_id r)) = [1..r_next_sequence r - 1]"
    using assms(1) by (auto simp: logs_gapless_def)
qed

lemma effect_logs_gapless: "effect X key d d' \<Longrightarrow> schema_ok d \<Longrightarrow> logs_gapless d \<Longrightarrow> logs_gapless d'"
proof (induction rule: effect.induct)
  case (eff_group d' m r g d)
  have "(r_group r, r_id r) \<notin> room_key ` set (t_rooms d)"
    using eff_group.hyps(1,2) by (auto simp: schema_ok_def rooms_ok_def insert_defs room_key_def)
  then have "room_log d (r_group r) (r_id r) = []" by (rule room_log_new_room [OF eff_group.prems(1)])
  then show ?case
    by (intro logs_gapless_rooms [OF eff_group.prems(2)]) (auto simp: eff_group.hyps insert_defs)
next
  case (eff_public_room d' r d)
  have "room_log d (r_group r) (r_id r) = []"
    using room_log_new_room [OF eff_public_room.prems(1)] fresh_room eff_public_room.hyps(1,2) by simp
  then show ?case
    by (intro logs_gapless_rooms [OF eff_public_room.prems(2)]) (auto simp: eff_public_room.hyps insert_defs)
next
  case (eff_private_room d' w r d)
  have "room_log d (r_group r) (r_id r) = []"
    using room_log_new_room [OF eff_private_room.prems(1)] fresh_room eff_private_room.hyps(2) by simp
  then show ?case
    by (intro logs_gapless_rooms [OF eff_private_room.prems(2)]) (auto simp: eff_private_room.hyps insert_defs)
next
  case (eff_append d' m d r nonce body)
  have r: "r \<in> set (t_rooms d)" "r_group r = m_group m" "r_id r = m_room m"
    using eff_append.hyps(3) eff_append.prems(1) by (auto simp: find_room_iff)
  show ?case
    unfolding logs_gapless_def
  proof
    fix s' assume "s' \<in> set (t_rooms d')"
    then obtain s where s: "s \<in> set (t_rooms d)" "r_group s' = r_group s" "r_id s' = r_id s"
        and hit: "r_id s = m_room m \<and> r_group s = m_group m \<Longrightarrow> r_next_sequence s' = r_next_sequence s + 1"
        and miss: "\<not> (r_id s = m_room m \<and> r_group s = m_group m) \<Longrightarrow> s' = s"
      by (auto simp: eff_append.hyps(1) write_defs update_where_def)
    have log: "map m_sequence (room_log d (r_group s) (r_id s)) = [1..r_next_sequence s - 1]"
      using eff_append.prems(2) s(1) by (simp add: logs_gapless_def)
    show "map m_sequence (room_log d' (r_group s') (r_id s')) = [1..r_next_sequence s' - 1]"
    proof (cases "r_id s = m_room m \<and> r_group s = m_group m")
      case True
      with r s(1) have "s = r" by (auto intro: room_row_unique [OF eff_append.prems(1)])
      moreover have "1 \<le> r_next_sequence s"
        using eff_append.prems(1) s(1) by (auto simp: schema_ok_def rooms_ok_def list_all_iff)
      then have "[1..r_next_sequence s] = [1..r_next_sequence s - 1] @ [r_next_sequence s]"
        by (simp add: upto_rec2)
      ultimately show ?thesis
        using log hit [OF True] True s eff_append.hyps(4) by (simp add: eff_append.hyps(1) write_defs room_log_def)
    next
      case False
      with log miss s show ?thesis by (auto simp: eff_append.hyps(1) write_defs room_log_def)
    qed
  qed
qed (elim logs_gapless_rooms, auto simp: write_defs)+

lemma effect_bodies_open:
  assumes "aead_opens X"
  shows "effect X key d d' \<Longrightarrow> bodies_open X key d \<Longrightarrow> bodies_open X key d'"
proof (induction rule: effect.induct)
  case (eff_append d' m d r nonce body)
  then show ?case
    using decrypt_encrypt_body [OF assms eff_append.hyps(8) eff_append.hyps(6)]
    by (auto simp: bodies_open_def write_defs)
qed (simp_all add: bodies_open_def write_defs)

section \<open>Every reachable store\<close>

definition store_inv :: "externals \<Rightarrow> byte list \<Rightarrow> database \<Rightarrow> bool" where
  "store_inv X key d \<longleftrightarrow>
     schema_ok d \<and> logs_gapless d \<and> admins_hold_token d \<and> groups_have_admin d \<and> invite_hashes_ok d \<and>
     groups_have_general d \<and> access_lists_ok d \<and> pending_bounded d \<and> members_bounded d \<and> bodies_open X key d"

lemma store_inv_empty: "store_inv X key empty_database"
  by (simp add: store_inv_def schema_ok_def table_ok_defs invariant_defs empty_database_def rows_matching_def)

lemma store_inv_effect:
  assumes "ct_eq_is_equality X" "aead_opens X" "store_inv X key d" "effect X key d d'"
  shows "store_inv X key d'"
  using assms(3) unfolding store_inv_def
  by (elim conjE, intro conjI)
    (blast intro: assms(1,2,4) effect_schema_ok [OF assms(4)] effect_logs_gapless [OF assms(4)]
      effect_admins_hold_token [OF assms(1,4)] effect_groups_have_admin [OF assms(4)]
      effect_invite_hashes_ok [OF assms(4)] effect_groups_have_general [OF assms(4)]
      effect_access_lists_ok [OF assms(4)] effect_pending_bounded [OF assms(4)]
      effect_members_bounded [OF assms(1,4)] effect_bodies_open [OF assms(2,4)])+

lemma reachable_store_inv:
  "ct_eq_is_equality X \<Longrightarrow> aead_opens X \<Longrightarrow> reachable X key d \<Longrightarrow> store_inv X key d"
  using reachable_invariant [of X key d "store_inv X key"] store_inv_empty store_inv_effect by blast

end
