(* ===== verification/Store_Samples.thy ===== *)
theory Store_Samples
  imports Store_Invariants
begin

text \<open>
  Concrete inputs for the witnesses: libraries that meet the documented hypotheses, and stores
  reached by running the operations from the empty database.
\<close>

definition sample_externals :: externals where
  "sample_externals =
     \<lparr>x_blake3 = (\<lambda>bs. [last bs]), x_ct_eq = (\<lambda>a b. a = b),
      x_encrypt = (\<lambda>key nonce aad msg. Some (msg @ replicate 16 0)),
      x_decrypt = (\<lambda>key nonce aad ct. if length ct < 16 then None else Some (take (length ct - 16) ct))\<rparr>"

lemma sample_ct_eq: "ct_eq_is_equality sample_externals"
  by (simp add: ct_eq_is_equality_def sample_externals_def)

lemma sample_aead: "aead_opens sample_externals"
  by (simp add: aead_opens_def sample_externals_def)

definition sample_entropy :: "byte \<Rightarrow> byte list option" where
  "sample_entropy b = Some (replicate 31 0 @ [b])"

definition sample_nonce :: "byte list option" where
  "sample_nonce = Some (replicate 24 7)"

definition sample_peer :: peer where
  "sample_peer = \<lparr>p_session_id = 90, p_member_id = 11, p_nickname = str ''ada'', p_direct = None\<rparr>"

text \<open>An invite group, a member who joined with the invite token, a private room and a message.\<close>

definition sample_created :: database where
  "sample_created = fst (create_group_with_access sample_externals 1000 5 10 (sample_entropy 1) (sample_entropy 2)
     (str ''lab'') Invite empty_database)"

definition sample_invite :: rstring where
  "sample_invite = (case generate_credential (str ''invite'') (sample_entropy 2) of Inr t \<Rightarrow> t | Inl _ \<Rightarrow> [])"

definition sample_member_token :: rstring where
  "sample_member_token = (case generate_credential (str ''member'') (sample_entropy 3) of Inr t \<Rightarrow> t | Inl _ \<Rightarrow> [])"

definition sample_admin_token :: rstring where
  "sample_admin_token = (case generate_credential (str ''admin'') (sample_entropy 1) of Inr t \<Rightarrow> t | Inl _ \<Rightarrow> [])"

definition sample_joined :: database where
  "sample_joined = fst (authorize_join sample_externals 1001 11 (sample_entropy 3) 5 (Some sample_invite)
     (str ''ada'') sample_created)"

definition sample_room :: database where
  "sample_room = fst (create_room_with_visibility 1002 (str ''r1'') 5 (str ''ops'') Private_Room (Some 11) sample_joined)"

definition sample_store :: database where
  "sample_store = fst (append_message sample_externals [1] sample_nonce 5 (str ''r1'') 20 sample_peer 1003
     (str ''hi'') sample_room)"

text \<open>The stores evaluated.\<close>

lemmas sample_inputs = sample_entropy_def sample_nonce_def sample_peer_def

lemma sample_created_eq: "sample_created =
  \<lparr>db_gateway_id = None,
   t_groups = [\<lparr>g_id = 5, g_name = str ''lab'', g_access = Invite, g_admin_hash = Some [49],
                g_invite_hash = Some [50], g_created = 1000\<rparr>],
   t_rooms = [\<lparr>r_id = str ''general'', r_group = 5, r_name = str ''general'', r_visibility = Public_Room,
               r_next_sequence = 1, r_created = 1000\<rparr>],
   t_messages = [], t_requests = [],
   t_members = [\<lparr>gm_id = 10, gm_group = 5, gm_hash = [49], gm_role = Admin, gm_status = Active,
                 gm_nickname = str ''administrator'', gm_created = 1000, gm_updated = 1000\<rparr>],
   t_room_members = []\<rparr>"
  by code_simp

lemma sample_joined_eq: "sample_joined = sample_created\<lparr>t_members := t_members sample_created @
  [\<lparr>gm_id = 11, gm_group = 5, gm_hash = [51], gm_role = Member, gm_status = Active,
    gm_nickname = str ''ada'', gm_created = 1001, gm_updated = 1001\<rparr>]\<rparr>"
  unfolding sample_joined_def sample_created_eq by code_simp

lemma sample_room_eq: "sample_room = sample_joined
  \<lparr>t_rooms := t_rooms sample_joined @
     [\<lparr>r_id = str ''r1'', r_group = 5, r_name = str ''ops'', r_visibility = Private_Room,
       r_next_sequence = 1, r_created = 1002\<rparr>],
   t_room_members := [\<lparr>rm_group = 5, rm_room = str ''r1'', rm_member = 11, rm_role = Owner, rm_added = 1002\<rparr>]\<rparr>"
  unfolding sample_room_def sample_joined_eq sample_created_eq by code_simp

lemma sample_body: "encrypt_body sample_externals [1] sample_nonce 5 (str ''r1'') 20 1 (utf8 (str ''hi''))
    = Inr (1 # replicate 24 7 @ [104, 105] @ replicate 16 0)"
  by (simp add: encrypt_body_def sample_externals_def sample_nonce_def ENCRYPTED_BODY_VERSION_def str_def
     utf8_def encode_char_def byte_of_def)

lemmas run_simps = execute_def schema_ok_def table_ok_defs key_defs write_defs update_where_def
  take_sequence_def find_room_def str_def

lemma sample_append: "append_message sample_externals [1] sample_nonce 5 (str ''r1'') 20 sample_peer 1003
     (str ''hi'') sample_room =
   (sample_room
     \<lparr>t_rooms := t_rooms sample_joined @
        [\<lparr>r_id = str ''r1'', r_group = 5, r_name = str ''ops'', r_visibility = Private_Room,
          r_next_sequence = 2, r_created = 1002\<rparr>],
      t_messages := [\<lparr>m_id = 20, m_group = 5, m_room = str ''r1'', m_sequence = 1, m_sender_session = 90,
        m_sender_member = 11, m_sender_nickname = str ''ada'', m_sent_at = 1003,
        m_body = 1 # replicate 24 7 @ [104, 105] @ replicate 16 0\<rparr>]\<rparr>,
    Inr \<lparr>cr_sequence = 1, cr_message_id = 20, cr_sender = sample_peer, cr_room_id = str ''r1'',
         cr_sent_at_ms = 1003, cr_text = str ''hi''\<rparr>)"
proof -
  have "i64_of_u64 1 = Some 1" "i64_of_u64 1003 = Some 1003" by (simp_all add: i64_of_u64_def i64_max_def)
  then show ?thesis
    using sample_body
    by (simp add: append_message_def run_simps sample_room_eq sample_joined_eq sample_created_eq
        sample_peer_def i64_max_def nocase_def ascii_lower_def)
qed

lemma sample_store_eq: "sample_store = sample_room
     \<lparr>t_rooms := t_rooms sample_joined @
        [\<lparr>r_id = str ''r1'', r_group = 5, r_name = str ''ops'', r_visibility = Private_Room,
          r_next_sequence = 2, r_created = 1002\<rparr>],
      t_messages := [\<lparr>m_id = 20, m_group = 5, m_room = str ''r1'', m_sequence = 1, m_sender_session = 90,
        m_sender_member = 11, m_sender_nickname = str ''ada'', m_sent_at = 1003,
        m_body = 1 # replicate 24 7 @ [104, 105] @ replicate 16 0\<rparr>]\<rparr>"
  by (simp add: sample_store_def sample_append)

lemmas sample_rows = sample_store_eq sample_room_eq sample_joined_eq sample_created_eq

lemma sample_created_reachable: "reachable sample_externals [1] sample_created"
  unfolding sample_created_def
  by (rule reachable_step [OF reachable_init], rule step_create_group, rule prod.collapse [symmetric])

lemma sample_joined_reachable: "reachable sample_externals [1] sample_joined"
  unfolding sample_joined_def
  by (rule reachable_step [OF sample_created_reachable], rule step_authorize_join, rule prod.collapse [symmetric])

lemma sample_room_reachable: "reachable sample_externals [1] sample_room"
  unfolding sample_room_def
  by (rule reachable_step [OF sample_joined_reachable], rule step_create_room, rule prod.collapse [symmetric])

lemma sample_store_reachable: "reachable sample_externals [1] sample_store"
  unfolding sample_store_def
  by (rule reachable_step [OF sample_room_reachable], rule step_append_message, rule prod.collapse [symmetric])
    (simp_all add: valid_str_def scalar_def str_def sample_nonce_def limits)

text \<open>An approval group, a join request for it, and the request approved.\<close>

definition sample_approval :: database where
  "sample_approval = fst (create_group_with_access sample_externals 1000 6 12 (sample_entropy 4) None
     (str ''club'') Approval empty_database)"

definition sample_requested :: database where
  "sample_requested = fst (create_join_request sample_externals 1001 30 (sample_entropy 5) 6 (str ''bob'') sample_approval)"

definition sample_request_token :: rstring where
  "sample_request_token = (case generate_credential (str ''request'') (sample_entropy 5) of Inr t \<Rightarrow> t | Inl _ \<Rightarrow> [])"

lemma sample_approval_reachable: "reachable sample_externals [1] sample_approval"
  unfolding sample_approval_def
  by (rule reachable_step [OF reachable_init], rule step_create_group, rule prod.collapse [symmetric])

lemmas sample_inv = sample_created_reachable sample_joined_reachable sample_room_reachable sample_store_reachable
  sample_approval_reachable

lemma sample_schema_ok:
  "schema_ok sample_created" "schema_ok sample_joined" "schema_ok sample_room" "schema_ok sample_store"
  "schema_ok sample_approval"
  using sample_inv [THEN reachable_store_inv [OF sample_ct_eq sample_aead]] by (simp_all add: store_inv_def)

lemma sample_approval_eq: "sample_approval =
  \<lparr>db_gateway_id = None,
   t_groups = [\<lparr>g_id = 6, g_name = str ''club'', g_access = Approval, g_admin_hash = Some [52],
                g_invite_hash = None, g_created = 1000\<rparr>],
   t_rooms = [\<lparr>r_id = str ''general'', r_group = 6, r_name = str ''general'', r_visibility = Public_Room,
               r_next_sequence = 1, r_created = 1000\<rparr>],
   t_messages = [], t_requests = [],
   t_members = [\<lparr>gm_id = 12, gm_group = 6, gm_hash = [52], gm_role = Admin, gm_status = Active,
                 gm_nickname = str ''administrator'', gm_created = 1000, gm_updated = 1000\<rparr>],
   t_room_members = []\<rparr>"
  by code_simp

lemma sample_join:
  "authorize_join sample_externals 1001 11 (sample_entropy 3) 5 (Some sample_invite) (str ''ada'') sample_created
     = (sample_joined, Inr (Allowed Member 11 (Some sample_member_token)))"
proof -
  have "snd (authorize_join sample_externals 1001 11 (sample_entropy 3) 5 (Some sample_invite) (str ''ada'') sample_created)
      = Inr (Allowed Member 11 (Some sample_member_token))"
    unfolding sample_created_eq by code_simp
  then show ?thesis by (simp add: sample_joined_def prod_eq_iff)
qed

lemma sample_request:
  "create_join_request sample_externals 1001 30 (sample_entropy 5) 6 (str ''bob'') sample_approval
     = (sample_requested, Inr (30, sample_request_token))"
proof -
  have "snd (create_join_request sample_externals 1001 30 (sample_entropy 5) 6 (str ''bob'') sample_approval)
      = Inr (30, sample_request_token)"
    unfolding sample_approval_eq by code_simp
  then show ?thesis by (simp add: sample_requested_def prod_eq_iff)
qed

text \<open>What the sample tokens hash to.\<close>

lemma sample_hashes:
  "credential_hash sample_externals sample_invite = Inr [50]"
  "credential_hash sample_externals sample_member_token = Inr [51]"
  "credential_hash sample_externals sample_admin_token = Inr [49]"
  "credential_hash sample_externals sample_request_token = Inr [53]"
  by code_simp+

text \<open>The request decided, and the join it then admits.\<close>

definition sample_approved :: database where
  "sample_approved = fst (decide_join_request 6 30 True sample_requested)"

definition sample_admitted :: database where
  "sample_admitted = fst (authorize_join sample_externals 1005 13 (sample_entropy 6) 6 (Some sample_request_token)
     (str ''bob'') sample_approved)"

lemma sample_requested_eq: "sample_requested = sample_approval
  \<lparr>t_requests := [\<lparr>q_id = 30, q_group = 6, q_nickname = str ''bob'', q_token_hash = [53],
                   q_status = Request_Pending, q_requested_at = 1001\<rparr>]\<rparr>"
  unfolding sample_requested_def sample_approval_eq by code_simp

lemma sample_decide: "decide_join_request 6 30 True sample_requested = (sample_approved, Inr True)"
proof -
  have "snd (decide_join_request 6 30 True sample_requested) = Inr True"
    unfolding sample_requested_eq sample_approval_eq by code_simp
  then show ?thesis by (simp add: sample_approved_def prod_eq_iff)
qed

lemma sample_approved_eq: "sample_approved = sample_approval
  \<lparr>t_requests := [\<lparr>q_id = 30, q_group = 6, q_nickname = str ''bob'', q_token_hash = [53],
                   q_status = Request_Approved, q_requested_at = 1001\<rparr>]\<rparr>"
  unfolding sample_approved_def sample_requested_eq sample_approval_eq by code_simp

lemma sample_admit: "\<exists>t. authorize_join sample_externals 1005 13 (sample_entropy 6) 6 (Some sample_request_token)
    (str ''bob'') sample_approved = (sample_admitted, Inr (Allowed Member 13 (Some t)))"
proof -
  have "(case snd (authorize_join sample_externals 1005 13 (sample_entropy 6) 6 (Some sample_request_token)
    (str ''bob'') sample_approved) of Inr (Allowed role i t) \<Rightarrow> role = Member \<and> i = 13 \<and> t \<noteq> None | _ \<Rightarrow> False)"
    unfolding sample_approved_eq sample_approval_eq by code_simp
  then show ?thesis
    by (auto simp: sample_admitted_def prod_eq_iff split: sum.splits join_authorization.splits)
qed

text \<open>Rotations of the tokens of the invite group.\<close>

definition sample_member_rotated :: database where
  "sample_member_rotated = fst (rotate_group_token sample_externals 1006 (sample_entropy 7) 5 11 Member_Token sample_joined)"

definition sample_invite_rotated :: database where
  "sample_invite_rotated = fst (rotate_group_token sample_externals 1006 (sample_entropy 7) 5 10 Invite_Token sample_joined)"

definition sample_new_token :: "rstring \<Rightarrow> rstring" where
  "sample_new_token kind = (case generate_credential kind (sample_entropy 7) of Inr t \<Rightarrow> t | Inl _ \<Rightarrow> [])"

lemma sample_rotate_member:
  "rotate_group_token sample_externals 1006 (sample_entropy 7) 5 11 Member_Token sample_joined
     = (sample_member_rotated, Inr (sample_new_token (str ''member'')))"
proof -
  have "snd (rotate_group_token sample_externals 1006 (sample_entropy 7) 5 11 Member_Token sample_joined)
      = Inr (sample_new_token (str ''member''))"
    unfolding sample_joined_eq sample_created_eq by code_simp
  then show ?thesis by (simp add: sample_member_rotated_def prod_eq_iff)
qed

lemma sample_rotate_invite:
  "rotate_group_token sample_externals 1006 (sample_entropy 7) 5 10 Invite_Token sample_joined
     = (sample_invite_rotated, Inr (sample_new_token (str ''invite'')))"
proof -
  have "snd (rotate_group_token sample_externals 1006 (sample_entropy 7) 5 10 Invite_Token sample_joined)
      = Inr (sample_new_token (str ''invite''))"
    unfolding sample_joined_eq sample_created_eq by code_simp
  then show ?thesis by (simp add: sample_invite_rotated_def prod_eq_iff)
qed

lemma sample_new_hashes:
  "credential_hash sample_externals (sample_new_token (str ''member'')) = Inr [55]"
  "credential_hash sample_externals (sample_new_token (str ''invite'')) = Inr [55]"
  by code_simp+

end
