(* ===== verification/Store_Theorems.thy ===== *)
theory Store_Theorems
  imports Store_Samples
begin

text \<open>
  The properties of the gateway store: its invariants over every run, who \<open>authorize_join\<close> lets in,
  what a ban, a rotation and a room membership change mean, and that messages come back from the
  history as they were appended.
\<close>

section \<open>Invariants of every reachable store\<close>

text \<open>
  C12. Every call of a writing operation of \<open>GatewayStore\<close>, on whatever input, makes no change or a
  sequence of the guarded changes of the abstract store \<open>effect\<close>.
\<close>

theorem operations_refine_effects:
  "store_step X key d d' \<Longrightarrow> (effect X key)\<^sup>*\<^sup>* d d'"
  by (rule store_step_effects)

theorem operations_refine_effects_witness:
  "(effect sample_externals [1])\<^sup>*\<^sup>* sample_created sample_joined \<and> sample_created \<noteq> sample_joined"
proof
  have "store_step sample_externals [1] sample_created sample_joined"
    unfolding sample_joined_def by (rule step_authorize_join, rule prod.collapse [symmetric])
  then show "(effect sample_externals [1])\<^sup>*\<^sup>* sample_created sample_joined"
    by (rule operations_refine_effects)
qed (simp add: sample_joined_eq sample_created_eq)

text \<open>
  C2. In every reachable store the messages of a room are stored in the order they were appended
  under the sequence numbers 1, 2, 3, ... up to the room's next sequence number: no number is
  skipped or used twice.
\<close>

theorem reachable_logs_gapless:
  assumes "ct_eq_is_equality X" "aead_opens X" "reachable X key d" "r \<in> set (t_rooms d)"
  shows "map m_sequence (room_log d (r_group r) (r_id r)) = [1..r_next_sequence r - 1]"
  using reachable_store_inv [OF assms(1-3)] assms(4) by (auto simp: store_inv_def logs_gapless_def)

lemma sample_room_row: "\<lparr>r_id = str ''r1'', r_group = 5, r_name = str ''ops'',
    r_visibility = Private_Room, r_next_sequence = 2, r_created = 1002\<rparr> \<in> set (t_rooms sample_store)"
  by (simp add: sample_rows)

theorem reachable_logs_gapless_witness:
  "map m_sequence (room_log sample_store 5 (str ''r1'')) = [1..1]"
  using reachable_logs_gapless [OF sample_ct_eq sample_aead sample_store_reachable sample_room_row] by simp



text \<open>
  C10. In every reachable store a public room has no access list and a private room exactly one owner,
  and every group still has its public default room.
\<close>

theorem reachable_access_lists:
  assumes "ct_eq_is_equality X" "aead_opens X" "reachable X key d"
  shows "(\<forall>r\<in>set (t_rooms d). access_ok (r_visibility r) (access_rows d r)) \<and>
    (\<forall>g\<in>set (t_groups d). member_can_access_room d (g_id g) DEFAULT_ROOM_ID mid)"
proof
  have inv: "schema_ok d" "access_lists_ok d" "groups_have_general d"
    using reachable_store_inv [OF assms] by (auto simp: store_inv_def)
  show "\<forall>r\<in>set (t_rooms d). access_ok (r_visibility r) (access_rows d r)"
    using inv(2) by (simp add: access_lists_ok_def)
  show "\<forall>g\<in>set (t_groups d). member_can_access_room d (g_id g) DEFAULT_ROOM_ID mid"
    using inv(3) by (fastforce simp: groups_have_general_def member_can_access_room_def row_accessible_def find_None_iff)
qed

theorem reachable_access_lists_witness:
  "access_ok Private_Room (access_rows sample_store (last (t_rooms sample_store))) \<and>
   member_can_access_room sample_store 5 DEFAULT_ROOM_ID 77"
  using reachable_access_lists [OF sample_ct_eq sample_aead sample_store_reachable, of 77]
  by (simp add: sample_rows)



end
