(* ===== verification/Store_Admission.thy ===== *)
theory Store_Admission
  imports Store_Samples
begin

text \<open>
  Who gets into a group: what \<open>authorize_join\<close> grants and on which evidence, bans, the life of a join
  request, and what a token rotation does to the old and the new token.
\<close>

section \<open>Lookups by credential\<close>

lemma member_id_unique:
  "schema_ok d \<Longrightarrow> m \<in> set (t_members d) \<Longrightarrow> n \<in> set (t_members d) \<Longrightarrow> gm_id m = gm_id n \<Longrightarrow> m = n"
  by (auto simp: schema_ok_def members_ok_def intro: distinct_map_eqD [of gm_id])

lemma member_hash_unique:
  "schema_ok d \<Longrightarrow> m \<in> set (t_members d) \<Longrightarrow> n \<in> set (t_members d) \<Longrightarrow>
   gm_group m = gm_group n \<Longrightarrow> gm_hash m = gm_hash n \<Longrightarrow> m = n"
  by (auto simp: schema_ok_def members_ok_def member_key_def intro: distinct_map_eqD [of member_key])

definition presents :: "externals \<Rightarrow> rstring option \<Rightarrow> byte list \<Rightarrow> bool" where
  "presents X credential h \<longleftrightarrow> (\<exists>c. credential = Some c \<and> credential_hash X c = Inr h)"

lemma member_by_hash_iff:
  assumes "schema_ok d"
  shows "member_by_hash d gid h = Some m \<longleftrightarrow> m \<in> set (t_members d) \<and> gm_group m = gid \<and> gm_hash m = h"
proof -
  have "find (\<lambda>n. gm_group n = gm_group m \<and> gm_hash n = gm_hash m) (t_members d) = Some m"
    if "m \<in> set (t_members d)"
    using assms that by (intro find_by_key [where key = member_key])
      (auto simp: schema_ok_def members_ok_def member_key_def)
  then show ?thesis unfolding member_by_hash_def by (auto dest: find_eq_Some_filter)
qed

lemma request_by_hash_iff:
  assumes "schema_ok d"
  shows "request_by_hash d gid h = Some q \<longleftrightarrow> q \<in> set (t_requests d) \<and> q_group q = gid \<and> q_token_hash q = h"
proof -
  have "find (\<lambda>r. q_group r = q_group q \<and> q_token_hash r = q_token_hash q) (t_requests d) = Some q"
    if "q \<in> set (t_requests d)"
    using assms that by (intro find_by_key [where key = request_key])
      (auto simp: schema_ok_def requests_ok_def request_key_def)
  then show ?thesis unfolding request_by_hash_def by (auto dest: find_eq_Some_filter)
qed

text \<open>The branches of \<open>authorize_join\<close> on a credential that hashes.\<close>

lemma authorize_join_member:
  assumes "find_group d gid = Some g" "credential_hash X c = Inr h" "member_by_hash d gid h = Some m"
  shows "authorize_join X now mid entropy gid (Some c) nick d = authorize_known_member now gid nick m d"
  using assms by (simp add: authorize_join_def)

lemma authorize_join_stranger:
  assumes "find_group d gid = Some g" "credential_hash X c = Inr h" "member_by_hash d gid h = None"
    "\<not> both_match X (Some h) (g_admin_hash g)"
  shows "authorize_join X now mid entropy gid (Some c) nick d =
    (case g_access g of
       Public \<Rightarrow> (d, Inr Invalid_Credential)
     | Invite \<Rightarrow> if both_match X (Some h) (g_invite_hash g)
         then issue_member X now mid entropy gid nick d else (d, Inr Invalid_Credential)
     | Approval \<Rightarrow> authorize_approval X now mid entropy gid (Some c) nick d)"
  using assms by (simp add: authorize_join_def split: group_access_mode.splits)

lemma authorize_approval_hash:
  "credential_hash X c = Inr h \<Longrightarrow> request_by_hash d gid h = None \<Longrightarrow>
     authorize_approval X now mid entropy gid (Some c) nick d = (d, Inr Invalid_Credential)"
  "credential_hash X c = Inr h \<Longrightarrow> request_by_hash d gid h = Some q \<Longrightarrow> q_status q = Request_Pending \<Longrightarrow>
     authorize_approval X now mid entropy gid (Some c) nick d = (d, Inr (Auth_Pending (q_id q) c))"
  "credential_hash X c = Inr h \<Longrightarrow> request_by_hash d gid h = Some q \<Longrightarrow> q_status q = Request_Rejected \<Longrightarrow>
     authorize_approval X now mid entropy gid (Some c) nick d = (d, Inr Auth_Rejected)"
  by (simp_all add: authorize_approval_def)

lemma issue_member_Inr:
  assumes "issue_member X now mid entropy gid nick d = (d', Inr auth)"
  obtains (full) "auth = Member_Limit" "d' = d" "rows_matching (\<lambda>m. gm_group m = gid) (t_members d) \<ge> MAX_GROUP_MEMBERS"
    | (issued) token h where "auth = Allowed Member mid (Some token)"
        "generate_credential (str ''member'') entropy = Inr token" "credential_hash X token = Inr h"
        "d' = insert_member_row \<lparr>gm_id = mid, gm_group = gid, gm_hash = h, gm_role = Member, gm_status = Active,
            gm_nickname = nick, gm_created = now, gm_updated = now\<rparr> d" "schema_ok d'"
        "rows_matching (\<lambda>m. gm_group m = gid) (t_members d) < MAX_GROUP_MEMBERS"
  using assms
  by (auto simp: issue_member_def insert_group_member_Inr split: if_splits sum.splits)

lemma issue_member_Inl: "issue_member X now mid entropy gid nick d = (d', Inl e) \<Longrightarrow> d' = d"
  by (auto simp: issue_member_def split: if_splits sum.splits)

lemma authorize_known_member_Allowed:
  "authorize_known_member now gid nick m d = (d', Inr (Allowed role i token)) \<Longrightarrow>
     gm_status m = Active \<and> role = gm_role m \<and> i = gm_id m \<and> token = None"
  by (cases "gm_status m") (auto simp: authorize_known_member_def split: sum.splits)

section \<open>Grants\<close>

text \<open>The evidence of a new membership, by the access mode of the group.\<close>

fun new_member_evidence ::
  "externals \<Rightarrow> database \<Rightarrow> database \<Rightarrow> group_row \<Rightarrow> rstring option \<Rightarrow> group_access_mode \<Rightarrow> bool" where
  "new_member_evidence X d d' g credential Public \<longleftrightarrow> credential = None"
| "new_member_evidence X d d' g credential Invite \<longleftrightarrow>
     (\<exists>h. presents X credential h \<and> both_match X (Some h) (g_invite_hash g))"
| "new_member_evidence X d d' g credential Approval \<longleftrightarrow>
     (\<exists>h q. presents X credential h \<and> q \<in> set (t_requests d) \<and> q_group q = g_id g \<and> q_token_hash q = h \<and>
        q_status q = Request_Approved \<and> q \<notin> set (t_requests d'))"

lemma authorize_approval_Allowed:
  assumes ok: "schema_ok d" and gid: "g_id g = gid"
    and run: "authorize_approval X now mid entropy gid credential nick d = (d', Inr (Allowed role i token))"
  shows "role = Member \<and> i = mid \<and> token \<noteq> None \<and> new_member_evidence X d d' g credential Approval"
proof -
  from run obtain c h q d1 where c: "credential = Some c" "credential_hash X c = Inr h"
      and q: "request_by_hash d gid h = Some q" "q_status q = Request_Approved"
      and d1: "issue_member X now mid entropy gid nick d = (d1, Inr (Allowed role i token))"
      and d': "d' = delete_requests (\<lambda>r. q_group r = gid \<and> q_id r = q_id q) d1"
    by (auto simp: authorize_approval_def execute_Inr
        split: option.splits sum.splits request_status.splits prod.splits)
  from q(1) ok have row: "q \<in> set (t_requests d)" "q_group q = gid" "q_token_hash q = h"
    by (auto simp: request_by_hash_iff)
  from d1 have "role = Member" "i = mid" "token \<noteq> None"
    by (auto elim: issue_member_Inr)
  moreover have "q \<notin> set (t_requests d')" by (simp add: d' delete_requests_def row)
  ultimately show ?thesis using c q(2) row gid by (auto simp: presents_def)
qed

text \<open>
  C1. A join is granted only on evidence: the credential of an active member of this group (who keeps
  role and identity, and gets no token), the group's administrator token, or, for a new member with a
  fresh token, what the group's access mode asks for: no credential in a public group, the invite
  token in an invite group, an approved request in an approval group, which the join uses up.
\<close>

theorem join_grants:
  assumes ok: "schema_ok d" and g: "find_group d gid = Some g"
    and run: "authorize_join X now mid entropy gid credential nick d = (d', Inr (Allowed role i token))"
  shows "(\<exists>m\<in>set (t_members d). presents X credential (gm_hash m) \<and> gm_group m = gid \<and> gm_status m = Active \<and>
            role = gm_role m \<and> i = gm_id m \<and> token = None) \<or>
         (\<exists>h. presents X credential h \<and> both_match X (Some h) (g_admin_hash g) \<and> role = Admin \<and> i = mid \<and> token = None) \<or>
         (role = Member \<and> i = mid \<and> token \<noteq> None \<and> new_member_evidence X d d' g credential (g_access g))"
proof (cases credential)
  case None
  with run g show ?thesis
    by (auto simp: authorize_join_def both_match_def authorize_approval_def split: group_access_mode.splits elim: issue_member_Inr)
next
  case (Some c)
  with run g obtain h where h: "credential_hash X c = Inr h"
    by (auto simp: authorize_join_def transpose_option_def split: sum.splits)
  then have shown: "presents X credential h" by (simp add: presents_def Some)
  have gid: "g_id g = gid" using g ok by (simp add: find_group_iff)
  show ?thesis
  proof (cases "member_by_hash d gid h")
    case (Some m)
    then have "m \<in> set (t_members d)" "gm_group m = gid" "gm_hash m = h" using ok by (auto simp: member_by_hash_iff)
    moreover from run have "authorize_known_member now gid nick m d = (d', Inr (Allowed role i token))"
      by (simp add: \<open>credential = Some c\<close> authorize_join_member [OF g h Some])
    then have "gm_status m = Active" "role = gm_role m" "i = gm_id m" "token = None"
      by (auto dest: authorize_known_member_Allowed)
    ultimately show ?thesis using shown by blast
  next
    case stranger: None
    show ?thesis
    proof (cases "both_match X (Some h) (g_admin_hash g)")
      case True
      with run g h stranger Some shown show ?thesis
        by (auto simp: authorize_join_def split: sum.splits)
    next
      case False
      with run Some authorize_join_stranger [OF g h stranger False] show ?thesis
        using shown authorize_approval_Allowed [OF ok gid, of X now mid entropy credential nick]
        by (auto split: group_access_mode.splits if_splits elim: issue_member_Inr)
    qed
  qed
qed

text \<open>The single groups of the sample stores.\<close>

lemma sample_find_group:
  "find_group sample_created 5 = Some \<lparr>g_id = 5, g_name = str ''lab'', g_access = Invite,
     g_admin_hash = Some [49], g_invite_hash = Some [50], g_created = 1000\<rparr>"
  by (simp add: find_group_def sample_created_eq)

theorem join_grants_witness:
  "new_member_evidence sample_externals sample_created sample_joined (hd (t_groups sample_created))
     (Some sample_invite) Invite"
  using join_grants [OF sample_schema_ok(1) sample_find_group sample_join]
  by (auto simp: sample_created_eq)

section \<open>Bans\<close>

lemma execute_update_members:
  assumes "schema_ok d" "\<And>m. P m \<Longrightarrow> gm_id (f m) = gm_id m"
    "\<And>m. P m \<Longrightarrow> gm_group (f m) = gm_group m" "\<And>m. P m \<Longrightarrow> gm_hash (f m) = gm_hash m"
  shows "execute d (update_members P f) = Inr (update_members P f d)"
  using schema_ok_update_members [OF assms] by (rule execute_succeeds)

text \<open>
  C5. Banning a member who is not an administrator succeeds, and from then on every join with that
  member's credential is answered with the ban and changes nothing; lifting the ban lets the same
  credential in again under the same role and identity.
\<close>

theorem ban_shuts_out:
  assumes ok: "schema_ok d" and m: "m \<in> set (t_members d)" "gm_group m = gid" "gm_role m \<noteq> Admin"
    and c: "credential_hash X c = Inr (gm_hash m)"
    and run: "set_member_banned now gid (gm_id m) banned d = (d', r)"
  shows "r = Inr True \<and>
    (if banned then authorize_join X now2 mid entropy gid (Some c) nick d' = (d', Inr Auth_Banned)
     else snd (authorize_join X now2 mid entropy gid (Some c) nick d') = Inr (Allowed (gm_role m) (gm_id m) None))"
proof -
  let ?P = "\<lambda>n. gm_group n = gid \<and> gm_id n = gm_id m \<and> gm_role n \<noteq> Admin"
  let ?f = "\<lambda>n. n\<lparr>gm_status := if banned then Banned else Active, gm_updated := now\<rparr>"
  have d': "d' = update_members ?P ?f d" and r: "r = Inr (rows_matching ?P (t_members d) = 1)"
    using run by (auto simp: set_member_banned_def Let_def execute_update_members [OF ok])
  have ok': "schema_ok d'" unfolding d' by (rule schema_ok_update_members [OF ok]) simp_all
  have "rows_matching ?P (t_members d) = 1"
    using ok m by (intro rows_matching_unique [of gm_id]) (auto simp: schema_ok_def members_ok_def)
  then have done_: "r = Inr True" using r by simp
  have "?f m \<in> set (t_members d')"
    using update_where_mem [OF m(1), of ?P ?f] m by (simp add: d' update_members_def)
  then have found: "member_by_hash d' gid (gm_hash m) = Some (?f m)"
    using m by (simp add: member_by_hash_iff [OF ok'])
  obtain g where g: "find_group d' gid = Some g"
    using schema_members_group [OF ok m(1)] m(2) find_group_iff [OF ok', of gid]
    by (auto simp: d' update_members_def)
  show ?thesis
    using done_ authorize_join_member [OF g c found, of now2 mid entropy nick] execute_update_members [OF ok']
    by (simp add: authorize_known_member_def)
qed

theorem ban_shuts_out_witness:
  "\<exists>d'. set_member_banned 1002 5 11 True sample_joined = (d', Inr True) \<and>
     authorize_join sample_externals 1003 40 None 5 (Some sample_member_token) (str ''ada'') d' = (d', Inr Auth_Banned)"
  using ban_shuts_out [OF sample_schema_ok(2), of "last (t_members sample_joined)" 5 sample_externals
      sample_member_token 1002 True _ _ 1003 40 None "str ''ada''"]
  by (cases "set_member_banned 1002 5 11 True sample_joined")
    (simp add: sample_rows sample_hashes)

text \<open>
  The administrator of a group cannot be banned: the request changes no row and reports it.
\<close>

theorem admin_not_bannable:
  assumes ok: "schema_ok d" and m: "m \<in> set (t_members d)" "gm_role m = Admin"
  shows "set_member_banned now gid (gm_id m) banned d = (d, Inr False)"
proof -
  let ?P = "\<lambda>n. gm_group n = gid \<and> gm_id n = gm_id m \<and> gm_role n \<noteq> Admin"
  have none: "\<forall>n\<in>set (t_members d). \<not> ?P n"
    using ok m by (auto simp: schema_ok_def members_ok_def dest: distinct_map_eqD [of gm_id])
  then have "update_members ?P f d = d" for f
    by (simp add: update_members_def update_where_none)
  moreover have "rows_matching ?P (t_members d) = 0" using none by (simp add: rows_matching_def filter_empty_conv)
  ultimately show ?thesis using ok by (simp add: set_member_banned_def Let_def execute_def)
qed

theorem admin_not_bannable_witness: "set_member_banned 1002 5 10 True sample_joined = (sample_joined, Inr False)"
  using admin_not_bannable [OF sample_schema_ok(2), of "hd (t_members sample_joined)" 1002 5 True]
  by (simp add: sample_rows)

section \<open>Join requests\<close>

lemma create_join_request_Inr:
  assumes "create_join_request X now rid entropy gid nick d = (d', Inr (rid', token))"
  obtains h g where "rid' = rid" "generate_credential (str ''request'') entropy = Inr token"
    "credential_hash X token = Inr h" "find_group d gid = Some g" "g_access g = Approval" "schema_ok d'"
    "d' = insert_request_row \<lparr>q_id = rid, q_group = gid, q_nickname = nick, q_token_hash = h,
            q_status = Request_Pending, q_requested_at = now\<rparr> d"
  using assms unfolding create_join_request_def transaction_Inr
  by (auto simp: chain_simps split: if_splits)

definition decided_status :: "bool \<Rightarrow> request_status" where
  "decided_status approve = (if approve then Request_Approved else Request_Rejected)"

text \<open>What a decision of an open request does to the store.\<close>

lemma decide_join_request_open:
  assumes ok: "schema_ok d" and q: "q \<in> set (t_requests d)" "q_status q = Request_Pending"
    and run: "decide_join_request (q_group q) (q_id q) approve d = (d', r)"
  shows "r = Inr True \<and> schema_ok d' \<and> q\<lparr>q_status := decided_status approve\<rparr> \<in> set (t_requests d') \<and>
    t_groups d' = t_groups d \<and> t_members d' = t_members d"
proof -
  let ?hit = "\<lambda>r. q_group r = q_group q \<and> q_id r = q_id q \<and> q_status r = Request_Pending"
  let ?f = "\<lambda>q. q\<lparr>q_status := decided_status approve\<rparr>"
  have d': "d' = update_requests ?hit ?f d" "schema_ok d'" "r = Inr (rows_matching ?hit (t_requests d) = 1)"
    using run schema_ok_update_requests [OF ok, of ?hit ?f]
    by (auto simp: decide_join_request_def Let_def execute_def decided_status_def)
  moreover have "rows_matching ?hit (t_requests d) = 1"
    using ok q by (intro rows_matching_unique [of q_id]) (auto simp: schema_ok_def requests_ok_def)
  moreover have "?f q \<in> set (t_requests d')"
    using update_where_mem [OF q(1), of ?hit ?f] q(2) by (simp add: d'(1) update_requests_def)
  ultimately show ?thesis by (simp add: update_requests_def)
qed

text \<open>An approved request admits at most once.\<close>

lemma authorize_approval_consumes:
  assumes ok: "schema_ok d" and h: "credential_hash X token = Inr h"
    and q: "request_by_hash d gid h = Some q" "q_status q = Request_Approved"
    and run: "authorize_approval X now mid entropy gid (Some token) nick d = (d', Inr auth)"
  shows "(auth = Member_Limit \<or> (\<exists>t. auth = Allowed Member mid (Some t))) \<and> request_by_hash d' gid h = None"
proof -
  from run q h obtain d1 where i: "issue_member X now mid entropy gid nick d = (d1, Inr auth)"
      and d': "d' = delete_requests (\<lambda>r. q_group r = gid \<and> q_id r = q_id q) d1"
    by (auto simp: authorize_approval_def execute_Inr split: prod.splits sum.splits)
  have "t_requests d1 = t_requests d" using i by (auto elim!: issue_member_Inr simp: insert_defs)
  moreover have "r = q" if "r \<in> set (t_requests d)" "q_group r = gid" "q_token_hash r = h" for r
    using q(1) that request_by_hash_iff [OF ok, of gid h r] by simp
  ultimately have "request_by_hash d' gid h = None"
    by (auto simp: d' delete_requests_def request_by_hash_def find_eq_None)
  then show ?thesis using i by (auto elim: issue_member_Inr)
qed

text \<open>
  A join request lives from its creation to one decision: its token is answered as pending, the
  pending request can be decided, and then the token is either rejected for good or admits one new
  member, after which the request is gone.
\<close>

theorem join_request_life:
  assumes ok: "schema_ok d" and made: "create_join_request X now rid entropy gid nick d = (d1, Inr (rid', token))"
    and h: "credential_hash X token = Inr h" and fresh: "member_by_hash d gid h = None"
    and g: "find_group d gid = Some g" "\<not> both_match X (Some h) (g_admin_hash g)"
    and decided: "decide_join_request gid rid approve d1 = (d2, r)"
    and join: "authorize_join X now1 mid entropy1 gid (Some token) nick1 d2 = (d3, Inr auth)"
  shows "authorize_join X now1 mid entropy1 gid (Some token) nick1 d1 = (d1, Inr (Auth_Pending rid token)) \<and>
    r = Inr True \<and>
    (if approve then (auth = Member_Limit \<or> (\<exists>t. auth = Allowed Member mid (Some t))) \<and> request_by_hash d3 gid h = None
     else auth = Auth_Rejected \<and> d3 = d2)"
proof -
  let ?q = "\<lparr>q_id = rid, q_group = gid, q_nickname = nick, q_token_hash = h,
            q_status = Request_Pending, q_requested_at = now\<rparr>"
  from made h g have mode: "g_access g = Approval" and ok1: "schema_ok d1" and d1: "d1 = insert_request_row ?q d"
    by (auto elim!: create_join_request_Inr)
  have q: "?q \<in> set (t_requests d1)" by (simp add: d1 insert_defs)
  from decide_join_request_open [OF ok1 q] decided
  have d2: "r = Inr True" "schema_ok d2" "?q\<lparr>q_status := decided_status approve\<rparr> \<in> set (t_requests d2)"
      "t_groups d2 = t_groups d" "t_members d2 = t_members d"
    by (auto simp: d1 insert_defs)
  have same: "find_group d1 = find_group d" "member_by_hash d1 = member_by_hash d"
      "find_group d2 = find_group d" "member_by_hash d2 = member_by_hash d"
    by (simp_all add: d1 d2 insert_defs find_group_def member_by_hash_def fun_eq_iff)
  have by_hash: "request_by_hash d1 gid h = Some ?q"
      "request_by_hash d2 gid h = Some (?q\<lparr>q_status := decided_status approve\<rparr>)"
    using q d2(3) by (simp_all add: request_by_hash_iff [OF ok1] request_by_hash_iff [OF d2(2)])
  have stranger: "authorize_join X now1 mid entropy1 gid (Some token) nick1 e
      = authorize_approval X now1 mid entropy1 gid (Some token) nick1 e" if "e \<in> {d1, d2}" for e
    using that same fresh g mode h by (auto simp: authorize_join_stranger [of _ gid g X token h])
  have pending: "authorize_join X now1 mid entropy1 gid (Some token) nick1 d1 = (d1, Inr (Auth_Pending rid token))"
    using authorize_approval_hash(2) [OF h by_hash(1)] by (simp add: stranger)
  show ?thesis
  proof (cases approve)
    case True
    with join by_hash(2) pending d2(1) stranger [of d2] show ?thesis
      using authorize_approval_consumes [OF d2(2) h by_hash(2), of now1 mid entropy1 nick1 d3 auth]
      by (simp add: decided_status_def)
  next
    case False
    with join pending d2(1) stranger [of d2] show ?thesis
      using authorize_approval_hash(3) [OF h by_hash(2), of now1 mid entropy1 nick1]
      by (auto simp: decided_status_def)
  qed
qed

lemma sample_approval_group:
  "find_group sample_approval 6 = Some \<lparr>g_id = 6, g_name = str ''club'', g_access = Approval,
     g_admin_hash = Some [52], g_invite_hash = None, g_created = 1000\<rparr>"
  by (simp add: find_group_def sample_approval_eq)

theorem join_request_life_witness:
  "\<exists>t. authorize_join sample_externals 1005 13 (sample_entropy 6) 6 (Some sample_request_token)
    (str ''bob'') sample_approved = (sample_admitted, Inr (Allowed Member 13 (Some t))) \<and>
    request_by_hash sample_admitted 6 [53] = None"
proof -
  obtain t where t: "authorize_join sample_externals 1005 13 (sample_entropy 6) 6 (Some sample_request_token)
    (str ''bob'') sample_approved = (sample_admitted, Inr (Allowed Member 13 (Some t)))"
    using sample_admit by blast
  have "member_by_hash sample_approval 6 [53] = None"
    by (simp add: member_by_hash_def sample_approval_eq)
  moreover have "\<not> both_match sample_externals (Some [53]) (Some [52])"
    by (simp add: both_match_def hash_matches_iff [OF sample_ct_eq])
  ultimately show ?thesis
    using join_request_life [OF sample_schema_ok(5) sample_request sample_hashes(4) _ sample_approval_group _
        sample_decide t] t
    by simp
qed

section \<open>Token rotation\<close>

lemma rotate_group_token_Inr:
  assumes "rotate_group_token X now entropy gid actor kind d = (d', Inr token)"
  obtains h m where "credential_hash X token = Inr h" "rotation_statements kind now gid actor h d = Inr d'"
    "m \<in> set (t_members d)" "gm_group m = gid" "gm_id m = actor" "gm_status m = Active"
    "rotation_permitted kind (Some (gm_role m))"
proof -
  let ?actor = "find (\<lambda>m. gm_group m = gid \<and> gm_id m = actor \<and> gm_status m = Active) (t_members d)"
  from assms have p: "rotation_permitted kind (map_option gm_role ?actor)"
    by (auto simp: rotate_group_token_def Let_def split: if_splits)
  then obtain m where m: "?actor = Some m" by (cases ?actor; cases kind) auto
  from p assms obtain h where "credential_hash X token = Inr h" "rotation_statements kind now gid actor h d = Inr d'"
    by (auto simp: rotate_group_token_def Let_def transaction_Inr chain_simps)
  with p m that show thesis by (auto dest: find_eq_Some_filter)
qed

text \<open>
  Rotating a member token replaces it: the new token is answered as the same member, and the old
  one is no longer any membership's credential.
\<close>

theorem member_rotation_replaces:
  assumes ok: "schema_ok d" and m: "m \<in> set (t_members d)" "gm_group m = gid"
    and run: "rotate_group_token X now entropy gid (gm_id m) Member_Token d = (d', Inr new)"
    and h: "credential_hash X new = Inr h" "h \<noteq> gm_hash m"
  shows "member_by_hash d' gid (gm_hash m) = None \<and>
    snd (authorize_join X now2 mid entropy2 gid (Some new) nick d') = Inr (Allowed Member (gm_id m) None)"
proof -
  let ?P = "\<lambda>n. gm_group n = gid \<and> gm_id n = gm_id m \<and> gm_role n = Member \<and> gm_status n = Active"
  let ?f = "\<lambda>n. n\<lparr>gm_hash := h, gm_updated := now\<rparr>"
  from run h obtain n where n: "n \<in> set (t_members d)" "gm_id n = gm_id m" "gm_status n = Active" "gm_role n = Member"
      and st: "rotation_statements Member_Token now gid (gm_id m) h d = Inr d'"
    by (elim rotate_group_token_Inr) auto
  from n m have "n = m" by (auto intro: member_id_unique [OF ok])
  with n have Pm: "?P m" using m by simp
  from st have d': "d' = update_members ?P ?f d" "schema_ok d'" by (auto simp: chain_simps Let_def split: if_splits)
  have "?f m \<in> set (t_members d')" using update_where_mem [OF m(1), of ?P ?f] Pm by (simp add: d'(1) update_members_def)
  then have found: "member_by_hash d' gid h = Some (?f m)" using m by (simp add: member_by_hash_iff [OF d'(2)])
  have "gm_hash n' \<noteq> gm_hash m" if "n' \<in> set (t_members d')" "gm_group n' = gid" for n'
  proof -
    from that(1) obtain k where k: "k \<in> set (t_members d)" "n' = (if ?P k then ?f k else k)"
      by (auto simp: d'(1) update_members_def elim: update_whereE)
    show ?thesis
    proof (cases "?P k")
      case False
      with k that(2) have "n' = k" "gm_group k = gm_group m" "k \<noteq> m" using Pm m by auto
      with k(1) m(1) show ?thesis by (auto dest: member_hash_unique [OF ok])
    qed (use k h in simp)
  qed
  then have "member_by_hash d' gid (gm_hash m) = None"
    by (auto simp: member_by_hash_def find_eq_None)
  moreover obtain g where "find_group d' gid = Some g"
    using schema_members_group [OF ok m(1)] m(2) find_group_iff [OF d'(2), of gid] by (auto simp: d'(1) update_members_def)
  ultimately show ?thesis
    using Pm execute_update_members [OF d'(2)] by (simp add: authorize_join_member [OF _ h(1) found] authorize_known_member_def)
qed

theorem member_rotation_replaces_witness:
  "member_by_hash sample_member_rotated 5 [51] = None"
  using member_rotation_replaces [OF sample_schema_ok(2), of "last (t_members sample_joined)" 5,
      where X = sample_externals and now = 1006 and entropy = "sample_entropy 7"
        and d' = sample_member_rotated and new = "sample_new_token (str ''member'')"]
    sample_rotate_member sample_new_hashes(1)
  by (simp add: sample_joined_eq sample_created_eq)

text \<open>
  Rotating the invite token replaces it: a newcomer who presents the new token is let in as a new
  member, and any other token of a newcomer, the old invite token included, is refused without a
  change.
\<close>

theorem invite_rotation_replaces:
  assumes ct: "ct_eq_is_equality X" and ok: "schema_ok d" and g: "find_group d gid = Some g"
    and run: "rotate_group_token X now entropy gid actor Invite_Token d = (d', Inr new)"
    and c: "credential_hash X c = Inr h" "member_by_hash d gid h = None" "g_admin_hash g \<noteq> Some h"
  shows "authorize_join X now2 mid entropy2 gid (Some c) nick d' =
    (if credential_hash X new = Inr h then issue_member X now2 mid entropy2 gid nick d'
     else (d', Inr Invalid_Credential))"
proof -
  let ?P = "\<lambda>g. g_id g = gid \<and> g_access g = Invite" and ?f = "\<lambda>h g. g\<lparr>g_invite_hash := Some h\<rparr>"
  from run obtain h' where h': "credential_hash X new = Inr h'"
      and st: "rotation_statements Invite_Token now gid actor h' d = Inr d'" by (rule rotate_group_token_Inr)
  from st have d': "d' = update_groups ?P (?f h') d" "schema_ok d'" and one: "rows_matching ?P (t_groups d) = 1"
    by (auto simp: chain_simps Let_def split: if_splits)
  from one obtain g0 where "g0 \<in> set (t_groups d)" "?P g0" using rows_matching_one by blast
  with g have Pg: "g \<in> set (t_groups d)" "?P g" by (auto simp: find_group_iff [OF ok] dest: group_row_unique [OF ok])
  have "?f h' g \<in> set (t_groups d')"
    using update_where_mem [OF Pg(1), of ?P "?f h'"] Pg(2) by (simp add: d'(1) update_groups_def)
  then have g': "find_group d' gid = Some (?f h' g)" using Pg(2) by (simp add: find_group_iff [OF d'(2)])
  have "member_by_hash d' gid h = None" using c(2) by (simp add: d'(1) update_groups_def member_by_hash_def)
  moreover have "\<not> both_match X (Some h) (g_admin_hash (?f h' g))"
    using c(3) ct by (auto simp: both_match_def hash_matches_iff split: option.splits)
  moreover have "both_match X (Some h) (Some h') \<longleftrightarrow> h = h'" using ct by (simp add: both_match_def hash_matches_iff)
  ultimately show ?thesis
    using Pg(2) h' by (auto simp: authorize_join_stranger [OF g' c(1)])
qed

theorem invite_rotation_replaces_witness:
  "authorize_join sample_externals 1007 41 (sample_entropy 8) 5 (Some sample_invite) (str ''eve'') sample_invite_rotated
     = (sample_invite_rotated, Inr Invalid_Credential)"
  using invite_rotation_replaces [OF sample_ct_eq sample_schema_ok(2) _ sample_rotate_invite sample_hashes(1)]
  by (simp add: sample_rows find_group_def member_by_hash_def sample_new_hashes)

text \<open>
  C4. In every reachable store a join is granted the administrator role only for the group's current
  administrator token, and it is then the group's one administrator membership that is answered.
\<close>

theorem admin_needs_current_token:
  assumes ct: "ct_eq_is_equality X" and aead: "aead_opens X" and reach: "reachable X key d"
    and g: "find_group d gid = Some g"
    and run: "authorize_join X now mid entropy gid credential nick d = (d', Inr (Allowed Admin i token))"
  shows "\<exists>h. g_admin_hash g = Some h \<and> presents X credential h \<and> token = None \<and>
    (\<exists>m\<in>set (t_members d). gm_group m = gid \<and> gm_role m = Admin \<and> gm_id m = i)"
proof -
  have inv: "schema_ok d" "admins_hold_token d" "groups_have_admin d"
    using reachable_store_inv [OF ct aead reach] by (auto simp: store_inv_def)
  have mem: "g \<in> set (t_groups d)" "g_id g = gid" using g by (auto simp: find_group_iff [OF inv(1)])
  from join_grants [OF inv(1) g run] consider
      (known) m where "m \<in> set (t_members d)" "presents X credential (gm_hash m)" "gm_group m = gid"
        "Admin = gm_role m" "i = gm_id m" "token = None"
    | (token) h where "presents X credential h" "both_match X (Some h) (g_admin_hash g)" "i = mid"
    by auto
  then show ?thesis
  proof cases
    case known
    from admin_holdsE [OF inv(2) known(1)] known(4) obtain g0 where "g0 \<in> set (t_groups d)" "admin_of g0 m" by metis
    with mem known(3) have "g_admin_hash g = Some (gm_hash m)"
      by (auto simp: admin_of_def dest: group_row_unique [OF inv(1)])
    with known show ?thesis by metis
  next
    case token
    then obtain c where c: "credential = Some c" "credential_hash X c = Inr h" by (auto simp: presents_def)
    have "member_by_hash d gid h \<noteq> None" using admin_branch_dead [OF ct inv(1,3) g token(2)] by blast
    then obtain m where m: "member_by_hash d gid h = Some m" by blast
    with run c have "gm_role m = Admin" "i = gm_id m" "token = None"
      by (auto simp: authorize_join_member [OF g] dest: authorize_known_member_Allowed)
    moreover have "g_admin_hash g = Some h"
      using token(2) ct by (auto simp: both_match_def hash_matches_iff split: option.splits)
    ultimately show ?thesis using m token(1) by (auto simp: member_by_hash_iff [OF inv(1)])
  qed
qed

theorem admin_needs_current_token_witness:
  "presents sample_externals (Some sample_admin_token) [49] \<and>
   (\<exists>m\<in>set (t_members sample_joined). gm_role m = Admin \<and> gm_id m = 10)"
proof -
  have g: "find_group sample_joined 5 = Some (hd (t_groups sample_joined))"
    by (simp add: find_group_def sample_rows)
  have m: "member_by_hash sample_joined 5 [49] = Some \<lparr>gm_id = 10, gm_group = 5, gm_hash = [49], gm_role = Admin,
      gm_status = Active, gm_nickname = str ''administrator'', gm_created = 1000, gm_updated = 1000\<rparr>"
    by (simp add: member_by_hash_def sample_rows)
  obtain d' where "authorize_join sample_externals 1007 42 None 5 (Some sample_admin_token) (str ''root'') sample_joined
      = (d', Inr (Allowed Admin 10 None))"
    by (simp add: authorize_join_member [OF g sample_hashes(3) m] authorize_known_member_def
        execute_update_members [OF sample_schema_ok(2)])
  from admin_needs_current_token [OF sample_ct_eq sample_aead sample_joined_reachable g this]
  show ?thesis by (auto simp: sample_rows)
qed

section \<open>Failed joins\<close>

lemma authorize_approval_Inl:
  assumes ok: "schema_ok d" and run: "authorize_approval X now mid entropy gid credential nick d = (d', Inl e)"
  shows "d' = d"
proof -
  have keep: "schema_ok d1" if "issue_member X now mid entropy gid nick d = (d1, Inr auth)" for d1 auth
    using that ok by (auto elim: issue_member_Inr)
  show ?thesis
    using run keep
    by (auto simp: authorize_approval_def execute_def schema_ok_delete_requests
        split: option.splits sum.splits request_status.splits prod.splits dest: issue_member_Inl)
qed

text \<open>
  A join that fails with an error leaves the store as it was, although it may have issued a
  membership before the request of an approval group was to be deleted.
\<close>

theorem failed_join_keeps_store:
  assumes ok: "schema_ok d" and run: "authorize_join X now mid entropy gid credential nick d = (d', Inl e)"
  shows "d' = d"
  using run
  by (auto simp: authorize_join_def authorize_known_member_def
      split: option.splits sum.splits if_splits group_access_mode.splits
      dest: issue_member_Inl authorize_approval_Inl [OF ok])

theorem failed_join_keeps_store_witness:
  "\<exists>e. authorize_join sample_externals 1007 43 None 5 (Some sample_invite) (str ''eve'') sample_joined
     = (sample_joined, Inl e)"
proof -
  have "\<exists>d' e. authorize_join sample_externals 1007 43 None 5 (Some sample_invite) (str ''eve'') sample_joined = (d', Inl e)"
    by (simp add: authorize_join_def sample_hashes sample_rows find_group_def member_by_hash_def both_match_def
        hash_matches_iff [OF sample_ct_eq] issue_member_def generate_credential_def rows_matching_def limits)
  then show ?thesis
    using failed_join_keeps_store [OF sample_schema_ok(2)] by metis
qed

text \<open>
  When the group is full, a join with an approved request is refused for that reason, and the
  approved request is deleted all the same: the applicant has to apply and be approved again.
\<close>

theorem full_group_loses_approval:
  assumes ok: "schema_ok d" and g: "find_group d gid = Some g" "g_access g = Approval"
    and c: "credential_hash X c = Inr h" "member_by_hash d gid h = None" "\<not> both_match X (Some h) (g_admin_hash g)"
    and q: "request_by_hash d gid h = Some q" "q_status q = Request_Approved"
    and full: "rows_matching (\<lambda>m. gm_group m = gid) (t_members d) \<ge> MAX_GROUP_MEMBERS"
  shows "\<exists>d'. authorize_join X now mid entropy gid (Some c) nick d = (d', Inr Member_Limit) \<and>
    t_members d' = t_members d \<and> request_by_hash d' gid h = None"
proof -
  have "authorize_join X now mid entropy gid (Some c) nick d
      = (delete_requests (\<lambda>r. q_group r = gid \<and> q_id r = q_id q) d, Inr Member_Limit)"
    using g c q full
    by (simp add: authorize_join_stranger authorize_approval_def issue_member_def execute_def
        schema_ok_delete_requests [OF ok])
  moreover from this have "request_by_hash (delete_requests (\<lambda>r. q_group r = gid \<and> q_id r = q_id q) d) gid h = None"
    using authorize_approval_consumes [OF ok c(1) q] authorize_join_stranger [OF g(1) c] g(2) by simp
  ultimately show ?thesis by (simp add: delete_requests_def)
qed

definition sample_full :: database where
  "sample_full = sample_approved
     \<lparr>t_members := map (\<lambda>i. \<lparr>gm_id = of_nat i, gm_group = 6, gm_hash = replicate (i + 2) 0, gm_role = Member,
        gm_status = Active, gm_nickname = str ''x'', gm_created = 1, gm_updated = 1\<rparr>) [0..<10000]\<rparr>"

lemma sample_full_ok: "schema_ok sample_full"
proof -
  have "inj_on (of_nat :: nat \<Rightarrow> uuid) {0..<10000}"
    by (rule inj_onI) (simp add: word_of_nat_eq_iff take_bit_nat_def)
  then show ?thesis
    by (auto simp: schema_ok_def table_ok_defs sample_full_def sample_approved_eq sample_approval_eq key_defs
        distinct_map comp_def inj_on_def list_all_iff i64_max_def dest: arg_cong [of _ _ length])
qed

theorem full_group_loses_approval_witness:
  "\<exists>d'. authorize_join sample_externals 1008 44 None 6 (Some sample_request_token) (str ''bob'') sample_full
      = (d', Inr Member_Limit) \<and> request_by_hash d' 6 [53] = None"
proof -
  have "member_by_hash sample_full 6 [53] = None"
    by (auto simp: member_by_hash_def find_eq_None sample_full_def dest: arg_cong [of _ _ length])
  moreover have "rows_matching (\<lambda>m. gm_group m = 6) (t_members sample_full) \<ge> MAX_GROUP_MEMBERS"
    by (simp add: rows_matching_def sample_full_def limits filter_map comp_def)
  ultimately show ?thesis
    using full_group_loses_approval [OF sample_full_ok _ _ sample_hashes(4), where g = "hd (t_groups sample_full)"
        and q = "hd (t_requests sample_full)" and gid = 6 and now = 1008 and mid = 44 and entropy = None and nick = "str ''bob''"]
    by (auto simp: find_group_def request_by_hash_def sample_full_def sample_approved_eq sample_approval_eq
        both_match_def hash_matches_iff [OF sample_ct_eq])
qed

end
