(* ===== verification/Message_Log.thy ===== *)
theory Message_Log
  imports Store_Samples "HOL-Library.Multiset"
begin

text \<open>
  The contents of a room as its readers see them. \<open>room_records\<close> is the abstract log of a room;
  \<open>append_message\<close> adds one record at its end, \<open>history\<close> and \<open>history_before\<close> read windows of it.
  The locale \<open>append_log\<close> is the contract the gateway relies on, proved here for the store.
\<close>

section \<open>The contract of an append-only log\<close>

locale append_log =
  fixes good :: "'s \<Rightarrow> bool"
    and records :: "'s \<Rightarrow> 'k \<Rightarrow> 'm list"
    and posts :: "'s \<Rightarrow> 'k \<Rightarrow> 'm \<Rightarrow> 's \<Rightarrow> bool"
  assumes posts_good: "good s \<Longrightarrow> posts s k m s' \<Longrightarrow> good s'"
    and posts_same: "good s \<Longrightarrow> posts s k m s' \<Longrightarrow> records s' k = records s k @ [m]"
    and posts_other: "good s \<Longrightarrow> posts s k m s' \<Longrightarrow> j \<noteq> k \<Longrightarrow> records s' j = records s j"
begin

text \<open>A sequence of posts to several keys.\<close>

fun posts_all :: "'s \<Rightarrow> ('k \<times> 'm) list \<Rightarrow> 's \<Rightarrow> bool" where
  "posts_all s [] s' \<longleftrightarrow> s' = s"
| "posts_all s ((k, m) # es) s' \<longleftrightarrow> (\<exists>s1. posts s k m s1 \<and> posts_all s1 es s')"

lemma posts_all_records:
  "posts_all s es s' \<Longrightarrow> good s \<Longrightarrow> good s' \<and> records s' k = records s k @ map snd (filter (\<lambda>e. fst e = k) es)"
proof (induction s es s' rule: posts_all.induct)
  case (2 s j m es s')
  then obtain s1 where s1: "posts s j m s1" "posts_all s1 es s'" by auto
  with 2 have "good s' \<and> records s' k = records s1 k @ map snd (filter (\<lambda>e. fst e = k) es)"
    using posts_good by blast
  then show ?case using posts_same [OF 2(3) s1(1)] posts_other [OF 2(3) s1(1)] by (cases "j = k") auto
qed simp

end

section \<open>Records of a room\<close>

definition room_records ::
  "externals \<Rightarrow> byte list \<Rightarrow> database \<Rightarrow> uuid \<Rightarrow> rstring \<Rightarrow> error + chat_record list" where
  "room_records X key d gid rid = collect_result (decode_row X key gid rid) (room_log d gid rid)"

text \<open>What the store keeps of a record: it forgets the sender's direct-chat address.\<close>

definition stored_form :: "chat_record \<Rightarrow> chat_record" where
  "stored_form m = m\<lparr>cr_sender := (cr_sender m)\<lparr>p_direct := None\<rparr>\<rparr>"

lemma collect_result_append:
  "collect_result f (xs @ ys) =
     (case collect_result f xs of Inl e \<Rightarrow> Inl e | Inr us \<Rightarrow>
       (case collect_result f ys of Inl e \<Rightarrow> Inl e | Inr vs \<Rightarrow> Inr (us @ vs)))"
  by (induction xs) (auto split: sum.splits)

lemma collect_result_rev: "collect_result f xs = Inr ys \<Longrightarrow> collect_result f (rev xs) = Inr (rev ys)"
  by (induction xs arbitrary: ys) (auto simp: collect_result_append split: sum.splits)

lemma collect_result_take: "collect_result f xs = Inr ys \<Longrightarrow> collect_result f (take n xs) = Inr (take n ys)"
  by (induction xs arbitrary: ys n) (auto simp: take_Cons split: sum.splits nat.splits)

lemma collect_result_filter:
  "collect_result f xs = Inr ys \<Longrightarrow> (\<And>x y. x \<in> set xs \<Longrightarrow> f x = Inr y \<Longrightarrow> Q y = P x) \<Longrightarrow>
   collect_result f (filter P xs) = Inr (filter Q ys)"
  by (induction xs arbitrary: ys) (fastforce split: sum.splits)+

lemma decode_row_stored:
  assumes "store_inv X key d" "m \<in> set (t_messages d)" "m_group m = gid" "m_room m = rid"
  obtains rec where "decode_row X key gid rid m = Inr rec" "cr_sequence rec = word_of_int (m_sequence m)"
    "cr_message_id rec = m_id m"
proof -
  from assms obtain body where body: "valid_str body"
      "decrypt_body X key gid rid (m_id m) (word_of_int (m_sequence m)) (m_body m) = Inr (utf8 body)"
    by (auto simp: store_inv_def bodies_open_def)
  moreover have "0 \<le> m_sequence m" using assms by (auto simp: store_inv_def schema_ok_def messages_ok_def list_all_iff)
  ultimately show thesis using that by (simp add: decode_row_def from_utf8_utf8)
qed

lemma room_log_sequences:
  assumes "store_inv X key d" "find_room d gid rid = Some r"
  shows "map m_sequence (room_log d gid rid) = [1..r_next_sequence r - 1]" "r_next_sequence r \<le> i64_max"
  using assms by (auto simp: store_inv_def logs_gapless_def find_room_iff schema_ok_def rooms_ok_def list_all_iff)

lemma room_log_bounds:
  assumes "store_inv X key d" "find_room d gid rid = Some r" "m \<in> set (room_log d gid rid)"
  shows "1 \<le> m_sequence m \<and> m_sequence m < i64_max"
proof -
  have "m_sequence m \<in> set (map m_sequence (room_log d gid rid))" using assms(3) by simp
  then show ?thesis using room_log_sequences [OF assms(1,2)] by simp
qed

lemma room_records_Inr:
  assumes inv: "store_inv X key d" and r: "find_room d gid rid = Some r"
  obtains rs where "room_records X key d gid rid = Inr rs"
    "map cr_sequence rs = map word_of_int [1..r_next_sequence r - 1]"
    "map cr_message_id rs = map m_id (room_log d gid rid)"
proof -
  let ?log = "room_log d gid rid"
  define rec where "rec m = (case decode_row X key gid rid m of Inr x \<Rightarrow> x)" for m
  have one: "decode_row X key gid rid m = Inr (rec m) \<and> cr_sequence (rec m) = word_of_int (m_sequence m) \<and>
      cr_message_id (rec m) = m_id m" if "m \<in> set ?log" for m
    using that by (auto simp: room_log_def rec_def elim: decode_row_stored [OF inv])
  then have "room_records X key d gid rid = Inr (map rec ?log)"
    unfolding room_records_def by (auto intro: collect_result_all_ok)
  moreover have "map cr_sequence (map rec ?log) = map word_of_int (map m_sequence ?log)"
      "map cr_message_id (map rec ?log) = map m_id ?log"
    using one by simp_all
  ultimately show thesis
    using that [of "map rec ?log"] by (simp only: room_log_sequences(1) [OF inv r])
qed

section \<open>Appending\<close>

lemma find_room_frame: "t_rooms d' = t_rooms d \<Longrightarrow> find_room d' = find_room d"
  by (simp add: find_room_def fun_eq_iff)

lemma decode_appended:
  assumes aead: "aead_opens X" and nonce: "\<And>n. nonce = Some n \<Longrightarrow> length n = NONCE_LENGTH" and valid: "valid_str text"
    and enc: "encrypt_body X key nonce gid rid mid (word_of_int n) (utf8 text) = Inr (m_body m)"
    and n: "0 \<le> n" and time: "uint sent_at \<le> i64_max"
    and m: "m = \<lparr>m_id = mid, m_group = gid, m_room = rid, m_sequence = n,
          m_sender_session = p_session_id sender, m_sender_member = p_member_id sender,
          m_sender_nickname = p_nickname sender,
          m_sent_at = (case i64_of_u64 sent_at of Some n \<Rightarrow> n | None \<Rightarrow> i64_max), m_body = m_body m\<rparr>"
  shows "decode_row X key gid rid m = Inr (stored_form \<lparr>cr_sequence = word_of_int n, cr_message_id = mid,
           cr_sender = sender, cr_room_id = rid, cr_sent_at_ms = sent_at, cr_text = text\<rparr>)"
proof -
  have "decrypt_body X key gid rid mid (word_of_int n) (m_body m) = Inr (utf8 text)"
    using decrypt_encrypt_body [OF aead nonce enc] .
  moreover have "u64_or_default (uint sent_at) = sent_at"
    by (simp add: u64_or_default_def u64_of_i64_def)
  ultimately show ?thesis
    using n time valid
    by (subst m) (simp add: decode_row_def from_utf8_utf8 stored_form_def i64_of_u64_def)
qed

text \<open>An append adds one record to its room and none to any other.\<close>

lemma append_message_records:
  assumes inv: "store_inv X key d" and aead: "aead_opens X"
    and nonce: "\<And>n. nonce = Some n \<Longrightarrow> length n = NONCE_LENGTH" and valid: "valid_str text"
    and time: "uint sent_at \<le> i64_max"
    and run: "append_message X key nonce gid rid mid sender sent_at text d = (d', Inr new)"
  shows "\<exists>rs. room_records X key d gid rid = Inr rs \<and> room_records X key d' gid rid = Inr (rs @ [stored_form new])"
    and "(gid', rid') \<noteq> (gid, rid) \<Longrightarrow> room_records X key d' gid' rid' = room_records X key d gid' rid'"
proof -
  from run obtain r d1 m where
    t: "take_sequence gid rid d = Inr (d1, r_next_sequence r)" and r: "find_room d gid rid = Some r"
      "0 \<le> r_next_sequence r" and d': "d' = insert_message_row m d1" and
    e: "encrypt_body X key nonce gid rid mid (word_of_int (r_next_sequence r)) (utf8 text) = Inr (m_body m)" and
    m: "m = \<lparr>m_id = mid, m_group = gid, m_room = rid, m_sequence = r_next_sequence r,
          m_sender_session = p_session_id sender, m_sender_member = p_member_id sender,
          m_sender_nickname = p_nickname sender,
          m_sent_at = (case i64_of_u64 sent_at of Some n \<Rightarrow> n | None \<Rightarrow> i64_max), m_body = m_body m\<rparr>" and
    new: "new = \<lparr>cr_sequence = word_of_int (r_next_sequence r), cr_message_id = mid, cr_sender = sender,
               cr_room_id = rid, cr_sent_at_ms = sent_at, cr_text = text\<rparr>"
    by (rule append_message_Inr)
  have mf: "m_group m = gid" "m_room m = rid" by (subst m, simp)+
  have msgs: "t_messages d' = t_messages d @ [m]"
    using t by (auto simp: d' insert_defs update_rooms_def elim: take_sequence_Inr)
  then have logs: "room_log d' gid' rid' = room_log d gid' rid' @ (if (gid', rid') = (gid, rid) then [m] else [])" for gid' rid'
    using mf by (simp add: room_log_def)
  from room_records_Inr [OF inv r(1)] obtain rs where "room_records X key d gid rid = Inr rs" .
  moreover have "decode_row X key gid rid m = Inr (stored_form new)"
    unfolding new by (rule decode_appended [OF aead nonce valid e r(2) time m])
  ultimately show "\<exists>rs. room_records X key d gid rid = Inr rs \<and> room_records X key d' gid rid = Inr (rs @ [stored_form new])"
    by (simp add: room_records_def logs collect_result_append)
  show "room_records X key d' gid' rid' = room_records X key d gid' rid'" if "(gid', rid') \<noteq> (gid, rid)"
    using that by (auto simp: room_records_def logs)
qed

section \<open>The store keeps the contract\<close>

definition log_ready :: "externals \<Rightarrow> byte list \<Rightarrow> database \<Rightarrow> bool" where
  "log_ready X key d \<longleftrightarrow> ct_eq_is_equality X \<and> aead_opens X \<and> store_inv X key d"

definition log_of :: "externals \<Rightarrow> byte list \<Rightarrow> database \<Rightarrow> uuid \<times> rstring \<Rightarrow> chat_record list" where
  "log_of X key d room = (case room_records X key d (fst room) (snd room) of Inr rs \<Rightarrow> rs | Inl _ \<Rightarrow> [])"

definition store_posts :: "externals \<Rightarrow> byte list \<Rightarrow> database \<Rightarrow> uuid \<times> rstring \<Rightarrow> chat_record \<Rightarrow> database \<Rightarrow> bool" where
  "store_posts X key d room m d' \<longleftrightarrow>
     (\<exists>nonce mid sender sent_at body new.
        append_message X key nonce (fst room) (snd room) mid sender sent_at body d = (d', Inr new) \<and>
        (\<forall>n. nonce = Some n \<longrightarrow> length n = NONCE_LENGTH) \<and> valid_str body \<and> uint sent_at \<le> i64_max \<and>
        m = stored_form new)"

lemma append_message_inv:
  assumes "ct_eq_is_equality X" "aead_opens X" "store_inv X key d" "valid_str body"
    "\<And>n. nonce = Some n \<Longrightarrow> length n = NONCE_LENGTH"
    "append_message X key nonce gid rid mid sender sent_at body d = (d', r)"
  shows "store_inv X key d'"
proof -
  have "effects X key d d'" by (rule append_message_effects [OF assms(6,4,5)])
  then show ?thesis using assms(3)
    by (induction rule: rtranclp_induct) (auto intro: store_inv_effect [OF assms(1,2)])
qed

interpretation store_log: append_log "log_ready X key" "log_of X key" "store_posts X key" for X key
proof
  fix d room m d' other
  assume good: "log_ready X key d" and "store_posts X key d room m d'"
  then obtain nonce mid sender sent_at body new where
    run: "append_message X key nonce (fst room) (snd room) mid sender sent_at body d = (d', Inr new)" and
    nonce: "\<And>n. nonce = Some n \<Longrightarrow> length n = NONCE_LENGTH" and valid: "valid_str body" and
    time: "uint sent_at \<le> i64_max" and m: "m = stored_form new"
    by (auto simp: store_posts_def)
  have inv: "store_inv X key d" and aead: "aead_opens X" and ct: "ct_eq_is_equality X"
    using good by (simp_all add: log_ready_def)
  note appended = append_message_records [OF inv aead nonce valid time run]
  show "log_ready X key d'"
    using append_message_inv [OF ct aead inv valid nonce run] aead ct by (simp add: log_ready_def)
  show "log_of X key d' room = log_of X key d room @ [m]"
    using appended(1) m by (auto simp: log_of_def)
  show "log_of X key d' other = log_of X key d other" if "other \<noteq> room"
    using appended(2) that by (auto simp: log_of_def prod_eq_iff)
qed

section \<open>Windows of the log\<close>

definition last_n :: "nat \<Rightarrow> 'a list \<Rightarrow> 'a list" where
  "last_n k xs = drop (length xs - k) xs"

lemma rev_take_rev: "rev (take k (rev xs)) = last_n k xs"
  by (simp add: take_rev last_n_def)

lemma room_log_sorted:
  assumes "store_inv X key d" "find_room d gid rid = Some r"
  shows "sorted_wrt (\<lambda>a b. m_sequence a < m_sequence b) (room_log d gid rid)"
proof -
  have "sorted_wrt (<) (map m_sequence (room_log d gid rid))"
    by (simp only: room_log_sequences(1) [OF assms]) simp
  then show ?thesis by (simp add: sorted_wrt_map)
qed

lemma newest_rows_eq:
  assumes "store_inv X key d" "find_room d gid rid = Some r"
  shows "newest_rows d gid rid below n = take n (rev (filter (\<lambda>m. below (m_sequence m)) (room_log d gid rid)))"
proof -
  let ?ms = "filter (\<lambda>m. below (m_sequence m)) (room_log d gid rid)"
  have rows: "filter (\<lambda>m. m_group m = gid \<and> m_room m = rid \<and> below (m_sequence m)) (t_messages d) = ?ms"
    by (simp add: room_log_def conj_ac)
  have wrt: "sorted_wrt (\<lambda>a b. m_sequence a < m_sequence b) ?ms"
    using room_log_sorted [OF assms] by (rule sorted_wrt_filter)
  then have "sorted (map (\<lambda>m. - m_sequence m) (rev ?ms))"
    unfolding sorted_map sorted_wrt_rev by (auto elim: sorted_wrt_mono_rel [rotated])
  moreover have "inj_on (\<lambda>m. - m_sequence m) (set ?ms)"
    using wrt strict_sorted_iff [of "map m_sequence ?ms"]
    by (auto simp: sorted_wrt_map distinct_map inj_on_def)
  ultimately have "sort_key (\<lambda>m. - m_sequence m) ?ms = rev ?ms"
    by (intro sort_key_inj_key_eq) simp_all
  then show ?thesis by (simp add: newest_rows_def rows)
qed

lemma history_eq:
  assumes inv: "store_inv X key d" and r: "find_room d gid rid = Some r"
    and rs: "room_records X key d gid rid = Inr rs"
  shows "history X key d gid rid limit = Inr (last_n (clamp 1 1000 limit) rs)"
proof -
  have "collect_result (decode_row X key gid rid) (take (clamp 1 1000 limit) (rev (room_log d gid rid)))
      = Inr (take (clamp 1 1000 limit) (rev rs))"
    using rs unfolding room_records_def by (intro collect_result_take collect_result_rev)
  then show ?thesis by (simp add: history_def newest_rows_eq [OF inv r] rev_take_rev)
qed

lemma history_before_eq:
  assumes inv: "store_inv X key d" and r: "find_room d gid rid = Some r"
    and rs: "room_records X key d gid rid = Inr rs"
  shows "history_before X key d gid rid before limit =
    Inr (last_n (clamp 1 1000 limit) (filter (\<lambda>m. cr_sequence m < before) rs))"
proof -
  let ?b = "case i64_of_u64 before of Some n \<Rightarrow> n | None \<Rightarrow> i64_max"
  have below: "(cr_sequence y < before) = (m_sequence x < ?b)"
    if x: "x \<in> set (room_log d gid rid)" "decode_row X key gid rid x = Inr y" for x y
  proof -
    have "x \<in> set (t_messages d)" "m_group x = gid" "m_room x = rid" using x(1) by (auto simp: room_log_def)
    with x(2) have y: "cr_sequence y = word_of_int (m_sequence x)" by (auto elim: decode_row_stored [OF inv])
    have "1 \<le> m_sequence x \<and> m_sequence x < i64_max" by (rule room_log_bounds [OF inv r x(1)])
    then have "uint (cr_sequence y) = m_sequence x" by (simp add: y uint_word_of_int i64_max_def)
    moreover have "m_sequence x < i64_max" using room_log_bounds [OF inv r x(1)] by simp
    ultimately show ?thesis
      by (auto simp: word_less_alt i64_of_u64_def)
  qed
  have "collect_result (decode_row X key gid rid) (filter (\<lambda>m. m_sequence m < ?b) (room_log d gid rid))
      = Inr (filter (\<lambda>m. cr_sequence m < before) rs)"
    using rs unfolding room_records_def by (rule collect_result_filter) (rule below)
  then have "collect_result (decode_row X key gid rid)
      (take (clamp 1 1000 limit) (rev (filter (\<lambda>m. m_sequence m < ?b) (room_log d gid rid))))
      = Inr (take (clamp 1 1000 limit) (rev (filter (\<lambda>m. cr_sequence m < before) rs)))"
    by (intro collect_result_take collect_result_rev)
  then show ?thesis by (simp add: history_before_def newest_rows_eq [OF inv r] rev_take_rev)
qed

section \<open>Properties\<close>

text \<open>
  C6. A message that the gateway stored is the last one of its room's history, exactly as it was
  posted (without the sender's direct-chat address), after what the room held before; the other
  rooms are unchanged.
\<close>

theorem appended_message_is_read:
  assumes "ct_eq_is_equality X" "aead_opens X" "reachable X key d" "valid_str body"
    "\<forall>n. nonce = Some n \<longrightarrow> length n = 24" "uint sent_at \<le> i64_max"
    and run: "append_message X key nonce gid rid mid sender sent_at body d = (d', Inr new)"
  shows "\<exists>older. room_records X key d gid rid = Inr older \<and>
    history X key d' gid rid limit = Inr (last_n (clamp 1 1000 limit) (older @ [stored_form new])) \<and>
    cr_text new = body \<and> cr_sender new = sender"
proof -
  have inv: "store_inv X key d" using reachable_store_inv [OF assms(1-3)] .
  have nonce: "\<And>n. nonce = Some n \<Longrightarrow> length n = NONCE_LENGTH" using assms(5) by (simp add: limits)
  have inv': "store_inv X key d'" by (rule append_message_inv [OF assms(1,2) inv assms(4) nonce run])
  obtain rs where rs: "room_records X key d gid rid = Inr rs" "room_records X key d' gid rid = Inr (rs @ [stored_form new])"
    using append_message_records(1) [OF inv assms(2) nonce assms(4,6) run] by blast
  from run obtain r :: room_row and d1 m where t: "take_sequence gid rid d = Inr (d1, r_next_sequence r)"
      and d': "d' = insert_message_row m d1"
      and new: "new = \<lparr>cr_sequence = word_of_int (r_next_sequence r), cr_message_id = mid, cr_sender = sender,
               cr_room_id = rid, cr_sent_at_ms = sent_at, cr_text = body\<rparr>"
    by (rule append_message_Inr) (rule that)
  from t obtain s where s: "find_room d gid rid = Some s"
      "d1 = update_rooms (\<lambda>r. r_id r = rid \<and> r_group r = gid) (\<lambda>r. r\<lparr>r_next_sequence := r_next_sequence r + 1\<rparr>) d"
    by (rule take_sequence_Inr)
  then have "s\<lparr>r_next_sequence := r_next_sequence s + 1\<rparr> \<in> set (t_rooms d')"
    using update_where_mem [of s "t_rooms d" "\<lambda>r. r_id r = rid \<and> r_group r = gid" "\<lambda>r. r\<lparr>r_next_sequence := r_next_sequence r + 1\<rparr>"]
      inv by (auto simp: d' insert_defs update_rooms_def store_inv_def find_room_iff)
  then have "find_room d' gid rid = Some (s\<lparr>r_next_sequence := r_next_sequence s + 1\<rparr>)"
    using s(1) inv inv' by (simp add: store_inv_def find_room_iff)
  with history_eq [OF inv'] rs new show ?thesis by auto
qed

lemma sample_append_store: "append_message sample_externals [1] sample_nonce 5 (str ''r1'') 20 sample_peer 1003
     (str ''hi'') sample_room = (sample_store, Inr \<lparr>cr_sequence = 1, cr_message_id = 20, cr_sender = sample_peer,
       cr_room_id = str ''r1'', cr_sent_at_ms = 1003, cr_text = str ''hi''\<rparr>)"
  by (simp add: sample_append sample_store_eq)

theorem appended_message_is_read_witness:
  "history sample_externals [1] sample_store 5 (str ''r1'') 50 = Inr [\<lparr>cr_sequence = 1, cr_message_id = 20,
     cr_sender = sample_peer, cr_room_id = str ''r1'', cr_sent_at_ms = 1003, cr_text = str ''hi''\<rparr>]"
proof -
  have "room_records sample_externals [1] sample_room 5 (str ''r1'') = Inr []"
    by (simp add: room_records_def room_log_def sample_rows)
  moreover have "valid_str (str ''hi'')" "\<forall>n. sample_nonce = Some n \<longrightarrow> length n = 24" "uint (1003 :: u64) \<le> i64_max"
    by (simp_all add: valid_str_def scalar_def str_def sample_nonce_def i64_max_def)
  note appended_message_is_read [OF sample_ct_eq sample_aead sample_room_reachable this sample_append_store, of 50]
  ultimately show ?thesis by (simp add: last_n_def clamp_def stored_form_def sample_peer_def)
qed

text \<open>
  C7. The history of a room never fails: it is the newest messages in ascending order under
  consecutive sequence numbers, at most 1000 of them, and asking for what came before a sequence
  number continues exactly where the last page stopped.
\<close>

theorem history_pages:
  assumes "ct_eq_is_equality X" "aead_opens X" "reachable X key d" "find_room d gid rid = Some r"
  shows "\<exists>rs. room_records X key d gid rid = Inr rs \<and>
    map cr_sequence rs = map word_of_int [1..r_next_sequence r - 1] \<and>
    history X key d gid rid limit = Inr (last_n (clamp 1 1000 limit) rs) \<and>
    history_before X key d gid rid before limit =
      Inr (last_n (clamp 1 1000 limit) (filter (\<lambda>m. cr_sequence m < before) rs))"
proof -
  have inv: "store_inv X key d" using reachable_store_inv [OF assms(1-3)] .
  from room_records_Inr [OF inv assms(4)] obtain rs where rs: "room_records X key d gid rid = Inr rs"
      "map cr_sequence rs = map word_of_int [1..r_next_sequence r - 1]" .
  then show ?thesis using history_eq [OF inv assms(4) rs(1)] history_before_eq [OF inv assms(4) rs(1)] by blast
qed

lemma sample_find_room:
  "find_room sample_store 5 (str ''r1'') = Some \<lparr>r_id = str ''r1'', r_group = 5, r_name = str ''ops'',
     r_visibility = Private_Room, r_next_sequence = 2, r_created = 1002\<rparr>"
  by (simp add: find_room_def sample_rows str_def)

theorem history_pages_witness:
  "\<exists>rs. map cr_sequence rs = [1] \<and> history sample_externals [1] sample_store 5 (str ''r1'') 50 = Inr rs"
  using history_pages [OF sample_ct_eq sample_aead sample_store_reachable sample_find_room, of 50 0]
  by (auto simp: last_n_def clamp_def)

end
