(* ===== verification/Room_Access.thy ===== *)
theory Room_Access
  imports Store_Samples
begin

text \<open>
  Private rooms and listings: who can access a room, what adding and removing a member changes, the
  pages of the member list, and the associated data that ties a stored body to its place.
\<close>

section \<open>Access\<close>


lemma active_admin_unique:
  assumes "schema_ok d" "m \<in> set (t_members d)" "gm_role m \<noteq> Admin"
  shows "\<not> active_admin d gid (gm_id m)"
  using assms by (auto simp: active_admin_def schema_ok_def members_ok_def dest: distinct_map_eqD [of gm_id])

lemma member_can_access_room_eq:
  "member_can_access_room d gid rid mid \<longleftrightarrow>
     (\<exists>r\<in>set (t_rooms d). r_group r = gid \<and> r_id r = rid \<and> row_accessible d mid r)"
  by (auto simp: member_can_access_room_def find_None_iff)

lemma private_room_access:
  assumes "schema_ok d" "find_room d gid rid = Some r" "r_visibility r = Private_Room" "t_rooms e = t_rooms d"
  shows "member_can_access_room e gid rid i \<longleftrightarrow> on_access_list e gid rid i \<or> active_admin e gid i"
proof -
  have r: "r \<in> set (t_rooms d)" "r_group r = gid" "r_id r = rid"
    using assms find_room_iff [OF assms(1), of gid rid r] by simp_all
  have "s = r" if "s \<in> set (t_rooms d)" "r_group s = gid" "r_id s = rid" for s
    using that assms(2) find_room_iff [OF assms(1), of gid rid s] by simp
  then have "member_can_access_room e gid rid i \<longleftrightarrow> row_accessible e i r"
    unfolding member_can_access_room_eq assms(4) using r by blast
  then show ?thesis using r assms(3) by (simp add: row_accessible_def)
qed

lemma not_room_member: "r \<noteq> Room_Member \<longleftrightarrow> r = Owner"
  by (cases r) auto

text \<open>The guards of a change of the access list, and its outcome.\<close>

definition room_member_change :: "int \<Rightarrow> uuid \<Rightarrow> rstring \<Rightarrow> uuid \<Rightarrow> bool \<Rightarrow> database \<Rightarrow> database" where
  "room_member_change now gid rid target included d =
     (if \<not> included then delete_room_members
        (\<lambda>w. rm_group w = gid \<and> rm_room w = rid \<and> rm_member w = target \<and> rm_role w = Room_Member) d
      else if on_access_list d gid rid target then d
      else insert_room_member_row
        \<lparr>rm_group = gid, rm_room = rid, rm_member = target, rm_role = Room_Member, rm_added = now\<rparr> d)"

lemma set_room_member_Inr:
  assumes "set_room_member now gid rid actor role target included d = (d', Inr changed)"
  shows "room_visibility_of d gid rid = Some Private_Room \<and> (role = Admin \<or> is_room_owner d gid rid actor) \<and>
    (\<exists>m\<in>set (t_members d). gm_id m = target \<and> gm_role m \<noteq> Admin) \<and>
    d' = room_member_change now gid rid target included d"
  using assms unfolding set_room_member_def transaction_Inr room_member_change_def Let_def
  by (simp add: chain_simps split: if_split_asm) blast+

text \<open>
  C8. A change of a private room's access list is made only for an administrator or the room's owner;
  afterwards the target has access exactly if it was added or owns the room (so the owner cannot be
  removed), and nobody else's access changes.
\<close>

theorem set_room_member_access:
  assumes ok: "schema_ok d"
    and run: "set_room_member now gid rid actor role target included d = (d', Inr changed)"
  shows "(role = Admin \<or> is_room_owner d gid rid actor) \<and>
    (member_can_access_room d' gid rid target \<longleftrightarrow> included \<or> is_room_owner d gid rid target) \<and>
    (\<forall>other. other \<noteq> target \<longrightarrow> member_can_access_room d' gid rid other = member_can_access_room d gid rid other)"
proof -
  note change = set_room_member_Inr [OF run]
  from change obtain m r where r: "find_room d gid rid = Some r" "r_visibility r = Private_Room"
      and m: "m \<in> set (t_members d)" "gm_id m = target" "gm_role m \<noteq> Admin"
    by (auto simp: room_visibility_of_def)
  have d': "d' = room_member_change now gid rid target included d" using change by simp
  have frame: "t_rooms d' = t_rooms d" "t_members d' = t_members d"
    by (simp_all add: d' room_member_change_def write_defs)
  then have "active_admin d' = active_admin d" by (simp add: active_admin_def fun_eq_iff)
  note access = private_room_access [OF ok r refl] private_room_access [OF ok r frame(1), unfolded this]
  have "\<not> active_admin d gid target" using active_admin_unique [OF ok m(1,3)] m(2) by simp
  moreover have "on_access_list d' gid rid target \<longleftrightarrow> included \<or> is_room_owner d gid rid target"
    by (auto simp: d' room_member_change_def on_access_list_def is_room_owner_def write_defs not_room_member)
  moreover have "on_access_list d' gid rid other = on_access_list d gid rid other" if "other \<noteq> target" for other
    using that by (auto simp: d' room_member_change_def on_access_list_def write_defs)
  ultimately show ?thesis using change access by simp
qed

theorem set_room_member_access_witness:
  "\<exists>d' changed. set_room_member 1010 5 (str ''r1'') 11 Member 11 False sample_room = (d', Inr changed) \<and>
     member_can_access_room d' 5 (str ''r1'') 11"
proof -
  have r: "find_room sample_room 5 (str ''r1'') = Some \<lparr>r_id = str ''r1'', r_group = 5, r_name = str ''ops'',
      r_visibility = Private_Room, r_next_sequence = 1, r_created = 1002\<rparr>"
    by (simp add: find_room_def sample_rows str_def)
  have owner: "is_room_owner sample_room 5 (str ''r1'') 11" by (simp add: is_room_owner_def sample_rows)
  have target: "\<exists>m\<in>set (t_members sample_room). gm_group m = 5 \<and> gm_id m = 11 \<and> gm_status m = Active \<and> gm_role m \<noteq> Admin"
    by (simp add: sample_rows)
  obtain d' changed where run: "set_room_member 1010 5 (str ''r1'') 11 Member 11 False sample_room = (d', Inr changed)"
    using r owner target
    by (simp add: set_room_member_def room_visibility_of_def execute_def Let_def
        schema_ok_delete_room_members [OF sample_schema_ok(3)])
  with set_room_member_access [OF sample_schema_ok(3) run] owner show ?thesis by blast
qed

section \<open>Pages\<close>

lemma page_with_more_eq:
  "fst (page_with_more offset rows) = take 40 (drop (unat offset) rows)"
  "snd (page_with_more offset rows) \<longleftrightarrow> unat offset + 40 < length rows"
  by (auto simp: page_with_more_def page_def limits Let_def min_def)

lemma concat_pages: "concat (map (\<lambda>i. take k (drop (k * i) xs)) [0..<n]) = take (k * n) xs"
proof (induction n)
  case (Suc n)
  have "k * Suc n = k * n + k" by simp
  with Suc show ?case by (simp only: take_add) simp
qed simp

text \<open>The members of a group in the order they are listed.\<close>

definition member_listing :: "database \<Rightarrow> uuid \<Rightarrow> group_member_summary list" where
  "member_listing d gid =
     map (\<lambda>m. \<lparr>gms_member_id = gm_id m, gms_nickname = gm_nickname m, gms_role = gm_role m, gms_status = gm_status m\<rparr>)
       (sort_key (\<lambda>m. (gm_status m, nocase (gm_nickname m), gm_id m))
         (filter (\<lambda>m. gm_group m = gid) (t_members d)))"

lemma unat_of_nat_u32: "k < 2 ^ 32 \<Longrightarrow> unat (of_nat k :: u32) = k"
  by (simp add: unsigned_of_nat take_bit_nat_eq_self)

lemma group_members_eq:
  "group_members d gid offset =
     (take 40 (drop (unat offset) (member_listing d gid)), unat offset + 40 < length (member_listing d gid))"
  using page_with_more_eq [of offset "sort_key (\<lambda>m. (gm_status m, nocase (gm_nickname m), gm_id m))
      (filter (\<lambda>m. gm_group m = gid) (t_members d))"]
  by (simp add: group_members_def member_listing_def take_map drop_map case_prod_beta)

text \<open>
  The pages of the member list, read at offsets 0, 40, 80, ..., put together are the group's
  members, each once, active members before banned ones; the last page and only it says that there
  is no more.
\<close>

theorem member_pages_cover:
  assumes "40 * n \<le> 2 ^ 32" "length (member_listing d gid) \<le> 40 * n"
  shows "concat (map (\<lambda>i. fst (group_members d gid (of_nat (40 * i)))) [0..<n]) = member_listing d gid \<and>
    sorted (map gms_status (member_listing d gid)) \<and>
    (\<forall>i<n. snd (group_members d gid (of_nat (40 * i))) \<longleftrightarrow> 40 * i + 40 < length (member_listing d gid))"
proof -
  have at: "unat (of_nat (40 * i) :: u32) = 40 * i" if "i < n" for i
    using that assms(1) unat_of_nat_u32 [of "40 * i"] by simp
  have "map (\<lambda>i. fst (group_members d gid (of_nat (40 * i)))) [0..<n]
      = map (\<lambda>i. take 40 (drop (40 * i) (member_listing d gid))) [0..<n]"
    using at by (auto simp: group_members_eq simp del: of_nat_mult)
  then have cover: "concat (map (\<lambda>i. fst (group_members d gid (of_nat (40 * i)))) [0..<n]) = member_listing d gid"
    using concat_pages [of 40 "member_listing d gid" n] assms(2) by (simp only: take_all)
  let ?k = "\<lambda>m :: member_row. (gm_status m, nocase (gm_nickname m), gm_id m)"
  let ?rows = "sort_key ?k (filter (\<lambda>m. gm_group m = gid) (t_members d))"
  have "sorted_wrt (\<lambda>a b. ?k a \<le> ?k b) ?rows" using sorted_sort_key [of ?k] by (simp add: sorted_map)
  then have "sorted_wrt (\<lambda>a b. gm_status a \<le> gm_status b) ?rows"
    by (rule sorted_wrt_mono_rel [rotated]) (auto simp: less_eq_prod_def)
  then have "sorted (map gms_status (member_listing d gid))"
    by (simp add: member_listing_def comp_def sorted_map)
  then show ?thesis using cover at by (simp add: group_members_eq del: of_nat_mult)
qed

theorem member_pages_cover_witness:
  "concat (map (\<lambda>i. fst (group_members sample_joined 5 (of_nat (40 * i)))) [0..<1]) = member_listing sample_joined 5"
proof -
  have "length (member_listing sample_joined 5) \<le> 40 * 1" by (simp add: member_listing_def sample_rows)
  then show ?thesis using member_pages_cover [of 1 sample_joined 5] by simp
qed

section \<open>Associated data\<close>

lemma length_be_bytes [simp]: "length (be_bytes n v) = n"
  by (simp add: be_bytes_def)

lemma be_bytes_inj: "v < 256 ^ n \<Longrightarrow> w < 256 ^ n \<Longrightarrow> be_bytes n v = be_bytes n w \<Longrightarrow> v = w"
proof (induction n arbitrary: v w)
  case (Suc n)
  have digits: "v div 256 ^ i mod 256 = w div 256 ^ i mod 256" if "i < Suc n" for i
  proof -
    have "byte_of (v div 256 ^ i mod 256) = byte_of (w div 256 ^ i mod 256)"
      using Suc.prems(3) that by (auto simp: be_bytes_def less_Suc_eq)
    then have "unat (byte_of (v div 256 ^ i mod 256)) = unat (byte_of (w div 256 ^ i mod 256))" by simp
    then show ?thesis by simp
  qed
  have "be_bytes n (v div 256) = be_bytes n (w div 256)"
  proof -
    have "v div 256 div 256 ^ i mod 256 = w div 256 div 256 ^ i mod 256" if "i < n" for i
      using digits [of "Suc i"] that by (simp add: div_mult2_eq)
    then show ?thesis by (simp add: be_bytes_def)
  qed
  moreover have "v div 256 < 256 ^ n" "w div 256 < 256 ^ n" using Suc.prems(1,2) by (simp_all add: less_mult_imp_div_less)
  ultimately have "v div 256 = w div 256" by (rule Suc.IH [rotated 2])
  moreover have "v mod 256 = w mod 256" using digits [of 0] by simp
  ultimately show ?case by (metis div_mult_mod_eq)
qed simp

lemma uuid_bytes_inj: "uuid_bytes a = uuid_bytes b \<Longrightarrow> a = b"
proof -
  assume "uuid_bytes a = uuid_bytes b"
  moreover have "unat u < 256 ^ 16" for u :: uuid using unsigned_less [of u, where ?'a = nat] by simp
  ultimately show ?thesis unfolding uuid_bytes_def by (metis be_bytes_inj unsigned_word_eqI)
qed

lemma u64_be_bytes_inj: "u64_be_bytes a = u64_be_bytes b \<Longrightarrow> a = b"
proof -
  assume "u64_be_bytes a = u64_be_bytes b"
  moreover have "unat u < 256 ^ 8" for u :: u64 using unsigned_less [of u, where ?'a = nat] by simp
  ultimately show ?thesis unfolding u64_be_bytes_def by (metis be_bytes_inj unsigned_word_eqI)
qed

text \<open>
  The associated data of a stored body determines where the body belongs: two messages with the
  same associated data have the same group, room, message identifier and sequence number, so a body
  moved to another place is authenticated against other data.
\<close>

theorem message_aad_inj:
  assumes "valid_str rid" "valid_str rid'" "message_aad gid rid mid sequence = message_aad gid' rid' mid' sequence'"
  shows "gid = gid' \<and> rid = rid' \<and> mid = mid' \<and> sequence = sequence'"
proof -
  have lengths: "length (uuid_bytes u) = 16" "length (u64_be_bytes v) = 8" for u v
    by (simp_all add: uuid_bytes_def u64_be_bytes_def)
  from assms(3) have g: "uuid_bytes gid = uuid_bytes gid'"
    and rest: "(utf8 rid @ uuid_bytes mid) @ u64_be_bytes sequence = (utf8 rid' @ uuid_bytes mid') @ u64_be_bytes sequence'"
    by (simp_all add: message_aad_def lengths)
  from rest have s: "u64_be_bytes sequence = u64_be_bytes sequence'"
    and front: "utf8 rid @ uuid_bytes mid = utf8 rid' @ uuid_bytes mid'"
    by (simp_all add: lengths del: append_assoc)
  from front have "uuid_bytes mid = uuid_bytes mid'" "utf8 rid = utf8 rid'"
    by (simp_all add: lengths)
  then show ?thesis
    using g s assms(1,2) uuid_bytes_inj u64_be_bytes_inj from_utf8_utf8 by (metis option.inject)
qed

theorem message_aad_inj_witness: "message_aad 5 (str ''r1'') 20 1 \<noteq> message_aad 5 (str ''r1'') 20 2"
proof
  assume "message_aad 5 (str ''r1'') 20 1 = message_aad 5 (str ''r1'') 20 2"
  moreover have "valid_str (str ''r1'')" by (simp add: valid_str_def scalar_def str_def)
  ultimately have "(1 :: u64) = 2" using message_aad_inj by blast
  then show False by simp
qed

text \<open>
  A sealed body opens to the text that was sealed, under the same key and place, and in no other
  format: the version byte and the nonce are checked first.
\<close>

theorem body_roundtrip:
  assumes "aead_opens X" "length nonce = 24" "encrypt_body X key (Some nonce) gid rid mid sequence plain = Inr body"
  shows "decrypt_body X key gid rid mid sequence body = Inr plain \<and>
    hd body = 1 \<and> length body = 1 + 24 + length plain + 16"
proof -
  from assms(3) obtain ct where ct: "x_encrypt X key nonce (message_aad gid rid mid sequence) plain = Some ct"
      "body = ENCRYPTED_BODY_VERSION # nonce @ ct"
    by (auto simp: encrypt_body_def split: option.splits)
  moreover from this assms(1) have "length ct = length plain + 16" by (auto simp: aead_opens_def)
  ultimately show ?thesis
    using decrypt_encrypt_body [OF assms(1) _ assms(3)] assms(2) by (simp add: limits ENCRYPTED_BODY_VERSION_def)
qed

theorem body_roundtrip_witness:
  "decrypt_body sample_externals [1] 5 (str ''r1'') 20 1 (1 # replicate 24 7 @ [104, 105] @ replicate 16 0)
     = Inr (utf8 (str ''hi''))"
  using body_roundtrip [OF sample_aead _ sample_body [unfolded sample_nonce_def]] by simp

end
