(* ===== verification/Sanitizers.thy ===== *)
theory Sanitizers
  imports Tokens
begin

text \<open>
  What the input filters of \<open>src/security.rs\<close> guarantee to everything downstream, and the tokens that
  pass them.
\<close>

text \<open>
  C13. Chat text that is accepted is not empty, is at most 4096 bytes long and 40 lines, is trimmed,
  holds no carriage return and no character that could drive a terminal, and is accepted unchanged
  when it is filtered again by the next program.
\<close>

theorem chat_text_accepted:
  assumes "sanitize_chat_text raw = Inr out"
  shows "out \<noteq> [] \<and> byte_len out \<le> 4096 \<and> count_list out 10 < 40 \<and> trimmed out \<and>
    list_all (\<lambda>ch. ch \<noteq> 13 \<and> \<not> is_forbidden_terminal_char ch) out \<and> sanitize_chat_text out = Inr out"
proof -
  have "list_all chat_keeps out" using sanitize_chat_text_out(4) [OF assms] .
  then have "list_all (\<lambda>ch. ch \<noteq> 13 \<and> \<not> is_forbidden_terminal_char ch) out"
    by (auto simp: chat_keeps_def list_all_iff)
  then show ?thesis
    using sanitize_chat_text_out [OF assms] chat_text.accepted_stable [OF assms] by (simp add: limits)
qed

theorem chat_text_accepted_witness:
  "sanitize_chat_text [32, 104, 27, 105, 13, 10, 33] = Inr [104, 105, 10, 33] \<and> trimmed [104, 105, 10, 33]"
proof -
  have "sanitize_chat_text [32, 104, 27, 105, 13, 10, 33] = Inr [104, 105, 10, 33]"
    by (simp add: sanitize_chat_text_def byte_len_def len_utf8_def limits is_forbidden_terminal_char_def is_control_def
        trim_def trim_start_def trim_end_def is_whitespace_def)
  then show ?thesis using chat_text_accepted by blast
qed

text \<open>
  An accepted nickname is one line of 1 to 32 characters without control characters; one that was
  accepted from text without forbidden characters is accepted unchanged by every later check.
\<close>

theorem nickname_accepted:
  assumes "sanitize_nickname raw = Inr out"
  shows "out \<noteq> [] \<and> length out \<le> 32 \<and> list_all (\<lambda>ch. \<not> is_control ch) out \<and>
    (display_safe raw \<longrightarrow> sanitize_nickname out = Inr out)"
  using assms sanitize_single_line_out [of raw _ _ out] sanitize_single_line_stable [of raw _ _ out]
  unfolding sanitize_nickname_def by (simp add: limits)

theorem nickname_accepted_witness:
  "sanitize_nickname [32, 97, 10, 98] = Inr [97, 32, 98] \<and> length [97, 32, 98 :: nat] \<le> 32"
proof -
  have "sanitize_nickname [32, 97, 10, 98] = Inr [97, 32, 98]"
    by (simp add: sanitize_nickname_def sanitize_single_line_def flatten_char_def limits is_forbidden_terminal_char_def
        is_control_def trim_def trim_start_def trim_end_def is_whitespace_def)
  then show ?thesis using nickname_accepted by blast
qed

text \<open>
  The single-line filter trims before it drops forbidden characters, so a nickname can be accepted
  that the same filter refuses: the escape, space, escape sequence becomes one space, and one space is
  empty text. The gateway accepts and stores the first; a client that checks the nickname it is sent
  refuses the second and drops the connection.
\<close>

theorem nickname_not_stable:
  "sanitize_nickname [27, 32, 27] = Inr [32] \<and>
   sanitize_nickname [32] = Inl (Bail (str ''nickname cannot be empty''))"
  by (simp add: sanitize_nickname_def sanitize_single_line_def flatten_char_def limits is_forbidden_terminal_char_def
      is_control_def trim_def trim_start_def trim_end_def is_whitespace_def str_def)

text \<open>
  Every token the gateway draws passes its own format check, and two draws give the same token only
  for the same random bytes.
\<close>

theorem drawn_tokens_valid:
  assumes "kind \<in> {str ''admin'', str ''invite'', str ''member'', str ''request''}" "length r1 = 32"
  shows "\<exists>token. generate_credential kind (Some r1) = Inr token \<and> is_valid_group_credential token \<and>
    (generate_credential kind (Some r2) = Inr token \<longleftrightarrow> r1 = r2)"
proof -
  obtain token where t: "generate_credential kind (Some r1) = Inr token" by (simp add: generate_credential_def)
  then have "is_valid_group_credential token"
    using generate_credential_valid [OF t] assms by (simp add: token_kinds_def)
  then show ?thesis using t generate_credential_inj [of kind r1 r2] by auto
qed

theorem drawn_tokens_valid_witness:
  "\<exists>token. generate_credential (str ''member'') (Some (replicate 32 0)) = Inr token \<and> is_valid_group_credential token"
  using drawn_tokens_valid [of "str ''member''" "replicate 32 0"] by auto

end
