(* ===== verification/Programs.thy ===== *)
theory Programs
  imports Prelude
begin

text \<open>
  Asynchronous handlers as programs of atomic steps. A step is one lock section, one store call or
  one channel operation of the source, what runs between two \<open>await\<close>s on shared state; other tasks
  run between steps. \<open>run\<close> executes a program without interference, the locale \<open>rely_guarantee\<close>
  proves invariants under any interleaving.
\<close>

section \<open>Programs\<close>

text \<open>A step that yields \<open>None\<close> waits, as for a mutex that is held.\<close>

datatype 'w prog = Done | Step "'w \<Rightarrow> ('w \<times> 'w prog) option"

definition act :: "('w \<Rightarrow> 'w) \<Rightarrow> 'w prog \<Rightarrow> 'w prog" where
  "act f k = Step (\<lambda>w. Some (f w, k))"

definition ask :: "('w \<Rightarrow> 'a) \<Rightarrow> ('a \<Rightarrow> 'w prog) \<Rightarrow> 'w prog" where
  "ask g k = Step (\<lambda>w. Some (w, k (g w)))"

definition call :: "('w \<Rightarrow> 'w \<times> 'a) \<Rightarrow> ('a \<Rightarrow> 'w prog) \<Rightarrow> 'w prog" where
  "call h k = Step (\<lambda>w. case h w of (w', x) \<Rightarrow> Some (w', k x))"

definition await :: "('w \<Rightarrow> bool) \<Rightarrow> ('w \<Rightarrow> 'w) \<Rightarrow> 'w prog \<Rightarrow> 'w prog" where
  "await free f k = Step (\<lambda>w. if free w then Some (f w, k) else None)"

text \<open>A program run alone: the final state, or \<open>None\<close> when it has to wait for ever.\<close>

primrec run :: "'w prog \<Rightarrow> 'w \<Rightarrow> 'w option" where
  "run Done = (\<lambda>w. Some w)"
| "run (Step f) = (\<lambda>w. case map_option (map_prod id run) (f w) of None \<Rightarrow> None | Some (w', r) \<Rightarrow> r w')"

lemma run_simps [simp]:
  "run (act f k) w = run k (f w)"
  "run (ask g q) w = run (q (g w)) w"
  "run (call h q) w = run (q (snd (h w))) (fst (h w))"
  "run (await free f k) w = (if free w then run k (f w) else None)"
  by (simp_all add: act_def ask_def call_def await_def split: prod.splits)

text \<open>One step of a program.\<close>

fun step_prog :: "'w prog \<Rightarrow> 'w \<Rightarrow> ('w \<times> 'w prog) option" where
  "step_prog Done w = None"
| "step_prog (Step f) w = f w"

section \<open>Interleaving\<close>

text \<open>Tasks by identifier; each step of the pool is a step of one task.\<close>

inductive pool_step :: "('t \<Rightarrow> 'w prog) \<Rightarrow> 'w \<Rightarrow> ('t \<Rightarrow> 'w prog) \<Rightarrow> 'w \<Rightarrow> bool" where
  "step_prog (tasks t) w = Some (w', p) \<Longrightarrow> pool_step tasks w (tasks(t := p)) w'"

text \<open>The steps of a given schedule, executable.\<close>

fun schedule :: "'t list \<Rightarrow> ('t \<Rightarrow> 'w prog) \<Rightarrow> 'w \<Rightarrow> (('t \<Rightarrow> 'w prog) \<times> 'w) option" where
  "schedule [] tasks w = Some (tasks, w)"
| "schedule (t # ts) tasks w =
     (case step_prog (tasks t) w of None \<Rightarrow> None | Some (w', p) \<Rightarrow> schedule ts (tasks(t := p)) w')"

text \<open>
  A program is safe in a state for an invariant and a relation \<open>grows\<close> that every change of the state
  by anyone satisfies: whatever the others did meanwhile, its next step keeps both and leaves a safe
  program.
\<close>

primrec safe :: "('w \<Rightarrow> bool) \<Rightarrow> ('w \<Rightarrow> 'w \<Rightarrow> bool) \<Rightarrow> 'w prog \<Rightarrow> 'w \<Rightarrow> bool" where
  "safe good grows Done = (\<lambda>w. True)"
| "safe good grows (Step f) = (\<lambda>w. \<forall>u. grows w u \<and> good u \<longrightarrow>
     (case map_option (map_prod id (safe good grows)) (f u) of
        None \<Rightarrow> True | Some (v, s) \<Rightarrow> good v \<and> grows u v \<and> s v))"

lemma safe_Step: "safe good grows (Step f) w \<longleftrightarrow>
    (\<forall>u v q. grows w u \<and> good u \<and> f u = Some (v, q) \<longrightarrow> good v \<and> grows u v \<and> safe good grows q v)"
  by (auto split: option.splits)

locale rely_guarantee =
  fixes good :: "'w \<Rightarrow> bool" and grows :: "'w \<Rightarrow> 'w \<Rightarrow> bool"
  assumes grows_refl: "grows w w"
    and grows_trans: "grows u v \<Longrightarrow> grows v w \<Longrightarrow> grows u w"
begin

abbreviation "ok \<equiv> safe good grows"

lemma ok_later: "ok p u \<Longrightarrow> grows u v \<Longrightarrow> ok p v"
  by (cases p) (auto intro: grows_trans)

lemma ok_step: "ok p w \<Longrightarrow> good w \<Longrightarrow> step_prog p w = Some (v, q) \<Longrightarrow> good v \<and> grows w v \<and> ok q v"
proof (cases p)
  case (Step f)
  assume "ok p w" "good w" "step_prog p w = Some (v, q)"
  moreover have "grows w w" by (rule grows_refl)
  ultimately show ?thesis unfolding Step safe_Step step_prog.simps by blast
qed simp

lemma ok_Done: "ok Done w"
  by simp

lemma ok_act:
  "(\<And>u. grows w u \<Longrightarrow> good u \<Longrightarrow> good (f u) \<and> grows u (f u) \<and> ok k (f u)) \<Longrightarrow> ok (act f k) w"
  by (simp add: act_def)

lemma ok_ask: "(\<And>u. grows w u \<Longrightarrow> good u \<Longrightarrow> ok (q (g u)) u) \<Longrightarrow> ok (ask g q) w"
  by (simp add: ask_def grows_refl)

lemma ok_call:
  "(\<And>u. grows w u \<Longrightarrow> good u \<Longrightarrow> good (fst (h u)) \<and> grows u (fst (h u)) \<and> ok (q (snd (h u))) (fst (h u))) \<Longrightarrow>
   ok (call h q) w"
  by (simp add: call_def case_prod_beta)

lemma ok_await:
  "(\<And>u. grows w u \<Longrightarrow> good u \<Longrightarrow> free u \<Longrightarrow> good (f u) \<and> grows u (f u) \<and> ok k (f u)) \<Longrightarrow> ok (await free f k) w"
  by (simp add: await_def)

lemmas ok_rules = ok_Done ok_act ok_ask ok_call ok_await

text \<open>A run alone keeps the invariant.\<close>

lemma ok_run: "ok p w \<Longrightarrow> good w \<Longrightarrow> run p w = Some v \<Longrightarrow> good v \<and> grows w v"
proof (induction p arbitrary: w)
  case (Step f)
  from Step.prems(3) obtain u q where q: "f w = Some (u, q)" "run q u = Some v"
    by (auto split: option.splits)
  with ok_step [of "Step f" w u q] Step.prems have u: "good u" "grows w u" "ok q u" by auto
  have "Some (u, q) \<in> range f" using q(1) by (metis rangeI)
  from Step.IH [OF this, of "(u, q)" q u] u q have "good v \<and> grows u v" by simp
  with u show ?case using grows_trans by blast
qed (simp add: grows_refl)

text \<open>Neither does any interleaving of safe programs break it.\<close>

definition pool_ok :: "('t \<Rightarrow> 'w prog) \<Rightarrow> 'w \<Rightarrow> bool" where
  "pool_ok tasks w \<longleftrightarrow> good w \<and> (\<forall>t. ok (tasks t) w)"

lemma pool_ok_step: "pool_step tasks w tasks' w' \<Longrightarrow> pool_ok tasks w \<Longrightarrow> pool_ok tasks' w' \<and> grows w w'"
proof (induction rule: pool_step.induct)
  case (1 tasks t w w' p)
  then have "good w' \<and> grows w w' \<and> ok p w'"
    using ok_step [of "tasks t" w w' p] by (simp add: pool_ok_def)
  with 1 show ?case by (auto simp: pool_ok_def intro: ok_later)
qed

lemma pool_ok_env: "pool_ok tasks w \<Longrightarrow> good w' \<Longrightarrow> grows w w' \<Longrightarrow> pool_ok tasks w'"
  by (auto simp: pool_ok_def intro: ok_later)

lemma pool_ok_start: "pool_ok tasks w \<Longrightarrow> ok p w \<Longrightarrow> pool_ok (tasks(t := p)) w"
  by (auto simp: pool_ok_def)

end

end
