(* ===== verification/Rate_Limit.thy ===== *)
theory Rate_Limit
  imports Prelude
begin

text \<open>
  The fixed-window rate limiters: \<open>FixedWindowRateLimiter\<close> of \<open>src/server.rs\<close> (24 messages a second
  from a client) and the one inside \<open>link_io\<close> of \<open>src/direct.rs\<close> (32 messages a second from a direct
  peer). \<open>fixed_window\<close> is what both promise; its lemmas bound what can pass. Time is a count of
  nanoseconds from a monotonic clock.
\<close>

definition second :: nat where [limits]: "second = 1000000000"

definition MAX_CLIENT_MESSAGES_PER_SECOND :: u32 where [limits]: "MAX_CLIENT_MESSAGES_PER_SECOND = 24"
definition MAX_CONSECUTIVE_RATE_VIOLATIONS :: byte where [limits]: "MAX_CONSECUTIVE_RATE_VIOLATIONS = 5"

section \<open>The gateway's limiter\<close>

record rate_limiter =
  window_started :: nat
  window_used :: u32

definition new_rate_limiter :: "nat \<Rightarrow> rate_limiter" where
  "new_rate_limiter now = \<lparr>window_started = now, window_used = 0\<rparr>"

definition allow :: "nat \<Rightarrow> rate_limiter \<Rightarrow> rate_limiter \<times> bool" where
  "allow now l =
     (let l1 = (if now - window_started l \<ge> second then \<lparr>window_started = now, window_used = 0\<rparr> else l);
          l2 = l1\<lparr>window_used := window_used l1 + 1\<rparr>
      in (l2, window_used l2 \<le> MAX_CLIENT_MESSAGES_PER_SECOND))"

section \<open>The contract\<close>

text \<open>
  \<open>capacity\<close> is how far the counter can count. A call inside the open window counts one more and
  passes while the count is within the limit; a call after it opens a window of its own.
\<close>

locale fixed_window =
  fixes admit :: "nat \<Rightarrow> 's \<Rightarrow> 's \<times> bool"
    and opened :: "'s \<Rightarrow> nat" and count :: "'s \<Rightarrow> nat" and limit :: nat and capacity :: nat
  assumes inside: "now < opened s + second \<Longrightarrow> count s < capacity \<Longrightarrow>
      opened (fst (admit now s)) = opened s \<and> count (fst (admit now s)) = Suc (count s) \<and>
      snd (admit now s) = (count s < limit)"
    and outside: "opened s + second \<le> now \<Longrightarrow>
      opened (fst (admit now s)) = now \<and> count (fst (admit now s)) = 1 \<and> snd (admit now s) = (0 < limit)"
begin

text \<open>The calls at the given times, with what each of them answers.\<close>

fun answers :: "'s \<Rightarrow> nat list \<Rightarrow> bool list" where
  "answers s [] = []"
| "answers s (t # ts) = snd (admit t s) # answers (fst (admit t s)) ts"

lemma passed_inside:
  "\<forall>t\<in>set ts. t < opened s + second \<Longrightarrow> count s + length ts \<le> capacity \<Longrightarrow>
   length (filter (\<lambda>b. b) (answers s ts)) \<le> limit - count s"
proof (induction ts arbitrary: s)
  case (Cons t ts)
  then have "opened (fst (admit t s)) = opened s" "count (fst (admit t s)) = Suc (count s)"
      "snd (admit t s) = (count s < limit)"
    using inside [of t s] by auto
  with Cons.IH [of "fst (admit t s)"] Cons.prems show ?case by auto
qed simp

text \<open>
  Whatever state it starts in, at most twice the limit passes in one second: what is left of the
  open window and one window more.
\<close>

lemma passed_in_a_second:
  "sorted ts \<Longrightarrow> \<forall>t\<in>set ts. from \<le> t \<and> t < from + second \<Longrightarrow> count s + length ts \<le> capacity \<Longrightarrow>
   length (filter (\<lambda>b. b) (answers s ts)) \<le> (limit - count s) + limit"
proof (induction ts arbitrary: s)
  case (Cons t ts)
  show ?case
  proof (cases "t < opened s + second")
    case True
    then have s': "count (fst (admit t s)) = Suc (count s)" "snd (admit t s) = (count s < limit)"
      using inside [of t s] Cons.prems by auto
    then show ?thesis using Cons.IH [of "fst (admit t s)"] Cons.prems by auto
  next
    case False
    then have s': "opened (fst (admit t s)) = t" "count (fst (admit t s)) = 1" "snd (admit t s) = (0 < limit)"
      using outside [of s t] by auto
    have "\<forall>u\<in>set ts. u < opened (fst (admit t s)) + second"
      using Cons.prems s'(1) by fastforce
    moreover have "count (fst (admit t s)) + length ts \<le> capacity" using s'(2) Cons.prems(3) by simp
    ultimately have "length (filter (\<lambda>b. b) (answers (fst (admit t s)) ts)) \<le> limit - 1"
      using passed_inside [of ts "fst (admit t s)"] s'(2) by simp
    then show ?thesis using s'(3) by auto
  qed
qed simp

end

lemma unat_Suc_u32: "unat (x :: u32) < 2 ^ 32 - 1 \<Longrightarrow> unat (x + 1) = Suc (unat x)"
  by (simp add: unat_word_ariths)

interpretation client_limit: fixed_window allow window_started "\<lambda>l. unat (window_used l)" 24 "2 ^ 32 - 1"
proof
  fix now s
  show "now < window_started s + second \<Longrightarrow> unat (window_used s) < 2 ^ 32 - 1 \<Longrightarrow>
      window_started (fst (allow now s)) = window_started s \<and>
      unat (window_used (fst (allow now s))) = Suc (unat (window_used s)) \<and>
      snd (allow now s) = (unat (window_used s) < 24)"
    by (auto simp: allow_def Let_def limits unat_Suc_u32 word_le_nat_alt)
  show "window_started s + second \<le> now \<Longrightarrow>
      window_started (fst (allow now s)) = now \<and> unat (window_used (fst (allow now s))) = 1 \<and>
      snd (allow now s) = (0 < (24 :: nat))"
    by (auto simp: allow_def Let_def limits)
qed

end
