(* ===== verification/Gateway_State.thy ===== *)
theory Gateway_State
  imports Store_Messages Programs Rate_Limit
begin

text \<open>
  The shared state of one group of the gateway (\<open>src/server.rs\<close>): the store, the connected clients,
  the room cache, the lock of room creation, and the outbound queue of every connection, with the
  sections of code that run under one lock.
\<close>

section \<open>State\<close>

definition CLIENT_QUEUE_CAPACITY :: nat where [limits]: "CLIENT_QUEUE_CAPACITY = 256"
definition HISTORY_CAPACITY :: nat where [limits]: "HISTORY_CAPACITY = 200"
definition HISTORY_FRAME_BUDGET :: nat where [limits]: "HISTORY_FRAME_BUDGET = 12 * 1024"
definition MAX_ROOMS :: nat where [limits]: "MAX_ROOMS = 64"

datatype kick_reason = Kick_Banned | Kick_Credential_Rotated

record client_entry =
  ce_peer :: peer
  ce_role :: group_role
  ce_joined :: "rstring set"
  ce_kick :: "kick_reason option"

text \<open>
  \<open>wd_creating\<close> is the mutex \<open>room_creation\<close>. A queue holds what \<open>try_send\<close> accepted and the
  connection has not written yet; it exists while the connection does, also before the client is in
  the map and after it was taken out.
\<close>

record world =
  wd_db :: database
  wd_summary :: group_summary
  wd_clients :: "(uuid \<times> client_entry) list"
  wd_rooms :: "(rstring \<times> room_summary) list"
  wd_creating :: bool
  wd_queues :: "(uuid \<times> server_message list) list"

abbreviation gid_of :: "world \<Rightarrow> uuid" where
  "gid_of w \<equiv> gs_group_id (wd_summary w)"

abbreviation client_of :: "world \<Rightarrow> uuid \<Rightarrow> client_entry option" where
  "client_of w \<equiv> map_of (wd_clients w)"

abbreviation queue_of :: "world \<Rightarrow> uuid \<Rightarrow> server_message list option" where
  "queue_of w \<equiv> map_of (wd_queues w)"

text \<open>\<open>load_groups\<close> and \<open>GroupState::new\<close>: the cache filled from the store.\<close>

definition new_group_state :: "database \<Rightarrow> group_summary \<Rightarrow> (rstring \<times> room_summary) list \<Rightarrow> world" where
  "new_group_state d summary room_map =
     \<lparr>wd_db = d, wd_summary = summary, wd_clients = [], wd_rooms = room_map, wd_creating = False, wd_queues = []\<rparr>"

definition load_group :: "database \<Rightarrow> group_summary \<Rightarrow> world" where
  "load_group d summary =
     new_group_state d summary (map (\<lambda>room. (rs_room_id room, room)) (rooms d (gs_group_id summary)))"

definition load_groups :: "database \<Rightarrow> world list" where
  "load_groups d = map (load_group d) (list_groups d)"

section \<open>Sending\<close>

text \<open>\<open>try_send\<close>: a full or closed channel drops the message.\<close>

definition offer :: "nat \<Rightarrow> 'a \<Rightarrow> 'a list \<Rightarrow> 'a list" where
  "offer capacity x q = (if length q < capacity then q @ [x] else q)"

definition send_to_client :: "uuid \<Rightarrow> server_message \<Rightarrow> world \<Rightarrow> world" where
  "send_to_client sid message w =
     w\<lparr>wd_queues := amap_adjust sid (offer CLIENT_QUEUE_CAPACITY message) (wd_queues w)\<rparr>"

definition send_error :: "uuid \<Rightarrow> rstring \<Rightarrow> rstring \<Rightarrow> world \<Rightarrow> world" where
  "send_error sid code message w = send_to_client sid (Server_Error code message) w"

text \<open>The connection task takes the oldest message to write it.\<close>

definition take_outbound :: "uuid \<Rightarrow> world \<Rightarrow> (world \<times> server_message) option" where
  "take_outbound sid w =
     (case queue_of w sid of
        Some (message # rest) \<Rightarrow> Some (w\<lparr>wd_queues := amap_put sid rest (wd_queues w)\<rparr>, message)
      | _ \<Rightarrow> None)"

section \<open>Broadcasts\<close>

text \<open>The senders are collected under the lock, then served one after the other.\<close>

primrec send_each :: "uuid list \<Rightarrow> server_message \<Rightarrow> world prog \<Rightarrow> world prog" where
  "send_each [] message k = k"
| "send_each (sid # sids) message k = act (send_to_client sid message) (send_each sids message k)"

definition clients_where :: "(uuid \<Rightarrow> client_entry \<Rightarrow> bool) \<Rightarrow> world \<Rightarrow> uuid list" where
  "clients_where P w = map fst (filter (\<lambda>(sid, entry). P sid entry) (wd_clients w))"

definition broadcast_where ::
  "(uuid \<Rightarrow> client_entry \<Rightarrow> bool) \<Rightarrow> server_message \<Rightarrow> world prog \<Rightarrow> world prog" where
  "broadcast_where P message k = ask (clients_where P) (\<lambda>sids. send_each sids message k)"

definition broadcast_except :: "server_message \<Rightarrow> uuid option \<Rightarrow> world prog \<Rightarrow> world prog" where
  "broadcast_except message excluded k = broadcast_where (\<lambda>sid _. Some sid \<noteq> excluded) message k"

definition broadcast :: "server_message \<Rightarrow> world prog \<Rightarrow> world prog" where
  "broadcast message k = broadcast_except message None k"

definition broadcast_to_room :: "rstring \<Rightarrow> server_message \<Rightarrow> world prog \<Rightarrow> world prog" where
  "broadcast_to_room rid message k = broadcast_where (\<lambda>_ entry. rid \<in> ce_joined entry) message k"

definition broadcast_to_member :: "uuid \<Rightarrow> server_message \<Rightarrow> world prog \<Rightarrow> world prog" where
  "broadcast_to_member mid message k = broadcast_where (\<lambda>_ entry. p_member_id (ce_peer entry) = mid) message k"

definition broadcast_private_room_created :: "uuid \<Rightarrow> server_message \<Rightarrow> world prog \<Rightarrow> world prog" where
  "broadcast_private_room_created owner message k =
     broadcast_where (\<lambda>_ entry. ce_role entry = Admin \<or> p_member_id (ce_peer entry) = owner) message k"

definition update_clients :: "(uuid \<Rightarrow> client_entry \<Rightarrow> client_entry) \<Rightarrow> world \<Rightarrow> world" where
  "update_clients f w = w\<lparr>wd_clients := amap_map f (wd_clients w)\<rparr>"

text \<open>\<open>remove_room_from_member\<close>: out of the joined rooms under the lock, then the notices.\<close>

definition drop_room_of_member :: "uuid \<Rightarrow> rstring \<Rightarrow> world \<Rightarrow> world" where
  "drop_room_of_member mid rid w =
     update_clients (\<lambda>_ entry. if p_member_id (ce_peer entry) = mid
       then entry\<lparr>ce_joined := ce_joined entry - {rid}\<rparr> else entry) w"

definition remove_room_from_member :: "uuid \<Rightarrow> rstring \<Rightarrow> world prog \<Rightarrow> world prog" where
  "remove_room_from_member mid rid k =
     call (\<lambda>w. (drop_room_of_member mid rid w, clients_where (\<lambda>_ entry. p_member_id (ce_peer entry) = mid) w))
          (\<lambda>sids. send_each sids (Room_Left rid) k)"

text \<open>The kick watches of the selected clients, sent to after the lock is released.\<close>

primrec kick_each :: "uuid list \<Rightarrow> kick_reason \<Rightarrow> world prog \<Rightarrow> world prog" where
  "kick_each [] reason k = k"
| "kick_each (sid # sids) reason k =
     act (\<lambda>w. w\<lparr>wd_clients := amap_adjust sid (\<lambda>entry. entry\<lparr>ce_kick := Some reason\<rparr>) (wd_clients w)\<rparr>)
       (kick_each sids reason k)"

definition kick_where :: "(uuid \<Rightarrow> client_entry \<Rightarrow> bool) \<Rightarrow> kick_reason \<Rightarrow> world prog \<Rightarrow> world prog" where
  "kick_where P reason k = ask (clients_where P) (\<lambda>sids. kick_each sids reason k)"

section \<open>Calls of the store\<close>

definition store_call :: "(database \<Rightarrow> database \<times> 'r) \<Rightarrow> ('r \<Rightarrow> world prog) \<Rightarrow> world prog" where
  "store_call f k = call (\<lambda>w. case f (wd_db w) of (d, r) \<Rightarrow> (w\<lparr>wd_db := d\<rparr>, r)) k"

definition store_query :: "(database \<Rightarrow> 'r) \<Rightarrow> ('r \<Rightarrow> world prog) \<Rightarrow> world prog" where
  "store_query f k = ask (\<lambda>w. f (wd_db w)) k"

section \<open>Histories that fit a frame\<close>

text \<open>
  \<open>fit_history_to_frame\<close>: from the newest message backwards while the encoded sizes fit the budget,
  at least one. \<open>json_len\<close> is the encoded size of a message, absent when encoding fails.
\<close>

fun fit_loop :: "(chat_record \<Rightarrow> nat option) \<Rightarrow> chat_record list \<Rightarrow> nat \<Rightarrow> chat_record list \<Rightarrow> chat_record list" where
  "fit_loop json_len [] used selected = selected"
| "fit_loop json_len (message # older) used selected =
     (let size = (case json_len message of Some n \<Rightarrow> n | None \<Rightarrow> HISTORY_FRAME_BUDGET)
      in if selected \<noteq> [] \<and> used + size > HISTORY_FRAME_BUDGET then selected
         else fit_loop json_len older (used + size) (selected @ [message]))"

definition fit_history_to_frame :: "(chat_record \<Rightarrow> nat option) \<Rightarrow> chat_record list \<Rightarrow> chat_record list" where
  "fit_history_to_frame json_len records = rev (fit_loop json_len (rev records) 512 [])"

end
