(* ===== verification/Gateway_Handlers.thy ===== *)
theory Gateway_Handlers
  imports Gateway_State
begin

text \<open>
  The handlers of client messages in \<open>src/server.rs\<close>, as programs of atomic steps in the order of the
  source, and their dispatch. \<open>session_id\<close> names the connection, whose queue is the \<open>sender\<close> of the
  source; \<open>group.summary.group_id\<close> is read from the state, where it never changes.
\<close>

text \<open>What a handler draws: the clock, random bytes, and the identifier of a new room.\<close>

record draws =
  dw_now_ms :: u64
  dw_now :: int
  dw_entropy :: "byte list option"
  dw_nonce :: "byte list option"
  dw_room_id :: rstring

record room_actor =
  ra_member_id :: uuid
  ra_role :: group_role

abbreviation reply :: "uuid \<Rightarrow> server_message \<Rightarrow> world prog \<Rightarrow> world prog" where
  "reply sid message k \<equiv> act (send_to_client sid message) k"

definition reply_error :: "uuid \<Rightarrow> string \<Rightarrow> string \<Rightarrow> world prog \<Rightarrow> world prog" where
  "reply_error sid code message k = act (send_error sid (str code) (str message)) k"

definition require_admin :: "world \<Rightarrow> uuid \<Rightarrow> bool" where
  "require_admin w sid = (case client_of w sid of Some client \<Rightarrow> ce_role client = Admin | None \<Rightarrow> False)"

section \<open>Join requests\<close>

definition handle_list_join_requests :: "uuid \<Rightarrow> uuid \<Rightarrow> world prog" where
  "handle_list_join_requests gid sid =
     ask (\<lambda>w. require_admin w sid) (\<lambda>admin.
       if \<not> admin then reply_error sid ''admin_required'' ''only a group administrator can review join requests'' Done
       else store_query (\<lambda>d. pending_join_requests d gid) (\<lambda>requests. reply sid (Join_Requests requests) Done))"

definition handle_decide_join_request :: "uuid \<Rightarrow> uuid \<Rightarrow> uuid \<Rightarrow> bool \<Rightarrow> world prog" where
  "handle_decide_join_request gid sid request_id approve =
     ask (\<lambda>w. require_admin w sid) (\<lambda>admin.
       if \<not> admin then reply_error sid ''admin_required'' ''only a group administrator can review join requests'' Done
       else store_call (decide_join_request gid request_id approve) (\<lambda>r.
         case r of
           Inr True \<Rightarrow> handle_list_join_requests gid sid
         | Inr False \<Rightarrow> reply_error sid ''join_request_not_found'' ''that pending join request no longer exists'' Done
         | Inl e \<Rightarrow> reply_error sid ''join_request_failed'' ''the decision could not be saved'' Done))"

section \<open>Members\<close>

definition handle_list_group_members :: "uuid \<Rightarrow> uuid \<Rightarrow> u32 \<Rightarrow> world prog" where
  "handle_list_group_members gid sid offset =
     ask (\<lambda>w. require_admin w sid) (\<lambda>admin.
       if \<not> admin then reply_error sid ''admin_required'' ''only a group administrator can manage members'' Done
       else store_query (\<lambda>d. group_members d gid offset) (\<lambda>(members, has_more).
         reply sid (Group_Members members offset has_more) Done))"

definition handle_set_member_banned :: "draws \<Rightarrow> uuid \<Rightarrow> uuid \<Rightarrow> uuid \<Rightarrow> bool \<Rightarrow> world prog" where
  "handle_set_member_banned dw gid sid member_id banned =
     ask (\<lambda>w. require_admin w sid) (\<lambda>admin.
       if \<not> admin then reply_error sid ''admin_required'' ''only a group administrator can ban members'' Done
       else store_call (set_member_banned (dw_now dw) gid member_id banned) (\<lambda>r.
         case r of
           Inr True \<Rightarrow>
             (if banned
              then kick_where (\<lambda>_ client. p_member_id (ce_peer client) = member_id) Kick_Banned
                     (handle_list_group_members gid sid 0)
              else handle_list_group_members gid sid 0)
         | Inr False \<Rightarrow> reply_error sid ''member_not_manageable'' ''the member does not exist or is an administrator'' Done
         | Inl e \<Rightarrow> reply_error sid ''member_update_failed'' ''the member change could not be saved'' Done))"

definition handle_rotate_group_token ::
  "externals \<Rightarrow> draws \<Rightarrow> uuid \<Rightarrow> uuid \<Rightarrow> uuid \<Rightarrow> group_token_kind \<Rightarrow> world prog" where
  "handle_rotate_group_token X dw gid sid actor kind =
     (let rotate = store_call (rotate_group_token X (dw_now dw) (dw_entropy dw) gid actor kind) (\<lambda>r.
        case r of
          Inr token \<Rightarrow>
            (let answer = reply sid (Group_Token_Rotated kind token) Done
             in if kind = Member_Token \<or> kind = Admin_Token
                then kick_where (\<lambda>other client. other \<noteq> sid \<and> p_member_id (ce_peer client) = actor)
                       Kick_Credential_Rotated answer
                else answer)
        | Inl e \<Rightarrow> reply_error sid ''token_rotation_failed'' ''the token could not be rotated'' Done)
      in if kind \<noteq> Member_Token
         then ask (\<lambda>w. require_admin w sid) (\<lambda>admin.
           if \<not> admin then reply_error sid ''admin_required'' ''only a group administrator can rotate tokens'' Done
           else rotate)
         else rotate)"

section \<open>Private-room members\<close>

definition handle_list_room_members :: "uuid \<Rightarrow> uuid \<Rightarrow> room_actor \<Rightarrow> rstring \<Rightarrow> u32 \<Rightarrow> world prog" where
  "handle_list_room_members gid sid actor rid offset =
     (if \<not> is_safe_identifier rid then reply_error sid ''invalid_room'' ''the room identifier is invalid'' Done
      else store_query (\<lambda>d. member_can_manage_room d gid rid (ra_member_id actor) (ra_role actor)) (\<lambda>may.
        if \<not> may then reply_error sid ''room_owner_required''
          ''only the room owner or a group administrator can manage this room'' Done
        else store_query (\<lambda>d. room_members d gid rid offset) (\<lambda>r.
          case r of
            Inr (members, has_more) \<Rightarrow> reply sid (Room_Members rid members offset has_more) Done
          | Inl e \<Rightarrow> reply_error sid ''room_members_unavailable'' ''private-room members are unavailable'' Done)))"

definition handle_set_room_member ::
  "draws \<Rightarrow> uuid \<Rightarrow> uuid \<Rightarrow> room_actor \<Rightarrow> rstring \<Rightarrow> uuid \<Rightarrow> bool \<Rightarrow> world prog" where
  "handle_set_room_member dw gid sid actor rid target included =
     (if \<not> is_safe_identifier rid then reply_error sid ''invalid_room'' ''the room identifier is invalid'' Done
      else store_call (set_room_member (dw_now dw) gid rid (ra_member_id actor) (ra_role actor) target included) (\<lambda>r.
        case r of
          Inr True \<Rightarrow>
            ask (\<lambda>w. map_of (wd_rooms w) rid) (\<lambda>room.
              let finish = handle_list_room_members gid sid actor rid 0
              in case room of
                   Some room \<Rightarrow> if included then broadcast_to_member target (Room_Created room) finish
                                else remove_room_from_member target rid finish
                 | None \<Rightarrow> finish)
        | Inr False \<Rightarrow> reply_error sid ''room_membership_unchanged''
            ''that private-room membership was already in the requested state or belongs to the owner'' Done
        | Inl e \<Rightarrow> reply_error sid ''room_member_update_failed''
            ''the private-room membership could not be saved'' Done))"

section \<open>Chat\<close>

definition has_joined :: "world \<Rightarrow> uuid \<Rightarrow> rstring \<Rightarrow> bool" where
  "has_joined w sid rid = (case client_of w sid of Some entry \<Rightarrow> rid \<in> ce_joined entry | None \<Rightarrow> False)"

definition handle_room_chat ::
  "externals \<Rightarrow> byte list \<Rightarrow> draws \<Rightarrow> uuid \<Rightarrow> peer \<Rightarrow> rstring \<Rightarrow> uuid \<Rightarrow> rstring \<Rightarrow> world prog" where
  "handle_room_chat X key dw gid peer rid message_id body =
     (let sid = p_session_id peer
      in if \<not> is_safe_identifier rid then reply_error sid ''invalid_room'' ''the room identifier is invalid'' Done
         else ask (\<lambda>w. has_joined w sid rid) (\<lambda>joined.
           if \<not> joined then reply_error sid ''room_not_joined'' ''join the room before sending messages'' Done
           else case sanitize_chat_text body of
             Inl e \<Rightarrow> act (send_error sid (str ''invalid_message'') (error_text e)) Done
           | Inr body \<Rightarrow>
             ask (\<lambda>w. map_of (wd_rooms w) rid \<noteq> None) (\<lambda>known.
               if \<not> known then reply_error sid ''room_not_found'' ''the requested room does not exist'' Done
               else store_call (append_message X key (dw_nonce dw) gid rid message_id peer (dw_now_ms dw) body) (\<lambda>r.
                 case r of
                   Inl e \<Rightarrow> reply_error sid ''message_not_persisted''
                     ''the gateway could not persist the message; it was not delivered'' Done
                 | Inr message \<Rightarrow> broadcast_to_room rid (Server_Chat message) Done))))"

section \<open>Rooms\<close>

definition join_room ::
  "externals \<Rightarrow> byte list \<Rightarrow> (chat_record \<Rightarrow> nat option) \<Rightarrow> uuid \<Rightarrow> uuid \<Rightarrow> room_summary \<Rightarrow> world prog \<Rightarrow> world prog" where
  "join_room X key json_len gid sid room k =
     store_query (\<lambda>d. history X key d gid (rs_room_id room) HISTORY_CAPACITY) (\<lambda>r.
       case r of
         Inl e \<Rightarrow> reply_error sid ''history_unavailable'' ''room history is unavailable'' k
       | Inr records \<Rightarrow>
           act (\<lambda>w. w\<lparr>wd_clients := amap_adjust sid
                  (\<lambda>client. client\<lparr>ce_joined := insert (rs_room_id room) (ce_joined client)\<rparr>) (wd_clients w)\<rparr>)
             (reply sid (Room_Joined room (fit_history_to_frame json_len records)) k))"

text \<open>The guard of \<open>room_creation\<close> lives until the handler returns.\<close>

definition lock_creation :: "world prog \<Rightarrow> world prog" where
  "lock_creation k = await (\<lambda>w. \<not> wd_creating w) (\<lambda>w. w\<lparr>wd_creating := True\<rparr>) k"

definition unlock_creation :: "world prog" where
  "unlock_creation = act (\<lambda>w. w\<lparr>wd_creating := False\<rparr>) Done"

definition handle_create_room ::
  "externals \<Rightarrow> byte list \<Rightarrow> (chat_record \<Rightarrow> nat option) \<Rightarrow> draws \<Rightarrow> uuid \<Rightarrow> uuid \<Rightarrow> uuid \<Rightarrow> rstring \<Rightarrow> room_visibility \<Rightarrow> world prog" where
  "handle_create_room X key json_len dw gid sid creator name vis =
     (case sanitize_room_name name of
        Inl e \<Rightarrow> act (send_error sid (str ''invalid_room_name'') (error_text e)) Done
      | Inr name \<Rightarrow> lock_creation (
          ask (\<lambda>w. (length (wd_rooms w) \<ge> MAX_ROOMS,
                    \<exists>room\<in>snd ` set (wd_rooms w). eq_ignore_ascii_case (rs_room_name room) name)) (\<lambda>(full, used).
            if full then reply_error sid ''room_limit'' ''this group has reached its room limit'' unlock_creation
            else if used then reply_error sid ''room_name_used'' ''a room with that name already exists'' unlock_creation
            else store_call (create_room_with_visibility (dw_now dw) (dw_room_id dw) gid name vis (Some creator)) (\<lambda>r.
              case r of
                Inl e \<Rightarrow> reply_error sid ''room_not_persisted'' ''the gateway could not create the room'' unlock_creation
              | Inr room \<Rightarrow>
                  act (\<lambda>w. w\<lparr>wd_rooms := amap_put (rs_room_id room) room (wd_rooms w)\<rparr>)
                    ((case vis of
                        Public_Room \<Rightarrow> broadcast (Room_Created room)
                      | Private_Room \<Rightarrow> broadcast_private_room_created creator (Room_Created room))
                     (join_room X key json_len gid sid room unlock_creation))))))"

definition handle_join_room ::
  "externals \<Rightarrow> byte list \<Rightarrow> (chat_record \<Rightarrow> nat option) \<Rightarrow> uuid \<Rightarrow> uuid \<Rightarrow> rstring \<Rightarrow> world prog" where
  "handle_join_room X key json_len gid sid rid =
     (if \<not> is_safe_identifier rid then reply_error sid ''invalid_room'' ''the room identifier is invalid'' Done
      else ask (\<lambda>w. map_of (wd_rooms w) rid) (\<lambda>room.
        case room of
          None \<Rightarrow> reply_error sid ''room_not_found'' ''the requested room does not exist'' Done
        | Some room \<Rightarrow>
            ask (\<lambda>w. map_option (\<lambda>client. p_member_id (ce_peer client)) (client_of w sid)) (\<lambda>member.
              case member of
                None \<Rightarrow> Done
              | Some mid \<Rightarrow>
                  store_query (\<lambda>d. member_can_access_room d gid rid mid) (\<lambda>may.
                    if \<not> may then reply_error sid ''private_room_denied'' ''this private room is not shared with you'' Done
                    else join_room X key json_len gid sid room Done))))"

definition handle_load_history ::
  "externals \<Rightarrow> byte list \<Rightarrow> (chat_record \<Rightarrow> nat option) \<Rightarrow> uuid \<Rightarrow> uuid \<Rightarrow> rstring \<Rightarrow> u64 \<Rightarrow> u16 \<Rightarrow> world prog" where
  "handle_load_history X key json_len gid sid rid before limit =
     (if \<not> is_safe_identifier rid \<or> before \<le> 1
      then reply_error sid ''invalid_history_request'' ''history request is invalid'' Done
      else ask (\<lambda>w. has_joined w sid rid) (\<lambda>joined.
        if \<not> joined then reply_error sid ''room_not_joined'' ''join the room before loading history'' Done
        else store_query (\<lambda>d. history_before X key d gid rid before (clamp 1 100 (unat limit))) (\<lambda>r.
          case r of
            Inl e \<Rightarrow> reply_error sid ''history_unavailable'' ''room history is unavailable'' Done
          | Inr records \<Rightarrow>
              (let page = fit_history_to_frame json_len records;
                   has_more = (page \<noteq> [] \<and> cr_sequence (hd page) > 1)
               in reply sid (History_Page rid page has_more) Done))))"

definition handle_leave_room :: "uuid \<Rightarrow> rstring \<Rightarrow> world prog" where
  "handle_leave_room sid rid =
     (if rid = DEFAULT_ROOM_ID then reply_error sid ''cannot_leave_general'' ''the general room is always joined'' Done
      else act (\<lambda>w. w\<lparr>wd_clients := amap_adjust sid
                 (\<lambda>client. client\<lparr>ce_joined := ce_joined client - {rid}\<rparr>) (wd_clients w)\<rparr>)
             (reply sid (Room_Left rid) Done))"

section \<open>Dispatch\<close>

text \<open>The \<open>match incoming\<close> of \<open>enter_group\<close>; \<open>role\<close> and the member are those of the group entry.\<close>

fun dispatch ::
  "externals \<Rightarrow> byte list \<Rightarrow> (chat_record \<Rightarrow> nat option) \<Rightarrow> draws \<Rightarrow> uuid \<Rightarrow> peer \<Rightarrow> group_role \<Rightarrow> client_message \<Rightarrow> world prog" where
  "dispatch X key json_len dw gid peer role (Chat rid message_id body) =
     handle_room_chat X key dw gid peer rid message_id body"
| "dispatch X key json_len dw gid peer role (Create_Room name vis) =
     handle_create_room X key json_len dw gid (p_session_id peer) (p_member_id peer) name vis"
| "dispatch X key json_len dw gid peer role (Join_Room rid) =
     handle_join_room X key json_len gid (p_session_id peer) rid"
| "dispatch X key json_len dw gid peer role (Leave_Room rid) = handle_leave_room (p_session_id peer) rid"
| "dispatch X key json_len dw gid peer role (Load_History rid before limit) =
     handle_load_history X key json_len gid (p_session_id peer) rid before limit"
| "dispatch X key json_len dw gid peer role List_Join_Requests = handle_list_join_requests gid (p_session_id peer)"
| "dispatch X key json_len dw gid peer role (Decide_Join_Request request_id approve) =
     handle_decide_join_request gid (p_session_id peer) request_id approve"
| "dispatch X key json_len dw gid peer role (List_Group_Members offset) =
     handle_list_group_members gid (p_session_id peer) offset"
| "dispatch X key json_len dw gid peer role (Set_Member_Banned member_id banned) =
     handle_set_member_banned dw gid (p_session_id peer) member_id banned"
| "dispatch X key json_len dw gid peer role (Rotate_Group_Token kind) =
     handle_rotate_group_token X dw gid (p_session_id peer) (p_member_id peer) kind"
| "dispatch X key json_len dw gid peer role (List_Room_Members rid offset) =
     handle_list_room_members gid (p_session_id peer) \<lparr>ra_member_id = p_member_id peer, ra_role = role\<rparr> rid offset"
| "dispatch X key json_len dw gid peer role (Set_Room_Member rid member_id included) =
     handle_set_room_member dw gid (p_session_id peer) \<lparr>ra_member_id = p_member_id peer, ra_role = role\<rparr> rid member_id included"
| "dispatch X key json_len dw gid peer role (Private_Chat recipient message_id body) =
     reply_error (p_session_id peer) ''private_requires_direct_connection''
       ''private messages must use a peer-to-peer connection'' Done"
| "dispatch X key json_len dw gid peer role Ping = reply (p_session_id peer) Pong Done"
| "dispatch X key json_len dw gid peer role (Hello protocol_min protocol_max nickname port fingerprint) =
     reply_error (p_session_id peer) ''unexpected_handshake_message''
       ''gateway and group selection messages can only be sent once'' Done"
| "dispatch X key json_len dw gid peer role (Join_Group group_id credential) =
     reply_error (p_session_id peer) ''unexpected_handshake_message''
       ''gateway and group selection messages can only be sent once'' Done"
| "dispatch X key json_len dw gid peer role (Create_Group name mode) =
     reply_error (p_session_id peer) ''unexpected_handshake_message''
       ''gateway and group selection messages can only be sent once'' Done"

end
