(* ===== verification/Gateway_Session.thy ===== *)
theory Gateway_Session
  imports Gateway_Handlers Store_Effects
begin

text \<open>
  A connection to the gateway (\<open>handle_client\<close> and \<open>enter_group\<close> of \<open>src/server.rs\<close>): the hello, the
  choice of a group, the entry into it, the rate-limited loop and the departure; and the gateway as a
  whole, whose connections interleave.
\<close>

section \<open>Hello\<close>

text \<open>What the gateway writes before it goes on or closes, and the outcome.\<close>

record hello_accepted =
  ha_negotiated :: u16
  ha_nickname :: rstring
  ha_direct :: "direct_peer_info option"

definition show_u16 :: "u16 \<Rightarrow> rstring" where
  "show_u16 n = show_nat (unat n)"

definition negotiate :: "u16 \<Rightarrow> u16 \<Rightarrow> u16 option" where
  "negotiate protocol_min protocol_max =
     (let negotiated = min PROTOCOL_MAX protocol_max
      in if negotiated < PROTOCOL_MIN \<or> negotiated < protocol_min then None else Some negotiated)"

definition advertised_direct ::
  "ip_addr \<Rightarrow> u16 option \<Rightarrow> rstring option \<Rightarrow> error + direct_peer_info option" where
  "advertised_direct remote port fingerprint =
     (case (port, fingerprint) of
        (Some p, Some f) \<Rightarrow>
          if p \<noteq> 0 \<and> is_valid_fingerprint f
          then Inr (Some \<lparr>dpi_endpoint = \<lparr>sa_ip = remote, sa_port = p\<rparr>, dpi_fingerprint = f\<rparr>)
          else Inl (Bail (str ''client advertised invalid peer-to-peer connection details''))
      | (None, None) \<Rightarrow> Inr None
      | _ \<Rightarrow> Inl (Bail (str ''client advertised invalid peer-to-peer connection details'')))"

fun accept_hello :: "ip_addr \<Rightarrow> client_message \<Rightarrow> server_message list \<times> (error + hello_accepted)" where
  "accept_hello remote (Hello protocol_min protocol_max nick port fingerprint) =
     (case negotiate protocol_min protocol_max of
        None \<Rightarrow>
          ([Server_Error (str ''incompatible_protocol'')
              (str ''gateway supports protocol '' @ show_u16 PROTOCOL_MIN @ str ''-'' @ show_u16 PROTOCOL_MAX @
               str '', client supports '' @ show_u16 protocol_min @ str ''-'' @ show_u16 protocol_max)],
           Inl (Bail (str ''client has no compatible protocol version'')))
      | Some negotiated \<Rightarrow>
          ([], and_then (sanitize_nickname nick) (\<lambda>nickname.
               and_then (advertised_direct remote port fingerprint) (\<lambda>direct.
               Inr \<lparr>ha_negotiated = negotiated, ha_nickname = nickname, ha_direct = direct\<rparr>))))"
| "accept_hello remote _ = ([], Inl (Bail (str ''the first encrypted message was not a client hello'')))"

section \<open>Choosing a group\<close>

record group_entry =
  ge_nickname :: rstring
  ge_member_id :: uuid
  ge_direct :: "direct_peer_info option"
  ge_negotiated :: u16
  ge_role :: group_role
  ge_issued_credentials :: "issued_group_credentials option"
  ge_issued_member_token :: "rstring option"

text \<open>The connection is closed, fails, or enters a group.\<close>

datatype selection = Closed | Failed error | Entering uuid group_entry

definition refusal :: "string \<Rightarrow> string \<Rightarrow> server_message list" where
  "refusal code message = [Server_Error (str code) (str message)]"

text \<open>Random draws of a selection: one member, one request and the tokens of a new group.\<close>

record selection_draws =
  sd_now :: int
  sd_member_id :: uuid
  sd_entropy :: "byte list option"
  sd_request_id :: uuid
  sd_request_entropy :: "byte list option"
  sd_group_id :: uuid
  sd_invite_entropy :: "byte list option"

definition entry_for :: "hello_accepted \<Rightarrow> group_role \<Rightarrow> uuid \<Rightarrow> issued_group_credentials option \<Rightarrow> rstring option \<Rightarrow> group_entry" where
  "entry_for hello role mid credentials token =
     \<lparr>ge_nickname = ha_nickname hello, ge_member_id = mid, ge_direct = ha_direct hello,
      ge_negotiated = ha_negotiated hello, ge_role = role, ge_issued_credentials = credentials,
      ge_issued_member_token = token\<rparr>"

definition select_join ::
  "externals \<Rightarrow> selection_draws \<Rightarrow> hello_accepted \<Rightarrow> uuid \<Rightarrow> rstring option \<Rightarrow> uuid set \<Rightarrow> database \<Rightarrow>
   database \<times> server_message list \<times> selection" where
  "select_join X sd hello gid credential groups d =
     (if gid \<notin> groups
      then (d, refusal ''group_not_found'' ''the selected group no longer exists'', Failed (Bail (str ''client selected an unknown group'')))
      else if (case credential of Some token \<Rightarrow> \<not> is_valid_group_credential token | None \<Rightarrow> False)
      then (d, refusal ''invalid_group_credential'' ''the group credential has an invalid format'', Closed)
      else case authorize_join X (sd_now sd) (sd_member_id sd) (sd_entropy sd) gid credential (ha_nickname hello) d of
        (d1, Inl e) \<Rightarrow> (d1, [], Failed e)
      | (d1, Inr (Allowed role mid token)) \<Rightarrow> (d1, [], Entering gid (entry_for hello role mid None token))
      | (d1, Inr Approval_Required) \<Rightarrow>
          (case create_join_request X (sd_now sd) (sd_request_id sd) (sd_request_entropy sd) gid (ha_nickname hello) d1 of
             (d2, Inl e) \<Rightarrow> (d2, [], Failed e)
           | (d2, Inr (request_id, request_token)) \<Rightarrow> (d2, [Join_Pending gid request_id request_token], Closed))
      | (d1, Inr (Auth_Pending request_id request_token)) \<Rightarrow> (d1, [Join_Pending gid request_id request_token], Closed)
      | (d1, Inr Invite_Required) \<Rightarrow> (d1, refusal ''invite_required'' ''this group requires an invite token'', Closed)
      | (d1, Inr Auth_Rejected) \<Rightarrow> (d1, refusal ''join_rejected'' ''an administrator rejected this join request'', Closed)
      | (d1, Inr Auth_Banned) \<Rightarrow>
          (d1, refusal ''member_banned'' ''this anonymous membership has been banned from the group'', Closed)
      | (d1, Inr Member_Limit) \<Rightarrow>
          (d1, refusal ''group_member_limit'' ''this group has reached its persistent member limit'', Closed)
      | (d1, Inr Invalid_Credential) \<Rightarrow>
          (d1, refusal ''invalid_group_credential''
             ''the saved invite, request, or administrator token is invalid'', Closed))"

text \<open>The groups shown to a client after its hello, and the state of a group that was just created.\<close>

definition group_summaries :: "group_summary list \<Rightarrow> group_summary list" where
  "group_summaries groups = sort_key gs_group_name groups"

definition gateway_welcome :: "uuid \<Rightarrow> rstring \<Rightarrow> hello_accepted \<Rightarrow> group_summary list \<Rightarrow> server_message" where
  "gateway_welcome gw name hello groups =
     Gateway_Welcome (ha_negotiated hello) gw name (group_summaries groups)"

definition general_room :: room_summary where
  "general_room = \<lparr>rs_room_id = DEFAULT_ROOM_ID, rs_room_name = DEFAULT_ROOM_NAME, rs_visibility = Public_Room\<rparr>"

definition created_group_state :: "database \<Rightarrow> group_summary \<Rightarrow> world" where
  "created_group_state d summary = new_group_state d summary [(DEFAULT_ROOM_ID, general_room)]"

definition select_create ::
  "externals \<Rightarrow> selection_draws \<Rightarrow> hello_accepted \<Rightarrow> rstring \<Rightarrow> group_access_mode \<Rightarrow> database \<Rightarrow>
   database \<times> server_message list \<times> selection" where
  "select_create X sd hello name mode d =
     (case sanitize_group_name name of
        Inl e \<Rightarrow> (d, [], Failed e)
      | Inr name \<Rightarrow>
        (case create_group_with_access X (sd_now sd) (sd_group_id sd) (sd_member_id sd) (sd_entropy sd)
                (sd_invite_entropy sd) name mode d of
           (d1, Inl e) \<Rightarrow> (d1, refusal ''group_create_failed'' ''the group name is already used or could not be saved'', Closed)
         | (d1, Inr created) \<Rightarrow>
           (case update_member_nickname (sd_now sd) (gs_group_id (cg_summary created)) (cg_creator_member_id created)
                   (ha_nickname hello) d1 of
              (d2, Inl e) \<Rightarrow> (d2, [], Failed e)
            | (d2, Inr _) \<Rightarrow> (d2, [], Entering (gs_group_id (cg_summary created))
                (entry_for hello Admin (cg_creator_member_id created) (Some (cg_credentials created)) None)))))"

text \<open>The selection message after the hello; \<open>groups\<close> are the groups the gateway has loaded.\<close>

fun select_group ::
  "externals \<Rightarrow> selection_draws \<Rightarrow> hello_accepted \<Rightarrow> client_message \<Rightarrow> uuid set \<Rightarrow> database \<Rightarrow>
   database \<times> server_message list \<times> selection" where
  "select_group X sd hello (Join_Group gid credential) groups d = select_join X sd hello gid credential groups d"
| "select_group X sd hello (Create_Group name mode) groups d = select_create X sd hello name mode d"
| "select_group X sd hello _ groups d =
     (d, refusal ''group_selection_required'' ''join or create a group before chatting'',
      Failed (Bail (str ''client did not select a group'')))"

section \<open>Entering\<close>

definition forget_client :: "uuid \<Rightarrow> world \<Rightarrow> world" where
  "forget_client sid w = w\<lparr>wd_clients := amap_remove sid (wd_clients w)\<rparr>"

definition close_queue :: "uuid \<Rightarrow> world \<Rightarrow> world" where
  "close_queue sid w = w\<lparr>wd_queues := amap_remove sid (wd_queues w)\<rparr>"

definition peer_for :: "uuid \<Rightarrow> group_entry \<Rightarrow> peer" where
  "peer_for sid entry = \<lparr>p_session_id = sid, p_member_id = ge_member_id entry,
     p_nickname = ge_nickname entry, p_direct = ge_direct entry\<rparr>"

text \<open>The section that lists the members and adds the client, and the channel made before it.\<close>

definition add_client :: "uuid \<Rightarrow> group_entry \<Rightarrow> world \<Rightarrow> world \<times> peer list" where
  "add_client sid entry w =
     (let peer = peer_for sid entry
      in (w\<lparr>wd_clients := amap_put sid \<lparr>ce_peer = peer, ce_role = ge_role entry, ce_joined = {DEFAULT_ROOM_ID},
                                       ce_kick = None\<rparr> (wd_clients w),
            wd_queues := amap_put sid [] (wd_queues w)\<rparr>,
          sort_key p_nickname (map (\<lambda>e. ce_peer (snd e)) (wd_clients w) @ [peer])))"

text \<open>
  The direct writes of the connection succeed or fail as \<open>writes\<close> says; it stands for the frame limit
  and the network.
\<close>

definition enter_group ::
  "externals \<Rightarrow> byte list \<Rightarrow> (chat_record \<Rightarrow> nat option) \<Rightarrow> (server_message \<Rightarrow> bool) \<Rightarrow> group_summary \<Rightarrow> uuid \<Rightarrow>
   group_entry \<Rightarrow> world prog" where
  "enter_group X key json_len writes summary sid entry =
     (let gid = gs_group_id summary; fail = act (forget_client sid) (act (close_queue sid) Done)
      in call (add_client sid entry) (\<lambda>members.
         store_query (\<lambda>d. rooms_for_member d gid (ge_member_id entry)) (\<lambda>accessible.
         store_query (\<lambda>d. history X key d gid DEFAULT_ROOM_ID HISTORY_CAPACITY) (\<lambda>r.
           case r of
             Inl e \<Rightarrow> fail
           | Inr records \<Rightarrow>
               (let welcome = Welcome \<lparr>w_protocol_version = ge_negotiated entry, w_group_id = gid,
                    w_group_name = gs_group_name summary, w_access_mode = gs_access_mode summary,
                    w_role = ge_role entry, w_issued_credentials = ge_issued_credentials entry,
                    w_issued_member_token = ge_issued_member_token entry, w_room_id = DEFAULT_ROOM_ID,
                    w_room_name = DEFAULT_ROOM_NAME, w_rooms = accessible, w_session_id = sid, w_members = members,
                    w_history = fit_history_to_frame json_len records\<rparr>
                in if \<not> writes welcome then fail
                   else broadcast_except (Member_Joined (peer_for sid entry)) (Some sid) Done)))))"

section \<open>The loop\<close>

record session_limits =
  sl_limiter :: rate_limiter
  sl_violations :: byte

datatype verdict = Handle_Message | Rate_Limited | Rate_Exceeded

definition receive_limit :: "nat \<Rightarrow> session_limits \<Rightarrow> session_limits \<times> verdict" where
  "receive_limit now sl =
     (let (limiter, passed) = allow now (sl_limiter sl)
      in if \<not> passed then
           (let violations = sl_violations sl + 1; sl' = \<lparr>sl_limiter = limiter, sl_violations = violations\<rparr>
            in if violations \<ge> MAX_CONSECUTIVE_RATE_VIOLATIONS then (sl', Rate_Exceeded) else (sl', Rate_Limited))
         else (\<lparr>sl_limiter = limiter, sl_violations = 0\<rparr>, Handle_Message))"

definition rate_limit_notice :: "uuid \<Rightarrow> world prog" where
  "rate_limit_notice sid = act (send_error sid (str ''rate_limited'')
     (str ''maximum rate is '' @ show_nat (unat MAX_CLIENT_MESSAGES_PER_SECOND) @ str '' messages per second'')) Done"

fun kick_message :: "kick_reason \<Rightarrow> server_message" where
  "kick_message Kick_Banned =
     Server_Error (str ''member_banned'') (str ''an administrator banned this anonymous membership'')"
| "kick_message Kick_Credential_Rotated =
     Server_Error (str ''session_revoked'') (str ''this membership credential was rotated from another session'')"

text \<open>The end of a connection, whatever ended its loop.\<close>

definition leave_group :: "uuid \<Rightarrow> world prog" where
  "leave_group sid = act (forget_client sid) (broadcast (Member_Left sid) (act (close_queue sid) Done))"

section \<open>The gateway\<close>

text \<open>
  The connections of one group, one task each, over the shared state. A connection that is not busy
  handles a message, sends the rate notice, writes from its queue or leaves; a new one enters; other
  groups and joining clients use the store.
\<close>

definition valid_draws :: "draws \<Rightarrow> bool" where
  "valid_draws dw \<longleftrightarrow> (case dw_nonce dw of Some n \<Rightarrow> length n = NONCE_LENGTH | None \<Rightarrow> True)"

fun valid_message :: "client_message \<Rightarrow> bool" where
  "valid_message (Chat rid message_id body) \<longleftrightarrow> valid_str body"
| "valid_message _ \<longleftrightarrow> True"

inductive gateway_step ::
  "externals \<Rightarrow> byte list \<Rightarrow> (chat_record \<Rightarrow> nat option) \<Rightarrow> (uuid \<Rightarrow> world prog) \<times> world \<Rightarrow> (uuid \<Rightarrow> world prog) \<times> world \<Rightarrow> bool"
  for X :: externals and key :: "byte list" and json_len :: "chat_record \<Rightarrow> nat option"
  where
    gw_work: "pool_step tasks w tasks' w' \<Longrightarrow> gateway_step X key json_len (tasks, w) (tasks', w')"
  | gw_message: "tasks sid = Done \<Longrightarrow> client_of w sid = Some client \<Longrightarrow> valid_draws dw \<Longrightarrow> valid_message message \<Longrightarrow>
      gateway_step X key json_len (tasks, w)
        (tasks(sid := dispatch X key json_len dw (gid_of w) (ce_peer client) (ce_role client) message), w)"
  | gw_rate_notice: "tasks sid = Done \<Longrightarrow> gateway_step X key json_len (tasks, w) (tasks(sid := rate_limit_notice sid), w)"
  | gw_write: "take_outbound sid w = Some (w', message) \<Longrightarrow> gateway_step X key json_len (tasks, w) (tasks, w')"
  | gw_enter: "tasks sid = Done \<Longrightarrow> client_of w sid = None \<Longrightarrow> queue_of w sid = None \<Longrightarrow>
      gateway_step X key json_len (tasks, w) (tasks(sid := enter_group X key json_len writes (wd_summary w) sid entry), w)"
  | gw_leave: "tasks sid = Done \<Longrightarrow> gateway_step X key json_len (tasks, w) (tasks(sid := leave_group sid), w)"
  | gw_store: "store_step X key (wd_db w) d \<Longrightarrow> gateway_step X key json_len (tasks, w) (tasks, w\<lparr>wd_db := d\<rparr>)"

end
