(* ===== verification/Gateway_Invariants.thy ===== *)
theory Gateway_Invariants
  imports Gateway_Session Message_Log
begin

text \<open>
  What holds of a group of the gateway at any moment, however its connections interleave: the cache
  agrees with the store, everyone is in the default room, queues are bounded, and no chat message is
  queued for anyone before it is stored.
\<close>

section \<open>The invariant\<close>

definition record_backed :: "database \<Rightarrow> uuid \<Rightarrow> rstring \<Rightarrow> chat_record \<Rightarrow> bool" where
  "record_backed d gid rid m \<longleftrightarrow> cr_room_id m = rid \<and>
     (\<exists>row\<in>set (t_messages d). m_group row = gid \<and> m_room row = rid \<and> m_id row = cr_message_id m \<and>
        word_of_int (m_sequence row) = cr_sequence m)"

fun message_backed :: "database \<Rightarrow> uuid \<Rightarrow> server_message \<Rightarrow> bool" where
  "message_backed d gid (Server_Chat m) \<longleftrightarrow> record_backed d gid (cr_room_id m) m"
| "message_backed d gid (Room_Joined room records) \<longleftrightarrow> (\<forall>m\<in>set records. record_backed d gid (rs_room_id room) m)"
| "message_backed d gid (History_Page rid records has_more) \<longleftrightarrow> (\<forall>m\<in>set records. record_backed d gid rid m)"
| "message_backed d gid _ \<longleftrightarrow> True"

definition room_known :: "database \<Rightarrow> uuid \<Rightarrow> rstring \<Rightarrow> room_summary \<Rightarrow> bool" where
  "room_known d gid rid room \<longleftrightarrow>
     (\<exists>r\<in>set (t_rooms d). r_group r = gid \<and> r_id r = rid \<and> summary_of_room r = room)"

definition cache_ok :: "world \<Rightarrow> bool" where
  "cache_ok w \<longleftrightarrow>
     map_of (wd_rooms w) DEFAULT_ROOM_ID \<noteq> None \<and>
     (\<forall>rid room. map_of (wd_rooms w) rid = Some room \<longrightarrow> room_known (wd_db w) (gid_of w) rid room)"

definition client_ok :: "world \<Rightarrow> client_entry \<Rightarrow> bool" where
  "client_ok w e \<longleftrightarrow> DEFAULT_ROOM_ID \<in> ce_joined e \<and> ce_joined e \<subseteq> dom (map_of (wd_rooms w))"

definition queue_ok :: "world \<Rightarrow> server_message list \<Rightarrow> bool" where
  "queue_ok w q \<longleftrightarrow> length q \<le> CLIENT_QUEUE_CAPACITY \<and> list_all (message_backed (wd_db w) (gid_of w)) q"

definition gateway_ok :: "externals \<Rightarrow> byte list \<Rightarrow> world \<Rightarrow> bool" where
  "gateway_ok X key w \<longleftrightarrow>
     log_ready X key (wd_db w) \<and> cache_ok w \<and>
     (\<forall>sid e. (sid, e) \<in> set (wd_clients w) \<longrightarrow> client_ok w e) \<and>
     (\<forall>sid q. (sid, q) \<in> set (wd_queues w) \<longrightarrow> queue_ok w q)"

text \<open>What only ever grows: stored messages, rooms, the cache.\<close>

definition store_grows :: "database \<Rightarrow> database \<Rightarrow> bool" where
  "store_grows d e \<longleftrightarrow> set (t_messages d) \<subseteq> set (t_messages e) \<and>
     (\<forall>r\<in>set (t_rooms d). \<exists>s\<in>set (t_rooms e). r_group s = r_group r \<and> summary_of_room s = summary_of_room r)"

definition gateway_grows :: "world \<Rightarrow> world \<Rightarrow> bool" where
  "gateway_grows w v \<longleftrightarrow> wd_summary v = wd_summary w \<and> store_grows (wd_db w) (wd_db v) \<and>
     map_of (wd_rooms w) \<subseteq>\<^sub>m map_of (wd_rooms v)"

lemma store_grows_refl [simp]: "store_grows d d"
  by (auto simp: store_grows_def)

lemma store_grows_trans: "store_grows d e \<Longrightarrow> store_grows e f \<Longrightarrow> store_grows d f"
  unfolding store_grows_def by (metis order_trans)

interpretation gateway: rely_guarantee "gateway_ok X key" gateway_grows for X key
proof
  show "gateway_grows w w" for w by (simp add: gateway_grows_def)
  show "gateway_grows u w" if "gateway_grows u v" "gateway_grows v w" for u v w
    using that by (auto simp: gateway_grows_def intro: store_grows_trans map_le_trans)
qed

section \<open>The store only grows\<close>

lemma update_where_room:
  assumes "r \<in> set rows"
  shows "\<exists>s\<in>set (update_where P (\<lambda>r. r\<lparr>r_next_sequence := n r\<rparr>) rows). r_group s = r_group r \<and> summary_of_room s = summary_of_room r"
  using update_where_keeps [OF assms, of P "\<lambda>r. (r_group r, summary_of_room r)" "\<lambda>r. r\<lparr>r_next_sequence := n r\<rparr>"]
  by (simp add: summary_of_room_def)

lemma effect_grows: "effect X key d e \<Longrightarrow> store_grows d e"
  by (induction rule: effect.induct) (auto simp: store_grows_def write_defs intro: update_where_room)

lemma effects_grow: "effects X key d e \<Longrightarrow> store_grows d e"
  by (induction rule: rtranclp_induct) (auto intro: effect_grows store_grows_trans)

lemma effects_log_ready: "effects X key d e \<Longrightarrow> log_ready X key d \<Longrightarrow> log_ready X key e"
  by (induction rule: rtranclp_induct) (auto simp: log_ready_def intro: store_inv_effect)

lemma record_backed_mono: "record_backed d gid rid m \<Longrightarrow> store_grows d e \<Longrightarrow> record_backed e gid rid m"
  by (auto simp: record_backed_def store_grows_def)

lemma room_known_mono:
  assumes "room_known d gid rid room" "store_grows d e"
  shows "room_known e gid rid room"
proof -
  from assms(1) obtain r where r: "r \<in> set (t_rooms d)" "r_group r = gid" "r_id r = rid" "summary_of_room r = room"
    by (auto simp: room_known_def)
  with assms(2) obtain s where s: "s \<in> set (t_rooms e)" "r_group s = r_group r" "summary_of_room s = summary_of_room r"
    by (auto simp: store_grows_def)
  then have "r_id s = r_id r" by (simp add: summary_of_room_def)
  with r s show ?thesis by (auto simp: room_known_def)
qed

lemma message_backed_mono: "message_backed d gid m \<Longrightarrow> store_grows d e \<Longrightarrow> message_backed e gid m"
  by (cases m) (auto intro: record_backed_mono)

lemma queue_ok_mono: "queue_ok w q \<Longrightarrow> gateway_grows w v \<Longrightarrow> queue_ok v q"
  by (auto simp: queue_ok_def gateway_grows_def list_all_iff intro: message_backed_mono)

lemma client_ok_mono: "client_ok w e \<Longrightarrow> gateway_grows w v \<Longrightarrow> client_ok v e"
  unfolding client_ok_def gateway_grows_def by (meson map_le_implies_dom_le order_trans)

lemma cache_ok_store: "cache_ok w \<Longrightarrow> store_grows (wd_db w) d \<Longrightarrow> cache_ok (w\<lparr>wd_db := d\<rparr>)"
  by (auto simp: cache_ok_def intro: room_known_mono)

text \<open>A change of the store alone.\<close>

lemma gateway_store:
  assumes ok: "gateway_ok X key w" and eff: "effects X key (wd_db w) d"
  shows "gateway_ok X key (w\<lparr>wd_db := d\<rparr>) \<and> gateway_grows w (w\<lparr>wd_db := d\<rparr>)"
proof -
  let ?v = "w\<lparr>wd_db := d\<rparr>"
  have grows: "gateway_grows w ?v" using effects_grow [OF eff] by (simp add: gateway_grows_def)
  moreover have "cache_ok ?v"
    using ok effects_grow [OF eff] by (auto simp: gateway_ok_def intro: cache_ok_store)
  moreover have "log_ready X key (wd_db ?v)" using ok effects_log_ready [OF eff] by (simp add: gateway_ok_def)
  moreover have "client_ok ?v e" if "(sid, e) \<in> set (wd_clients w)" for sid e
    using ok that by (auto simp: gateway_ok_def intro: client_ok_mono [OF _ grows])
  moreover have "queue_ok ?v q" if "(sid, q) \<in> set (wd_queues w)" for sid q
    using ok that by (auto simp: gateway_ok_def intro: queue_ok_mono [OF _ grows])
  ultimately show ?thesis by (simp add: gateway_ok_def)
qed

section \<open>Steps that keep it\<close>

lemma set_amap_adjust: "(k, v) \<in> set (amap_adjust j f m) \<Longrightarrow> (k, v) \<in> set m \<or> (\<exists>u. (k, u) \<in> set m \<and> v = f u)"
  by (auto simp: amap_adjust_def)

lemma queue_ok_offer: "queue_ok w q \<Longrightarrow> message_backed (wd_db w) (gid_of w) m \<Longrightarrow> queue_ok w (offer CLIENT_QUEUE_CAPACITY m q)"
  by (auto simp: queue_ok_def offer_def)

lemma gateway_ok_queues:
  assumes "gateway_ok X key w" "\<And>sid q. (sid, q) \<in> set qs \<Longrightarrow> queue_ok w q"
  shows "gateway_ok X key (w\<lparr>wd_queues := qs\<rparr>) \<and> gateway_grows w (w\<lparr>wd_queues := qs\<rparr>)"
  using assms by (auto simp: gateway_ok_def cache_ok_def client_ok_def queue_ok_def gateway_grows_def)

lemma gateway_ok_clients:
  assumes "gateway_ok X key w" "\<And>sid e. (sid, e) \<in> set cs \<Longrightarrow> client_ok w e"
  shows "gateway_ok X key (w\<lparr>wd_clients := cs\<rparr>) \<and> gateway_grows w (w\<lparr>wd_clients := cs\<rparr>)"
  using assms by (auto simp: gateway_ok_def cache_ok_def client_ok_def queue_ok_def gateway_grows_def)

lemma gateway_ok_creating:
  "gateway_ok X key w \<Longrightarrow> gateway_ok X key (w\<lparr>wd_creating := b\<rparr>) \<and> gateway_grows w (w\<lparr>wd_creating := b\<rparr>)"
  by (auto simp: gateway_ok_def cache_ok_def client_ok_def queue_ok_def gateway_grows_def)

lemma gateway_ok_send:
  assumes "gateway_ok X key w" "message_backed (wd_db w) (gid_of w) m"
  shows "gateway_ok X key (send_to_client sid m w) \<and> gateway_grows w (send_to_client sid m w)"
  unfolding send_to_client_def
  using assms by (intro gateway_ok_queues) (auto simp: gateway_ok_def intro: queue_ok_offer dest!: set_amap_adjust)

section \<open>Safe programs\<close>

abbreviation gateway_safe :: "externals \<Rightarrow> byte list \<Rightarrow> world prog \<Rightarrow> world \<Rightarrow> bool" where
  "gateway_safe X key \<equiv> safe (gateway_ok X key) gateway_grows"

text \<open>A program that is safe in every later state too, so it can follow any step.\<close>

definition always_safe :: "externals \<Rightarrow> byte list \<Rightarrow> world prog \<Rightarrow> bool" where
  "always_safe X key p \<longleftrightarrow> (\<forall>w. gateway_safe X key p w)"

lemma always_safeI: "(\<And>w. gateway_safe X key p w) \<Longrightarrow> always_safe X key p"
  by (simp add: always_safe_def)

lemma always_safeD: "always_safe X key p \<Longrightarrow> gateway_safe X key p w"
  by (simp add: always_safe_def)

lemma always_safe_Done [simp]: "always_safe X key Done"
  by (simp add: always_safe_def)

lemma safe_reply:
  assumes "\<And>u. gateway_grows w u \<Longrightarrow> message_backed (wd_db u) (gid_of u) m" "always_safe X key k"
  shows "gateway_safe X key (reply sid m k) w"
  using assms by (intro gateway.ok_act) (auto intro: always_safeD simp: gateway_ok_send)

lemma always_reply:
  "(\<And>d gid. message_backed d gid m) \<Longrightarrow> always_safe X key k \<Longrightarrow> always_safe X key (reply sid m k)"
  by (auto intro!: always_safeI safe_reply)

lemma always_reply_error: "always_safe X key k \<Longrightarrow> always_safe X key (reply_error sid code m k)"
  unfolding reply_error_def send_error_def by (rule always_reply) simp_all

lemma always_send_error: "always_safe X key k \<Longrightarrow> always_safe X key (act (send_error sid code m) k)"
  unfolding send_error_def by (rule always_reply) simp_all

lemma always_ask: "(\<And>x. always_safe X key (q x)) \<Longrightarrow> always_safe X key (ask g q)"
  by (auto intro!: always_safeI gateway.ok_ask intro: always_safeD)

lemma always_store_query: "(\<And>x. always_safe X key (q x)) \<Longrightarrow> always_safe X key (store_query f q)"
  unfolding store_query_def by (rule always_ask)

lemma always_store_call:
  assumes "\<And>d. effects X key d (fst (f d))" "\<And>r. always_safe X key (q r)"
  shows "always_safe X key (store_call f q)"
  unfolding store_call_def
  using assms(1) gateway_store [of X key]
  by (auto intro!: always_safeI gateway.ok_call always_safeD [OF assms(2)] simp: case_prod_beta)

lemma always_act:
  "(\<And>u. gateway_ok X key u \<Longrightarrow> gateway_ok X key (f u) \<and> gateway_grows u (f u)) \<Longrightarrow> always_safe X key k \<Longrightarrow>
   always_safe X key (act f k)"
  by (auto intro!: always_safeI gateway.ok_act intro: always_safeD)

text \<open>Broadcasts of a message that is backed from now on.\<close>

lemma safe_send_each:
  assumes "message_backed (wd_db w) (gid_of w) m" "always_safe X key k"
  shows "gateway_safe X key (send_each sids m k) w"
  using assms(1)
proof (induction sids arbitrary: w)
  case Nil
  then show ?case using assms(2) by (simp add: always_safeD)
next
  case (Cons sid sids)
  have backed: "message_backed (wd_db u) (gid_of u) m" if "gateway_grows w u" for u
    using that Cons.prems by (auto simp: gateway_grows_def intro: message_backed_mono)
  have "gateway_safe X key (send_each sids m k) (send_to_client sid m u)" if "gateway_grows w u" for u
    using Cons.IH [of "send_to_client sid m u"] backed [OF that] by (simp add: send_to_client_def)
  then show ?case
    using backed by (auto intro!: gateway.ok_act simp: gateway_ok_send)
qed

lemma safe_broadcast_where:
  assumes "message_backed (wd_db w) (gid_of w) m" "always_safe X key k"
  shows "gateway_safe X key (broadcast_where P m k) w"
  unfolding broadcast_where_def
proof (rule gateway.ok_ask)
  fix u assume "gateway_grows w u"
  with assms(1) have "message_backed (wd_db u) (gid_of u) m"
    by (auto simp: gateway_grows_def intro: message_backed_mono)
  then show "gateway_safe X key (send_each (clients_where P u) m k) u" using assms(2) by (rule safe_send_each)
qed

lemma always_send_each: "(\<And>d gid. message_backed d gid m) \<Longrightarrow> always_safe X key k \<Longrightarrow> always_safe X key (send_each sids m k)"
  by (auto intro!: always_safeI safe_send_each)

lemma always_broadcast_where:
  "(\<And>d gid. message_backed d gid m) \<Longrightarrow> always_safe X key k \<Longrightarrow> always_safe X key (broadcast_where P m k)"
  by (auto intro!: always_safeI safe_broadcast_where)

lemma always_broadcasts:
  assumes "\<And>d gid. message_backed d gid m" "always_safe X key k"
  shows "always_safe X key (broadcast m k)" "always_safe X key (broadcast_except m excluded k)"
    "always_safe X key (broadcast_to_member mid m k)" "always_safe X key (broadcast_private_room_created mid m k)"
  using assms
  by (simp_all add: broadcast_def broadcast_except_def broadcast_to_member_def broadcast_private_room_created_def
      always_broadcast_where)

text \<open>Changes of the client entries.\<close>

lemma always_kick_each: "always_safe X key k \<Longrightarrow> always_safe X key (kick_each sids reason k)"
proof (induction sids)
  case (Cons sid sids)
  then show ?case
    by (auto intro!: always_act gateway_ok_clients simp: gateway_ok_def client_ok_def dest!: set_amap_adjust)
qed simp

lemma always_kick_where: "always_safe X key k \<Longrightarrow> always_safe X key (kick_where P reason k)"
  unfolding kick_where_def by (intro always_ask always_kick_each)

section \<open>Every handler is safe\<close>

lemmas call_effects = decide_join_request_effects [OF surjective_pairing]
  set_member_banned_effects [OF surjective_pairing] rotate_group_token_effects [OF surjective_pairing]
  set_room_member_effects [OF surjective_pairing] create_room_with_visibility_effects [OF surjective_pairing]
  append_message_effects [OF surjective_pairing]

lemmas always_intros = always_ask always_store_query always_store_call always_reply always_reply_error
  always_send_error always_broadcasts always_kick_where always_safe_Done

lemma always_list_join_requests: "always_safe X key (handle_list_join_requests gid sid)"
  unfolding handle_list_join_requests_def by (auto intro!: always_intros)

lemma always_decide_join_request: "always_safe X key (handle_decide_join_request gid sid request_id approve)"
  unfolding handle_decide_join_request_def
  by (auto intro!: always_intros always_list_join_requests call_effects
      split: sum.splits bool.splits)

lemma always_list_group_members: "always_safe X key (handle_list_group_members gid sid offset)"
  unfolding handle_list_group_members_def by (auto intro!: always_intros)

lemma always_set_member_banned: "always_safe X key (handle_set_member_banned dw gid sid member_id banned)"
  unfolding handle_set_member_banned_def
  by (auto intro!: always_intros always_list_group_members call_effects
      split: sum.splits bool.splits)

lemma always_rotate_group_token: "always_safe X key (handle_rotate_group_token X dw gid sid actor kind)"
  unfolding handle_rotate_group_token_def Let_def
  by (auto intro!: always_intros call_effects split: sum.splits)

lemma always_list_room_members: "always_safe X key (handle_list_room_members gid sid actor rid offset)"
  unfolding handle_list_room_members_def by (auto intro!: always_intros split: sum.splits)

lemma room_group: "schema_ok d \<Longrightarrow> r \<in> set (t_rooms d) \<Longrightarrow> r_group r \<in> g_id ` set (t_groups d)"
  by (simp add: schema_ok_def rooms_ok_def list_all_iff)

text \<open>The default room is public, so no change of an access list reaches it.\<close>

lemma general_public:
  assumes "gateway_ok X key w"
  shows "room_visibility_of (wd_db w) (gid_of w) DEFAULT_ROOM_ID = Some Public_Room"
proof -
  from assms have inv: "store_inv X key (wd_db w)" and cache: "cache_ok w" by (auto simp: gateway_ok_def log_ready_def)
  then have ok: "schema_ok (wd_db w)" and general: "groups_have_general (wd_db w)" by (auto simp: store_inv_def)
  from cache obtain r where "r \<in> set (t_rooms (wd_db w))" "r_group r = gid_of w"
    by (auto simp: cache_ok_def room_known_def)
  with room_group [OF ok] have "gid_of w \<in> g_id ` set (t_groups (wd_db w))" by metis
  with general obtain s where "s \<in> set (t_rooms (wd_db w))" "r_group s = gid_of w" "r_id s = DEFAULT_ROOM_ID"
      "r_visibility s = Public_Room"
    by (auto simp: groups_have_general_def)
  then have "find_room (wd_db w) (gid_of w) DEFAULT_ROOM_ID = Some s" by (simp add: find_room_iff [OF ok])
  then show ?thesis using \<open>r_visibility s = Public_Room\<close> by (simp add: room_visibility_of_def)
qed

lemma client_ok_leave:
  "client_ok w e \<Longrightarrow> rid \<noteq> DEFAULT_ROOM_ID \<Longrightarrow> client_ok w (e\<lparr>ce_joined := ce_joined e - {rid}\<rparr>)"
  by (auto simp: client_ok_def)

lemma always_call:
  "(\<And>u. gateway_ok X key u \<Longrightarrow> gateway_ok X key (fst (h u)) \<and> gateway_grows u (fst (h u))) \<Longrightarrow>
   (\<And>x. always_safe X key (q x)) \<Longrightarrow> always_safe X key (call h q)"
  by (auto intro!: always_safeI gateway.ok_call intro: always_safeD)

lemma gateway_ok_drop_room:
  "gateway_ok X key u \<Longrightarrow> rid \<noteq> DEFAULT_ROOM_ID \<Longrightarrow>
   gateway_ok X key (drop_room_of_member mid rid u) \<and> gateway_grows u (drop_room_of_member mid rid u)"
  unfolding drop_room_of_member_def update_clients_def
  by (intro gateway_ok_clients) (auto simp: amap_map_def gateway_ok_def client_ok_leave)

lemma always_remove_room:
  "rid \<noteq> DEFAULT_ROOM_ID \<Longrightarrow> always_safe X key k \<Longrightarrow> always_safe X key (remove_room_from_member mid rid k)"
  unfolding remove_room_from_member_def
  by (intro always_call always_send_each) (simp_all add: gateway_ok_drop_room)

text \<open>Handlers of rooms run for the group of the state they start in.\<close>

lemma gid_of_grows: "gateway_grows w u \<Longrightarrow> gid_of u = gid_of w"
  by (simp add: gateway_grows_def)

lemma safe_store_query:
  "(\<And>u. gateway_grows w u \<Longrightarrow> gateway_ok X key u \<Longrightarrow> gateway_safe X key (q (f (wd_db u))) u) \<Longrightarrow>
   gateway_safe X key (store_query f q) w"
  unfolding store_query_def by (rule gateway.ok_ask)

lemma safe_store_call:
  assumes "\<And>d. effects X key d (fst (f d))"
    and "\<And>u d r. gateway_grows w u \<Longrightarrow> gateway_ok X key u \<Longrightarrow> f (wd_db u) = (d, r) \<Longrightarrow>
      gateway_ok X key (u\<lparr>wd_db := d\<rparr>) \<Longrightarrow> gateway_safe X key (q r) (u\<lparr>wd_db := d\<rparr>)"
  shows "gateway_safe X key (store_call f q) w"
  unfolding store_call_def
proof (rule gateway.ok_call)
  fix u assume u: "gateway_grows w u" "gateway_ok X key u"
  obtain d r where run: "f (wd_db u) = (d, r)" by (cases "f (wd_db u)")
  with assms(1) have eff: "effects X key (wd_db u) d" by (metis fst_conv)
  from gateway_store [OF u(2) eff] assms(2) [OF u run] run
  show "gateway_ok X key (fst (case f (wd_db u) of (d, r) \<Rightarrow> (u\<lparr>wd_db := d\<rparr>, r))) \<and>
      gateway_grows u (fst (case f (wd_db u) of (d, r) \<Rightarrow> (u\<lparr>wd_db := d\<rparr>, r))) \<and>
      gateway_safe X key (q (snd (case f (wd_db u) of (d, r) \<Rightarrow> (u\<lparr>wd_db := d\<rparr>, r))))
        (fst (case f (wd_db u) of (d, r) \<Rightarrow> (u\<lparr>wd_db := d\<rparr>, r)))"
    by simp
qed

lemma set_room_member_True:
  assumes "gateway_ok X key u" "set_room_member now (gid_of u) rid actor role target included (wd_db u) = (d, Inr True)"
  shows "rid \<noteq> DEFAULT_ROOM_ID"
  using assms general_public [OF assms(1)] by (auto simp: set_room_member_def)

lemma safe_set_room_member:
  "gateway_safe X key (handle_set_room_member dw (gid_of w) sid actor rid target included) w"
proof (cases "is_safe_identifier rid")
  case False
  then show ?thesis by (simp add: handle_set_room_member_def always_safeD [OF always_reply_error])
next
  case True
  show ?thesis
    unfolding handle_set_room_member_def if_not_P [OF not_not [THEN iffD2, OF True]]
  proof (rule safe_store_call [OF call_effects(4)], goal_cases)
    case (1 u d r)
    have gid: "gid_of w = gid_of u" using gid_of_grows [OF 1(1)] by simp
    have "rid \<noteq> DEFAULT_ROOM_ID" if "r = Inr True"
      using set_room_member_True [OF 1(2)] 1(3) that unfolding gid by simp
    then show ?case
      by (intro always_safeD)
         (auto intro!: always_intros always_remove_room always_list_room_members simp: Let_def
           split: sum.splits bool.splits option.splits)
  qed
qed

section \<open>Chat and history\<close>

abbreviation backed_in :: "world \<Rightarrow> rstring \<Rightarrow> chat_record list \<Rightarrow> bool" where
  "backed_in w rid records \<equiv> \<forall>m\<in>set records. record_backed (wd_db w) (gid_of w) rid m"

lemma backed_in_grows: "backed_in w rid records \<Longrightarrow> gateway_grows w u \<Longrightarrow> backed_in u rid records"
  by (auto simp: gateway_grows_def intro: record_backed_mono)

lemma fit_loop_subset: "set (fit_loop json_len ms used selected) \<subseteq> set selected \<union> set ms"
proof (induction json_len ms used selected rule: fit_loop.induct)
  case (2 json_len message older used selected)
  then show ?case by (auto simp: Let_def split: option.splits if_splits)
qed simp

lemma fit_history_subset: "set (fit_history_to_frame json_len records) \<subseteq> set records"
  using fit_loop_subset [of json_len "rev records" 512 "[]"] by (simp add: fit_history_to_frame_def)

lemma newest_rows_mem:
  "row \<in> set (newest_rows d gid rid below n) \<Longrightarrow> row \<in> set (t_messages d) \<and> m_group row = gid \<and> m_room row = rid"
  by (auto simp: newest_rows_def dest: in_set_takeD)

lemma decode_row_backed:
  assumes "decode_row X key gid rid row = Inr m" "row \<in> set (t_messages d)" "m_group row = gid" "m_room row = rid"
  shows "record_backed d gid rid m"
  using assms by (auto simp: decode_row_def record_backed_def u64_of_i64_def chain_simps split: option.splits if_splits)

lemma collected_rows_backed:
  assumes "collect_result (decode_row X key gid rid) (newest_rows d gid rid below n) = Inr records" "m \<in> set records"
  shows "record_backed d gid rid m"
  using assms by (auto elim!: collect_result_set dest!: newest_rows_mem intro: decode_row_backed)

lemma history_backed: "history X key d gid rid n = Inr records \<Longrightarrow> m \<in> set records \<Longrightarrow> record_backed d gid rid m"
  unfolding history_def chain_simps by (auto dest: collected_rows_backed split: sum.splits)

lemma history_before_backed:
  "history_before X key d gid rid before n = Inr records \<Longrightarrow> m \<in> set records \<Longrightarrow> record_backed d gid rid m"
  unfolding history_before_def chain_simps Let_def by (auto dest: collected_rows_backed split: sum.splits)

lemma append_message_backed:
  assumes "append_message X key nonce gid rid mid sender sent_at body d = (d', Inr m)"
  shows "record_backed d' gid rid m" "cr_room_id m = rid"
  using assms by (auto elim!: append_message_Inr simp: record_backed_def insert_message_row_def; metis message_row.select_convs)+

lemma chat_loop_set: "chat_loop s n out = Inr r \<Longrightarrow> set r \<subseteq> set out \<union> set s"
proof (induction s n out rule: chat_loop.induct)
  case (2 ch rest lines out)
  then show ?case by (auto split: if_splits)
qed simp

lemma sanitize_chat_text_valid:
  assumes "sanitize_chat_text body = Inr body'" "valid_str body"
  shows "valid_str body'"
proof -
  from assms(1) obtain r where "chat_loop body 1 [] = Inr r" "body' = trim r"
    by (auto simp: sanitize_chat_text_def Let_def split: if_splits sum.splits)
  with chat_loop_set [of body 1 "[]" r] set_trim have "set body' \<subseteq> set body" by auto
  with assms(2) show ?thesis by (auto simp: valid_str_def list_all_iff)
qed

lemma safe_broadcast_to_room:
  "message_backed (wd_db w) (gid_of w) m \<Longrightarrow> gateway_safe X key (broadcast_to_room rid m Done) w"
  unfolding broadcast_to_room_def by (rule safe_broadcast_where) simp_all

text \<open>The branches of a handler, one at a time.\<close>

lemma safe_if:
  "(b \<Longrightarrow> gateway_safe X key p w) \<Longrightarrow> (\<not> b \<Longrightarrow> gateway_safe X key q w) \<Longrightarrow> gateway_safe X key (if b then p else q) w"
  by simp

lemma safe_sum:
  "(\<And>e. r = Inl e \<Longrightarrow> gateway_safe X key (p e) w) \<Longrightarrow> (\<And>x. r = Inr x \<Longrightarrow> gateway_safe X key (q x) w) \<Longrightarrow>
   gateway_safe X key (case r of Inl e \<Rightarrow> p e | Inr x \<Rightarrow> q x) w"
  by (cases r) simp_all

lemma safe_option:
  "(r = None \<Longrightarrow> gateway_safe X key p w) \<Longrightarrow> (\<And>x. r = Some x \<Longrightarrow> gateway_safe X key (q x) w) \<Longrightarrow>
   gateway_safe X key (case r of None \<Rightarrow> p | Some x \<Rightarrow> q x) w"
  by (cases r) simp_all

lemmas safe_reply_error = always_safeD [OF always_reply_error [OF always_safe_Done]]
lemmas safe_send_error = always_safeD [OF always_send_error [OF always_safe_Done]]

lemmas safe_intros = safe_if safe_sum safe_option gateway.ok_Done gateway.ok_ask safe_store_query safe_reply_error safe_send_error

lemma same_group: "gateway_grows w u \<Longrightarrow> gid_of w = gid \<Longrightarrow> gid_of u = gid"
  by (simp add: gid_of_grows)

lemma safe_append:
  assumes "valid_draws dw" "valid_str b" "gid_of w = gid"
  shows "gateway_safe X key (store_call (append_message X key (dw_nonce dw) gid rid mid peer now b) (\<lambda>r.
     case r of Inl e \<Rightarrow> reply_error sid code notice Done
     | Inr message \<Rightarrow> broadcast_to_room rid (Server_Chat message) Done)) w"
proof (rule safe_store_call, goal_cases)
  case 1
  show ?case using assms(1,2) by (auto intro: call_effects simp: valid_draws_def)
next
  case (2 u d r)
  have "gid_of u = gid" using 2(1) assms(3) by (rule same_group)
  with 2(3) show ?case
    by (auto intro!: safe_sum safe_reply_error safe_broadcast_to_room simp: append_message_backed)
qed

lemma safe_room_chat:
  assumes "valid_draws dw" "valid_str body"
  shows "gateway_safe X key (handle_room_chat X key dw (gid_of w) peer rid mid body) w"
  unfolding handle_room_chat_def Let_def
  by (intro safe_intros safe_append [OF assms(1)])
     (auto intro: sanitize_chat_text_valid [OF _ assms(2)] dest!: gid_of_grows)

lemma history_page_backed:
  assumes "history_before X key (wd_db u) gid rid before n = Inr records" "gid_of u = gid" "gateway_grows u v"
  shows "message_backed (wd_db v) (gid_of v) (History_Page rid (fit_history_to_frame json_len records) b)"
  using backed_in_grows [OF _ assms(3)] history_before_backed [OF assms(1)] assms(2) fit_history_subset [of json_len records]
  by auto

lemma room_joined_backed:
  assumes "history X key (wd_db u) gid (rs_room_id room) n = Inr records" "gid_of u = gid" "gateway_grows u v"
  shows "message_backed (wd_db v) (gid_of v) (Room_Joined room (fit_history_to_frame json_len records))"
  using backed_in_grows [OF _ assms(3)] history_backed [OF assms(1)] assms(2) fit_history_subset [of json_len records]
  by auto

lemma safe_load_history:
  "gateway_safe X key (handle_load_history X key json_len (gid_of w) sid rid before limit) w"
  unfolding handle_load_history_def Let_def
  by (intro safe_intros safe_reply history_page_backed always_safe_Done; (assumption | erule same_group | simp))
     (meson gid_of_grows)

lemma gateway_ok_adjust:
  assumes "gateway_ok X key u" "\<And>e. client_ok u e \<Longrightarrow> client_ok u (f e)"
  shows "gateway_ok X key (u\<lparr>wd_clients := amap_adjust sid f (wd_clients u)\<rparr>) \<and>
     gateway_grows u (u\<lparr>wd_clients := amap_adjust sid f (wd_clients u)\<rparr>)"
  using assms by (intro gateway_ok_clients) (auto simp: gateway_ok_def dest!: set_amap_adjust)

lemma always_adjust:
  "(\<And>u e. client_ok u e \<Longrightarrow> client_ok u (f e)) \<Longrightarrow> always_safe X key k \<Longrightarrow>
   always_safe X key (act (\<lambda>w. w\<lparr>wd_clients := amap_adjust sid f (wd_clients w)\<rparr>) k)"
  by (rule always_act) (simp_all add: gateway_ok_adjust)

lemma always_leave_room: "always_safe X key (handle_leave_room sid rid)"
  unfolding handle_leave_room_def by (simp add: always_reply_error always_adjust client_ok_leave always_reply)

section \<open>Rooms\<close>

lemma room_known_unique:
  assumes "log_ready X key d" "room_known d gid rid room" "room_known d gid rid room'"
  shows "room = room'"
proof -
  have ok: "schema_ok d" using assms(1) by (simp add: log_ready_def store_inv_def)
  obtain r s where "find_room d gid rid = Some r" "summary_of_room r = room"
      "find_room d gid rid = Some s" "summary_of_room s = room'"
    using assms(2,3) unfolding room_known_def find_room_iff [OF ok] by blast
  then show ?thesis by simp
qed

lemma create_room_known:
  assumes "create_room_with_visibility now fresh gid name vis creator d = (d', Inr room)"
  shows "room_known d' gid (rs_room_id room) room"
proof -
  let ?row = "\<lparr>r_id = fresh, r_group = gid, r_name = name, r_visibility = vis, r_next_sequence = 1, r_created = now\<rparr>"
  from assms have "transaction d (
        and_then (execute d (insert_room_row ?row)) (\<lambda>d1.
        and_then (case creator of
            Some mid \<Rightarrow> if vis = Private_Room
              then execute d1 (insert_room_member_row
                \<lparr>rm_group = gid, rm_room = fresh, rm_member = mid, rm_role = Owner, rm_added = now\<rparr>)
              else Inr d1
          | None \<Rightarrow> Inr d1) (\<lambda>d2.
        Inr (d2, \<lparr>rs_room_id = fresh, rs_room_name = name, rs_visibility = vis\<rparr>)))) = (d', Inr room)"
    unfolding create_room_with_visibility_def by (simp split: if_splits)
  then have "t_rooms d' = t_rooms d @ [?row] \<and> room = summary_of_room ?row"
    by (auto simp: transaction_Inr and_then_Inr execute_Inr insert_defs summary_of_room_def split: option.splits if_splits)
  then show ?thesis by (auto simp: room_known_def summary_of_room_def)
qed

text \<open>A room of the store may be put into the cache: it is the only one with its identifier.\<close>

lemma gateway_ok_put_room:
  assumes ok: "gateway_ok X key u" and known: "room_known (wd_db u) (gid_of u) (rs_room_id room) room"
  shows "gateway_ok X key (u\<lparr>wd_rooms := amap_put (rs_room_id room) room (wd_rooms u)\<rparr>) \<and>
    gateway_grows u (u\<lparr>wd_rooms := amap_put (rs_room_id room) room (wd_rooms u)\<rparr>)"
proof -
  let ?v = "u\<lparr>wd_rooms := amap_put (rs_room_id room) room (wd_rooms u)\<rparr>"
  from ok have parts: "log_ready X key (wd_db u)" "cache_ok u" by (simp_all add: gateway_ok_def)
  have "map_of (wd_rooms u) (rs_room_id room) = Some old \<Longrightarrow> old = room" for old
    using parts(2) room_known_unique [OF parts(1) _ known] by (auto simp: cache_ok_def)
  then have grows: "gateway_grows u ?v"
    by (auto simp: gateway_grows_def map_le_def dom_def)
  moreover have "cache_ok ?v" using parts(2) known by (auto simp: cache_ok_def)
  moreover have "client_ok ?v e" if "(sid, e) \<in> set (wd_clients u)" for sid e
    using ok that by (auto simp: gateway_ok_def intro: client_ok_mono [OF _ grows])
  moreover have "queue_ok ?v q" if "(sid, q) \<in> set (wd_queues u)" for sid q
    using ok that by (auto simp: gateway_ok_def intro: queue_ok_mono [OF _ grows])
  ultimately show ?thesis using parts(1) by (simp add: gateway_ok_def)
qed

definition cached :: "world \<Rightarrow> room_summary \<Rightarrow> bool" where
  "cached w room \<longleftrightarrow> map_of (wd_rooms w) (rs_room_id room) = Some room"

lemma cached_grows: "cached w room \<Longrightarrow> gateway_grows w u \<Longrightarrow> cached u room"
  by (auto simp: cached_def gateway_grows_def map_le_def dom_def)

lemma cached_lookup: "gateway_ok X key w \<Longrightarrow> map_of (wd_rooms w) rid = Some room \<Longrightarrow> cached w room"
  unfolding gateway_ok_def cache_ok_def room_known_def summary_of_room_def cached_def by fastforce

lemma safe_join_room:
  assumes "gid_of w = gid" "cached w room" "always_safe X key k"
  shows "gateway_safe X key (join_room X key json_len gid sid room k) w"
  unfolding join_room_def
proof (rule safe_store_query, rule safe_sum)
  show "gateway_safe X key (reply_error sid code notice k) u" for code notice u
    using assms(3) by (intro always_safeD [OF always_reply_error])
next
  fix u records
  assume u: "gateway_grows w u" and records: "history X key (wd_db u) gid (rs_room_id room) HISTORY_CAPACITY = Inr records"
  show "gateway_safe X key (act (\<lambda>w. w\<lparr>wd_clients := amap_adjust sid
          (\<lambda>client. client\<lparr>ce_joined := insert (rs_room_id room) (ce_joined client)\<rparr>) (wd_clients w)\<rparr>)
      (reply sid (Room_Joined room (fit_history_to_frame json_len records)) k)) u"
  proof (rule gateway.ok_act, goal_cases)
    case (1 v)
    have "cached v room" using assms(2) u 1 by (metis cached_grows)
    then have "gateway_ok X key (v\<lparr>wd_clients := amap_adjust sid
          (\<lambda>client. client\<lparr>ce_joined := insert (rs_room_id room) (ce_joined client)\<rparr>) (wd_clients v)\<rparr>) \<and>
        gateway_grows v (v\<lparr>wd_clients := amap_adjust sid
          (\<lambda>client. client\<lparr>ce_joined := insert (rs_room_id room) (ce_joined client)\<rparr>) (wd_clients v)\<rparr>)" (is "_ \<and> gateway_grows v ?v")
      using 1(2) by (intro gateway_ok_adjust) (auto simp: client_ok_def cached_def)
    moreover have "gateway_safe X key (reply sid (Room_Joined room (fit_history_to_frame json_len records)) k) ?v"
    proof (rule safe_reply [OF room_joined_backed [OF records same_group [OF u assms(1)]] assms(3)])
      show "gateway_grows u x" if "gateway_grows ?v x" for x
        using gateway.grows_trans [OF gateway.grows_trans [OF 1(1)] that] calculation by simp
    qed
    ultimately show ?case by blast
  qed
qed

lemma safe_handle_join_room:
  "gateway_safe X key (handle_join_room X key json_len (gid_of w) sid rid) w"
  unfolding handle_join_room_def
  by (intro safe_intros safe_join_room always_safe_Done)
     (metis gid_of_grows, metis cached_grows cached_lookup)

text \<open>Creation runs under its lock, whose guard is released on every path.\<close>

lemma always_unlock: "always_safe X key unlock_creation"
  unfolding unlock_creation_def by (rule always_act) (simp_all add: gateway_ok_creating)

lemma always_reply_unlock: "gateway_safe X key (reply_error sid code notice unlock_creation) w"
  by (intro always_safeD always_reply_error always_unlock)

lemma safe_lock:
  "(\<And>u. gateway_grows w u \<Longrightarrow> gateway_ok X key u \<Longrightarrow> gateway_safe X key k u) \<Longrightarrow> gateway_safe X key (lock_creation k) w"
  unfolding lock_creation_def
  by (rule gateway.ok_await) (metis gateway_ok_creating gateway.grows_trans)

lemma safe_broadcast_then:
  assumes "\<And>d gid. message_backed d gid m" "\<And>u. gateway_grows w u \<Longrightarrow> gateway_safe X key k u"
  shows "gateway_safe X key (broadcast_where P m k) w"
proof -
  have each: "gateway_safe X key (send_each sids m k) u" if "gateway_grows w u" for sids u
    using that
  proof (induction sids arbitrary: u)
    case (Cons sid sids)
    show ?case
      unfolding send_each.simps
    proof (rule gateway.ok_act, goal_cases)
      case (1 v)
      then have sent: "gateway_ok X key (send_to_client sid m v) \<and> gateway_grows v (send_to_client sid m v)"
        by (intro gateway_ok_send assms(1))
      have "gateway_grows w (send_to_client sid m v)"
        using gateway.grows_trans [OF gateway.grows_trans [OF Cons.prems 1(1)]] sent by blast
      with sent Cons.IH show ?case by blast
    qed
  qed (simp add: assms(2))
  show ?thesis unfolding broadcast_where_def by (rule gateway.ok_ask) (rule each)
qed

lemma safe_announce_room:
  assumes "gid_of w = gid" "cached w room"
  shows "gateway_safe X key
    ((case vis of Public_Room \<Rightarrow> broadcast (Room_Created room) | Private_Room \<Rightarrow> broadcast_private_room_created creator (Room_Created room))
       (join_room X key json_len gid sid room unlock_creation)) w"
  using assms
  by (cases vis)
    (auto simp: broadcast_def broadcast_except_def broadcast_private_room_created_def gid_of_grows
      intro!: safe_broadcast_then safe_join_room always_unlock intro: cached_grows)

lemma safe_save_room:
  assumes "gid_of w = gid"
  shows "gateway_safe X key (store_call (create_room_with_visibility now fresh gid name vis (Some creator)) (\<lambda>r.
      case r of
        Inl e \<Rightarrow> reply_error sid code notice unlock_creation
      | Inr room \<Rightarrow>
          act (\<lambda>w. w\<lparr>wd_rooms := amap_put (rs_room_id room) room (wd_rooms w)\<rparr>)
            ((case vis of
                Public_Room \<Rightarrow> broadcast (Room_Created room)
              | Private_Room \<Rightarrow> broadcast_private_room_created creator (Room_Created room))
             (join_room X key json_len gid sid room unlock_creation)))) w"
proof (rule safe_store_call [OF call_effects(5)], rule safe_sum, rule always_reply_unlock, goal_cases)
  case (1 u d r room)
  have gid: "gid_of u = gid" using 1(1) assms by (rule same_group)
  have known: "room_known d gid (rs_room_id room) room" using create_room_known 1(3) 1(5) by blast
  show ?case
  proof (rule gateway.ok_act, goal_cases)
    case v: (1 v)
    have "gid_of v = gid" using v(1) gid by (simp add: gateway_grows_def)
    moreover have "room_known (wd_db v) gid (rs_room_id room) room"
      using known v(1) by (auto simp: gateway_grows_def intro: room_known_mono)
    ultimately show ?case
      using gateway_ok_put_room [OF v(2)] by (auto intro!: safe_announce_room simp: cached_def)
  qed
qed

lemma safe_create_room:
  "gateway_safe X key (handle_create_room X key json_len dw (gid_of w) sid creator name vis) w"
  unfolding handle_create_room_def case_prod_beta
  by (intro safe_intros safe_lock always_reply_unlock safe_save_room) (auto dest!: gid_of_grows)

section \<open>Every message, every connection\<close>

lemma safe_dispatch:
  assumes "valid_draws dw" "valid_message message"
  shows "gateway_safe X key (dispatch X key json_len dw (gid_of w) peer role message) w"
  using assms
  by (cases message)
    (simp_all add: safe_room_chat safe_create_room safe_handle_join_room safe_load_history safe_set_room_member
      always_safeD always_leave_room always_list_join_requests always_decide_join_request
      always_list_group_members always_set_member_banned always_rotate_group_token always_list_room_members
      always_reply_error always_reply)

lemma always_rate_limit_notice: "always_safe X key (rate_limit_notice sid)"
  unfolding rate_limit_notice_def by (simp add: always_send_error)

lemma always_forget_client: "always_safe X key k \<Longrightarrow> always_safe X key (act (forget_client sid) k)"
  unfolding forget_client_def
  by (rule always_act, rule gateway_ok_clients) (auto simp: gateway_ok_def amap_remove_def)

lemma always_close_queue: "always_safe X key k \<Longrightarrow> always_safe X key (act (close_queue sid) k)"
  unfolding close_queue_def
  by (rule always_act, rule gateway_ok_queues) (auto simp: gateway_ok_def amap_remove_def)

lemma always_leave_group: "always_safe X key (leave_group sid)"
  unfolding leave_group_def by (intro always_forget_client always_broadcasts always_close_queue) simp_all

lemma set_amap_put: "(k, v) \<in> set (amap_put j u m) \<Longrightarrow> (k, v) = (j, u) \<or> (k, v) \<in> set m"
  by (induction j u m rule: amap_put.induct) (auto split: if_splits)

lemma gateway_ok_add_client:
  assumes ok: "gateway_ok X key u"
  shows "gateway_ok X key (fst (add_client sid entry u)) \<and> gateway_grows u (fst (add_client sid entry u))"
proof -
  let ?e = "\<lparr>ce_peer = peer_for sid entry, ce_role = ge_role entry, ce_joined = {DEFAULT_ROOM_ID}, ce_kick = None\<rparr>"
  let ?v = "u\<lparr>wd_clients := amap_put sid ?e (wd_clients u)\<rparr>"
  have "client_ok u ?e" using ok by (auto simp: client_ok_def gateway_ok_def cache_ok_def)
  with ok have v: "gateway_ok X key ?v \<and> gateway_grows u ?v"
    by (intro gateway_ok_clients) (auto simp: gateway_ok_def dest!: set_amap_put)
  then have "gateway_ok X key (?v\<lparr>wd_queues := amap_put sid [] (wd_queues ?v)\<rparr>) \<and>
      gateway_grows ?v (?v\<lparr>wd_queues := amap_put sid [] (wd_queues ?v)\<rparr>)"
    by (intro gateway_ok_queues) (auto simp: gateway_ok_def queue_ok_def dest!: set_amap_put)
  with v show ?thesis
    by (simp add: add_client_def Let_def) (meson gateway.grows_trans)
qed

lemma always_enter_group: "always_safe X key (enter_group X key json_len writes summary sid entry)"
  unfolding enter_group_def Let_def
  by (intro always_call always_store_query gateway_ok_add_client)
     (auto intro!: always_forget_client always_close_queue always_broadcasts split: sum.splits)

lemma gateway_ok_take_outbound:
  assumes ok: "gateway_ok X key w" and "take_outbound sid w = Some (v, m)"
  shows "gateway_ok X key v \<and> gateway_grows w v"
proof -
  from assms(2) obtain rest where q: "queue_of w sid = Some (m # rest)" and
    v: "v = w\<lparr>wd_queues := amap_put sid rest (wd_queues w)\<rparr>"
    by (auto simp: take_outbound_def split: option.splits list.splits)
  from q have "(sid, m # rest) \<in> set (wd_queues w)" by (rule map_of_SomeD)
  with ok have "queue_ok w (m # rest)" unfolding gateway_ok_def by blast
  then have "queue_ok w rest" by (simp add: queue_ok_def)
  with ok show ?thesis
    unfolding v by (intro gateway_ok_queues) (auto simp: gateway_ok_def dest!: set_amap_put)
qed

section \<open>The gateway as a whole\<close>

text \<open>A group as \<open>load_groups\<close> builds it at startup or its creation makes it, then any steps.\<close>

inductive gateway_reachable ::
  "externals \<Rightarrow> byte list \<Rightarrow> (chat_record \<Rightarrow> nat option) \<Rightarrow> (uuid \<Rightarrow> world prog) \<times> world \<Rightarrow> bool"
  for X :: externals and key :: "byte list" and json_len :: "chat_record \<Rightarrow> nat option"
  where
    gr_start: "reachable X key d \<Longrightarrow> summary \<in> set (list_groups d) \<Longrightarrow>
      gateway_reachable X key json_len (\<lambda>_. Done, load_group d summary)"
  | gr_created: "reachable X key d \<Longrightarrow> create_group_with_access X now gid mid ae ie name mode d = (d', Inr created) \<Longrightarrow>
      gateway_reachable X key json_len (\<lambda>_. Done, created_group_state d' (cg_summary created))"
  | gr_step: "gateway_reachable X key json_len s \<Longrightarrow> gateway_step X key json_len s s' \<Longrightarrow>
      gateway_reachable X key json_len s'"

inductive_simps gateway_step_simps: "gateway_step X key json_len (tasks, w) (tasks', w')"
inductive_cases gateway_step_cases: "gateway_step X key json_len s s'"

definition gateway_good :: "externals \<Rightarrow> byte list \<Rightarrow> (uuid \<Rightarrow> world prog) \<times> world \<Rightarrow> bool" where
  "gateway_good X key s \<longleftrightarrow> gateway_ok X key (snd s) \<and> (\<forall>t. gateway_safe X key (fst s t) (snd s))"

lemma gateway_good_start: "gateway_ok X key w \<Longrightarrow> gateway_good X key (\<lambda>_. Done, w)"
  by (simp add: gateway_good_def)

lemma gateway_good_spawn:
  "gateway_good X key (tasks, w) \<Longrightarrow> gateway_safe X key p w \<Longrightarrow> gateway_good X key (tasks(sid := p), w)"
  by (auto simp: gateway_good_def)

lemma gateway_good_later:
  "gateway_good X key (tasks, w) \<Longrightarrow> gateway_ok X key v \<and> gateway_grows w v \<Longrightarrow> gateway_good X key (tasks, v)"
  by (auto simp: gateway_good_def intro: gateway.ok_later)

lemma gateway_step_good: "gateway_step X key json_len s s' \<Longrightarrow> gateway_good X key s \<Longrightarrow> gateway_good X key s'"
proof (induction rule: gateway_step.induct)
  case (gw_work tasks w tasks' w')
  with gateway.pool_ok_step [of tasks w tasks' w' X key] show ?case
    by (simp add: gateway_good_def gateway.pool_ok_def)
next
  case (gw_message tasks sid w client dw message)
  then show ?case by (intro gateway_good_spawn safe_dispatch)
next
  case (gw_rate_notice tasks sid w)
  then show ?case by (intro gateway_good_spawn always_safeD [OF always_rate_limit_notice])
next
  case (gw_write sid w w' message tasks)
  show ?case
    by (rule gateway_good_later [OF gw_write.prems gateway_ok_take_outbound [OF _ gw_write.hyps]])
       (use gw_write.prems in \<open>simp add: gateway_good_def\<close>)
next
  case (gw_enter tasks sid w writes entry)
  then show ?case by (intro gateway_good_spawn always_safeD [OF always_enter_group])
next
  case (gw_leave tasks sid w)
  then show ?case by (intro gateway_good_spawn always_safeD [OF always_leave_group])
next
  case (gw_store w d tasks)
  show ?case
    by (rule gateway_good_later [OF gw_store.prems gateway_store [OF _ store_step_effects [OF gw_store.hyps]]])
       (use gw_store.prems in \<open>simp add: gateway_good_def\<close>)
qed

lemma load_group_ok:
  assumes "ct_eq_is_equality X" "aead_opens X" "reachable X key d" "summary \<in> set (list_groups d)"
  shows "gateway_ok X key (load_group d summary)"
proof -
  let ?gid = "gs_group_id summary"
  have inv: "store_inv X key d" using reachable_store_inv [OF assms(1-3)] .
  from assms(4) obtain g where "g \<in> set (t_groups d)" "g_id g = ?gid"
    by (auto simp: list_groups_def summary_of_group_def)
  with inv obtain r where r: "r \<in> set (t_rooms d)" "r_group r = ?gid" "r_id r = DEFAULT_ROOM_ID"
    by (metis groups_have_general_def store_inv_def)
  have known: "room_known d ?gid rid room" if "map_of (map (\<lambda>room. (rs_room_id room, room)) (rooms d ?gid)) rid = Some room" for rid room
    using map_of_SomeD [OF that] by (auto simp: rooms_def room_known_def summary_of_room_def)
  moreover have "DEFAULT_ROOM_ID \<in> fst ` set (map (\<lambda>room. (rs_room_id room, room)) (rooms d ?gid))"
    using r by (force simp: rooms_def summary_of_room_def)
  then have "map_of (map (\<lambda>room. (rs_room_id room, room)) (rooms d ?gid)) DEFAULT_ROOM_ID \<noteq> None"
    by (simp only: map_of_eq_None_iff not_not)
  ultimately show ?thesis
    using inv assms by (simp add: load_group_def new_group_state_def gateway_ok_def log_ready_def cache_ok_def)
qed

lemma create_group_room:
  assumes "create_group_with_access X now gid mid ae ie name mode d = (d', Inr created)"
  shows "room_known d' (gs_group_id (cg_summary created)) DEFAULT_ROOM_ID general_room"
proof (cases "\<exists>g\<in>set (t_groups d). nocase (g_name g) = nocase name")
  case True
  with assms show ?thesis by (simp add: create_group_with_access_def)
next
  case False
  from assms [unfolded create_group_with_access_def if_not_P [OF False]] show ?thesis
  proof (cases rule: transaction_cases)
    case (commit x)
    from commit(1) have "t_rooms d' = t_rooms d @ [\<lparr>r_id = DEFAULT_ROOM_ID, r_group = gs_group_id (cg_summary x),
        r_name = DEFAULT_ROOM_NAME, r_visibility = Public_Room, r_next_sequence = 1, r_created = now\<rparr>]"
      by (auto simp: chain_simps insert_defs)
    then show ?thesis
      using commit(2) by (simp add: room_known_def summary_of_room_def general_room_def)
  qed simp
qed

lemma created_group_ok:
  assumes "ct_eq_is_equality X" "aead_opens X" "reachable X key d"
    and run: "create_group_with_access X now gid mid ae ie name mode d = (d', Inr created)"
  shows "gateway_ok X key (created_group_state d' (cg_summary created))"
proof -
  have "reachable X key d'" using assms(3) run by (auto intro: reachable_step step_create_group)
  then have "store_inv X key d'" using reachable_store_inv assms(1,2) by blast
  with create_group_room [OF run] show ?thesis
    using assms(1,2)
    by (simp add: created_group_state_def new_group_state_def gateway_ok_def log_ready_def cache_ok_def)
qed

lemma reachable_gateway_good:
  assumes "ct_eq_is_equality X" "aead_opens X" "gateway_reachable X key json_len s"
  shows "gateway_good X key s"
  using assms(3) by (induction rule: gateway_reachable.induct)
    (auto intro: gateway_step_good gateway_good_start load_group_ok [OF assms(1,2)] created_group_ok [OF assms(1,2)])

lemma reachable_gateway_ok:
  "ct_eq_is_equality X \<Longrightarrow> aead_opens X \<Longrightarrow> gateway_reachable X key json_len (tasks, w) \<Longrightarrow> gateway_ok X key w"
  using reachable_gateway_good by (fastforce simp: gateway_good_def)

text \<open>A task run to its end without interference.\<close>

lemma run_reaches:
  "gateway_reachable X key json_len (tasks, w) \<Longrightarrow> tasks sid = p \<Longrightarrow> run p w = Some v \<Longrightarrow>
   gateway_reachable X key json_len (tasks(sid := Done), v)"
proof (induction p arbitrary: tasks w)
  case Done
  then show ?case by (metis fun_upd_triv option.inject run.simps(1))
next
  case (Step f)
  from Step.prems(3) obtain u q where q: "f w = Some (u, q)" "run q u = Some v"
    by (auto split: option.splits)
  have "pool_step tasks w (tasks(sid := q)) u"
    using Step.prems(2) q(1) by (intro pool_step.intros) simp
  then have "gateway_reachable X key json_len (tasks(sid := q), u)"
    using Step.prems(1) by (auto intro: gr_step gw_work)
  then show ?case
    using Step.IH [of "Some (u, q)" "(u, q)" q "tasks(sid := q)" u] q by (metis fun_upd_same fun_upd_upd option.set_intros prod_set_simps(2) rangeI singletonI)
qed

end
