(* ===== verification/Gateway_Samples.thy ===== *)
theory Gateway_Samples
  imports Gateway_Invariants Store_Samples
begin

text \<open>
  A concrete gateway for the witnesses: the invite group of the store samples is loaded, its member
  \<open>ada\<close> enters, joins her private room and posts a message.
\<close>

definition sample_summary :: group_summary where
  "sample_summary = \<lparr>gs_group_id = 5, gs_group_name = str ''lab'', gs_access_mode = Invite\<rparr>"

definition sample_len :: "chat_record \<Rightarrow> nat option" where
  "sample_len m = Some (100 + length (cr_text m))"

definition sample_entry :: group_entry where
  "sample_entry = \<lparr>ge_nickname = str ''ada'', ge_member_id = 11, ge_direct = None, ge_negotiated = 10,
     ge_role = Member, ge_issued_credentials = None, ge_issued_member_token = None\<rparr>"

definition sample_draws :: draws where
  "sample_draws = \<lparr>dw_now_ms = 1003, dw_now = 1003, dw_entropy = None, dw_nonce = sample_nonce, dw_room_id = str ''r2''\<rparr>"

definition sample_start :: world where
  "sample_start = load_group sample_room sample_summary"

definition sample_general :: room_summary where
  "sample_general = \<lparr>rs_room_id = str ''general'', rs_room_name = str ''general'', rs_visibility = Public_Room\<rparr>"

definition sample_ops :: room_summary where
  "sample_ops = \<lparr>rs_room_id = str ''r1'', rs_room_name = str ''ops'', rs_visibility = Private_Room\<rparr>"

lemma sample_start_eq: "sample_start =
  \<lparr>wd_db = sample_room, wd_summary = sample_summary, wd_clients = [],
   wd_rooms = [(str ''general'', sample_general), (str ''r1'', sample_ops)], wd_creating = False, wd_queues = []\<rparr>"
proof -
  have "rooms sample_room 5 = [sample_general, sample_ops]"
    unfolding sample_room_eq sample_joined_eq sample_created_eq sample_general_def sample_ops_def by code_simp
  then show ?thesis
    by (simp add: sample_start_def load_group_def new_group_state_def sample_summary_def sample_general_def sample_ops_def)
qed

lemma sample_start_reachable: "gateway_reachable sample_externals [1] sample_len (\<lambda>_. Done, sample_start)"
proof -
  have "sample_summary \<in> set (list_groups sample_room)"
    unfolding sample_room_eq sample_joined_eq sample_created_eq sample_summary_def by code_simp
  then show ?thesis unfolding sample_start_def by (rule gr_start [OF sample_room_reachable])
qed

text \<open>One task from start to end, with nobody else at work.\<close>

lemma task_reaches:
  assumes "gateway_reachable X key json_len (\<lambda>_. Done, w)"
    "gateway_step X key json_len (\<lambda>_. Done, w) ((\<lambda>_. Done)(sid := p), w)" "run p w = Some v"
  shows "gateway_reachable X key json_len (\<lambda>_. Done, v)"
  using run_reaches [OF gr_step [OF assms(1,2)], of sid p v] assms(3) by (simp add: fun_upd_idem)

text \<open>Session 90 enters.\<close>

definition sample_client :: "rstring set \<Rightarrow> client_entry" where
  "sample_client joined = \<lparr>ce_peer = sample_peer, ce_role = Member, ce_joined = joined, ce_kick = None\<rparr>"

definition sample_entered :: world where
  "sample_entered = sample_start\<lparr>wd_clients := [(90, sample_client {str ''general''})], wd_queues := [(90, [])]\<rparr>"

lemma sample_history_general: "history sample_externals [1] sample_room 5 rid HISTORY_CAPACITY = Inr []"
  by (simp add: sample_room_eq sample_joined_eq sample_created_eq history_def newest_rows_def)

lemma default_room [simp]: "DEFAULT_ROOM_ID = str ''general''"
  by (simp add: DEFAULT_ROOM_ID_def)

lemma sample_peer_for: "peer_for 90 sample_entry = sample_peer"
  by (simp add: peer_for_def sample_entry_def sample_peer_def)

lemma sample_enter:
  "run (enter_group sample_externals [1] sample_len (\<lambda>_. True) sample_summary 90 sample_entry) sample_start = Some sample_entered"
proof -
  have "gs_group_id sample_summary = 5" by (simp add: sample_summary_def)
  then show ?thesis
    by (simp add: enter_group_def add_client_def Let_def store_query_def sample_start_eq sample_history_general
        broadcast_except_def broadcast_where_def clients_where_def sample_entered_def sample_client_def sample_peer_for)
       (simp add: sample_entry_def)
qed

lemma sample_entered_reachable: "gateway_reachable sample_externals [1] sample_len (\<lambda>_. Done, sample_entered)"
proof (rule task_reaches [OF sample_start_reachable _ sample_enter])
  have "wd_summary sample_start = sample_summary" by (simp add: sample_start_eq)
  then show "gateway_step sample_externals [1] sample_len (\<lambda>_. Done, sample_start)
      ((\<lambda>_. Done)(90 := enter_group sample_externals [1] sample_len (\<lambda>_. True) sample_summary 90 sample_entry), sample_start)"
    using gw_enter [of "\<lambda>_. Done" 90 sample_start sample_externals "[1]" sample_len "\<lambda>_. True" sample_entry]
    by (simp add: sample_start_eq)
qed

lemma sample_valid_draws: "valid_draws sample_draws"
  by (simp add: valid_draws_def sample_draws_def sample_nonce_def NONCE_LENGTH_def)

lemma sample_message_reaches:
  assumes "gateway_reachable sample_externals [1] sample_len (\<lambda>_. Done, w)" "client_of w 90 = Some (sample_client joined)"
    "gid_of w = 5" "valid_message message"
    "run (dispatch sample_externals [1] sample_len sample_draws 5 sample_peer Member message) w = Some v"
  shows "gateway_reachable sample_externals [1] sample_len (\<lambda>_. Done, v)"
proof (rule task_reaches [OF assms(1) _ assms(5)])
  show "gateway_step sample_externals [1] sample_len (\<lambda>_. Done, w)
      ((\<lambda>_. Done)(90 := dispatch sample_externals [1] sample_len sample_draws 5 sample_peer Member message), w)"
    using gw_message [of "\<lambda>_. Done" 90 w "sample_client joined" sample_draws message sample_externals "[1]" sample_len]
      assms sample_valid_draws by (simp add: sample_client_def)
qed

text \<open>She joins her private room.\<close>

definition sample_in_room :: world where
  "sample_in_room = sample_entered\<lparr>wd_clients := [(90, sample_client {str ''general'', str ''r1''})],
     wd_queues := [(90, [Room_Joined sample_ops []])]\<rparr>"

lemma sample_may_enter: "member_can_access_room sample_room 5 (str ''r1'') 11"
  unfolding sample_room_eq sample_joined_eq sample_created_eq by code_simp

lemma sample_joins:
  "run (dispatch sample_externals [1] sample_len sample_draws 5 sample_peer Member (Join_Room (str ''r1''))) sample_entered = Some sample_in_room"
proof -
  have "is_safe_identifier (str ''r1'')" "str ''r1'' \<noteq> str ''general''" by code_simp+
  then show ?thesis
    by (simp add: handle_join_room_def join_room_def store_query_def sample_entered_def sample_start_eq sample_history_general
        sample_may_enter sample_client_def sample_peer_def sample_in_room_def sample_ops_def insert_commute
        send_to_client_def offer_def amap_adjust_def CLIENT_QUEUE_CAPACITY_def fit_history_to_frame_def)
qed

lemma sample_in_room_reachable: "gateway_reachable sample_externals [1] sample_len (\<lambda>_. Done, sample_in_room)"
  by (rule sample_message_reaches [OF sample_entered_reachable _ _ _ sample_joins])
    (simp_all add: sample_entered_def sample_start_eq sample_summary_def)

text \<open>And posts a message there.\<close>

definition sample_posted :: chat_record where
  "sample_posted = \<lparr>cr_sequence = 1, cr_message_id = 20, cr_sender = sample_peer, cr_room_id = str ''r1'',
     cr_sent_at_ms = 1003, cr_text = str ''hi''\<rparr>"

definition sample_chatting :: world where
  "sample_chatting = sample_in_room\<lparr>wd_db := sample_store,
     wd_queues := [(90, [Room_Joined sample_ops [], Server_Chat sample_posted])]\<rparr>"

lemma sample_posts:
  "run (dispatch sample_externals [1] sample_len sample_draws 5 sample_peer Member (Chat (str ''r1'') 20 (str ''hi''))) sample_in_room = Some sample_chatting"
proof -
  have "is_safe_identifier (str ''r1'')" "str ''r1'' \<noteq> str ''general''" by code_simp+
  moreover have "sanitize_chat_text (str ''hi'') = Inr (str ''hi'')"
    by (simp add: sanitize_chat_text_def str_def byte_len_def len_utf8_def MAX_MESSAGE_BYTES_def MAX_MESSAGE_LINES_def
        is_forbidden_terminal_char_def is_control_def trim_def trim_start_def trim_end_def is_whitespace_def)
  moreover have "p_session_id sample_peer = 90" by (simp add: sample_peer_def)
  ultimately show ?thesis
    by (simp add: handle_room_chat_def has_joined_def store_call_def sample_in_room_def sample_entered_def sample_start_eq
        sample_client_def sample_draws_def sample_append_store sample_chatting_def sample_posted_def
        broadcast_to_room_def broadcast_where_def clients_where_def
        send_to_client_def offer_def amap_adjust_def CLIENT_QUEUE_CAPACITY_def)
qed

lemma sample_chatting_reachable: "gateway_reachable sample_externals [1] sample_len (\<lambda>_. Done, sample_chatting)"
  by (rule sample_message_reaches [OF sample_in_room_reachable _ _ _ sample_posts])
    (simp_all add: sample_in_room_def sample_entered_def sample_start_eq sample_summary_def valid_str_def scalar_def str_def)

end
