(* ===== verification/Gateway_Theorems.thy ===== *)
theory Gateway_Theorems
  imports Gateway_Samples
begin

text \<open>
  The properties of a running group of the gateway: what holds in every state that its interleaved
  connections can reach.
\<close>

text \<open>
  C14. However the connections interleave, no chat message is ever queued for a client unless it is
  already committed in the group's store, under the room, identifier and sequence number it shows; the
  same holds of every history handed out.
\<close>

theorem delivered_is_stored:
  assumes "ct_eq_is_equality X" "aead_opens X" "gateway_reachable X key json_len (tasks, w)"
    and "queue_of w sid = Some q" "message \<in> set q"
    and "message = Server_Chat m \<and> rid = cr_room_id m \<or>
      message = Room_Joined room records \<and> rid = rs_room_id room \<and> m \<in> set records \<or>
      message = History_Page rid records more_left \<and> m \<in> set records"
  shows "cr_room_id m = rid \<and> (\<exists>row\<in>set (t_messages (wd_db w)). m_group row = gs_group_id (wd_summary w) \<and>
    m_room row = rid \<and> m_id row = cr_message_id m \<and> word_of_int (m_sequence row) = cr_sequence m)"
proof -
  have "gateway_ok X key w" using reachable_gateway_ok [OF assms(1-3)] .
  with map_of_SomeD [OF assms(4)] have "queue_ok w q" unfolding gateway_ok_def by blast
  with assms(5) have "message_backed (wd_db w) (gid_of w) message" by (simp add: queue_ok_def list_all_iff)
  with assms(6) show ?thesis by (auto simp: record_backed_def)
qed

theorem delivered_is_stored_witness:
  "\<exists>row\<in>set (t_messages sample_store). m_group row = 5 \<and> m_room row = str ''r1'' \<and> m_id row = 20 \<and> word_of_int (m_sequence row) = (1 :: u64)"
proof -
  have "queue_of sample_chatting 90 = Some [Room_Joined sample_ops [], Server_Chat sample_posted]"
    by (simp add: sample_chatting_def)
  from delivered_is_stored [OF sample_ct_eq sample_aead sample_chatting_reachable this, of "Server_Chat sample_posted" sample_posted "str ''r1''"]
  show ?thesis
    by (simp add: sample_posted_def sample_chatting_def sample_in_room_def sample_entered_def sample_start_eq sample_summary_def)
qed

text \<open>
  C15. However the connections interleave: no outbound queue passes its capacity of 256, every connected
  client is in the default room, a client is only ever in rooms of the group that the store holds, and
  the cached summary of a room is the stored one.
\<close>

theorem gateway_stays_consistent:
  assumes "ct_eq_is_equality X" "aead_opens X" "gateway_reachable X key json_len (tasks, w)"
  shows "(\<forall>sid q. queue_of w sid = Some q \<longrightarrow> length q \<le> 256) \<and>
    (\<forall>sid e. client_of w sid = Some e \<longrightarrow> str ''general'' \<in> ce_joined e \<and>
      (\<forall>rid\<in>ce_joined e. \<exists>r\<in>set (t_rooms (wd_db w)). r_group r = gs_group_id (wd_summary w) \<and> r_id r = rid)) \<and>
    (\<forall>rid room. map_of (wd_rooms w) rid = Some room \<longrightarrow>
      find_room (wd_db w) (gs_group_id (wd_summary w)) rid \<noteq> None \<and>
      (\<forall>r. find_room (wd_db w) (gs_group_id (wd_summary w)) rid = Some r \<longrightarrow> room = summary_of_room r))"
proof (intro conjI allI impI)
  have ok: "gateway_ok X key w" using reachable_gateway_ok [OF assms] .
  then have "schema_ok (wd_db w)" by (simp add: gateway_ok_def log_ready_def store_inv_def)
  note find = find_room_iff [OF this]
  have cache: "room_known (wd_db w) (gid_of w) rid room" if "map_of (wd_rooms w) rid = Some room" for rid room
    using ok that by (auto simp: gateway_ok_def cache_ok_def)
  show "length q \<le> 256" if "queue_of w sid = Some q" for sid q
    using ok map_of_SomeD [OF that] by (auto simp: gateway_ok_def queue_ok_def limits)
  show "str ''general'' \<in> ce_joined e" if "client_of w sid = Some e" for sid e
    using ok map_of_SomeD [OF that] by (auto simp: gateway_ok_def client_ok_def)
  show "\<forall>rid\<in>ce_joined e. \<exists>r\<in>set (t_rooms (wd_db w)). r_group r = gid_of w \<and> r_id r = rid" if "client_of w sid = Some e" for sid e
  proof
    fix rid assume "rid \<in> ce_joined e"
    moreover have "client_ok w e" using ok map_of_SomeD [OF that] by (auto simp: gateway_ok_def)
    ultimately obtain room where "map_of (wd_rooms w) rid = Some room" by (auto simp: client_ok_def)
    from cache [OF this] show "\<exists>r\<in>set (t_rooms (wd_db w)). r_group r = gid_of w \<and> r_id r = rid"
      by (auto simp: room_known_def)
  qed
  show "find_room (wd_db w) (gid_of w) rid \<noteq> None" if "map_of (wd_rooms w) rid = Some room" for rid room
  proof -
    from cache [OF that] obtain r where "find_room (wd_db w) (gid_of w) rid = Some r"
      unfolding room_known_def find by blast
    then show ?thesis by simp
  qed
  show "room = summary_of_room r" if "map_of (wd_rooms w) rid = Some room" "find_room (wd_db w) (gid_of w) rid = Some r" for rid room r
  proof -
    from cache [OF that(1)] obtain r' where "find_room (wd_db w) (gid_of w) rid = Some r'" "summary_of_room r' = room"
      unfolding room_known_def find by blast
    with that(2) show ?thesis by simp
  qed
qed

theorem gateway_stays_consistent_witness:
  "length (the (queue_of sample_chatting 90)) \<le> 256 \<and> str ''general'' \<in> ce_joined (the (client_of sample_chatting 90))"
proof -
  have "queue_of sample_chatting 90 = Some [Room_Joined sample_ops [], Server_Chat sample_posted]"
      "client_of sample_chatting 90 = Some (sample_client {str ''general'', str ''r1''})"
    by (simp_all add: sample_chatting_def sample_in_room_def)
  with gateway_stays_consistent [OF sample_ct_eq sample_aead sample_chatting_reachable] show ?thesis by fastforce
qed

end
