(* ===== verification/Direct_Chat.thy ===== *)
theory Direct_Chat
  imports Protocol Security Rate_Limit
begin

text \<open>
  Private chat between two members over their own encrypted connection (\<open>src/direct.rs\<close>): the hub that
  owns the links of one client, the acceptance and opening of links, and the task that reads a link.
  Sockets and the Noise handshake are parameters; what they yield is a fingerprint or a failure.
\<close>

section \<open>State\<close>

definition DIRECT_QUEUE_CAPACITY :: nat where [limits]: "DIRECT_QUEUE_CAPACITY = 64"
definition MAX_DIRECT_CONNECTIONS :: nat where [limits]: "MAX_DIRECT_CONNECTIONS = 32"
definition MAX_DIRECT_MESSAGES_PER_SECOND :: u32 where [limits]: "MAX_DIRECT_MESSAGES_PER_SECOND = 32"

datatype direct_command = Direct_Send uuid uuid rstring | Peer_Left uuid

datatype direct_wire_message = Direct_Hello uuid uuid uuid | Direct_Chat uuid u64 rstring

datatype link_event =
    Link_Connected uuid peer
  | Link_Message uuid uuid uuid u64 rstring
  | Link_Disconnected uuid uuid

datatype link_role = Initiator | Recipient

datatype conversation_state = New | Awaiting_Answer | Active_State

record direct_link =
  dl_link_id :: uuid
  dl_peer :: peer
  dl_role :: link_role
  dl_state :: conversation_state

type_synonym links = "(uuid \<times> direct_link) list"

text \<open>
  What the hub does to the outside: an event for the user interface, a message into the outbound
  channel of a link, the drop of a link's channel, which ends the task of that link.
\<close>

datatype hub_output = Emit server_message | Transmit uuid direct_wire_message | Drop_Sender uuid

text \<open>The locals of the hub task, the clock, and what connecting and sending yield.\<close>

record hub_env =
  he_local :: peer
  he_now_ms :: u64
  he_members :: "(uuid \<times> peer) list"
  he_connect :: "peer \<Rightarrow> error + direct_link"
  he_open :: "uuid \<Rightarrow> bool"
  he_describe :: "error \<Rightarrow> rstring"

section \<open>Opening and accepting links\<close>

definition connect_direct_link ::
  "(socket_addr \<Rightarrow> error + rstring) \<Rightarrow> (direct_wire_message \<Rightarrow> error + unit) \<Rightarrow> uuid \<Rightarrow> uuid \<Rightarrow> peer \<Rightarrow> peer \<Rightarrow> error + direct_link" where
  "connect_direct_link dial write fresh gid local_peer peer =
     (case p_direct peer of
        None \<Rightarrow> Inl (Bail (str ''that member does not support peer-to-peer private chat''))
      | Some advertised \<Rightarrow>
          and_then (dial (dpi_endpoint advertised)) (\<lambda>fingerprint.
            if \<not> eq_ignore_ascii_case (dpi_fingerprint advertised) fingerprint
            then Inl (Bail (str ''direct peer Noise fingerprint mismatch''))
            else and_then (write (Direct_Hello gid (p_session_id local_peer) (p_session_id peer))) (\<lambda>_.
              Inr \<lparr>dl_link_id = fresh, dl_peer = peer, dl_role = Initiator, dl_state = New\<rparr>)))"

text \<open>\<open>accept_direct_link\<close> after the handshake: who the peer is, or why it is turned away.\<close>

definition accept_direct_link ::
  "uuid \<Rightarrow> uuid \<Rightarrow> (uuid \<times> peer) list \<Rightarrow> rstring \<Rightarrow> direct_wire_message \<Rightarrow> error + peer" where
  "accept_direct_link expected_group_id local_session_id members remote_fingerprint hello =
     (case hello of
        Direct_Hello gid sender recipient \<Rightarrow>
          if gid \<noteq> expected_group_id \<or> recipient \<noteq> local_session_id
          then Inl (Bail (str ''direct hello targeted a different group or recipient''))
          else (case map_of members sender of
            None \<Rightarrow> Inl (Bail (str ''direct peer is not an online group member''))
          | Some peer \<Rightarrow>
              (case p_direct peer of
                 None \<Rightarrow> Inl (Bail (str ''group member did not advertise direct chat capability''))
               | Some advertised \<Rightarrow>
                   if \<not> eq_ignore_ascii_case (dpi_fingerprint advertised) remote_fingerprint
                   then Inl (Bail (str ''direct peer Noise fingerprint did not match the gateway member record''))
                   else Inr peer))
      | _ \<Rightarrow> Inl (Bail (str ''direct peer did not send a hello first'')))"

definition spawn_link_io :: "uuid \<Rightarrow> peer \<Rightarrow> link_event" where
  "spawn_link_io fresh peer = Link_Connected fresh peer"

section \<open>The hub\<close>

definition direct_error :: "string \<Rightarrow> rstring \<Rightarrow> hub_output list" where
  "direct_error code message = [Emit (Server_Error (str code) message)]"

text \<open>What a message written by the local user does to the state of its link.\<close>

fun status_of_send :: "uuid \<Rightarrow> link_role \<Rightarrow> conversation_state \<Rightarrow> (conversation_state \<times> private_conversation_status) option" where
  "status_of_send me Initiator New = Some (Awaiting_Answer, Awaiting_Reply me)"
| "status_of_send me Recipient Awaiting_Answer = Some (Active_State, Active_Conversation)"
| "status_of_send me _ Active_State = Some (Active_State, Active_Conversation)"
| "status_of_send me _ _ = None"

text \<open>What a message from the peer does.\<close>

fun status_of_receipt :: "uuid \<Rightarrow> link_role \<Rightarrow> conversation_state \<Rightarrow> (conversation_state \<times> private_conversation_status) option" where
  "status_of_receipt peer Recipient New = Some (Awaiting_Answer, Awaiting_Reply peer)"
| "status_of_receipt peer Recipient Awaiting_Answer = None"
| "status_of_receipt peer Initiator Awaiting_Answer = Some (Active_State, Active_Conversation)"
| "status_of_receipt peer _ Active_State = Some (Active_State, Active_Conversation)"
| "status_of_receipt peer _ _ = None"

definition send_on_link ::
  "hub_env \<Rightarrow> links \<Rightarrow> uuid \<Rightarrow> uuid \<Rightarrow> rstring \<Rightarrow> direct_link \<Rightarrow> links \<times> hub_output list" where
  "send_on_link env links peer_id message_id body link =
     (if dl_role link = Initiator \<and> dl_state link = Awaiting_Answer
      then (links, direct_error ''private_waiting_for_reply''
        (str ''wait for the other member to reply before sending another private message''))
      else case status_of_send (p_session_id (he_local env)) (dl_role link) (dl_state link) of
        None \<Rightarrow> (links, direct_error ''private_not_ready'' (str ''the private connection is not ready''))
      | Some (state, status) \<Rightarrow>
          if \<not> he_open env (dl_link_id link)
          then (amap_remove peer_id links,
                Drop_Sender (dl_link_id link) #
                direct_error ''private_connection_closed'' (str ''the direct connection closed''))
          else (amap_adjust peer_id (\<lambda>l. l\<lparr>dl_state := state\<rparr>) links,
                [Transmit (dl_link_id link) (Direct_Chat message_id (he_now_ms env) body),
                 Emit (Private_Message \<lparr>dr_message_id = message_id, dr_sender = he_local env,
                   dr_recipient_session_id = peer_id, dr_sent_at_ms = he_now_ms env, dr_text = body\<rparr> status)]))"

fun handle_command :: "hub_env \<Rightarrow> links \<Rightarrow> direct_command \<Rightarrow> links \<times> hub_output list" where
  "handle_command env links (Direct_Send peer_id message_id body) =
     (case sanitize_chat_text body of
        Inl e \<Rightarrow> (links, direct_error ''invalid_private_message'' (error_text e))
      | Inr body \<Rightarrow>
        (case map_of links peer_id of
           Some link \<Rightarrow> send_on_link env links peer_id message_id body link
         | None \<Rightarrow>
           (case map_of (he_members env) peer_id of
              None \<Rightarrow> (links, direct_error ''private_peer_offline'' (str ''that member is no longer online''))
            | Some peer \<Rightarrow>
              (case he_connect env peer of
                 Inl e \<Rightarrow> (links, direct_error ''private_connect_failed''
                   (str ''could not establish a direct encrypted connection: '' @ he_describe env e))
               | Inr link \<Rightarrow> send_on_link env (amap_put peer_id link links) peer_id message_id body link))))"
| "handle_command env links (Peer_Left peer_id) =
     (case map_of links peer_id of
        Some link \<Rightarrow> (amap_remove peer_id links, [Drop_Sender (dl_link_id link), Emit (Private_Closed peer_id)])
      | None \<Rightarrow> (links, []))"

fun handle_link_event :: "hub_env \<Rightarrow> links \<Rightarrow> link_event \<Rightarrow> links \<times> hub_output list" where
  "handle_link_event env links (Link_Connected link_id peer) =
     (case map_of links (p_session_id peer) of
        Some _ \<Rightarrow> (links, [Drop_Sender link_id])
      | None \<Rightarrow> (amap_put (p_session_id peer)
          \<lparr>dl_link_id = link_id, dl_peer = peer, dl_role = Recipient, dl_state = New\<rparr> links, []))"
| "handle_link_event env links (Link_Message link_id peer_id message_id sent_at_ms body) =
     (case map_of links peer_id of
        None \<Rightarrow> (links, [])
      | Some link \<Rightarrow>
          if dl_link_id link \<noteq> link_id then (links, [])
          else (case status_of_receipt peer_id (dl_role link) (dl_state link) of
            None \<Rightarrow> (links, [])
          | Some (state, status) \<Rightarrow>
              (amap_adjust peer_id (\<lambda>l. l\<lparr>dl_state := state\<rparr>) links,
               case sanitize_chat_text body of
                 Inl e \<Rightarrow> []
               | Inr body \<Rightarrow>
                   [Emit (Private_Message \<lparr>dr_message_id = message_id, dr_sender = dl_peer link,
                      dr_recipient_session_id = p_session_id (he_local env), dr_sent_at_ms = sent_at_ms,
                      dr_text = body\<rparr> status)])))"
| "handle_link_event env links (Link_Disconnected link_id peer_id) =
     (case map_of links peer_id of
        Some link \<Rightarrow> if dl_link_id link = link_id
          then (amap_remove peer_id links, [Drop_Sender link_id, Emit (Private_Closed peer_id)])
          else (links, [])
      | None \<Rightarrow> (links, []))"

text \<open>The loop of \<open>run_direct_hub\<close> over what its two channels deliver, each input with its moment.\<close>

datatype hub_input = Command direct_command | Event link_event

fun hub_step :: "hub_env \<Rightarrow> links \<Rightarrow> hub_input \<Rightarrow> links \<times> hub_output list" where
  "hub_step env links (Command c) = handle_command env links c"
| "hub_step env links (Event e) = handle_link_event env links e"

fun run_direct_hub :: "links \<Rightarrow> (hub_env \<times> hub_input) list \<Rightarrow> links \<times> hub_output list" where
  "run_direct_hub links [] = (links, [])"
| "run_direct_hub links ((env, i) # is) =
     (case hub_step env links i of (links', out) \<Rightarrow>
        (case run_direct_hub links' is of (links'', more_out) \<Rightarrow> (links'', out @ more_out)))"

section \<open>The manager\<close>

text \<open>The directory of members, which the gateway's notices keep up to date.\<close>

definition start_members :: "peer list \<Rightarrow> (uuid \<times> peer) list" where
  "start_members members = foldl (\<lambda>m peer. amap_put (p_session_id peer) peer m) [] members"

definition upsert_member :: "peer \<Rightarrow> (uuid \<times> peer) list \<Rightarrow> (uuid \<times> peer) list" where
  "upsert_member peer members = amap_put (p_session_id peer) peer members"

definition remove_member :: "uuid \<Rightarrow> (uuid \<times> peer) list \<Rightarrow> (uuid \<times> peer) list \<times> direct_command" where
  "remove_member peer_session_id members = (amap_remove peer_session_id members, Peer_Left peer_session_id)"

section \<open>Reading a link\<close>

record link_window =
  lw_started :: nat
  lw_messages :: u32

text \<open>One message inside the fixed window of \<open>link_io\<close>; the answer is whether it is within the limit.\<close>

definition link_admit :: "nat \<Rightarrow> link_window \<Rightarrow> link_window \<times> bool" where
  "link_admit now lw =
     (let lw1 = (if now - lw_started lw \<ge> second then \<lparr>lw_started = now, lw_messages = 0\<rparr> else lw);
          lw2 = lw1\<lparr>lw_messages := lw_messages lw1 + 1\<rparr>
      in (lw2, \<not> lw_messages lw2 > MAX_DIRECT_MESSAGES_PER_SECOND))"

text \<open>
  The incoming side of \<open>link_io\<close>: reads with their times, \<open>None\<close> for a failed read. The events end
  with the disconnection, whatever ended the loop; an open connection yields no more for now.
\<close>

fun link_reads :: "uuid \<Rightarrow> uuid \<Rightarrow> link_window \<Rightarrow> (nat \<times> direct_wire_message option) list \<Rightarrow> link_event list" where
  "link_reads link_id peer_id lw [] = []"
| "link_reads link_id peer_id lw ((now, incoming) # rest) =
     (case incoming of
        Some (Direct_Chat message_id sent_at_ms body) \<Rightarrow>
          (case link_admit now lw of (lw', within) \<Rightarrow>
             if \<not> within then [Link_Disconnected link_id peer_id]
             else Link_Message link_id peer_id message_id sent_at_ms body # link_reads link_id peer_id lw' rest)
      | _ \<Rightarrow> [Link_Disconnected link_id peer_id])"

definition link_io :: "nat \<Rightarrow> uuid \<Rightarrow> uuid \<Rightarrow> (nat \<times> direct_wire_message option) list \<Rightarrow> link_event list" where
  "link_io started link_id peer_id reads = link_reads link_id peer_id \<lparr>lw_started = started, lw_messages = 0\<rparr> reads"

interpretation direct_limit: fixed_window link_admit lw_started "\<lambda>lw. unat (lw_messages lw)" 32 "2 ^ 32 - 1"
proof
  fix now s
  show "now < lw_started s + second \<Longrightarrow> unat (lw_messages s) < 2 ^ 32 - 1 \<Longrightarrow>
      lw_started (fst (link_admit now s)) = lw_started s \<and>
      unat (lw_messages (fst (link_admit now s))) = Suc (unat (lw_messages s)) \<and>
      snd (link_admit now s) = (unat (lw_messages s) < 32)"
    by (auto simp: link_admit_def Let_def limits unat_Suc_u32 word_less_nat_alt)
  show "lw_started s + second \<le> now \<Longrightarrow>
      lw_started (fst (link_admit now s)) = now \<and> unat (lw_messages (fst (link_admit now s))) = 1 \<and>
      snd (link_admit now s) = (0 < (32 :: nat))"
    by (auto simp: link_admit_def Let_def limits)
qed

end
