(* ===== verification/Direct_Conversation.thy ===== *)
theory Direct_Conversation
  imports Direct_Chat
begin

text \<open>
  Two hubs at the ends of one link: what one user writes is what the other reads, and the initiator
  waits for an answer. \<open>party\<close> is one end with its hub, the messages on their way to it, and what its
  screen shows of both users; \<open>talk\<close> lets either end write or read at any time.
\<close>

section \<open>Two ends of a link\<close>

record party =
  pt_links :: links
  pt_inbox :: "direct_wire_message list"
  pt_sent :: "direct_record list"
  pt_seen :: "direct_record list"

definition shown_by :: "uuid \<Rightarrow> hub_output list \<Rightarrow> direct_record list" where
  "shown_by sid out = concat (map (\<lambda>x. case x of Emit m \<Rightarrow> (case m of
     Private_Message r status \<Rightarrow> if p_session_id (dr_sender r) = sid then [r] else [] | _ \<Rightarrow> []) | _ \<Rightarrow> []) out)"

definition transmitted :: "hub_output list \<Rightarrow> direct_wire_message list" where
  "transmitted out = concat (map (\<lambda>x. case x of Transmit link m \<Rightarrow> [m] | _ \<Rightarrow> []) out)"

lemma shown_by_simps [simp]:
  "shown_by sid [] = []"
  "shown_by sid (Emit (Private_Message r st) # out) = (if p_session_id (dr_sender r) = sid then r # shown_by sid out else shown_by sid out)"
  "shown_by sid (Emit (Server_Error c m) # out) = shown_by sid out"
  "shown_by sid (Emit (Private_Closed p) # out) = shown_by sid out"
  "shown_by sid (Transmit link w # out) = shown_by sid out"
  "shown_by sid (Drop_Sender link # out) = shown_by sid out"
  by (simp_all add: shown_by_def)

lemma shown_by_append [simp]: "shown_by sid (xs @ ys) = shown_by sid xs @ shown_by sid ys"
  by (simp add: shown_by_def)

lemma transmitted_simps [simp]:
  "transmitted [] = []"
  "transmitted (Emit m # out) = transmitted out"
  "transmitted (Transmit link w # out) = w # transmitted out"
  "transmitted (Drop_Sender link # out) = transmitted out"
  by (simp_all add: transmitted_def)

lemma error_outputs [simp]: "shown_by sid (direct_error code m) = []" "transmitted (direct_error code m) = []"
  by (simp_all add: direct_error_def)

definition writes :: "hub_env \<Rightarrow> uuid \<Rightarrow> uuid \<Rightarrow> rstring \<Rightarrow> party \<times> party \<Rightarrow> party \<times> party" where
  "writes env to_id message_id body = (\<lambda>(me, other).
     case handle_command env (pt_links me) (Direct_Send to_id message_id body) of (links, out) \<Rightarrow>
       (me\<lparr>pt_links := links, pt_sent := pt_sent me @ shown_by (p_session_id (he_local env)) out\<rparr>,
        other\<lparr>pt_inbox := pt_inbox other @ transmitted out\<rparr>))"

fun reads :: "hub_env \<Rightarrow> uuid \<Rightarrow> uuid \<Rightarrow> party \<Rightarrow> party" where
  "reads env link_id from_id me =
     (case pt_inbox me of
        Direct_Chat message_id sent_at_ms body # rest \<Rightarrow>
          (case handle_link_event env (pt_links me) (Link_Message link_id from_id message_id sent_at_ms body) of
             (links, out) \<Rightarrow> me\<lparr>pt_links := links, pt_inbox := rest, pt_seen := pt_seen me @ shown_by from_id out\<rparr>)
      | _ \<Rightarrow> me)"

text \<open>The initiator \<open>a\<close> and the recipient \<open>b\<close>, who accepted the link; their channels are open.\<close>

record link_setup =
  ls_a :: peer
  ls_b :: peer
  ls_link_a :: uuid
  ls_link_b :: uuid

definition initiator_env :: "link_setup \<Rightarrow> hub_env \<Rightarrow> bool" where
  "initiator_env s env \<longleftrightarrow> he_local env = ls_a s \<and> (\<forall>link. he_open env link) \<and>
     map_of (he_members env) (p_session_id (ls_b s)) = Some (ls_b s) \<and>
     he_connect env (ls_b s) = Inr \<lparr>dl_link_id = ls_link_a s, dl_peer = ls_b s, dl_role = Initiator, dl_state = New\<rparr>"

definition recipient_env :: "link_setup \<Rightarrow> hub_env \<Rightarrow> bool" where
  "recipient_env s env \<longleftrightarrow> he_local env = ls_b s \<and> (\<forall>link. he_open env link)"

definition conversation_start :: "link_setup \<Rightarrow> party \<times> party" where
  "conversation_start s =
     (\<lparr>pt_links = [], pt_inbox = [], pt_sent = [], pt_seen = []\<rparr>,
      \<lparr>pt_links = [(p_session_id (ls_a s), \<lparr>dl_link_id = ls_link_b s, dl_peer = ls_a s, dl_role = Recipient, dl_state = New\<rparr>)],
       pt_inbox = [], pt_sent = [], pt_seen = []\<rparr>)"

inductive talk :: "link_setup \<Rightarrow> party \<times> party \<Rightarrow> bool" for s :: link_setup where
  talk_start: "talk s (conversation_start s)"
| talk_a_writes: "talk s (a, b) \<Longrightarrow> initiator_env s env \<Longrightarrow>
    talk s (writes env (p_session_id (ls_b s)) message_id body (a, b))"
| talk_b_writes: "talk s (a, b) \<Longrightarrow> recipient_env s env \<Longrightarrow>
    writes env (p_session_id (ls_a s)) message_id body (b, a) = (b', a') \<Longrightarrow> talk s (a', b')"
| talk_a_reads: "talk s (a, b) \<Longrightarrow> initiator_env s env \<Longrightarrow>
    talk s (reads env (ls_link_a s) (p_session_id (ls_b s)) a, b)"
| talk_b_reads: "talk s (a, b) \<Longrightarrow> recipient_env s env \<Longrightarrow>
    talk s (a, reads env (ls_link_b s) (p_session_id (ls_a s)) b)"

section \<open>The phases of a conversation\<close>

definition content :: "direct_record \<Rightarrow> uuid \<times> u64 \<times> rstring" where
  "content r = (dr_message_id r, dr_sent_at_ms r, dr_text r)"

fun wire_content :: "direct_wire_message \<Rightarrow> uuid \<times> u64 \<times> rstring" where
  "wire_content (Direct_Chat message_id sent_at_ms body) = (message_id, sent_at_ms, body)"
| "wire_content (Direct_Hello gid sender recipient) = (0, 0, [])"

fun clean :: "direct_wire_message \<Rightarrow> bool" where
  "clean (Direct_Chat message_id sent_at_ms body) \<longleftrightarrow> sanitize_chat_text body = Inr body"
| "clean (Direct_Hello gid sender recipient) \<longleftrightarrow> False"

text \<open>The state of both ends, and how many messages are on their way to each.\<close>

fun phase :: "conversation_state option \<Rightarrow> conversation_state \<Rightarrow> nat \<Rightarrow> nat \<Rightarrow> bool" where
  "phase None New to_a to_b \<longleftrightarrow> to_a = 0 \<and> to_b = 0"
| "phase (Some Awaiting_Answer) New to_a to_b \<longleftrightarrow> to_a = 0 \<and> to_b = 1"
| "phase (Some Awaiting_Answer) Awaiting_Answer to_a to_b \<longleftrightarrow> to_a = 0 \<and> to_b = 0"
| "phase (Some Awaiting_Answer) Active_State to_a to_b \<longleftrightarrow> to_a > 0 \<and> to_b = 0"
| "phase (Some Active_State) Active_State to_a to_b \<longleftrightarrow> True"
| "phase _ _ to_a to_b \<longleftrightarrow> False"

definition link_a :: "link_setup \<Rightarrow> conversation_state \<Rightarrow> direct_link" where
  "link_a s st = \<lparr>dl_link_id = ls_link_a s, dl_peer = ls_b s, dl_role = Initiator, dl_state = st\<rparr>"

definition link_b :: "link_setup \<Rightarrow> conversation_state \<Rightarrow> direct_link" where
  "link_b s st = \<lparr>dl_link_id = ls_link_b s, dl_peer = ls_a s, dl_role = Recipient, dl_state = st\<rparr>"

definition faithful :: "party \<Rightarrow> party \<Rightarrow> bool" where
  "faithful from to \<longleftrightarrow> list_all clean (pt_inbox to) \<and>
     map content (pt_sent from) = map content (pt_seen to) @ map wire_content (pt_inbox to)"

text \<open>What each state says of the messages its user has sent.\<close>

definition spoken :: "conversation_state option \<Rightarrow> conversation_state \<Rightarrow> party \<Rightarrow> party \<Rightarrow> bool" where
  "spoken sa sb a b \<longleftrightarrow> (sa = None \<longrightarrow> pt_sent a = []) \<and> (sa = Some Awaiting_Answer \<longrightarrow> length (pt_sent a) = 1) \<and>
     (sb = Active_State \<longleftrightarrow> pt_sent b \<noteq> [])"

definition conversing :: "link_setup \<Rightarrow> conversation_state option \<Rightarrow> conversation_state \<Rightarrow> party \<Rightarrow> party \<Rightarrow> bool" where
  "conversing s sa sb a b \<longleftrightarrow>
     map_of (pt_links a) (p_session_id (ls_b s)) = map_option (link_a s) sa \<and>
     map_of (pt_links b) (p_session_id (ls_a s)) = Some (link_b s sb) \<and>
     phase sa sb (length (pt_inbox a)) (length (pt_inbox b)) \<and> spoken sa sb a b \<and> faithful a b \<and> faithful b a"

lemma phase_cases:
  assumes "phase sa sb m n"
  obtains "sa = None" "sb = New" "m = 0" "n = 0"
    | "sa = Some Awaiting_Answer" "sb = New" "m = 0" "n = 1"
    | "sa = Some Awaiting_Answer" "sb = Awaiting_Answer" "m = 0" "n = 0"
    | "sa = Some Awaiting_Answer" "sb = Active_State" "m > 0" "n = 0"
    | "sa = Some Active_State" "sb = Active_State"
  using assms by (cases "(sa, sb, m, n)" rule: phase.cases) auto

lemma phase_None_iff [simp]: "phase None sb m n \<longleftrightarrow> sb = New \<and> m = 0 \<and> n = 0"
  by (cases sb) auto

lemma phase_state_cases: "phase (Some Active_State) sb m n \<longleftrightarrow> sb = Active_State"
  by (cases sb) auto

lemma chat_stable: "sanitize_chat_text raw = Inr out \<Longrightarrow> sanitize_chat_text out = Inr out"
  by (rule chat_text.accepted_stable)

section \<open>Steps\<close>

lemmas talk_defs = conversing_def writes_def send_on_link_def initiator_env_def recipient_env_def link_a_def link_b_def
  faithful_def content_def spoken_def

lemma conversing_phase: "conversing s sa sb a b \<Longrightarrow> phase sa sb (length (pt_inbox a)) (length (pt_inbox b))"
  by (simp add: conversing_def)

lemma a_writes:
  assumes conv: "conversing s sa sb a b" and env: "initiator_env s env"
    and w: "writes env (p_session_id (ls_b s)) i body (a, b) = (a', b')"
  shows "\<exists>sa'. conversing s sa' sb a' b'"
proof (cases "sanitize_chat_text body")
  case (Inl e)
  with w conv have "a' = a" "b' = b" by (simp_all add: writes_def)
  with conv show ?thesis by blast
next
  case (Inr out)
  have clean: "sanitize_chat_text out = Inr out" using Inr by (rule chat_stable)
  consider "sa = None" "sb = New" | "sa = Some Awaiting_Answer" | "sa = Some Active_State" "sb = Active_State"
    using conversing_phase [OF conv] by (auto elim: phase_cases)
  then show ?thesis
  proof cases
    case 1
    with w conv env Inr clean have "conversing s (Some Awaiting_Answer) sb a' b'" by (auto simp: talk_defs)
    then show ?thesis by blast
  next
    case 2
    with w conv env Inr have "conversing s sa sb a' b'" by (auto simp: talk_defs)
    then show ?thesis by blast
  next
    case 3
    with w conv env Inr clean have "conversing s sa sb a' b'" by (auto simp: talk_defs)
    then show ?thesis by blast
  qed
qed

lemma b_writes:
  assumes conv: "conversing s sa sb a b" and env: "recipient_env s env"
    and w: "writes env (p_session_id (ls_a s)) i body (b, a) = (b', a')"
  shows "\<exists>sb'. conversing s sa sb' a' b'"
proof (cases "sanitize_chat_text body")
  case (Inl e)
  with w conv have "a' = a" "b' = b" by (simp_all add: writes_def)
  with conv show ?thesis by blast
next
  case (Inr out)
  have clean: "sanitize_chat_text out = Inr out" using Inr by (rule chat_stable)
  consider "sb = New" | "sa = Some Awaiting_Answer" "sb = Awaiting_Answer"
    | "sa = Some Awaiting_Answer" "sb = Active_State" | "sa = Some Active_State" "sb = Active_State"
    using conversing_phase [OF conv] by (auto elim: phase_cases)
  then show ?thesis
  proof cases
    case 1
    with w conv env Inr have "conversing s sa sb a' b'" by (auto simp: talk_defs)
    then show ?thesis by blast
  next
    case 2
    with w conv env Inr clean have "conversing s sa Active_State a' b'" by (auto simp: talk_defs)
    then show ?thesis by blast
  next
    case 3
    with w conv env Inr clean have "conversing s sa sb a' b'" by (auto simp: talk_defs)
    then show ?thesis by blast
  next
    case 4
    with w conv env Inr clean have "conversing s sa sb a' b'" by (auto simp: talk_defs)
    then show ?thesis by blast
  qed
qed

text \<open>Reading: an empty inbox changes nothing, and what is in it is clean.\<close>

lemma inbox_cases:
  assumes "list_all clean (pt_inbox p)"
  obtains "pt_inbox p = []"
    | i t body rest where "pt_inbox p = Direct_Chat i t body # rest" "sanitize_chat_text body = Inr body" "list_all clean rest"
proof (cases "pt_inbox p")
  case (Cons w rest)
  then show ?thesis using assms that(2) by (cases w) auto
qed (rule that(1))

lemma a_reads:
  assumes conv: "conversing s sa sb a b"
  shows "\<exists>sa'. conversing s sa' sb (reads env (ls_link_a s) (p_session_id (ls_b s)) a) b"
proof -
  from conv have "list_all clean (pt_inbox a)" by (simp add: conversing_def faithful_def)
  then show ?thesis
  proof (cases rule: inbox_cases)
    case 1
    with conv have "conversing s sa sb (reads env (ls_link_a s) (p_session_id (ls_b s)) a) b" by simp
    then show ?thesis by blast
  next
    case (2 i t body rest)
    then have "sb = Active_State" "sa = Some Awaiting_Answer \<or> sa = Some Active_State"
      using conversing_phase [OF conv] by (auto elim: phase_cases)
    with conv 2 have "conversing s (Some Active_State) sb (reads env (ls_link_a s) (p_session_id (ls_b s)) a) b"
      by (auto simp: talk_defs)
    then show ?thesis by blast
  qed
qed

lemma b_reads:
  assumes conv: "conversing s sa sb a b"
  shows "\<exists>sb'. conversing s sa sb' a (reads env (ls_link_b s) (p_session_id (ls_a s)) b)"
proof -
  from conv have "list_all clean (pt_inbox b)" by (simp add: conversing_def faithful_def)
  then show ?thesis
  proof (cases rule: inbox_cases)
    case 1
    with conv have "conversing s sa sb a (reads env (ls_link_b s) (p_session_id (ls_a s)) b)" by simp
    then show ?thesis by blast
  next
    case (2 i t body rest)
    then consider "sa = Some Awaiting_Answer" "sb = New" "pt_inbox a = []" "rest = []" | "sa = Some Active_State" "sb = Active_State"
      using conversing_phase [OF conv] by (auto elim: phase_cases)
    then show ?thesis
    proof cases
      case 1
      with conv 2 have "conversing s sa Awaiting_Answer a (reads env (ls_link_b s) (p_session_id (ls_a s)) b)"
        by (auto simp: talk_defs)
      then show ?thesis by blast
    next
      case active: 2
      with conv 2 have "conversing s sa sb a (reads env (ls_link_b s) (p_session_id (ls_a s)) b)"
        by (auto simp: talk_defs)
      then show ?thesis by blast
    qed
  qed
qed

lemma talk_conversing: "talk s ab \<Longrightarrow> \<exists>sa sb. conversing s sa sb (fst ab) (snd ab)"
proof (induction rule: talk.induct)
  case talk_start
  have "conversing s None New (fst (conversation_start s)) (snd (conversation_start s))"
    by (simp add: conversing_def conversation_start_def faithful_def link_b_def spoken_def)
  then show ?case by blast
next
  case (talk_a_writes a b env i body)
  then show ?case using a_writes [of s _ _ a b env i body] by (metis fst_conv prod.collapse snd_conv)
next
  case (talk_b_writes a b env i body b' a')
  then show ?case using b_writes by fastforce
next
  case (talk_a_reads a b env)
  then show ?case using a_reads by fastforce
next
  case (talk_b_reads a b env)
  then show ?case using b_reads by fastforce
qed

end
