(* ===== verification/Direct_Theorems.thy ===== *)
theory Direct_Theorems
  imports Direct_Conversation
begin

text \<open>
  The properties of private chat: fidelity of a conversation, what an unanswered peer can show, who is
  let in, how fast a link may talk, and two ways in which conversations go wrong.
\<close>

text \<open>
  C20. In a private conversation over one link, in whatever order the two users write and read: each
  user sees exactly what the other has sent, in order and unaltered, up to the messages still on their
  way; and the one who opened the conversation has sent at most one message until the other answers.
\<close>

theorem conversation_faithful:
  assumes "talk s (a, b)"
  shows "map content (pt_sent a) = map content (pt_seen b) @ map wire_content (pt_inbox b) \<and>
    map content (pt_sent b) = map content (pt_seen a) @ map wire_content (pt_inbox a) \<and>
    (pt_sent b = [] \<longrightarrow> length (pt_sent a) \<le> 1)"
proof -
  from talk_conversing [OF assms] obtain sa sb where conv: "conversing s sa sb a b" by auto
  have "pt_sent b = [] \<Longrightarrow> length (pt_sent a) \<le> 1"
    using conversing_phase [OF conv] conv by (auto simp: conversing_def spoken_def elim: phase_cases)
  with conv show ?thesis by (auto simp: conversing_def faithful_def)
qed

definition sample_setup :: link_setup where
  "sample_setup = \<lparr>ls_a = \<lparr>p_session_id = 1, p_member_id = 11, p_nickname = [97], p_direct = None\<rparr>,
     ls_b = \<lparr>p_session_id = 2, p_member_id = 12, p_nickname = [98], p_direct = None\<rparr>, ls_link_a = 7, ls_link_b = 8\<rparr>"

definition sample_env_a :: hub_env where
  "sample_env_a = \<lparr>he_local = ls_a sample_setup, he_now_ms = 5, he_members = [(2, ls_b sample_setup)],
     he_connect = (\<lambda>_. Inr (link_a sample_setup New)), he_open = (\<lambda>_. True), he_describe = (\<lambda>_. [])\<rparr>"

definition sample_env_b :: hub_env where
  "sample_env_b = \<lparr>he_local = ls_b sample_setup, he_now_ms = 6, he_members = [(1, ls_a sample_setup)],
     he_connect = (\<lambda>_. Inl Io_Error), he_open = (\<lambda>_. True), he_describe = (\<lambda>_. [])\<rparr>"

lemmas sample_direct_defs = sample_setup_def sample_env_a_def sample_env_b_def link_a_def link_b_def

lemma sample_hello_text: "sanitize_chat_text [104, 105] = Inr [104, 105]"
  by (simp add: sanitize_chat_text_def byte_len_def len_utf8_def limits is_forbidden_terminal_char_def is_control_def
      trim_def trim_start_def trim_end_def is_whitespace_def)

theorem conversation_faithful_witness:
  "\<exists>a b. talk sample_setup (a, b) \<and> map content (pt_sent a) = [(20, 5, [104, 105])] \<and> map content (pt_seen b) = [(20, 5, [104, 105])]"
proof -
  let ?w = "writes sample_env_a 2 20 [104, 105] (conversation_start sample_setup)"
  have "initiator_env sample_setup sample_env_a" "recipient_env sample_setup sample_env_b"
    by (simp_all add: initiator_env_def recipient_env_def sample_direct_defs)
  then have "talk sample_setup (fst ?w, reads sample_env_b 8 1 (snd ?w))"
    using talk_a_writes [of sample_setup "fst (conversation_start sample_setup)" "snd (conversation_start sample_setup)" sample_env_a 20 "[104, 105]"]
      talk_b_reads [of sample_setup "fst ?w" "snd ?w" sample_env_b] talk_start [of sample_setup]
    by (simp add: sample_setup_def)
  moreover note conversation_faithful [OF this]
  moreover have "map content (pt_sent (fst ?w)) = [(20, 5, [104, 105])]" "pt_inbox (reads sample_env_b 8 1 (snd ?w)) = []"
    by (simp_all add: writes_def conversation_start_def sample_hello_text send_on_link_def sample_direct_defs content_def)
  ultimately show ?thesis by force
qed

section \<open>What an unanswered peer can show\<close>

definition unanswered :: "uuid \<Rightarrow> links \<Rightarrow> bool" where
  "unanswered p ls \<longleftrightarrow> (case map_of ls p of None \<Rightarrow> True | Some l \<Rightarrow> dl_role l = Recipient \<and> dl_state l \<noteq> Active_State)"

definition allowance :: "uuid \<Rightarrow> links \<Rightarrow> nat" where
  "allowance p ls = (case map_of ls p of Some l \<Rightarrow> if dl_state l = New then 1 else 0 | None \<Rightarrow> 0)"

fun no_answer :: "uuid \<Rightarrow> hub_input \<Rightarrow> bool" where
  "no_answer p (Command (Direct_Send q message_id body)) \<longleftrightarrow> q \<noteq> p"
| "no_answer p (Event (Link_Connected link_id peer)) \<longleftrightarrow> p_session_id peer \<noteq> p"
| "no_answer p _ \<longleftrightarrow> True"

definition keyed :: "links \<Rightarrow> bool" where
  "keyed ls \<longleftrightarrow> (\<forall>k l. map_of ls k = Some l \<longrightarrow> p_session_id (dl_peer l) = k)"

definition env_for :: "uuid \<Rightarrow> hub_env \<Rightarrow> bool" where
  "env_for p env \<longleftrightarrow> p_session_id (he_local env) \<noteq> p \<and>
     (\<forall>q peer. map_of (he_members env) q = Some peer \<longrightarrow> p_session_id peer = q) \<and>
     (\<forall>peer link. he_connect env peer = Inr link \<longrightarrow> dl_peer link = peer)"

lemma keyed_put: "keyed ls \<Longrightarrow> p_session_id (dl_peer l) = k \<Longrightarrow> keyed (amap_put k l ls)"
  by (simp add: keyed_def)

lemma keyed_remove: "keyed ls \<Longrightarrow> keyed (amap_remove k ls)"
  by (simp add: keyed_def)

lemma keyed_adjust: "keyed ls \<Longrightarrow> keyed (amap_adjust k (\<lambda>l. l\<lparr>dl_state := st\<rparr>) ls)"
  by (auto simp: keyed_def)

lemmas keyed_rules = keyed_put keyed_remove keyed_adjust

lemma send_on_link_other:
  assumes "keyed ls" "q \<noteq> p" "p_session_id (he_local env) \<noteq> p"
  shows "keyed (fst (send_on_link env ls q i body l))" "shown_by p (snd (send_on_link env ls q i body l)) = []"
    "map_of (fst (send_on_link env ls q i body l)) p = map_of ls p"
  using assms by (auto simp: send_on_link_def keyed_rules split: option.splits)

lemma hub_step_unanswered:
  assumes "keyed ls" "unanswered p ls" "env_for p env" "no_answer p i"
  shows "keyed (fst (hub_step env ls i)) \<and> unanswered p (fst (hub_step env ls i)) \<and>
    length (shown_by p (snd (hub_step env ls i))) + allowance p (fst (hub_step env ls i)) \<le> allowance p ls"
proof (cases i)
  case (Command c)
  show ?thesis
  proof (cases c)
    case (Direct_Send q m body)
    with assms Command have q: "q \<noteq> p" by simp
    have local: "p_session_id (he_local env) \<noteq> p" using assms(3) by (simp add: env_for_def)
    have "keyed (amap_put q l ls)" if "he_connect env peer = Inr l" "map_of (he_members env) q = Some peer" for peer l
      using assms(1,3) that by (auto simp: env_for_def intro: keyed_put)
    with q local assms(1,2) show ?thesis
      unfolding Command Direct_Send
      by (auto simp: send_on_link_other unanswered_def allowance_def split: sum.splits option.splits)
  next
    case (Peer_Left q)
    with Command assms show ?thesis
      by (auto simp: keyed_rules unanswered_def allowance_def split: option.splits)
  qed
next
  case (Event e)
  with assms show ?thesis
  proof (cases e)
    case (Link_Message l q m t body)
    show ?thesis
    proof (cases "map_of ls q")
      case None
      with assms Event Link_Message show ?thesis by simp
    next
      case (Some link)
      then have "p_session_id (dl_peer link) = q" using assms(1) by (simp add: keyed_def)
      with Some assms Event Link_Message show ?thesis
        by (cases "dl_role link"; cases "dl_state link")
          (auto simp: keyed_rules unanswered_def allowance_def split: sum.splits option.splits)
    qed
  qed (auto simp: keyed_rules unanswered_def allowance_def split: option.splits)
qed

text \<open>
  C21. However a peer behaves, and whatever else the hub is doing: as long as the local user does not
  write to it, one link lets it show at most one message.
\<close>

theorem one_message_per_link:
  assumes "keyed ls" "unanswered p ls" "\<forall>(env, i)\<in>set is. env_for p env \<and> no_answer p i"
  shows "length (shown_by p (snd (run_direct_hub ls is))) \<le> 1"
proof -
  have "length (shown_by p (snd (run_direct_hub ls is))) \<le> allowance p ls"
    using assms
  proof (induction "is" arbitrary: ls)
    case (Cons x xs)
    obtain env i where x: "x = (env, i)" by (cases x)
    with Cons.prems have "keyed (fst (hub_step env ls i)) \<and> unanswered p (fst (hub_step env ls i)) \<and>
        length (shown_by p (snd (hub_step env ls i))) + allowance p (fst (hub_step env ls i)) \<le> allowance p ls"
      by (intro hub_step_unanswered) auto
    with Cons.IH [of "fst (hub_step env ls i)"] Cons.prems(3) show ?case
      by (auto simp: x split: prod.splits)
  qed (simp add: allowance_def)
  also have "allowance p ls \<le> 1" by (simp add: allowance_def split: option.splits)
  finally show ?thesis .
qed

theorem one_message_per_link_witness:
  "length (shown_by 1 (snd (run_direct_hub [(1, link_b sample_setup New)]
     [(sample_env_b, Event (Link_Message 8 1 20 5 [104, 105])), (sample_env_b, Event (Link_Message 8 1 21 5 [104, 105]))]))) \<le> 1"
  by (rule one_message_per_link)
    (auto simp: keyed_def unanswered_def env_for_def sample_direct_defs)

text \<open>
  The limit is one message per link, not per conversation: a peer that disconnects and connects
  again shows a second message to a user who has not answered the first.
\<close>

theorem reconnection_renews_the_opening:
  "map dr_message_id (shown_by 1 (snd (run_direct_hub []
     [(sample_env_b, Event (Link_Connected 8 (ls_a sample_setup))), (sample_env_b, Event (Link_Message 8 1 20 5 [104, 105])),
      (sample_env_b, Event (Link_Disconnected 8 1)),
      (sample_env_b, Event (Link_Connected 9 (ls_a sample_setup))), (sample_env_b, Event (Link_Message 9 1 21 6 [104, 105]))])))
   = [20, 21]"
  by (simp add: sample_hello_text sample_direct_defs)

text \<open>
  When both members open a conversation at once, neither gets through: each hub keeps its own link
  and drops the other's, the dropped links end, and both users are told the conversation was closed
  without having seen a message. Shown for one side; the other is the same with the names exchanged.
\<close>

theorem simultaneous_opening_fails:
  "(case run_direct_hub []
     [(sample_env_a, Command (Direct_Send 2 20 [104, 105])),
      (sample_env_a, Event (Link_Connected 18 (ls_b sample_setup))),
      (sample_env_a, Event (Link_Message 18 2 30 6 [104, 105])),
      (sample_env_a, Event (Link_Disconnected 18 2)),
      (sample_env_a, Event (Link_Disconnected 7 2))]
    of (ls, out) \<Rightarrow> ls = [] \<and> map dr_message_id (shown_by 1 out) = [20] \<and> shown_by 2 out = [] \<and>
      Drop_Sender 18 \<in> set out \<and> last out = Emit (Private_Closed 2))"
  by (simp add: sample_hello_text sample_direct_defs send_on_link_def amap_remove_def amap_adjust_def)

section \<open>Who is let in\<close>

text \<open>
  A connection becomes a link exactly when its first message names this group and this session and
  a member the gateway lists, whose advertised key is the one that the Noise handshake proved; a link
  is opened to a member only under the key the gateway advertises for it, and its opening message is
  one that the member accepts from us.
\<close>

theorem links_are_authenticated:
  "(accept_direct_link gid me members fp hello = Inr peer \<longleftrightarrow>
     (\<exists>sender adv. hello = Direct_Hello gid sender me \<and> map_of members sender = Some peer \<and>
       p_direct peer = Some adv \<and> eq_ignore_ascii_case (dpi_fingerprint adv) fp)) \<and>
   (connect_direct_link dial write fresh gid local peer = Inr link \<longleftrightarrow>
     (\<exists>adv fp. p_direct peer = Some adv \<and> dial (dpi_endpoint adv) = Inr fp \<and>
       eq_ignore_ascii_case (dpi_fingerprint adv) fp \<and>
       write (Direct_Hello gid (p_session_id local) (p_session_id peer)) = Inr () \<and>
       link = \<lparr>dl_link_id = fresh, dl_peer = peer, dl_role = Initiator, dl_state = New\<rparr>))"
  by (auto simp: accept_direct_link_def connect_direct_link_def and_then_Inr split: direct_wire_message.splits option.splits if_splits)

section \<open>How fast a link may talk\<close>

fun is_message :: "link_event \<Rightarrow> bool" where
  "is_message (Link_Message link_id p m t body) \<longleftrightarrow> True"
| "is_message _ \<longleftrightarrow> False"

lemma forwarded_passed:
  "length (filter is_message (link_reads link_id p lw rs)) \<le> length (filter (\<lambda>b. b) (direct_limit.answers lw (map fst rs)))"
proof (induction link_id p lw rs rule: link_reads.induct)
  case (2 link_id p lw now incoming rest)
  then show ?case by (auto split: option.splits direct_wire_message.splits prod.splits)
qed simp

lemma disconnection_is_last:
  "link_reads link_id p lw rs = xs @ Link_Disconnected l q # ys \<Longrightarrow> ys = [] \<and> l = link_id \<and> q = p"
proof (induction link_id p lw rs arbitrary: xs rule: link_reads.induct)
  case (2 link_id p lw now incoming rest)
  then show ?case
    by (auto simp: Cons_eq_append_conv split: option.splits direct_wire_message.splits prod.splits if_splits)
qed simp

text \<open>
  Whatever a peer writes, its link hands at most 64 messages to the hub within any one second, and
  once it has reported the disconnection it reports nothing more.
\<close>

theorem link_is_rate_limited:
  assumes "sorted (map fst rs)" "\<forall>(t, _)\<in>set rs. from \<le> t \<and> t < from + 1000000000" "unat (lw_messages lw) + length rs < 2 ^ 32"
  shows "length (filter is_message (link_reads link_id p lw rs)) \<le> 64 \<and>
    (\<forall>xs l q ys. link_reads link_id p lw rs = xs @ Link_Disconnected l q # ys \<longrightarrow> ys = [] \<and> l = link_id \<and> q = p)"
proof (intro conjI allI impI)
  have "length (filter (\<lambda>b. b) (direct_limit.answers lw (map fst rs))) \<le> (32 - unat (lw_messages lw)) + 32"
    using assms by (intro direct_limit.passed_in_a_second [of _ "from"]) (auto simp: second_def)
  then show "length (filter is_message (link_reads link_id p lw rs)) \<le> 64"
    using forwarded_passed [of link_id p lw rs] by simp
next
  fix xs l q ys
  assume "link_reads link_id p lw rs = xs @ Link_Disconnected l q # ys"
  from disconnection_is_last [OF this] show "ys = []" "l = link_id" "q = p" by simp_all
qed

theorem link_is_rate_limited_witness:
  "length (filter is_message (link_reads 8 1 \<lparr>lw_started = 0, lw_messages = 0\<rparr> [(5, Some (Direct_Chat 20 5 [104])), (6, None)])) \<le> 64"
  using link_is_rate_limited [of "[(5, Some (Direct_Chat 20 5 [104])), (6, None)]" 0 "\<lparr>lw_started = 0, lw_messages = 0\<rparr>" 8 1]
  by simp

end
