(* ===== verification/Framing.thy ===== *)
theory Framing
  imports Protocol Tokens
begin

text \<open>
  The transport of \<open>src/crypto.rs\<close>: length-prefixed frames, the Noise handshake over them, the
  encrypted JSON channel, the gateway's key file and fingerprints. The Noise state machine, BLAKE3 and
  serde are parameters. The locale \<open>frame_codec\<close> states what a stream of frames owes to its readers.
\<close>

section \<open>Frames\<close>

definition MAX_HANDSHAKE_FRAME :: nat where [limits]: "MAX_HANDSHAKE_FRAME = 4096"

definition frame_size_error :: "string \<Rightarrow> nat \<Rightarrow> error" where
  "frame_size_error what n = Bail (str what @ show_nat n)"

text \<open>\<open>write_u16\<close> and \<open>read_u16\<close> are big-endian.\<close>

definition write_raw_frame :: "nat \<Rightarrow> byte list \<Rightarrow> error + byte list" where
  "write_raw_frame maximum payload =
     (if payload = [] \<or> length payload > maximum \<or> length payload > 65535
      then Inl (frame_size_error ''invalid frame size: '' (length payload))
      else Inr (byte_of (length payload div 256) # byte_of (length payload mod 256) # payload))"

fun read_u16 :: "byte list \<Rightarrow> error + nat \<times> byte list" where
  "read_u16 (hi # lo # rest) = Inr (unat hi * 256 + unat lo, rest)"
| "read_u16 _ = Inl Unexpected_Eof"

definition read_exact :: "nat \<Rightarrow> byte list \<Rightarrow> error + byte list \<times> byte list" where
  "read_exact n stream = (if length stream < n then Inl Unexpected_Eof else Inr (take n stream, drop n stream))"

definition read_raw_frame :: "nat \<Rightarrow> byte list \<Rightarrow> error + byte list \<times> byte list" where
  "read_raw_frame maximum stream =
     and_then (read_u16 stream) (\<lambda>(len, rest).
       if len = 0 \<or> len > maximum then Inl (frame_size_error ''invalid incoming frame size: '' len)
       else read_exact len rest)"

section \<open>The contract of a framing\<close>

locale frame_codec =
  fixes put :: "byte list \<Rightarrow> error + byte list" and get :: "byte list \<Rightarrow> error + byte list \<times> byte list"
    and fits :: "byte list \<Rightarrow> bool"
  assumes put_iff_fits: "is_ok (put payload) \<longleftrightarrow> fits payload"
    and get_put: "put payload = Inr frame \<Longrightarrow> get (frame @ rest) = Inr (payload, rest)"
    and put_get: "get stream = Inr (payload, rest) \<Longrightarrow> \<exists>frame. put payload = Inr frame \<and> stream = frame @ rest"
begin

fun get_many :: "nat \<Rightarrow> byte list \<Rightarrow> error + byte list list \<times> byte list" where
  "get_many 0 stream = Inr ([], stream)"
| "get_many (Suc n) stream = and_then (get stream) (\<lambda>(payload, rest).
     and_then (get_many n rest) (\<lambda>(payloads, rest'). Inr (payload # payloads, rest')))"

lemma get_many_put:
  "collect_result put payloads = Inr frames \<Longrightarrow> get_many (length payloads) (concat frames @ rest) = Inr (payloads, rest)"
proof (induction payloads arbitrary: frames)
  case (Cons p ps)
  then obtain f fs where "put p = Inr f" "collect_result put ps = Inr fs" "frames = f # fs"
    by (auto split: sum.splits)
  with Cons.IH [of fs] get_put [of p f "concat fs @ rest"] show ?case by simp
qed simp

lemma put_get_many:
  "get_many n stream = Inr (payloads, rest) \<Longrightarrow>
   \<exists>frames. collect_result put payloads = Inr frames \<and> stream = concat frames @ rest"
proof (induction n arbitrary: stream payloads)
  case (Suc n)
  then obtain p s ps where "get stream = Inr (p, s)" "get_many n s = Inr (ps, rest)" "payloads = p # ps"
    by (auto simp: and_then_Inr)
  moreover obtain f where "put p = Inr f" "stream = f @ s" using put_get calculation(1) by blast
  moreover obtain fs where "collect_result put ps = Inr fs" "s = concat fs @ rest" using Suc.IH calculation(2) by blast
  ultimately show ?case by simp
qed simp

text \<open>No stream reads as two different sequences of payloads.\<close>

lemma frames_unambiguous:
  assumes "collect_result put xs = Inr fs" "collect_result put ys = Inr gs" "concat fs = concat gs" "length xs = length ys"
  shows "xs = ys"
  using get_many_put [OF assms(1), of "[]"] get_many_put [OF assms(2), of "[]"] assms(3,4) by simp

end

definition frame_fits :: "nat \<Rightarrow> byte list \<Rightarrow> bool" where
  "frame_fits maximum payload \<longleftrightarrow> 0 < length payload \<and> length payload \<le> maximum"

lemma byte_pair: "n < 65536 \<Longrightarrow> unat (byte_of (n div 256)) * 256 + unat (byte_of (n mod 256)) = n"
  by (simp add: unat_byte_of div_less_iff_less_mult)

lemma byte_of_unat [simp]: "byte_of (unat (b :: byte)) = b"
  by (simp add: byte_of_def)

lemma read_write_raw_frame:
  "write_raw_frame maximum payload = Inr frame \<Longrightarrow> read_raw_frame maximum (frame @ rest) = Inr (payload, rest)"
  by (auto simp: write_raw_frame_def read_raw_frame_def read_exact_def byte_pair split: if_splits)

lemma byte_less: "unat (b :: byte) < 256"
  using unsigned_less [of b] by simp

lemma byte_split: "(unat (hi :: byte) * 256 + unat (lo :: byte)) div 256 = unat hi" "(unat hi * 256 + unat lo) mod 256 = unat lo"
proof -
  have "unat lo < 256" by (rule byte_less)
  then show "(unat hi * 256 + unat lo) div 256 = unat hi" "(unat hi * 256 + unat lo) mod 256 = unat lo" by simp_all
qed

lemma write_read_raw_frame:
  assumes "read_raw_frame maximum stream = Inr (payload, rest)"
  shows "\<exists>frame. write_raw_frame maximum payload = Inr frame \<and> stream = frame @ rest"
proof -
  from assms obtain len s where u16: "read_u16 stream = Inr (len, s)" and len: "len \<noteq> 0" "len \<le> maximum"
    and "read_exact len s = Inr (payload, rest)"
    by (auto simp: read_raw_frame_def and_then_Inr split: if_splits)
  then have p: "length payload = len" "s = payload @ rest"
    by (auto simp: read_exact_def split: if_splits)
  from u16 obtain hi lo where stream: "stream = hi # lo # s" "len = unat hi * 256 + unat lo"
    by (cases stream rule: read_u16.cases) auto
  have "len \<le> 65535" using byte_less [of hi] byte_less [of lo] stream(2) by simp
  then show ?thesis
    using len p stream byte_split [of hi lo] by (auto simp: write_raw_frame_def)
qed

lemma raw_frame_codec: "maximum \<le> 65535 \<Longrightarrow> frame_codec (write_raw_frame maximum) (read_raw_frame maximum) (frame_fits maximum)"
proof
  show "is_ok (write_raw_frame maximum payload) \<longleftrightarrow> frame_fits maximum payload" if "maximum \<le> 65535" for payload
    using that by (auto simp: write_raw_frame_def frame_fits_def)
qed (simp_all add: read_write_raw_frame write_read_raw_frame)

interpretation handshake_frames: frame_codec "write_raw_frame MAX_HANDSHAKE_FRAME" "read_raw_frame MAX_HANDSHAKE_FRAME" "frame_fits MAX_HANDSHAKE_FRAME"
  by (rule raw_frame_codec) (simp add: limits)

interpretation transport_frames: frame_codec "write_raw_frame MAX_CIPHERTEXT_FRAME" "read_raw_frame MAX_CIPHERTEXT_FRAME" "frame_fits MAX_CIPHERTEXT_FRAME"
  by (rule raw_frame_codec) (simp add: limits)

end
