(* ===== verification/Secure_Channel.thy ===== *)
theory Secure_Channel
  imports Framing
begin

text \<open>
  What \<open>src/crypto.rs\<close> builds on frames: the three-message handshake, the encrypted JSON channel with
  its two counters, the gateway's key file and the fingerprints shown to users.
\<close>

section \<open>The handshake\<close>

text \<open>
  \<open>snow\<close>'s handshake state \<open>'h\<close> is third-party: writing yields a message, reading may refuse one, and
  at the end it knows the static key of the other side.
\<close>

record 'h noise =
  nz_write :: "'h \<Rightarrow> (byte list \<times> 'h) option"
  nz_read :: "'h \<Rightarrow> byte list \<Rightarrow> 'h option"
  nz_remote_static :: "'h \<Rightarrow> byte list option"
  nz_finished :: "'h \<Rightarrow> bool"

text \<open>One end of the TCP stream during the handshake: what is to be read and what was written.\<close>

record 'h endpoint =
  ep_noise :: 'h
  ep_incoming :: "byte list"
  ep_outgoing :: "byte list"

definition send_handshake_message :: "'h noise \<Rightarrow> 'h endpoint \<Rightarrow> error + 'h endpoint" where
  "send_handshake_message N e =
     (case nz_write N (ep_noise e) of
        None \<Rightarrow> Inl (Bail (str ''failed to create Noise handshake message''))
      | Some (message, h) \<Rightarrow>
          and_then (write_raw_frame MAX_HANDSHAKE_FRAME message) (\<lambda>frame.
            Inr (e\<lparr>ep_noise := h, ep_outgoing := ep_outgoing e @ frame\<rparr>)))"

definition receive_handshake_message :: "'h noise \<Rightarrow> 'h endpoint \<Rightarrow> error + 'h endpoint" where
  "receive_handshake_message N e =
     and_then (read_raw_frame MAX_HANDSHAKE_FRAME (ep_incoming e)) (\<lambda>(message, rest).
       case nz_read N (ep_noise e) message of
         None \<Rightarrow> Inl (Bail (str ''invalid Noise handshake message''))
       | Some h \<Rightarrow> Inr (e\<lparr>ep_noise := h, ep_incoming := rest\<rparr>))"

section \<open>Fingerprints\<close>

definition fingerprint_group :: "byte \<Rightarrow> byte \<Rightarrow> rstring" where
  "fingerprint_group a b = hex_byte a @ hex_byte b"

fun fingerprint_groups :: "byte list \<Rightarrow> rstring list" where
  "fingerprint_groups (a # b # rest) = fingerprint_group a b # fingerprint_groups rest"
| "fingerprint_groups _ = []"

fun join_colon :: "rstring list \<Rightarrow> rstring" where
  "join_colon [] = []"
| "join_colon [s] = s"
| "join_colon (s # rest) = s @ 58 # join_colon rest"

definition public_key_fingerprint :: "(byte list \<Rightarrow> byte list) \<Rightarrow> byte list \<Rightarrow> rstring" where
  "public_key_fingerprint blake3 public_key = join_colon (fingerprint_groups (take 12 (blake3 public_key)))"

text \<open>The end of both handshakes: the key of the other side, then transport mode.\<close>

definition finish_handshake ::
  "(byte list \<Rightarrow> byte list) \<Rightarrow> 'h noise \<Rightarrow> string \<Rightarrow> 'h endpoint \<Rightarrow> error + 'h endpoint \<times> rstring" where
  "finish_handshake blake3 N missing e =
     (case nz_remote_static N (ep_noise e) of
        None \<Rightarrow> Inl (Bail (str missing))
      | Some key \<Rightarrow>
          if \<not> nz_finished N (ep_noise e) then Inl (Bail (str ''failed to enter encrypted transport mode''))
          else Inr (e, public_key_fingerprint blake3 key))"

definition client_handshake ::
  "(byte list \<Rightarrow> byte list) \<Rightarrow> 'h noise \<Rightarrow> 'h endpoint \<Rightarrow> error + 'h endpoint \<times> rstring" where
  "client_handshake blake3 N e =
     and_then (send_handshake_message N e) (\<lambda>e1.
     and_then (receive_handshake_message N e1) (\<lambda>e2.
     and_then (send_handshake_message N e2) (\<lambda>e3.
     finish_handshake blake3 N ''server did not provide a Noise static key'' e3)))"

definition server_handshake_with_remote ::
  "(byte list \<Rightarrow> byte list) \<Rightarrow> 'h noise \<Rightarrow> 'h endpoint \<Rightarrow> error + 'h endpoint \<times> rstring" where
  "server_handshake_with_remote blake3 N e =
     and_then (receive_handshake_message N e) (\<lambda>e1.
     and_then (send_handshake_message N e1) (\<lambda>e2.
     and_then (receive_handshake_message N e2) (\<lambda>e3.
     finish_handshake blake3 N ''client did not provide a Noise static key'' e3)))"

definition server_handshake ::
  "(byte list \<Rightarrow> byte list) \<Rightarrow> 'h noise \<Rightarrow> 'h endpoint \<Rightarrow> error + 'h endpoint" where
  "server_handshake blake3 N e = and_then (server_handshake_with_remote blake3 N e) (\<lambda>(e', _). Inr e')"

section \<open>The encrypted channel\<close>

text \<open>
  serde's rendering of a message type, and the cipher of one direction in transport mode, which seals
  and opens under a message counter.
\<close>

record 'm codec =
  cd_to_json :: "'m \<Rightarrow> byte list option"
  cd_from_json :: "byte list \<Rightarrow> 'm option"
  cd_seal :: "nat \<Rightarrow> byte list \<Rightarrow> byte list option"
  cd_open :: "nat \<Rightarrow> byte list \<Rightarrow> byte list option"

text \<open>\<open>SecureWriter::write_json\<close> with the counter of its direction.\<close>

definition write_json :: "'m codec \<Rightarrow> nat \<Rightarrow> 'm \<Rightarrow> nat \<times> (error + byte list)" where
  "write_json C n value =
     (case cd_to_json C value of
        None \<Rightarrow> (n, Inl (Bail (str ''failed to serialize outgoing message'')))
      | Some plaintext \<Rightarrow>
          if plaintext = [] \<or> length plaintext > MAX_PLAINTEXT_FRAME
          then (n, Inl (Bail (str ''outgoing message exceeds the protocol frame limit'')))
          else (case cd_seal C n plaintext of
            None \<Rightarrow> (n, Inl (Bail (str ''failed to encrypt outgoing frame'')))
          | Some encrypted \<Rightarrow> (Suc n, write_raw_frame MAX_CIPHERTEXT_FRAME encrypted)))"

text \<open>\<open>SecureReader::read_json\<close>: the plaintext buffer bounds what may come out.\<close>

definition read_json :: "'m codec \<Rightarrow> nat \<Rightarrow> byte list \<Rightarrow> nat \<times> (error + 'm \<times> byte list)" where
  "read_json C n stream =
     (case read_raw_frame MAX_CIPHERTEXT_FRAME stream of
        Inl e \<Rightarrow> (n, Inl e)
      | Inr (encrypted, rest) \<Rightarrow>
        (case cd_open C n encrypted of
           None \<Rightarrow> (n, Inl (Bail (str ''failed to decrypt incoming frame'')))
         | Some plaintext \<Rightarrow>
             if length plaintext > MAX_PLAINTEXT_FRAME then (n, Inl (Bail (str ''failed to decrypt incoming frame'')))
             else (Suc n, case cd_from_json C plaintext of
               None \<Rightarrow> Inl (Bail (str ''incoming encrypted frame contains invalid JSON''))
             | Some value \<Rightarrow> Inr (value, rest))))"

text \<open>The messages a connection writes, and reads, one after the other while they succeed.\<close>

fun write_all :: "'m codec \<Rightarrow> nat \<Rightarrow> 'm list \<Rightarrow> error + byte list" where
  "write_all C n [] = Inr []"
| "write_all C n (v # vs) = (case write_json C n v of (n', r) \<Rightarrow>
     and_then r (\<lambda>frame. and_then (write_all C n' vs) (\<lambda>stream. Inr (frame @ stream))))"

fun read_all :: "'m codec \<Rightarrow> nat \<Rightarrow> nat \<Rightarrow> byte list \<Rightarrow> error + 'm list \<times> byte list" where
  "read_all C n 0 stream = Inr ([], stream)"
| "read_all C n (Suc k) stream = (case read_json C n stream of (n', r) \<Rightarrow>
     and_then r (\<lambda>(v, rest). and_then (read_all C n' k rest) (\<lambda>(vs, rest'). Inr (v # vs, rest'))))"

section \<open>The key file\<close>

record noise_keypair =
  nk_private :: "byte list"
  nk_public :: "byte list"

definition encode_key_file :: "noise_keypair \<Rightarrow> byte list" where
  "encode_key_file pair =
     [1, byte_of (length (nk_private pair)), byte_of (length (nk_public pair))] @ nk_private pair @ nk_public pair"

definition decode_key_file :: "byte list \<Rightarrow> error + noise_keypair" where
  "decode_key_file file =
     and_then (read_exact 1 file) (\<lambda>(version, rest).
       if hd version \<noteq> 1 then Inl (Bail (str ''unsupported gateway Noise key file version''))
       else and_then (read_exact 2 rest) (\<lambda>(lengths, rest).
         let private_length = unat (lengths ! 0); public_length = unat (lengths ! 1)
         in if private_length \<noteq> 32 \<or> public_length \<noteq> 32
            then Inl (Bail (str ''gateway Noise key file contains invalid key lengths''))
            else and_then (read_exact private_length rest) (\<lambda>(private, rest).
              and_then (read_exact public_length rest) (\<lambda>(public, rest).
                if rest \<noteq> [] then Inl (Bail (str ''gateway Noise key file has trailing data''))
                else Inr \<lparr>nk_private = private, nk_public = public\<rparr>))))"

text \<open>
  \<open>load_or_create_keypair\<close>: the file's content, or \<open>None\<close> when there is none; then a fresh pair (absent
  when drawing it fails) is written. The answer is the pair and the file afterwards.
\<close>

definition load_or_create_keypair ::
  "noise_keypair option \<Rightarrow> byte list option \<Rightarrow> byte list option \<times> (error + noise_keypair)" where
  "load_or_create_keypair fresh file =
     (case file of
        Some content \<Rightarrow> (file, decode_key_file content)
      | None \<Rightarrow>
        (case fresh of
           None \<Rightarrow> (None, Inl (Bail (str ''failed to generate Noise keypair'')))
         | Some pair \<Rightarrow> (Some (encode_key_file pair), Inr pair)))"

end
