(* ===== verification/Channel_Theorems.thy ===== *)
theory Channel_Theorems
  imports Secure_Channel
begin

text \<open>
  The properties of the transport: frames and channel deliver what was written and nothing else, the
  handshake gives each end the other's key, the key file and the fingerprints mean what they say.
\<close>

text \<open>
  A frame reads back exactly as it was written and in no other way: reading succeeds precisely on a
  stream that starts with a frame the writer would produce for that payload, and leaves the rest.
\<close>

theorem frames_roundtrip:
  "read_raw_frame maximum stream = Inr (payload, rest) \<longleftrightarrow>
     (\<exists>frame. write_raw_frame maximum payload = Inr frame \<and> stream = frame @ rest)"
  by (auto intro: read_write_raw_frame write_read_raw_frame)

section \<open>The channel\<close>

definition codec_opens :: "'m codec \<Rightarrow> bool" where
  "codec_opens C \<longleftrightarrow> (\<forall>n p c. cd_seal C n p = Some c \<longrightarrow> cd_open C n c = Some p \<and> length c = length p + 16)"

definition codec_authentic :: "'m codec \<Rightarrow> bool" where
  "codec_authentic C \<longleftrightarrow> (\<forall>n c p. cd_open C n c = Some p \<longrightarrow> cd_seal C n p = Some c)"

definition json_roundtrip :: "'m codec \<Rightarrow> bool" where
  "json_roundtrip C \<longleftrightarrow> (\<forall>v j. cd_to_json C v = Some j \<longrightarrow> cd_from_json C j = Some v)"

lemma write_json_Inr:
  "write_json C n v = (n', Inr frame) \<longleftrightarrow>
     (\<exists>j c. cd_to_json C v = Some j \<and> j \<noteq> [] \<and> length j \<le> MAX_PLAINTEXT_FRAME \<and> cd_seal C n j = Some c \<and>
       n' = Suc n \<and> write_raw_frame MAX_CIPHERTEXT_FRAME c = Inr frame)"
  by (auto simp: write_json_def split: option.splits)

lemma read_json_Inr:
  "read_json C n stream = (n', Inr (v, rest)) \<longleftrightarrow>
     (\<exists>c j. read_raw_frame MAX_CIPHERTEXT_FRAME stream = Inr (c, rest) \<and> cd_open C n c = Some j \<and>
       length j \<le> MAX_PLAINTEXT_FRAME \<and> cd_from_json C j = Some v \<and> n' = Suc n)"
  by (auto simp: read_json_def split: sum.splits option.splits)

lemma read_written:
  assumes "codec_opens C" "json_roundtrip C" "write_all C n vs = Inr stream"
  shows "read_all C n (length vs) (stream @ rest) = Inr (vs, rest)"
  using assms(3)
proof (induction vs arbitrary: n stream)
  case (Cons v vs)
  from Cons.prems obtain frame tail n' where w: "write_json C n v = (n', Inr frame)"
      and tail: "write_all C n' vs = Inr tail" "stream = frame @ tail"
    by (auto simp: and_then_Inr split: prod.splits)
  from w obtain j c where j: "cd_to_json C v = Some j" "length j \<le> MAX_PLAINTEXT_FRAME" "cd_seal C n j = Some c" "n' = Suc n"
      "write_raw_frame MAX_CIPHERTEXT_FRAME c = Inr frame"
    by (auto simp: write_json_Inr)
  then have "read_json C n (frame @ tail @ rest) = (Suc n, Inr (v, tail @ rest))"
    using assms(1,2) by (auto simp: read_json_Inr codec_opens_def json_roundtrip_def intro: read_write_raw_frame)
  with Cons.IH [OF tail(1)] j(4) tail(2) show ?case by simp
qed simp

text \<open>
  C22. What one end writes is what the other end reads: any sequence of messages that could be written
  arrives complete, unaltered and in order, and the reader is left exactly behind it.
\<close>

theorem channel_delivers:
  assumes "codec_opens C" "json_roundtrip C" "write_all C n vs = Inr stream"
  shows "read_all C n (length vs) (stream @ rest) = Inr (vs, rest)"
  using assms by (rule read_written)

definition sample_codec :: "byte list codec" where
  "sample_codec = \<lparr>cd_to_json = Some, cd_from_json = Some,
     cd_seal = (\<lambda>n p. Some (map (\<lambda>b. b + byte_of n) p @ replicate 16 (byte_of n))),
     cd_open = (\<lambda>n c. if length c < 16 \<or> drop (length c - 16) c \<noteq> replicate 16 (byte_of n) then None
       else Some (map (\<lambda>b. b - byte_of n) (take (length c - 16) c)))\<rparr>"

lemma sample_codec_ok: "codec_opens sample_codec" "json_roundtrip sample_codec" "codec_authentic sample_codec"
proof -
  show "codec_opens sample_codec" "json_roundtrip sample_codec"
    by (auto simp: codec_opens_def json_roundtrip_def sample_codec_def comp_def)
  show "codec_authentic sample_codec"
    unfolding codec_authentic_def
  proof (intro allI impI)
    fix n c p assume "cd_open sample_codec n c = Some p"
    then have tag: "drop (length c - 16) c = replicate 16 (byte_of n)" and p: "p = map (\<lambda>b. b - byte_of n) (take (length c - 16) c)"
      by (auto simp: sample_codec_def split: if_splits)
    have "take (length c - 16) c @ replicate 16 (byte_of n) = c" unfolding tag [symmetric] by simp
    then show "cd_seal sample_codec n p = Some c" by (simp add: sample_codec_def p comp_def)
  qed
qed

theorem channel_delivers_witness:
  "\<exists>stream. write_all sample_codec 0 [[104, 105], [33]] = Inr stream \<and> read_all sample_codec 0 2 stream = Inr ([[104, 105], [33]], [])"
proof -
  obtain stream where "write_all sample_codec 0 [[104, 105], [33]] = Inr stream"
    by (simp add: write_json_def sample_codec_def write_raw_frame_def limits)
  with channel_delivers [OF sample_codec_ok(1,2) this, of "[]"] show ?thesis
    by (auto simp: numeral_2_eq_2 simp del: read_all.simps write_all.simps)
qed

text \<open>
  C23. Nothing else is ever accepted: if messages could be read, then the stream begins with frames that
  were sealed with the channel's key under exactly the next counters, one for each message and in this
  order. So a frame that is altered, repeated, left out or moved ends the channel.
\<close>

theorem channel_accepts_only_sealed:
  assumes "codec_authentic C" "read_all C n k stream = Inr (vs, rest)"
  shows "\<exists>js cs frames. length js = k \<and> map (cd_from_json C) js = map Some vs \<and>
    map2 (cd_seal C) [n..<n + k] js = map Some cs \<and>
    map (write_raw_frame (17 * 1024)) cs = map Inr frames \<and> stream = concat frames @ rest"
  using assms(2)
proof (induction k arbitrary: n stream vs)
  case (Suc k)
  from Suc.prems obtain v vs' s n' where r: "read_json C n stream = (n', Inr (v, s))"
      and tail: "read_all C n' k s = Inr (vs', rest)" "vs = v # vs'"
    by (auto simp: and_then_Inr split: prod.splits)
  from r obtain c j where j: "read_raw_frame MAX_CIPHERTEXT_FRAME stream = Inr (c, s)" "cd_open C n c = Some j"
      "cd_from_json C j = Some v" "n' = Suc n"
    by (auto simp: read_json_Inr)
  from write_read_raw_frame [OF j(1)] obtain frame where frame: "write_raw_frame (17 * 1024) c = Inr frame" "stream = frame @ s"
    by (auto simp: limits)
  have "cd_seal C n j = Some c" using assms(1) j(2) by (simp add: codec_authentic_def)
  moreover from Suc.IH tail(1) j(4) obtain js cs frames where
    "length js = k" "map (cd_from_json C) js = map Some vs'" "map2 (cd_seal C) [Suc n..<Suc n + k] js = map Some cs"
    "map (write_raw_frame (17 * 1024)) cs = map Inr frames" "s = concat frames @ rest" by blast
  moreover have "[n..<n + Suc k] = n # [Suc n..<Suc n + k]" by (simp add: upt_conv_Cons)
  ultimately show ?case
    using j(3) tail(2) frame
    by (intro exI [of _ "j # js"] exI [of _ "c # cs"] exI [of _ "frame # frames"]) simp
qed simp

theorem channel_accepts_only_sealed_witness:
  "\<exists>stream js. read_all sample_codec 0 1 stream = Inr ([[104, 105]], []) \<and> map (cd_from_json sample_codec) js = map Some [[104, 105]]"
proof -
  obtain stream where "write_all sample_codec 0 [[104, 105]] = Inr stream"
    by (simp add: write_json_def sample_codec_def write_raw_frame_def limits)
  from read_written [OF sample_codec_ok(1,2) this, of "[]"] have "read_all sample_codec 0 1 stream = Inr ([[104, 105]], [])"
    by (simp del: read_all.simps write_all.simps)
  with channel_accepts_only_sealed [OF sample_codec_ok(3) this] show ?thesis by blast
qed

text \<open>
  A message is written exactly when its JSON is between 1 and 16384 bytes long; otherwise the writer
  reports an error, writes nothing and keeps its counter.
\<close>

theorem write_json_bounds:
  assumes "codec_opens C" "\<forall>p. length p \<le> 65519 \<longrightarrow> cd_seal C n p \<noteq> None" "cd_to_json C v = Some j"
  shows "if 1 \<le> length j \<and> length j \<le> 16384
    then (\<exists>frame. write_json C n v = (n + 1, Inr frame) \<and> length frame = length j + 18)
    else (\<exists>e. write_json C n v = (n, Inl e))"
proof (cases "1 \<le> length j \<and> length j \<le> 16384")
  case True
  then obtain c where c: "cd_seal C n j = Some c" "length c = length j + 16"
    using assms(1,2) by (fastforce simp: codec_opens_def)
  with True have "write_raw_frame MAX_CIPHERTEXT_FRAME c = Inr (byte_of (length c div 256) # byte_of (length c mod 256) # c)"
    by (auto simp: write_raw_frame_def limits)
  with True c assms(3) show ?thesis by (auto simp: write_json_def limits)
next
  case False
  then show ?thesis using assms(3) by (auto simp: write_json_def limits not_less_eq_eq)
qed

theorem write_json_bounds_witness:
  "(\<exists>frame. write_json sample_codec 3 [104, 105] = (4, Inr frame) \<and> length frame = 20) \<and>
   (\<exists>e. write_json sample_codec 3 (replicate 16385 0) = (3, Inl e))"
proof -
  have seals: "\<forall>p. length p \<le> 65519 \<longrightarrow> cd_seal sample_codec 3 p \<noteq> None" by (simp add: sample_codec_def)
  have json: "cd_to_json sample_codec v = Some v" for v by (simp add: sample_codec_def)
  from write_json_bounds [OF sample_codec_ok(1) seals json [of "[104, 105]"]]
    write_json_bounds [OF sample_codec_ok(1) seals json [of "replicate 16385 0"]]
  show ?thesis by simp
qed

section \<open>The handshake\<close>

text \<open>What the Noise documentation promises of a pattern with three messages between two ends.\<close>

definition noise_xx :: "'h noise \<Rightarrow> 'h \<Rightarrow> 'h \<Rightarrow> byte list \<Rightarrow> byte list \<Rightarrow> bool" where
  "noise_xx N client server client_key server_key \<longleftrightarrow>
     (\<exists>m1 m2 m3 c1 c2 c3 s1 s2 s3. nz_write N client = Some (m1, c1) \<and> nz_read N server m1 = Some s1 \<and>
        nz_write N s1 = Some (m2, s2) \<and> nz_read N c1 m2 = Some c2 \<and>
        nz_write N c2 = Some (m3, c3) \<and> nz_read N s2 m3 = Some s3 \<and>
        nz_remote_static N c3 = Some server_key \<and> nz_finished N c3 \<and>
        nz_remote_static N s3 = Some client_key \<and> nz_finished N s3 \<and>
        (\<forall>m\<in>{m1, m2, m3}. 0 < length m \<and> length m \<le> 4096))"

definition fresh_endpoint :: "'h \<Rightarrow> byte list \<Rightarrow> 'h endpoint" where
  "fresh_endpoint h incoming = \<lparr>ep_noise = h, ep_incoming = incoming, ep_outgoing = []\<rparr>"

lemma handshake_frame:
  assumes "0 < length m \<and> length m \<le> 4096"
  obtains f where "write_raw_frame MAX_HANDSHAKE_FRAME m = Inr f" "\<And>rest. read_raw_frame MAX_HANDSHAKE_FRAME (f @ rest) = Inr (m, rest)"
proof -
  from assms obtain f where "write_raw_frame MAX_HANDSHAKE_FRAME m = Inr f"
    by (auto simp: write_raw_frame_def limits)
  with handshake_frames.get_put that show thesis by blast
qed

lemma send_handshake:
  "nz_write N h = Some (m, h') \<Longrightarrow> write_raw_frame MAX_HANDSHAKE_FRAME m = Inr f \<Longrightarrow>
   send_handshake_message N \<lparr>ep_noise = h, ep_incoming = ib, ep_outgoing = ob\<rparr>
     = Inr \<lparr>ep_noise = h', ep_incoming = ib, ep_outgoing = ob @ f\<rparr>"
  by (simp add: send_handshake_message_def)

lemma receive_handshake:
  "nz_read N h m = Some h' \<Longrightarrow> read_raw_frame MAX_HANDSHAKE_FRAME ib = Inr (m, rest) \<Longrightarrow>
   receive_handshake_message N \<lparr>ep_noise = h, ep_incoming = ib, ep_outgoing = ob\<rparr>
     = Inr \<lparr>ep_noise = h', ep_incoming = rest, ep_outgoing = ob\<rparr>"
  by (simp add: receive_handshake_message_def)

text \<open>
  C24. When both ends follow the handshake, it completes: each end reads exactly the bytes the other
  wrote, none is left over, and each learns the fingerprint of the other's static key.
\<close>

theorem handshake_completes:
  assumes "noise_xx N client server client_key server_key"
  shows "\<exists>from_client from_server e s.
    client_handshake blake3 N (fresh_endpoint client from_server) = Inr (e, public_key_fingerprint blake3 server_key) \<and>
    server_handshake_with_remote blake3 N (fresh_endpoint server from_client) = Inr (s, public_key_fingerprint blake3 client_key) \<and>
    ep_outgoing e = from_client \<and> ep_outgoing s = from_server \<and> ep_incoming e = [] \<and> ep_incoming s = []"
proof -
  from assms obtain m1 m2 m3 c1 c2 c3 s1 s2 s3 where
    n: "nz_write N client = Some (m1, c1)" "nz_read N server m1 = Some s1" "nz_write N s1 = Some (m2, s2)"
      "nz_read N c1 m2 = Some c2" "nz_write N c2 = Some (m3, c3)" "nz_read N s2 m3 = Some s3"
    and fin: "nz_remote_static N c3 = Some server_key" "nz_finished N c3" "nz_remote_static N s3 = Some client_key" "nz_finished N s3"
    and len: "\<forall>m\<in>{m1, m2, m3}. 0 < length m \<and> length m \<le> 4096"
    unfolding noise_xx_def by (elim exE conjE) (rule that; assumption)
  from len obtain f1 where f1: "write_raw_frame MAX_HANDSHAKE_FRAME m1 = Inr f1"
      "\<And>rest. read_raw_frame MAX_HANDSHAKE_FRAME (f1 @ rest) = Inr (m1, rest)" using handshake_frame [of m1] by blast
  from len obtain f2 where f2: "write_raw_frame MAX_HANDSHAKE_FRAME m2 = Inr f2"
      "\<And>rest. read_raw_frame MAX_HANDSHAKE_FRAME (f2 @ rest) = Inr (m2, rest)" using handshake_frame [of m2] by blast
  from len obtain f3 where f3: "write_raw_frame MAX_HANDSHAKE_FRAME m3 = Inr f3"
      "\<And>rest. read_raw_frame MAX_HANDSHAKE_FRAME (f3 @ rest) = Inr (m3, rest)" using handshake_frame [of m3] by blast
  have r: "read_raw_frame MAX_HANDSHAKE_FRAME f2 = Inr (m2, [])" "read_raw_frame MAX_HANDSHAKE_FRAME f3 = Inr (m3, [])"
    using f2(2) [of "[]"] f3(2) [of "[]"] by simp_all
  have "client_handshake blake3 N (fresh_endpoint client f2) =
      Inr (\<lparr>ep_noise = c3, ep_incoming = [], ep_outgoing = f1 @ f3\<rparr>, public_key_fingerprint blake3 server_key)"
    by (simp add: client_handshake_def fresh_endpoint_def finish_handshake_def fin
        send_handshake [OF n(1) f1(1)] receive_handshake [OF n(4) r(1)] send_handshake [OF n(5) f3(1)])
  moreover have "server_handshake_with_remote blake3 N (fresh_endpoint server (f1 @ f3)) =
      Inr (\<lparr>ep_noise = s3, ep_incoming = [], ep_outgoing = f2\<rparr>, public_key_fingerprint blake3 client_key)"
    by (simp add: server_handshake_with_remote_def fresh_endpoint_def finish_handshake_def fin
        receive_handshake [OF n(2) f1(2)] send_handshake [OF n(3) f2(1)] receive_handshake [OF n(6) r(2)])
  ultimately show ?thesis by fastforce
qed

text \<open>A toy Noise machine: the ends count their messages and send their keys in the clear.\<close>

definition sample_noise :: "(nat \<times> byte list \<times> byte list option) noise" where
  "sample_noise = \<lparr>nz_write = (\<lambda>(n, me, other). Some (me, Suc n, me, other)),
     nz_read = (\<lambda>(n, me, other) m. Some (Suc n, me, Some m)), nz_remote_static = (\<lambda>(n, me, other). other),
     nz_finished = (\<lambda>(n, me, other). n = 3)\<rparr>"

theorem handshake_completes_witness:
  "\<exists>from_server e. client_handshake id sample_noise (fresh_endpoint (0, [1], None) from_server) = Inr (e, public_key_fingerprint id [2])"
proof -
  have "noise_xx sample_noise (0, [1], None) (0, [2], None) [1] [2]"
    by (simp add: noise_xx_def sample_noise_def)
  from handshake_completes [OF this, of id] show ?thesis by blast
qed

section \<open>Keys on disk and on screen\<close>

lemma read_exact_Inr: "read_exact n s = Inr (p, rest) \<longleftrightarrow> s = p @ rest \<and> length p = n"
  by (auto simp: read_exact_def)

lemma decode_key_file_Inr:
  "decode_key_file file = Inr pair \<longleftrightarrow>
     file = encode_key_file pair \<and> length (nk_private pair) = 32 \<and> length (nk_public pair) = 32"
proof
  assume "decode_key_file file = Inr pair"
  then obtain v ls rest r2 where parts: "file = v @ ls @ nk_private pair @ nk_public pair"
      and len: "length v = 1" "hd v = 1" "length ls = 2" "unat (ls ! 0) = 32" "unat (ls ! 1) = 32"
        "length (nk_private pair) = 32" "length (nk_public pair) = 32"
    by (auto simp: decode_key_file_def and_then_Inr read_exact_Inr Let_def split: if_splits)
  from len(1,2) have "v = [1]" by (cases v) auto
  moreover from len(3) have "ls = [ls ! 0, ls ! 1]" by (auto simp: length_Suc_conv numeral_2_eq_2)
  moreover have "ls ! 0 = byte_of 32" "ls ! 1 = byte_of 32"
    using len(4,5) byte_of_unat by metis+
  ultimately show "file = encode_key_file pair \<and> length (nk_private pair) = 32 \<and> length (nk_public pair) = 32"
    using parts len(6,7) by (metis append_Cons append_Nil encode_key_file_def)
next
  assume "file = encode_key_file pair \<and> length (nk_private pair) = 32 \<and> length (nk_public pair) = 32"
  then show "decode_key_file file = Inr pair"
    by (cases pair) (simp add: decode_key_file_def encode_key_file_def read_exact_def byte_of_def)
qed

text \<open>
  The gateway keeps its identity: the key pair that is created on the first start is the one that
  every later start loads, a file is accepted only when it is exactly the encoding of a pair of 32-byte
  keys, and a file that exists is never replaced.
\<close>

theorem keypair_persists:
  "(length (nk_private pair) = 32 \<and> length (nk_public pair) = 32 \<longrightarrow>
      load_or_create_keypair other (fst (load_or_create_keypair (Some pair) None)) = (Some (encode_key_file pair), Inr pair)) \<and>
   (snd (load_or_create_keypair other (Some file)) = Inr loaded \<longleftrightarrow>
      file = encode_key_file loaded \<and> length (nk_private loaded) = 32 \<and> length (nk_public loaded) = 32) \<and>
   fst (load_or_create_keypair other (Some file)) = Some file"
  by (auto simp: load_or_create_keypair_def decode_key_file_Inr)

theorem keypair_persists_witness:
  "load_or_create_keypair None (fst (load_or_create_keypair (Some \<lparr>nk_private = replicate 32 3, nk_public = replicate 32 4\<rparr>) None))
     = (Some (encode_key_file \<lparr>nk_private = replicate 32 3, nk_public = replicate 32 4\<rparr>),
        Inr \<lparr>nk_private = replicate 32 3, nk_public = replicate 32 4\<rparr>)"
  using keypair_persists [of "\<lparr>nk_private = replicate 32 3, nk_public = replicate 32 4\<rparr>" None] by simp

lemma twelve_bytes:
  assumes "length (bs :: byte list) = 12"
  obtains a b c d e f g h i j k l where "bs = [a, b, c, d, e, f, g, h, i, j, k, l]"
  using assms by (auto simp: length_Suc_conv numeral_eq_Suc)

lemma fingerprint_groups_12:
  "join_colon (fingerprint_groups [a, b, c, d, e, f, g, h, i, j, k, l]) =
     hex_byte a @ hex_byte b @ 58 # hex_byte c @ hex_byte d @ 58 # hex_byte e @ hex_byte f @ 58 #
     hex_byte g @ hex_byte h @ 58 # hex_byte i @ hex_byte j @ 58 # hex_byte k @ hex_byte l"
  by (simp add: fingerprint_group_def)

lemma nocase_hex: "nocase (hex_byte b) = hex_byte b"
  using byte_nibbles [of b] by (auto simp: nocase_def hex_byte_def hex_digit_def ascii_lower_def)

lemma nocase_fingerprint: "length bs = 12 \<Longrightarrow> nocase (join_colon (fingerprint_groups bs)) = join_colon (fingerprint_groups bs)"
proof (erule twelve_bytes)
  fix a b c d e f g h i j k l
  assume "bs = [a, b, c, d, e, f, g, h, i, j, k, l]"
  then show "nocase (join_colon (fingerprint_groups bs)) = join_colon (fingerprint_groups bs)"
    unfolding fingerprint_groups_12
    by (simp add: fingerprint_groups_12 nocase_hex [unfolded nocase_def] nocase_def ascii_lower_def del: fingerprint_groups.simps join_colon.simps)
qed

lemma fingerprint_inj:
  assumes "length xs = 12" "length ys = 12" "join_colon (fingerprint_groups xs) = join_colon (fingerprint_groups ys)"
  shows "xs = ys"
proof -
  obtain a b c d e f g h i j k l where xs: "xs = [a, b, c, d, e, f, g, h, i, j, k, l]" using twelve_bytes [OF assms(1)] .
  obtain a' b' c' d' e' f' g' h' i' j' k' l' where ys: "ys = [a', b', c', d', e', f', g', h', i', j', k', l']"
    using twelve_bytes [OF assms(2)] .
  from assms(3) show ?thesis
    unfolding xs ys fingerprint_groups_12 by (auto dest!: hex_byte_inj)
qed

lemma fingerprint_valid:
  assumes "length bs = 12"
  shows "is_valid_fingerprint (join_colon (fingerprint_groups bs))"
proof (rule twelve_bytes [OF assms])
  fix a b c d e f g h i j k l
  assume bs: "bs = [a, b, c, d, e, f, g, h, i, j, k, l]"
  have h: "is_ascii_hexdigit (hex_digit (unat x div 16))" "is_ascii_hexdigit (hex_digit (unat x mod 16))" for x :: byte
    using hex_digit_hex byte_nibbles by auto
  have low: "len_utf8 (hex_digit (unat x div 16)) = 1" "len_utf8 (hex_digit (unat x mod 16)) = 1" for x :: byte
    using byte_nibbles [of x] by (auto simp: hex_digit_def len_utf8_def)
  show ?thesis
    unfolding bs fingerprint_groups_12 is_valid_fingerprint_def
    by (simp add: hex_byte_def byte_len_def h low fingerprint_char_def) (simp add: len_utf8_def)
qed

text \<open>
  The fingerprint of a key is always in the form that the input filter accepts, 29 characters long,
  and comparing two fingerprints without regard to case, as the direct links do, is comparing the first
  12 bytes of the hashes of the keys.
\<close>

theorem fingerprint_identifies:
  assumes "\<forall>key. length (blake3 key) = 32"
  shows "is_valid_fingerprint (public_key_fingerprint blake3 k) \<and> length (public_key_fingerprint blake3 k) = 29 \<and>
    (eq_ignore_ascii_case (public_key_fingerprint blake3 k) (public_key_fingerprint blake3 k') \<longleftrightarrow>
       take 12 (blake3 k) = take 12 (blake3 k'))"
proof -
  have len: "length (take 12 (blake3 key)) = 12" for key using assms by simp
  have "is_valid_fingerprint (public_key_fingerprint blake3 k)"
    unfolding public_key_fingerprint_def by (rule fingerprint_valid [OF len])
  then show ?thesis
    using fingerprint_inj [OF len len, of k k']
    by (auto simp: is_valid_fingerprint_nth eq_ignore_ascii_case_def public_key_fingerprint_def nocase_fingerprint [OF len])
qed

theorem fingerprint_identifies_witness:
  "is_valid_fingerprint (public_key_fingerprint (\<lambda>key. replicate 31 0 @ [last key]) [7])"
proof -
  have "\<forall>key. length (replicate 31 0 @ [last key]) = 32" by simp
  from fingerprint_identifies [OF this] show ?thesis by blast
qed

end
