(* ===== verification/Client.thy ===== *)
theory Client
  imports Direct_Chat
begin

text \<open>
  The client of a gateway (\<open>src/client.rs\<close>): what it accepts from the gateway, how it opens a gateway
  and enters a group, and the task that moves messages between the user interface, the gateway and the
  direct-chat hub. Network reads and writes are arguments.
\<close>

section \<open>What the client accepts\<close>

definition sanitize_issued_credentials :: "issued_group_credentials \<Rightarrow> error + issued_group_credentials" where
  "sanitize_issued_credentials c =
     (if \<not> is_valid_group_credential (igc_admin_token c) \<or>
         (case igc_invite_token c of Some token \<Rightarrow> \<not> is_valid_group_credential token | None \<Rightarrow> False)
      then Inl (Bail (str ''server sent invalid group credentials'')) else Inr c)"

definition sanitize_join_request :: "join_request_summary \<Rightarrow> error + join_request_summary" where
  "sanitize_join_request r = and_then (sanitize_nickname (jrs_nickname r)) (\<lambda>n. Inr (r\<lparr>jrs_nickname := n\<rparr>))"

definition sanitize_group_member :: "group_member_summary \<Rightarrow> error + group_member_summary" where
  "sanitize_group_member m = and_then (sanitize_nickname (gms_nickname m)) (\<lambda>n. Inr (m\<lparr>gms_nickname := n\<rparr>))"

definition sanitize_room_member :: "room_member_summary \<Rightarrow> error + room_member_summary" where
  "sanitize_room_member m = and_then (sanitize_nickname (rms_nickname m)) (\<lambda>n. Inr (m\<lparr>rms_nickname := n\<rparr>))"

definition sanitize_group_summary :: "group_summary \<Rightarrow> error + group_summary" where
  "sanitize_group_summary g = and_then (sanitize_group_name (gs_group_name g)) (\<lambda>n. Inr (g\<lparr>gs_group_name := n\<rparr>))"

text \<open>\<open>IpAddr::is_unspecified\<close> and \<open>is_multicast\<close>: 224.0.0.0/4 and ff00::/8.\<close>

fun is_unspecified :: "ip_addr \<Rightarrow> bool" where
  "is_unspecified (V4 a) \<longleftrightarrow> a = 0"
| "is_unspecified (V6 a) \<longleftrightarrow> a = 0"

fun is_multicast :: "ip_addr \<Rightarrow> bool" where
  "is_multicast (V4 a) \<longleftrightarrow> drop_bit 28 a = 14"
| "is_multicast (V6 a) \<longleftrightarrow> drop_bit 120 a = 255"

definition unsafe_direct :: "direct_peer_info \<Rightarrow> bool" where
  "unsafe_direct d \<longleftrightarrow> sa_port (dpi_endpoint d) = 0 \<or> is_unspecified (sa_ip (dpi_endpoint d)) \<or>
     is_multicast (sa_ip (dpi_endpoint d)) \<or> \<not> is_valid_fingerprint (dpi_fingerprint d)"

definition sanitize_peer :: "peer \<Rightarrow> error + peer" where
  "sanitize_peer p =
     and_then (sanitize_nickname (p_nickname p)) (\<lambda>n.
       if (case p_direct p of Some d \<Rightarrow> unsafe_direct d | None \<Rightarrow> False)
       then Inl (Bail (str ''server sent unsafe peer-to-peer connection details''))
       else Inr (p\<lparr>p_nickname := n\<rparr>))"

definition unsafe_room :: error where
  "unsafe_room = Bail (str ''server sent an unsafe room identifier'')"

definition sanitize_chat_record :: "chat_record \<Rightarrow> error + chat_record" where
  "sanitize_chat_record m =
     (if \<not> is_safe_identifier (cr_room_id m) then Inl unsafe_room
      else and_then (sanitize_peer (cr_sender m)) (\<lambda>sender.
           and_then (sanitize_chat_text (cr_text m)) (\<lambda>body.
           Inr (m\<lparr>cr_sender := sender, cr_text := body\<rparr>))))"

definition sanitize_direct_record :: "direct_record \<Rightarrow> error + direct_record" where
  "sanitize_direct_record m =
     and_then (sanitize_peer (dr_sender m)) (\<lambda>sender.
     and_then (sanitize_chat_text (dr_text m)) (\<lambda>body.
     Inr (m\<lparr>dr_sender := sender, dr_text := body\<rparr>)))"

definition sanitize_room_summary :: "room_summary \<Rightarrow> error + room_summary" where
  "sanitize_room_summary r =
     (if \<not> is_safe_identifier (rs_room_id r) then Inl unsafe_room
      else and_then (sanitize_room_name (rs_room_name r)) (\<lambda>n. Inr (r\<lparr>rs_room_name := n\<rparr>)))"

definition supported :: "u16 \<Rightarrow> bool" where
  "supported version \<longleftrightarrow> PROTOCOL_MIN \<le> version \<and> version \<le> PROTOCOL_MAX"

definition sanitize_welcome :: "welcome_message \<Rightarrow> error + welcome_message" where
  "sanitize_welcome w =
     (if \<not> supported (w_protocol_version w) then Inl (Bail (str ''server selected an unsupported protocol version''))
      else if \<not> is_safe_identifier (w_room_id w) then Inl unsafe_room
      else and_then (collect_result sanitize_peer (w_members w)) (\<lambda>members.
           and_then (collect_result sanitize_chat_record (w_history w)) (\<lambda>records.
           and_then (collect_result sanitize_room_summary (w_rooms w)) (\<lambda>rms.
           and_then (transpose_option (map_option sanitize_issued_credentials (w_issued_credentials w))) (\<lambda>credentials.
           if (case w_issued_member_token w of Some token \<Rightarrow> \<not> is_valid_group_credential token | None \<Rightarrow> False)
           then Inl (Bail (str ''server sent an invalid member credential''))
           else and_then (sanitize_group_name (w_group_name w)) (\<lambda>gname.
                and_then (sanitize_room_name (w_room_name w)) (\<lambda>rname.
                Inr (w\<lparr>w_group_name := gname, w_room_name := rname, w_members := members, w_history := records,
                       w_rooms := rms, w_issued_credentials := credentials\<rparr>))))))))"

fun sanitize_server_message :: "server_message \<Rightarrow> error + server_message" where
  "sanitize_server_message (Gateway_Welcome version gw name groups) =
     (if \<not> supported version then Inl (Bail (str ''gateway selected an unsupported protocol version''))
      else and_then (sanitize_group_name name) (\<lambda>name.
           and_then (collect_result sanitize_group_summary groups) (\<lambda>groups.
           Inr (Gateway_Welcome version gw name groups))))"
| "sanitize_server_message (Welcome w) = and_then (sanitize_welcome w) (\<lambda>w. Inr (Welcome w))"
| "sanitize_server_message (Server_Chat m) = and_then (sanitize_chat_record m) (\<lambda>m. Inr (Server_Chat m))"
| "sanitize_server_message (Room_Created room) = and_then (sanitize_room_summary room) (\<lambda>room. Inr (Room_Created room))"
| "sanitize_server_message (Room_Joined room records) =
     and_then (sanitize_room_summary room) (\<lambda>room.
     and_then (collect_result sanitize_chat_record records) (\<lambda>records. Inr (Room_Joined room records)))"
| "sanitize_server_message (Room_Left rid) = (if \<not> is_safe_identifier rid then Inl unsafe_room else Inr (Room_Left rid))"
| "sanitize_server_message (History_Page rid records has_more) =
     (if \<not> is_safe_identifier rid then Inl unsafe_room
      else and_then (collect_result sanitize_chat_record records) (\<lambda>records. Inr (History_Page rid records has_more)))"
| "sanitize_server_message (Join_Pending gid request_id token) =
     (if \<not> is_valid_group_credential token then Inl (Bail (str ''server sent an invalid join request token''))
      else Inr (Join_Pending gid request_id token))"
| "sanitize_server_message (Join_Requests requests) =
     and_then (collect_result sanitize_join_request requests) (\<lambda>requests. Inr (Join_Requests requests))"
| "sanitize_server_message (Group_Members members offset has_more) =
     and_then (collect_result sanitize_group_member members) (\<lambda>members. Inr (Group_Members members offset has_more))"
| "sanitize_server_message (Group_Token_Rotated kind token) =
     (if \<not> is_valid_group_credential token then Inl (Bail (str ''server sent an invalid rotated group token''))
      else Inr (Group_Token_Rotated kind token))"
| "sanitize_server_message (Room_Members rid members offset has_more) =
     (if \<not> is_safe_identifier rid then Inl unsafe_room
      else and_then (collect_result sanitize_room_member members) (\<lambda>members. Inr (Room_Members rid members offset has_more)))"
| "sanitize_server_message (Private_Message m status) =
     and_then (sanitize_direct_record m) (\<lambda>m. Inr (Private_Message m status))"
| "sanitize_server_message (Member_Joined member) = and_then (sanitize_peer member) (\<lambda>member. Inr (Member_Joined member))"
| "sanitize_server_message (Server_Error code message) =
     (if \<not> is_safe_identifier code then Inl (Bail (str ''server sent an unsafe error code''))
      else and_then (sanitize_status_text message) (\<lambda>message. Inr (Server_Error code message)))"
| "sanitize_server_message (Member_Left session_id) = Inr (Member_Left session_id)"
| "sanitize_server_message (Private_Closed peer) = Inr (Private_Closed peer)"
| "sanitize_server_message Pong = Inr Pong"

section \<open>Opening a gateway\<close>

record gateway_snapshot =
  gsn_protocol_version :: u16
  gsn_gateway_id :: uuid
  gsn_gateway_name :: rstring
  gsn_groups :: "group_summary list"
  gsn_server_fingerprint :: rstring
  gsn_endpoint :: socket_addr

text \<open>
  The network as the client sees it while it connects: dialling runs the handshake and yields the
  gateway's fingerprint, then a message can be written and the answer read.
\<close>

record gateway_network =
  gn_dial :: "socket_addr \<Rightarrow> error + rstring"
  gn_write :: "client_message \<Rightarrow> error + unit"
  gn_answer :: "client_message \<Rightarrow> error + server_message"

definition hello_message :: "rstring \<Rightarrow> (u16 \<times> rstring) option \<Rightarrow> client_message" where
  "hello_message nick direct = Hello PROTOCOL_MIN PROTOCOL_MAX nick (map_option fst direct) (map_option snd direct)"

definition open_gateway ::
  "gateway_network \<Rightarrow> socket_addr \<Rightarrow> rstring \<Rightarrow> rstring option \<Rightarrow> (u16 \<times> rstring) option \<Rightarrow> error + gateway_snapshot" where
  "open_gateway N endpoint nick expected direct =
     and_then (sanitize_nickname nick) (\<lambda>nick.
       if (case expected of Some f \<Rightarrow> \<not> is_valid_fingerprint f | None \<Rightarrow> False)
       then Inl (Bail (str ''expected fingerprint has an invalid format''))
       else and_then (gn_dial N endpoint) (\<lambda>fingerprint.
         if (case expected of Some f \<Rightarrow> \<not> eq_ignore_ascii_case fingerprint f | None \<Rightarrow> False)
         then Inl (Bail (str ''server fingerprint mismatch: expected '' @ the expected @ str '', received '' @ fingerprint))
         else and_then (gn_write N (hello_message nick direct)) (\<lambda>_.
              and_then (gn_answer N (hello_message nick direct)) (\<lambda>answer.
              and_then (sanitize_server_message answer) (\<lambda>first.
                case first of
                  Gateway_Welcome version gw name groups \<Rightarrow>
                    Inr \<lparr>gsn_protocol_version = version, gsn_gateway_id = gw, gsn_gateway_name = name,
                         gsn_groups = groups, gsn_server_fingerprint = fingerprint, gsn_endpoint = endpoint\<rparr>
                | Server_Error code message \<Rightarrow>
                    Inl (Bail (str ''server rejected the connection ('' @ code @ str ''): '' @ message))
                | _ \<Rightarrow> Inl (Bail (str ''server did not send a gateway welcome message'')))))))"

section \<open>Entering a group\<close>

datatype group_selection = Select_Join uuid "rstring option" | Select_Create rstring group_access_mode

record pending_join =
  pj_gateway_id :: uuid
  pj_group_id :: uuid
  pj_request_id :: uuid
  pj_request_token :: rstring

record session_info =
  si_gateway :: gateway_snapshot
  si_welcome :: welcome_message
  si_local :: peer

datatype join_outcome = Connected session_info | Pending pending_join

fun selection_message :: "group_selection \<Rightarrow> client_message" where
  "selection_message (Select_Join gid credential) = Join_Group gid credential"
| "selection_message (Select_Create name mode) = Create_Group name mode"

text \<open>
  \<open>finish_connection\<close> up to the start of its task; the local member is the one that the direct-chat
  hub starts with.
\<close>

definition finish_connection :: "gateway_network \<Rightarrow> gateway_snapshot \<Rightarrow> group_selection \<Rightarrow> error + join_outcome" where
  "finish_connection N snapshot selection =
     and_then (gn_write N (selection_message selection)) (\<lambda>_.
     and_then (gn_answer N (selection_message selection)) (\<lambda>answer.
     and_then (sanitize_server_message answer) (\<lambda>first.
       case first of
         Join_Pending gid request_id token \<Rightarrow>
           Inr (Pending \<lparr>pj_gateway_id = gsn_gateway_id snapshot, pj_group_id = gid, pj_request_id = request_id,
                         pj_request_token = token\<rparr>)
       | Welcome w \<Rightarrow>
           (case find (\<lambda>member. p_session_id member = w_session_id w) (w_members w) of
              None \<Rightarrow> Inl (Bail (str ''gateway welcome omitted the local member''))
            | Some me \<Rightarrow> Inr (Connected \<lparr>si_gateway = snapshot, si_welcome = w, si_local = me\<rparr>))
       | Server_Error code message \<Rightarrow>
           Inl (Bail (str ''gateway rejected the group selection ('' @ code @ str ''): '' @ message))
       | _ \<Rightarrow> Inl (Bail (str ''gateway did not send a group welcome message'')))))"

definition connect_selected ::
  "gateway_network \<Rightarrow> socket_addr \<Rightarrow> rstring \<Rightarrow> rstring option \<Rightarrow> u16 \<times> rstring \<Rightarrow> group_selection \<Rightarrow> error + join_outcome" where
  "connect_selected N endpoint nick expected direct selection =
     and_then (open_gateway N endpoint nick expected (Some direct)) (\<lambda>snapshot. finish_connection N snapshot selection)"

definition join_group_with_credential ::
  "gateway_network \<Rightarrow> socket_addr \<Rightarrow> rstring \<Rightarrow> rstring option \<Rightarrow> u16 \<times> rstring \<Rightarrow> uuid \<Rightarrow> rstring option \<Rightarrow> error + join_outcome" where
  "join_group_with_credential N endpoint nick expected direct gid credential =
     (if (case credential of Some c \<Rightarrow> \<not> is_valid_group_credential c | None \<Rightarrow> False)
      then Inl (Bail (str ''group credential has an invalid format''))
      else connect_selected N endpoint nick expected direct (Select_Join gid credential))"

definition only_connected :: "string \<Rightarrow> join_outcome \<Rightarrow> error + session_info" where
  "only_connected refusal outcome = (case outcome of Connected s \<Rightarrow> Inr s | Pending _ \<Rightarrow> Inl (Bail (str refusal)))"

definition join_group ::
  "gateway_network \<Rightarrow> socket_addr \<Rightarrow> rstring \<Rightarrow> rstring option \<Rightarrow> u16 \<times> rstring \<Rightarrow> uuid \<Rightarrow> error + session_info" where
  "join_group N endpoint nick expected direct gid =
     and_then (join_group_with_credential N endpoint nick expected direct gid None)
       (only_connected ''group join is waiting for administrator approval'')"

definition client_create_group_with_access ::
  "gateway_network \<Rightarrow> socket_addr \<Rightarrow> rstring \<Rightarrow> rstring option \<Rightarrow> u16 \<times> rstring \<Rightarrow> rstring \<Rightarrow> group_access_mode \<Rightarrow> error + session_info" where
  "client_create_group_with_access N endpoint nick expected direct name mode =
     and_then (connect_selected N endpoint nick expected direct (Select_Create name mode))
       (only_connected ''group creation unexpectedly returned a pending join'')"

definition client_create_group ::
  "gateway_network \<Rightarrow> socket_addr \<Rightarrow> rstring \<Rightarrow> rstring option \<Rightarrow> u16 \<times> rstring \<Rightarrow> rstring \<Rightarrow> error + session_info" where
  "client_create_group N endpoint nick expected direct name =
     client_create_group_with_access N endpoint nick expected direct name Public"

definition inspect_gateway ::
  "gateway_network \<Rightarrow> socket_addr \<Rightarrow> rstring \<Rightarrow> rstring option \<Rightarrow> error + gateway_snapshot" where
  "inspect_gateway N endpoint nick expected = open_gateway N endpoint nick expected None"

text \<open>\<open>connect\<close>: into the only group of a gateway.\<close>

definition connect :: "gateway_network \<Rightarrow> socket_addr \<Rightarrow> rstring \<Rightarrow> rstring option \<Rightarrow> u16 \<times> rstring \<Rightarrow> error + session_info" where
  "connect N endpoint nick expected direct =
     and_then (open_gateway N endpoint nick expected (Some direct)) (\<lambda>snapshot.
       case gsn_groups snapshot of
         [g] \<Rightarrow> and_then (finish_connection N snapshot (Select_Join (gs_group_id g) None))
                  (only_connected ''group join is waiting for administrator approval'')
       | groups \<Rightarrow> Inl (Bail (str ''gateway has '' @ show_nat (length groups) @
           str '' groups; select a group through the TUI or provide its id'')))"

section \<open>The connected client\<close>

datatype client_event = From_Server server_message | Disconnected rstring

datatype client_input = Outgoing client_message | Incoming "error + server_message"

text \<open>What the task does: write to the gateway, command the direct-chat hub, show something to the user.\<close>

datatype client_output = To_Gateway client_message | To_Hub direct_command | To_User client_event

text \<open>
  One turn of the task's loop. \<open>write\<close> says whether a write to the gateway succeeds and \<open>describe\<close>
  renders an error; the answer tells the reason when the loop ends.
\<close>

definition forward_incoming :: "(uuid \<times> peer) list \<Rightarrow> server_message \<Rightarrow> (uuid \<times> peer) list \<times> client_output list" where
  "forward_incoming members message =
     (case message of
        Member_Joined member \<Rightarrow> (upsert_member member members, [To_User (From_Server message)])
      | Member_Left session_id \<Rightarrow>
          (case remove_member session_id members of (members', command) \<Rightarrow> (members', [To_Hub command, To_User (From_Server message)]))
      | _ \<Rightarrow> (members, [To_User (From_Server message)]))"

fun client_turn ::
  "(error \<Rightarrow> rstring) \<Rightarrow> (client_message \<Rightarrow> error + unit) \<Rightarrow> (uuid \<times> peer) list \<Rightarrow> client_input \<Rightarrow>
   (uuid \<times> peer) list \<times> client_output list \<times> rstring option" where
  "client_turn describe write members (Outgoing message) =
     (case message of
        Private_Chat peer_id message_id body \<Rightarrow> (members, [To_Hub (Direct_Send peer_id message_id body)], None)
      | _ \<Rightarrow> (case write message of
                Inl e \<Rightarrow> (members, [], Some (str ''failed to send: '' @ describe e))
              | Inr _ \<Rightarrow> (members, [To_Gateway message], None)))"
| "client_turn describe write members (Incoming (Inl e)) =
     (members, [], Some (str ''connection closed: '' @ describe e))"
| "client_turn describe write members (Incoming (Inr message)) =
     (case sanitize_server_message message of
        Inl e \<Rightarrow> (members, [], Some (str ''server sent unsafe data: '' @ describe e))
      | Inr message \<Rightarrow>
          (case forward_incoming members message of (members', out) \<Rightarrow> (members', out, None)))"

fun client_task ::
  "(error \<Rightarrow> rstring) \<Rightarrow> (client_message \<Rightarrow> error + unit) \<Rightarrow> (uuid \<times> peer) list \<Rightarrow> client_input list \<Rightarrow> client_output list" where
  "client_task describe write members [] = []"
| "client_task describe write members (input # inputs) =
     (case client_turn describe write members input of
        (members', out, Some reason) \<Rightarrow> out @ [To_User (Disconnected reason)]
      | (members', out, None) \<Rightarrow> out @ client_task describe write members' inputs)"

section \<open>One message and its echo\<close>

text \<open>
  \<open>send_message\<close> over the events that arrive before the time is up; \<open>None\<close> when time runs out first.
\<close>

fun await_echo :: "uuid \<Rightarrow> client_event list \<Rightarrow> bool \<Rightarrow> error + chat_record" where
  "await_echo message_id [] timed_out =
     Inl (Bail (if timed_out then str ''timed out waiting for the gateway to persist and echo the message''
                else str ''connection closed before the server acknowledged the message''))"
| "await_echo message_id (event # events) timed_out =
     (case event of
        From_Server (Server_Chat message) \<Rightarrow>
          if cr_message_id message = message_id then Inr message else await_echo message_id events timed_out
      | From_Server (Server_Error code message) \<Rightarrow>
          Inl (Bail (str ''server rejected the message ('' @ code @ str ''): '' @ message))
      | Disconnected reason \<Rightarrow> Inl (Bail reason)
      | _ \<Rightarrow> await_echo message_id events timed_out)"

definition send_message :: "rstring \<Rightarrow> uuid \<Rightarrow> rstring \<Rightarrow> bool \<Rightarrow> client_event list \<Rightarrow> bool \<Rightarrow> client_message \<times> (error + chat_record)" where
  "send_message rid fresh body is_open events timed_out =
     (Chat rid fresh body,
      if \<not> is_open then Inl (Bail (str ''connection closed before the message could be sent''))
      else await_echo fresh events timed_out)"

text \<open>Connecting to the only group and sending one message, with the listener this client advertises.\<close>

definition send_one_message ::
  "gateway_network \<Rightarrow> socket_addr \<Rightarrow> rstring \<Rightarrow> rstring option \<Rightarrow> u16 \<times> rstring \<Rightarrow> uuid \<Rightarrow> rstring \<Rightarrow> bool \<Rightarrow>
   client_event list \<Rightarrow> bool \<Rightarrow> client_message option \<times> (error + chat_record)" where
  "send_one_message N endpoint nick expected direct fresh body is_open events timed_out =
     (case connect N endpoint nick expected direct of
        Inl e \<Rightarrow> (None, Inl e)
      | Inr session \<Rightarrow>
          (case send_message (w_room_id (si_welcome session)) fresh body is_open events timed_out of
             (sent, r) \<Rightarrow> (Some sent, r)))"

end
