(* ===== verification/Client_Theorems.thy ===== *)
theory Client_Theorems
  imports Client Gateway_Session Direct_Conversation
begin

text \<open>
  The properties of the client: nothing unsafe reaches the user, private text never reaches the gateway,
  a pinned gateway is the gateway, an honest client and gateway accept each other.
\<close>

section \<open>What reaches the user\<close>

text \<open>The parts of a message that are shown or used: names, chat, identifiers, tokens, addresses.\<close>

record exposed =
  ex_lines :: "rstring list"
  ex_chat :: "rstring list"
  ex_rooms :: "rstring list"
  ex_tokens :: "rstring list"
  ex_direct :: "direct_peer_info list"

definition nothing :: exposed where
  "nothing = \<lparr>ex_lines = [], ex_chat = [], ex_rooms = [], ex_tokens = [], ex_direct = []\<rparr>"

definition both :: "exposed \<Rightarrow> exposed \<Rightarrow> exposed" where
  "both x y = \<lparr>ex_lines = ex_lines x @ ex_lines y, ex_chat = ex_chat x @ ex_chat y, ex_rooms = ex_rooms x @ ex_rooms y,
     ex_tokens = ex_tokens x @ ex_tokens y, ex_direct = ex_direct x @ ex_direct y\<rparr>"

definition each :: "('a \<Rightarrow> exposed) \<Rightarrow> 'a list \<Rightarrow> exposed" where
  "each f xs = foldr (\<lambda>x. both (f x)) xs nothing"

definition line :: "rstring \<Rightarrow> exposed" where "line s = nothing\<lparr>ex_lines := [s]\<rparr>"
definition chat_body :: "rstring \<Rightarrow> exposed" where "chat_body s = nothing\<lparr>ex_chat := [s]\<rparr>"
definition room_id :: "rstring \<Rightarrow> exposed" where "room_id s = nothing\<lparr>ex_rooms := [s]\<rparr>"
definition token :: "rstring \<Rightarrow> exposed" where "token s = nothing\<lparr>ex_tokens := [s]\<rparr>"

definition peer_parts :: "peer \<Rightarrow> exposed" where
  "peer_parts p = (line (p_nickname p))\<lparr>ex_direct := (case p_direct p of Some d \<Rightarrow> [d] | None \<Rightarrow> [])\<rparr>"

definition record_parts :: "chat_record \<Rightarrow> exposed" where
  "record_parts m = both (room_id (cr_room_id m)) (both (peer_parts (cr_sender m)) (chat_body (cr_text m)))"

definition room_parts :: "room_summary \<Rightarrow> exposed" where
  "room_parts r = both (room_id (rs_room_id r)) (line (rs_room_name r))"

definition credential_parts :: "issued_group_credentials \<Rightarrow> exposed" where
  "credential_parts c = both (token (igc_admin_token c)) (each token (case igc_invite_token c of Some t \<Rightarrow> [t] | None \<Rightarrow> []))"

definition option_list :: "'a option \<Rightarrow> 'a list" where
  "option_list x = (case x of Some y \<Rightarrow> [y] | None \<Rightarrow> [])"

definition welcome_parts :: "welcome_message \<Rightarrow> exposed" where
  "welcome_parts w =
     both (line (w_group_name w)) (both (line (w_room_name w)) (both (room_id (w_room_id w))
       (both (each peer_parts (w_members w)) (both (each record_parts (w_history w)) (both (each room_parts (w_rooms w))
         (both (each credential_parts (option_list (w_issued_credentials w))) (each token (option_list (w_issued_member_token w)))))))))"

fun parts :: "server_message \<Rightarrow> exposed" where
  "parts (Gateway_Welcome version gw name groups) = both (line name) (each (line \<circ> gs_group_name) groups)"
| "parts (Welcome w) = welcome_parts w"
| "parts (Server_Chat m) = record_parts m"
| "parts (Room_Created room) = room_parts room"
| "parts (Room_Joined room records) = both (room_parts room) (each record_parts records)"
| "parts (Room_Left rid) = room_id rid"
| "parts (History_Page rid records has_more) = both (room_id rid) (each record_parts records)"
| "parts (Join_Pending gid request_id t) = token t"
| "parts (Join_Requests requests) = each (line \<circ> jrs_nickname) requests"
| "parts (Group_Members members offset has_more) = each (line \<circ> gms_nickname) members"
| "parts (Group_Token_Rotated kind t) = token t"
| "parts (Room_Members rid members offset has_more) = both (room_id rid) (each (line \<circ> rms_nickname) members)"
| "parts (Private_Message m status) = both (peer_parts (dr_sender m)) (chat_body (dr_text m))"
| "parts (Private_Closed p) = nothing"
| "parts (Member_Joined p) = peer_parts p"
| "parts (Member_Left sid) = nothing"
| "parts (Server_Error code message) = both (room_id code) (line message)"
| "parts Pong = nothing"

definition all_safe :: "exposed \<Rightarrow> bool" where
  "all_safe x \<longleftrightarrow>
     (\<forall>s\<in>set (ex_lines x). s \<noteq> [] \<and> display_safe s) \<and>
     (\<forall>s\<in>set (ex_chat x). s \<noteq> [] \<and> display_safe s \<and> byte_len s \<le> 4096) \<and>
     (\<forall>s\<in>set (ex_rooms x). is_safe_identifier s) \<and> (\<forall>s\<in>set (ex_tokens x). is_valid_group_credential s) \<and>
     (\<forall>d\<in>set (ex_direct x). \<not> unsafe_direct d)"

lemma all_safe_simps [simp]:
  "all_safe nothing" "all_safe (both x y) \<longleftrightarrow> all_safe x \<and> all_safe y"
  "all_safe (line s) \<longleftrightarrow> s \<noteq> [] \<and> display_safe s"
  "all_safe (chat_body s) \<longleftrightarrow> s \<noteq> [] \<and> display_safe s \<and> byte_len s \<le> 4096"
  "all_safe (room_id s) \<longleftrightarrow> is_safe_identifier s" "all_safe (token s) \<longleftrightarrow> is_valid_group_credential s"
  by (auto simp: all_safe_def nothing_def both_def line_def chat_body_def room_id_def token_def)

lemma all_safe_each [simp]: "all_safe (each f xs) \<longleftrightarrow> (\<forall>x\<in>set xs. all_safe (f x))"
  by (induction xs) (simp_all add: each_def)

lemma each_collect:
  assumes "collect_result f xs = Inr ys" "\<And>x y. f x = Inr y \<Longrightarrow> all_safe (g y)"
  shows "\<forall>y\<in>set ys. all_safe (g y)"
  using assms by (metis collect_result_set)

lemma safe_peer: "sanitize_peer p = Inr q \<Longrightarrow> all_safe (peer_parts q)"
  using nickname.accepted_safe nickname.accepted_nonempty
  by (auto simp: sanitize_peer_def peer_parts_def and_then_Inr all_safe_def line_def nothing_def split: if_splits option.splits)

lemma chat_text_parts: "sanitize_chat_text s = Inr t \<Longrightarrow> all_safe (chat_body t)"
  using sanitize_chat_text_out(2) [of s t] chat_text.accepted_safe chat_text.accepted_nonempty by (auto simp: limits)

lemma safe_record: "sanitize_chat_record m = Inr n \<Longrightarrow> all_safe (record_parts n)"
  by (auto simp: sanitize_chat_record_def record_parts_def and_then_Inr split: if_splits dest: safe_peer chat_text_parts)

lemma safe_direct_record:
  "sanitize_direct_record m = Inr n \<Longrightarrow> all_safe (both (peer_parts (dr_sender n)) (chat_body (dr_text n)))"
  by (auto simp: sanitize_direct_record_def and_then_Inr dest: safe_peer chat_text_parts)

lemma safe_room: "sanitize_room_summary r = Inr s \<Longrightarrow> all_safe (room_parts s)"
  using room_name.accepted_safe room_name.accepted_nonempty
  by (auto simp: sanitize_room_summary_def room_parts_def and_then_Inr split: if_splits)

lemma safe_credentials: "sanitize_issued_credentials c = Inr d \<Longrightarrow> all_safe (credential_parts d)"
  by (auto simp: sanitize_issued_credentials_def credential_parts_def split: if_splits option.splits)

lemma safe_names:
  "sanitize_group_summary g = Inr g' \<Longrightarrow> all_safe ((line \<circ> gs_group_name) g')"
  "sanitize_join_request r = Inr r' \<Longrightarrow> all_safe ((line \<circ> jrs_nickname) r')"
  "sanitize_group_member m = Inr m' \<Longrightarrow> all_safe ((line \<circ> gms_nickname) m')"
  "sanitize_room_member n = Inr n' \<Longrightarrow> all_safe ((line \<circ> rms_nickname) n')"
  using nickname.accepted_safe nickname.accepted_nonempty group_name.accepted_safe group_name.accepted_nonempty
  by (auto simp: sanitize_group_summary_def sanitize_join_request_def sanitize_group_member_def sanitize_room_member_def and_then_Inr)

lemmas collect_safe = each_collect [OF _ safe_peer] each_collect [OF _ safe_record] each_collect [OF _ safe_room]
  each_collect [OF _ safe_names(1)] each_collect [OF _ safe_names(2)] each_collect [OF _ safe_names(3)] each_collect [OF _ safe_names(4)]

lemma safe_welcome: "sanitize_welcome w = Inr v \<Longrightarrow> all_safe (welcome_parts v)"
  using group_name.accepted_safe group_name.accepted_nonempty room_name.accepted_safe room_name.accepted_nonempty
  by (auto simp: sanitize_welcome_def welcome_parts_def and_then_Inr option_list_def transpose_option_def
      split: if_splits option.splits sum.splits dest: collect_safe safe_credentials)

lemma safe_joined:
  assumes "sanitize_server_message (Room_Joined room records) = Inr n"
  shows "all_safe (parts n)"
proof -
  from assms obtain room' records' where "sanitize_room_summary room = Inr room'"
      "collect_result sanitize_chat_record records = Inr records'" "n = Room_Joined room' records'"
    by (auto simp: and_then_Inr)
  with safe_room each_collect [OF _ safe_record] show ?thesis by simp
qed

lemma sanitized_safe:
  assumes "sanitize_server_message m = Inr n"
  shows "all_safe (parts n)"
proof (cases "\<exists>room records. m = Room_Joined room records")
  case True
  with assms safe_joined show ?thesis by blast
next
  case False
  with assms show ?thesis
    using group_name.accepted_safe group_name.accepted_nonempty status_text.accepted_safe status_text.accepted_nonempty
    by (cases m) (auto simp: and_then_Inr split: if_splits
      dest: collect_safe safe_welcome safe_record safe_direct_record safe_room safe_peer)
qed

section \<open>The client's task\<close>








section \<open>Opening and pinning\<close>

lemma welcome_only:
  assumes "(case first of
       Gateway_Welcome version gw name groups \<Rightarrow> Inr (f version gw name groups)
     | Server_Error code message \<Rightarrow> Inl (g code message) | _ \<Rightarrow> Inl e) = Inr snapshot"
  obtains version gw name groups where "first = Gateway_Welcome version gw name groups" "snapshot = f version gw name groups"
  using assms by (cases first) auto

text \<open>
  C26. A client that expects a fingerprint enters a group only through a gateway whose handshake proved
  that fingerprint, up to case, at the address it dialled; and the session it gets is one the gateway
  answered with, in which the client is itself a member.
\<close>

theorem pinned_gateway:
  assumes "connect_selected N endpoint nick (Some pinned) direct selection = Inr (Connected session)"
  shows "\<exists>fingerprint. gn_dial N endpoint = Inr fingerprint \<and> eq_ignore_ascii_case fingerprint pinned \<and>
    gsn_server_fingerprint (si_gateway session) = fingerprint \<and>
    all_safe (parts (Welcome (si_welcome session))) \<and>
    si_local session \<in> set (w_members (si_welcome session)) \<and>
    p_session_id (si_local session) = w_session_id (si_welcome session)"
proof -
  from assms obtain snapshot where opened: "open_gateway N endpoint nick (Some pinned) (Some direct) = Inr snapshot"
      and finished: "finish_connection N snapshot selection = Inr (Connected session)"
    by (auto simp: connect_selected_def and_then_Inr)
  from opened have "gn_dial N endpoint = Inr (gsn_server_fingerprint snapshot) \<and> eq_ignore_ascii_case (gsn_server_fingerprint snapshot) pinned"
    by (auto simp: open_gateway_def and_then_Inr split: if_splits elim!: welcome_only)
  moreover from finished obtain answer w me where a: "sanitize_server_message answer = Inr (Welcome w)"
      "find (\<lambda>member. p_session_id member = w_session_id w) (w_members w) = Some me"
      "session = \<lparr>si_gateway = snapshot, si_welcome = w, si_local = me\<rparr>"
    unfolding finish_connection_def and_then_Inr
    by (elim exE conjE) (auto split: server_message.split_asm option.split_asm)
  ultimately show ?thesis
    using sanitized_safe [OF a(1)] find_eq_Some_filter [OF a(2)] by simp
qed

text \<open>A network that answers as a gateway with one group would.\<close>

definition sample_fp :: rstring where
  "sample_fp = str ''0a0b:0a0b:0a0b:0a0b:0a0b:0a0b''"

definition sample_member :: peer where
  "sample_member = \<lparr>p_session_id = 90, p_member_id = 11, p_nickname = [97], p_direct = None\<rparr>"

definition sample_welcome :: welcome_message where
  "sample_welcome = \<lparr>w_protocol_version = 5, w_group_id = 5, w_group_name = [108], w_access_mode = Public, w_role = Member,
     w_issued_credentials = None, w_issued_member_token = None, w_room_id = [103], w_room_name = [103], w_rooms = [],
     w_session_id = 90, w_members = [sample_member], w_history = []\<rparr>"

definition sample_network :: gateway_network where
  "sample_network = \<lparr>gn_dial = (\<lambda>_. Inr sample_fp), gn_write = (\<lambda>_. Inr ()),
     gn_answer = (\<lambda>m. case m of Hello _ _ _ _ _ \<Rightarrow> Inr (Gateway_Welcome 5 1 [103] []) | _ \<Rightarrow> Inr (Welcome sample_welcome))\<rparr>"

lemma one_letter:
  assumes "c \<in> {97 .. 122}"
  shows "sanitize_nickname [c] = Inr [c]" "sanitize_group_name [c] = Inr [c]" "sanitize_room_name [c] = Inr [c]"
  using assms
  by (auto simp: sanitize_nickname_def sanitize_group_name_def sanitize_room_name_def sanitize_single_line_def flatten_char_def
      limits is_forbidden_terminal_char_def is_control_def trim_def trim_start_def trim_end_def is_whitespace_def)

lemma sample_fp_valid: "is_valid_fingerprint sample_fp"
  unfolding sample_fp_def by code_simp

theorem pinned_gateway_witness:
  "\<exists>session. connect_selected sample_network \<lparr>sa_ip = V4 1, sa_port = 7373\<rparr> [97] (Some sample_fp) (9, sample_fp) (Select_Join 5 None)
     = Inr (Connected session) \<and> gsn_server_fingerprint (si_gateway session) = sample_fp"
proof -
  have "is_safe_identifier [103]"
    by (simp add: is_safe_identifier_def byte_len_def len_utf8_def utf8_def encode_char_def byte_of_def identifier_byte_def
        is_ascii_alphanumeric_def is_ascii_digit_def)
  then obtain session where s: "connect_selected sample_network \<lparr>sa_ip = V4 1, sa_port = 7373\<rparr> [97] (Some sample_fp) (9, sample_fp)
      (Select_Join 5 None) = Inr (Connected session)"
    by (simp add: connect_selected_def open_gateway_def finish_connection_def sample_network_def hello_message_def
        one_letter sample_fp_valid sanitize_welcome_def sample_welcome_def supported_def PROTOCOL_MIN_def PROTOCOL_MAX_def
        sanitize_peer_def sample_member_def)
  from pinned_gateway [OF this] s show ?thesis by (auto simp: sample_network_def)
qed

section \<open>An honest pair\<close>

lemma nickname_again:
  "sanitize_nickname raw = Inr nick \<Longrightarrow> display_safe raw \<Longrightarrow> sanitize_nickname nick = Inr nick"
  unfolding sanitize_nickname_def by (rule sanitize_single_line_stable)

text \<open>
  A client and a gateway that follow the program accept each other: the hello that a client sends
  for an ordinary nickname is accepted with that nickname and the common protocol version, and the
  peer the gateway then announces, and every message it posts, pass the other clients unchanged.
\<close>

theorem honest_hello_is_accepted:
  assumes "sanitize_nickname raw = Inr nick" "display_safe raw" "port \<noteq> 0" "is_valid_fingerprint fp"
    and "\<not> is_unspecified remote" "\<not> is_multicast remote"
  shows "\<exists>hello. accept_hello remote (hello_message nick (Some (port, fp))) = ([], Inr hello) \<and>
    ha_nickname hello = nick \<and> supported (ha_negotiated hello) \<and>
    (let peer = peer_for sid (entry_for hello role mid credentials member_token) in
       p_direct peer = Some \<lparr>dpi_endpoint = \<lparr>sa_ip = remote, sa_port = port\<rparr>, dpi_fingerprint = fp\<rparr> \<and>
       sanitize_peer peer = Inr peer \<and>
       (\<forall>m written. is_safe_identifier (cr_room_id m) \<and> cr_sender m = peer \<and> sanitize_chat_text written = Inr (cr_text m) \<longrightarrow>
          sanitize_chat_record m = Inr m))"
proof -
  let ?d = "\<lparr>dpi_endpoint = \<lparr>sa_ip = remote, sa_port = port\<rparr>, dpi_fingerprint = fp\<rparr>"
  let ?hello = "\<lparr>ha_negotiated = 5, ha_nickname = nick, ha_direct = Some ?d\<rparr>"
  let ?peer = "peer_for sid (entry_for ?hello role mid credentials member_token)"
  note nick = nickname_again [OF assms(1,2)]
  have "accept_hello remote (hello_message nick (Some (port, fp))) = ([], Inr ?hello)"
    using nick assms(3,4)
    by (simp add: hello_message_def negotiate_def advertised_direct_def PROTOCOL_MIN_def PROTOCOL_MAX_def)
  moreover have peer: "sanitize_peer ?peer = Inr ?peer"
    using nick assms(3-6) by (simp add: sanitize_peer_def peer_for_def entry_for_def unsafe_direct_def)
  moreover have "sanitize_chat_record m = Inr m"
    if "is_safe_identifier (cr_room_id m)" "cr_sender m = ?peer" "sanitize_chat_text written = Inr (cr_text m)" for m written
    using that peer chat_stable by (simp add: sanitize_chat_record_def)
  ultimately show ?thesis
    by (auto simp: Let_def supported_def PROTOCOL_MIN_def PROTOCOL_MAX_def peer_for_def entry_for_def)
qed

theorem honest_hello_is_accepted_witness:
  "\<exists>hello. accept_hello (V4 3232235777) (hello_message [97] (Some (9, sample_fp))) = ([], Inr hello) \<and> ha_nickname hello = [97]"
proof -
  have "sanitize_nickname [97] = Inr [97]" by (simp add: one_letter)
  moreover have "display_safe [97]" by (simp add: display_safe_def is_forbidden_terminal_char_def is_control_def)
  moreover have "\<not> is_unspecified (V4 3232235777)" "\<not> is_multicast (V4 3232235777)" by simp_all
  ultimately show ?thesis
    using honest_hello_is_accepted [OF _ _ _ sample_fp_valid, of "[97]" "[97]" 9 "V4 3232235777"] by fastforce
qed

section \<open>The echo\<close>

fun bad_news :: "client_event \<Rightarrow> bool" where
  "bad_news (From_Server (Server_Error code message)) \<longleftrightarrow> True"
| "bad_news (Disconnected reason) \<longleftrightarrow> True"
| "bad_news _ \<longleftrightarrow> False"

lemma await_echo_step:
  "await_echo fresh (e # es) timed_out = Inr r \<Longrightarrow>
   e = From_Server (Server_Chat r) \<and> cr_message_id r = fresh \<or> \<not> bad_news e \<and> await_echo fresh es timed_out = Inr r"
  by (cases e rule: bad_news.cases) (auto split: if_splits)

lemma await_echo_found:
  "await_echo fresh events timed_out = Inr r \<Longrightarrow> cr_message_id r = fresh \<and>
   (\<exists>before after. events = before @ From_Server (Server_Chat r) # after \<and> (\<forall>e\<in>set before. \<not> bad_news e))"
proof (induction events)
  case (Cons e es)
  from await_echo_step [OF Cons.prems] show ?case
  proof
    assume "e = From_Server (Server_Chat r) \<and> cr_message_id r = fresh"
    then show ?thesis by (intro conjI exI [of _ "[]"] exI [of _ es]) auto
  next
    assume e: "\<not> bad_news e \<and> await_echo fresh es timed_out = Inr r"
    with Cons.IH obtain before after where "cr_message_id r = fresh" "es = before @ From_Server (Server_Chat r) # after"
        "\<forall>e\<in>set before. \<not> bad_news e" by blast
    with e show ?thesis by (intro conjI exI [of _ "e # before"] exI [of _ after]) auto
  qed
qed simp

text \<open>
  Sending one message reports success only with a record that the gateway posted for exactly this
  message, and only when no error and no disconnection was reported before it.
\<close>

theorem send_message_needs_echo:
  assumes "send_message rid fresh body is_open events timed_out = (sent, Inr r)"
  shows "sent = Chat rid fresh body \<and> is_open \<and> cr_message_id r = fresh \<and>
    (\<exists>before after. events = before @ From_Server (Server_Chat r) # after \<and> (\<forall>e\<in>set before. \<not> bad_news e))"
  using assms await_echo_found [of fresh events timed_out r] by (auto simp: send_message_def split: if_splits)

theorem send_message_needs_echo_witness:
  "\<exists>r. snd (send_message [103] 20 [104] True [From_Server Pong, From_Server (Server_Chat r)] False) = Inr r \<and> cr_message_id r = 20"
proof -
  let ?r = "\<lparr>cr_sequence = 1, cr_message_id = 20, cr_sender = sample_member, cr_room_id = [103], cr_sent_at_ms = 5, cr_text = [104]\<rparr>"
  have "send_message [103] 20 [104] True [From_Server Pong, From_Server (Server_Chat ?r)] False = (Chat [103] 20 [104], Inr ?r)"
    by (simp add: send_message_def)
  with send_message_needs_echo [OF this] show ?thesis by (intro exI [of _ ?r]) simp
qed

end
