(* ===== verification/Mutex.thy ===== *)
theory Mutex
  imports Programs "HOL-Library.Multiset"
begin

text \<open>
  Programs that share a mutex (\<open>room_creation\<close> of \<open>src/server.rs\<close>). \<open>disciplined\<close> says that a program
  releases what it acquires, waits for nothing else, and changes the guarded data only while it holds
  the mutex; then the guarded data keeps its invariant under any interleaving, and nobody waits for ever.
\<close>

section \<open>Termination\<close>

text \<open>
  A program is a finite tree, whatever the states its steps meet; so the programs of finitely many tasks
  make finitely many steps together, in any order.
\<close>

definition after :: "('w prog \<times> 'w prog) set" where
  "after = {(q, p). \<exists>w v. step_prog p w = Some (v, q)}"

lemma wf_after: "wf after"
proof (rule wfUNIVI)
  fix P :: "'w prog \<Rightarrow> bool" and p
  assume ih: "\<forall>p. (\<forall>q. (q, p) \<in> after \<longrightarrow> P q) \<longrightarrow> P p"
  show "P p"
  proof (induction p)
    case Done
    then show ?case using ih by (simp add: after_def)
  next
    case (Step f)
    have "P q" if "(q, Step f) \<in> after" for q
    proof -
      from that obtain w v where "f w = Some (v, q)" by (auto simp: after_def)
      moreover from this have "Some (v, q) \<in> range f" by (metis rangeI)
      ultimately show ?thesis using Step.IH [of "Some (v, q)" "(v, q)" q] by simp
    qed
    then show ?case using ih by blast
  qed
qed

definition busy :: "('t \<Rightarrow> 'w prog) \<Rightarrow> 't set" where
  "busy tasks = {t. tasks t \<noteq> Done}"

definition work :: "('t \<Rightarrow> 'w prog) \<Rightarrow> 'w prog multiset" where
  "work tasks = image_mset tasks (mset_set (busy tasks))"

lemma finite_busy_upd [simp]: "finite (busy (tasks(t := p))) = finite (busy tasks)"
proof -
  have "busy (tasks(t := p)) \<subseteq> insert t (busy tasks)" "busy tasks \<subseteq> insert t (busy (tasks(t := p)))"
    by (auto simp: busy_def)
  then show ?thesis by (metis finite_insert finite_subset)
qed

lemma work_upd:
  assumes "finite (busy tasks)" "tasks t \<noteq> Done"
  shows "work tasks = add_mset (tasks t) (image_mset tasks (mset_set (busy tasks - {t})))"
    and "work (tasks(t := q)) = image_mset tasks (mset_set (busy tasks - {t})) + (if q = Done then {#} else {#q#})"
proof -
  let ?rest = "busy tasks - {t}"
  have b: "busy tasks = insert t ?rest" "busy (tasks(t := q)) = (if q = Done then ?rest else insert t ?rest)"
    using assms(2) by (auto simp: busy_def)
  have rest: "image_mset (tasks(t := q)) (mset_set ?rest) = image_mset tasks (mset_set ?rest)"
    using assms(1) by (intro image_mset_cong) auto
  have "mset_set (busy tasks) = add_mset t (mset_set ?rest)"
    using assms by (metis b(1) finite_Diff mset_set.insert Diff_iff singletonI)
  then show "work tasks = add_mset (tasks t) (image_mset tasks (mset_set ?rest))" by (simp add: work_def)
  have "mset_set (busy (tasks(t := q))) = mset_set ?rest + (if q = Done then {#} else {#t#})"
    using assms(1) unfolding b(2) by (simp add: mset_set.insert del: insert_Diff_single)
  then show "work (tasks(t := q)) = image_mset tasks (mset_set ?rest) + (if q = Done then {#} else {#q#})"
    by (simp add: work_def rest del: fun_upd_apply) simp
qed

lemma pool_step_work:
  assumes "pool_step tasks w tasks' w'" "finite (busy tasks)"
  shows "finite (busy tasks') \<and> (work tasks', work tasks) \<in> mult after"
  using assms
proof (induction rule: pool_step.induct)
  case (1 tasks t w w' p)
  then have t: "tasks t \<noteq> Done" and "(p, tasks t) \<in> after" by (auto simp: after_def)
  moreover have "(M + (if p = Done then {#} else {#p#}), add_mset (tasks t) M) \<in> mult1 after" for M
    using \<open>(p, tasks t) \<in> after\<close> by (intro mult1I) (auto split: if_splits)
  ultimately have "(work (tasks(t := p)), work tasks) \<in> mult1 after"
    unfolding work_upd [OF 1(2) t] by blast
  then have "(work (tasks(t := p)), work tasks) \<in> mult after" unfolding mult_def by blast
  with 1(2) show ?case by (simp del: fun_upd_apply)
qed

text \<open>No infinite run.\<close>

lemma pool_steps_end:
  fixes tasks :: "'t \<Rightarrow> 'w prog"
  assumes "finite (busy tasks)"
  shows "\<not> (\<exists>run. run 0 = (tasks, w) \<and> (\<forall>i. pool_step (fst (run i)) (snd (run i)) (fst (run (Suc i))) (snd (run (Suc i)))))"
proof
  assume "\<exists>run. run 0 = (tasks, w) \<and> (\<forall>i. pool_step (fst (run i)) (snd (run i)) (fst (run (Suc i))) (snd (run (Suc i))))"
  then obtain run where start: "run 0 = (tasks, w)" and
    steps: "\<And>i. pool_step (fst (run i)) (snd (run i)) (fst (run (Suc i))) (snd (run (Suc i)))" by blast
  have fin: "finite (busy (fst (run i)))" for i
    by (induction i) (use assms start steps pool_step_work in \<open>force+\<close>)
  have "(work (fst (run (Suc i))), work (fst (run i))) \<in> mult after" for i
    using pool_step_work [OF steps fin] by blast
  then have "\<exists>f. \<forall>i. (f (Suc i), f i) \<in> mult (after :: ('w prog \<times> 'w prog) set)"
    by (intro exI [of _ "\<lambda>i. work (fst (run i))"]) blast
  with wf_mult [OF wf_after] show False unfolding wf_iff_no_infinite_down_chain by blast
qed

section \<open>Discipline\<close>

locale mutex =
  fixes held :: "'w \<Rightarrow> bool" and guarded :: "'w \<Rightarrow> 'g" and inv_ok :: "'g \<Rightarrow> bool"
    and acquire :: "'w \<Rightarrow> 'w" and release :: "'w \<Rightarrow> 'w"
  assumes acquired: "held (acquire w)" "guarded (acquire w) = guarded w"
    and released: "\<not> held (release w)" "guarded (release w) = guarded w"
begin

text \<open>The second argument is the guarded data as the program knows it while it holds the mutex.\<close>

definition keeps_discipline :: "'g option \<Rightarrow> 'w \<Rightarrow> ('w \<times> ('g option \<Rightarrow> bool)) option \<Rightarrow> bool" where
  "keeps_discipline mode w result \<longleftrightarrow>
     (case mode of
        None \<Rightarrow> (case result of
            None \<Rightarrow> held w
          | Some (v, cont) \<Rightarrow> guarded v = guarded w \<and>
              (held v = held w \<and> cont None \<or> \<not> held w \<and> held v \<and> cont (Some (guarded v))))
      | Some g \<Rightarrow> held w \<and> guarded w = g \<longrightarrow> (case result of
            None \<Rightarrow> False
          | Some (v, cont) \<Rightarrow> inv_ok (guarded v) \<and> cont (if held v then Some (guarded v) else None)))"

primrec disciplined :: "'w prog \<Rightarrow> 'g option \<Rightarrow> bool" where
  "disciplined Done = (\<lambda>mode. mode = None)"
| "disciplined (Step f) = (\<lambda>mode. \<forall>w. inv_ok (guarded w) \<longrightarrow>
     keeps_discipline mode w (map_option (map_prod id disciplined) (f w)))"

lemma disciplined_Done [simp]: "disciplined Done None"
  by simp

lemma disciplined_act:
  "(\<And>w. held (f w) = held w \<and> guarded (f w) = guarded w) \<Longrightarrow> disciplined k mode \<Longrightarrow> disciplined (act f k) mode"
  by (cases mode) (auto simp: act_def keeps_discipline_def)

lemma disciplined_ask: "(\<And>x. disciplined (q x) mode) \<Longrightarrow> disciplined (ask g q) mode"
  by (cases mode) (auto simp: ask_def keeps_discipline_def)

text \<open>A look at the guarded data by the holder tells what it will still be.\<close>

lemma disciplined_look:
  "(\<And>w. guarded w = g \<Longrightarrow> inv_ok g \<Longrightarrow> disciplined (q (h w)) (Some g)) \<Longrightarrow> disciplined (ask h q) (Some g)"
  by (auto simp: ask_def keeps_discipline_def)

lemma disciplined_call:
  "(\<And>w. held (fst (h w)) = held w \<and> guarded (fst (h w)) = guarded w \<and> disciplined (q (snd (h w))) mode) \<Longrightarrow>
   disciplined (call h q) mode"
  by (cases mode) (auto simp: call_def case_prod_beta keeps_discipline_def)

lemma disciplined_change:
  "(\<And>w. guarded w = g \<Longrightarrow> held (f w) = held w \<and> guarded (f w) = g' \<and> inv_ok g' ) \<Longrightarrow> disciplined k (Some g') \<Longrightarrow>
   disciplined (act f k) (Some g)"
  by (auto simp: act_def keeps_discipline_def)

lemma disciplined_lock: "(\<And>g. inv_ok g \<Longrightarrow> disciplined k (Some g)) \<Longrightarrow> disciplined (await (\<lambda>w. \<not> held w) acquire k) None"
  by (auto simp: await_def keeps_discipline_def acquired)

lemma disciplined_unlock: "disciplined k None \<Longrightarrow> disciplined (act release k) (Some g)"
  by (auto simp: act_def keeps_discipline_def released)

text \<open>At most one task is inside, and it knows the guarded data.\<close>

definition inside :: "'t option \<Rightarrow> ('t \<Rightarrow> 'w prog) \<Rightarrow> 'w \<Rightarrow> bool" where
  "inside holder tasks w \<longleftrightarrow> inv_ok (guarded w) \<and> held w = (holder \<noteq> None) \<and>
     (\<forall>t. disciplined (tasks t) (if holder = Some t then Some (guarded w) else None))"

definition guarded_pool :: "('t \<Rightarrow> 'w prog) \<Rightarrow> 'w \<Rightarrow> bool" where
  "guarded_pool tasks w \<longleftrightarrow> (\<exists>holder. inside holder tasks w)"

lemma guarded_pool_inv: "guarded_pool tasks w \<Longrightarrow> inv_ok (guarded w)"
  by (auto simp: guarded_pool_def inside_def)

lemma guarded_pool_spawn:
  assumes "guarded_pool tasks w" "tasks t = Done" "disciplined p None"
  shows "guarded_pool (tasks(t := p)) w"
proof -
  from assms(1) obtain holder where h: "inside holder tasks w" by (auto simp: guarded_pool_def)
  then have "disciplined (tasks t) (if holder = Some t then Some (guarded w) else None)" by (simp add: inside_def)
  with assms(2) have "holder \<noteq> Some t" by auto
  with h assms(3) have "inside holder (tasks(t := p)) w" unfolding inside_def by (simp split: if_splits) blast
  then show ?thesis by (auto simp: guarded_pool_def)
qed

lemma guarded_pool_frame:
  "guarded_pool tasks w \<Longrightarrow> held v = held w \<Longrightarrow> guarded v = guarded w \<Longrightarrow> guarded_pool tasks v"
  unfolding guarded_pool_def inside_def by presburger

lemma disciplined_step:
  assumes "disciplined p mode" "inv_ok (guarded w)" "step_prog p w = Some (v, q)"
  shows "case mode of
      None \<Rightarrow> guarded v = guarded w \<and> (held v = held w \<and> disciplined q None \<or> \<not> held w \<and> held v \<and> disciplined q (Some (guarded v)))
    | Some g \<Rightarrow> held w \<and> guarded w = g \<longrightarrow> inv_ok (guarded v) \<and> disciplined q (if held v then Some (guarded v) else None)"
proof (cases p)
  case (Step f)
  with assms(3) have "f w = Some (v, q)" by simp
  moreover have "keeps_discipline mode w (map_option (map_prod id disciplined) (f w))"
    using assms(1,2) by (simp add: Step)
  ultimately show ?thesis by (cases mode) (auto simp: keeps_discipline_def)
qed (use assms in simp)

lemma guarded_pool_step: "pool_step tasks w tasks' w' \<Longrightarrow> guarded_pool tasks w \<Longrightarrow> guarded_pool tasks' w'"
proof (induction rule: pool_step.induct)
  case (1 tasks t w w' p)
  from 1(2) obtain holder where h: "inside holder tasks w" by (auto simp: guarded_pool_def)
  then have hold: "held w = (holder \<noteq> None)" "inv_ok (guarded w)"
      "\<And>u. disciplined (tasks u) (if holder = Some u then Some (guarded w) else None)"
    by (simp_all add: inside_def)
  note step = disciplined_step [OF hold(3) hold(2) 1(1)]
  have "\<exists>new. inside new (tasks(t := p)) w'"
  proof (cases "holder = Some t")
    case True
    then have p: "inv_ok (guarded w')" "disciplined p (if held w' then Some (guarded w') else None)"
      using step hold(1) by simp_all
    have others: "disciplined (tasks u) None" if "u \<noteq> t" for u using hold(3) [of u] True that by simp
    have "inside (if held w' then Some t else None) (tasks(t := p)) w'"
      using p others by (cases "held w'") (simp_all add: inside_def)
    then show ?thesis by blast
  next
    case False
    then have same: "guarded w' = guarded w"
      and outcome: "held w' = held w \<and> disciplined p None \<or> \<not> held w \<and> held w' \<and> disciplined p (Some (guarded w'))"
      using step by auto
    show ?thesis
    proof (cases "held w' = held w \<and> disciplined p None")
      case True
      with h same False have "inside holder (tasks(t := p)) w'" unfolding inside_def by (simp split: if_splits) blast
      then show ?thesis by blast
    next
      case new: False
      with outcome have got: "\<not> held w" "held w'" "disciplined p (Some (guarded w'))" by auto
      then have "inside (Some t) (tasks(t := p)) w'" using hold same by (simp add: inside_def)
      then show ?thesis by blast
    qed
  qed
  then show ?case unfolding guarded_pool_def .
qed

text \<open>A disciplined program that is run alone finishes and leaves the mutex free.\<close>

lemma disciplined_runs:
  "disciplined p mode \<Longrightarrow> inv_ok (guarded w) \<Longrightarrow> held w = (mode \<noteq> None) \<Longrightarrow> mode = None \<or> mode = Some (guarded w) \<Longrightarrow>
   \<exists>v. run p w = Some v \<and> \<not> held v \<and> inv_ok (guarded v)"
proof (induction p arbitrary: mode w)
  case (Step f)
  then have "f w \<noteq> None" by (auto simp: keeps_discipline_def split: option.splits)
  then obtain u q where q: "f w = Some (u, q)" by auto
  with disciplined_step [of "Step f" mode w u q] Step.prems obtain mode' where
    "disciplined q mode'" "inv_ok (guarded u)" "held u = (mode' \<noteq> None)" "mode' = None \<or> mode' = Some (guarded u)"
    by (cases mode) (auto split: if_splits)
  moreover have "Some (u, q) \<in> range f" using q by (metis rangeI)
  ultimately have "\<exists>v. run q u = Some v \<and> \<not> held v \<and> inv_ok (guarded v)"
    using Step.IH [of "Some (u, q)" "(u, q)" q mode' u] by simp
  with q show ?case by simp
qed auto

text \<open>And while some task of a pool is busy, some task can go on.\<close>

lemma disciplined_blocks:
  assumes "disciplined p mode" "inv_ok (guarded w)" "p \<noteq> Done" "step_prog p w = None"
  shows "mode = None \<and> held w \<or> (\<exists>g. mode = Some g \<and> \<not> (held w \<and> guarded w = g))"
  using assms by (cases p; cases mode) (auto simp: keeps_discipline_def)

lemma guarded_pool_progress:
  assumes "guarded_pool tasks w" "tasks t \<noteq> Done"
  shows "\<exists>tasks' w'. pool_step tasks w tasks' w'"
proof -
  from assms(1) obtain holder where h: "inside holder tasks w" by (auto simp: guarded_pool_def)
  then have hold: "held w = (holder \<noteq> None)" "inv_ok (guarded w)"
      "\<And>u. disciplined (tasks u) (if holder = Some u then Some (guarded w) else None)"
    by (simp_all add: inside_def)
  define who where "who = (case holder of None \<Rightarrow> t | Some u \<Rightarrow> u)"
  have nd: "tasks who \<noteq> Done"
    using hold(3) [of who] assms(2) by (auto simp: who_def split: option.splits)
  have "step_prog (tasks who) w \<noteq> None"
  proof
    assume "step_prog (tasks who) w = None"
    from disciplined_blocks [OF hold(3) hold(2) nd this] hold(1) show False by (cases holder) (auto simp: who_def)
  qed
  then obtain v q where "step_prog (tasks who) w = Some (v, q)" by auto
  then show ?thesis by (blast intro: pool_step.intros)
qed

end

end
