(* ===== verification/Gateway_Progress.thy ===== *)
theory Gateway_Progress
  imports Gateway_Samples Mutex
begin

text \<open>
  The mutex \<open>room_creation\<close> of a group (\<open>src/server.rs\<close>): every handler releases it, so that the work of
  the connections ends in whatever order it is done; and it makes the check of the room limit and of the
  room names, the insertion into the store and the one into the cache one step for other creations.
\<close>

definition room_map_ok :: "(rstring \<times> room_summary) list \<Rightarrow> bool" where
  "room_map_ok rms \<longleftrightarrow> length rms \<le> MAX_ROOMS \<and> distinct (map (\<lambda>e. nocase (rs_room_name (snd e))) rms)"

lemma room_map_ok_put:
  assumes "room_map_ok rms" "length rms < MAX_ROOMS"
    "\<not> (\<exists>room\<in>snd ` set rms. eq_ignore_ascii_case (rs_room_name room) (rs_room_name r))"
  shows "room_map_ok (amap_put k r rms)"
proof -
  let ?name = "\<lambda>e :: rstring \<times> room_summary. nocase (rs_room_name (snd e))"
  have "length (amap_put k r m) \<le> Suc (length m)" for m
    by (induction k r m rule: amap_put.induct) auto
  then have "length (amap_put k r rms) \<le> MAX_ROOMS" using assms(2) by (metis Suc_leI le_trans)
  moreover have "distinct (map ?name m) \<Longrightarrow> nocase (rs_room_name r) \<notin> ?name ` set m \<Longrightarrow>
      distinct (map ?name (amap_put k r m))" for m
    by (induction k r m rule: amap_put.induct) (auto dest!: set_amap_put)
  moreover have "nocase (rs_room_name r) \<notin> ?name ` set rms"
    using assms(3) by (auto simp: eq_ignore_ascii_case_def)
  ultimately show ?thesis using assms(1) by (simp add: room_map_ok_def)
qed

text \<open>With \<open>strict\<close> the cache is invariantly as above; without, nothing is asked of it.\<close>

interpretation creation: mutex wd_creating wd_rooms "\<lambda>rms. strict \<longrightarrow> room_map_ok rms"
    "\<lambda>w. w\<lparr>wd_creating := True\<rparr>" "\<lambda>w. w\<lparr>wd_creating := False\<rparr>" for strict
  by unfold_locales simp_all

abbreviation orderly :: "bool \<Rightarrow> world prog \<Rightarrow> (rstring \<times> room_summary) list option \<Rightarrow> bool" where
  "orderly \<equiv> creation.disciplined"

section \<open>Every handler is disciplined\<close>

named_theorems orderly_rules \<open>discipline of the parts of handlers\<close>

lemma orderly_done [orderly_rules]: "orderly strict Done None"
  by simp

lemma orderly_reply [orderly_rules]: "orderly strict k m \<Longrightarrow> orderly strict (reply sid message k) m"
  by (rule creation.disciplined_act) (simp add: send_to_client_def)

lemma orderly_send_error [orderly_rules]: "orderly strict k m \<Longrightarrow> orderly strict (act (send_error sid c t) k) m"
  by (rule creation.disciplined_act) (simp add: send_to_client_def send_error_def)

lemma orderly_reply_error [orderly_rules]: "orderly strict k m \<Longrightarrow> orderly strict (reply_error sid c t k) m"
  unfolding reply_error_def by (rule orderly_send_error)

lemma orderly_ask [orderly_rules]: "(\<And>x. orderly strict (q x) m) \<Longrightarrow> orderly strict (ask g q) m"
  by (rule creation.disciplined_ask)

lemma orderly_store [orderly_rules]:
  "(\<And>r. orderly strict (q r) m) \<Longrightarrow> orderly strict (store_call f q) m"
  "(\<And>r. orderly strict (q r) m) \<Longrightarrow> orderly strict (store_query g q) m"
  unfolding store_call_def store_query_def
  by (auto intro!: creation.disciplined_call creation.disciplined_ask split: prod.splits)

lemma orderly_clients:
  "orderly strict k m \<Longrightarrow> orderly strict (act (\<lambda>w. w\<lparr>wd_clients := f w\<rparr>) k) m"
  by (rule creation.disciplined_act) simp

lemma orderly_send_each: "orderly strict k m \<Longrightarrow> orderly strict (send_each sids message k) m"
  by (induction sids) (simp_all add: orderly_reply)

lemma orderly_kick_each: "orderly strict k m \<Longrightarrow> orderly strict (kick_each sids reason k) m"
  by (induction sids) (simp_all add: orderly_clients)

lemma orderly_broadcast [orderly_rules]:
  "orderly strict k m \<Longrightarrow> orderly strict (broadcast_where P message k) m"
  "orderly strict k m \<Longrightarrow> orderly strict (broadcast_except message excluded k) m"
  "orderly strict k m \<Longrightarrow> orderly strict (broadcast message k) m"
  "orderly strict k m \<Longrightarrow> orderly strict (broadcast_to_room rid message k) m"
  "orderly strict k m \<Longrightarrow> orderly strict (broadcast_to_member mid message k) m"
  "orderly strict k m \<Longrightarrow> orderly strict (broadcast_private_room_created owner message k) m"
  "orderly strict k m \<Longrightarrow> orderly strict (kick_where P reason k) m"
  by (simp_all add: broadcast_where_def broadcast_except_def broadcast_def broadcast_to_room_def broadcast_to_member_def
      broadcast_private_room_created_def kick_where_def orderly_ask orderly_send_each orderly_kick_each)

lemma orderly_remove_room [orderly_rules]:
  "orderly strict k m \<Longrightarrow> orderly strict (remove_room_from_member mid rid k) m"
  unfolding remove_room_from_member_def
  by (rule creation.disciplined_call) (simp add: drop_room_of_member_def update_clients_def orderly_send_each)

lemma orderly_branches [orderly_rules]:
  "(b \<Longrightarrow> orderly strict p m) \<Longrightarrow> (\<not> b \<Longrightarrow> orderly strict q m) \<Longrightarrow> orderly strict (if b then p else q) m"
  "(\<And>e. orderly strict (f e) m) \<Longrightarrow> (\<And>x. orderly strict (g x) m) \<Longrightarrow> orderly strict (case r of Inl e \<Rightarrow> f e | Inr x \<Rightarrow> g x) m"
  "orderly strict p m \<Longrightarrow> (\<And>x. orderly strict (h x) m) \<Longrightarrow> orderly strict (case a of None \<Rightarrow> p | Some x \<Rightarrow> h x) m"
  "orderly strict p m \<Longrightarrow> orderly strict q m \<Longrightarrow> orderly strict (case c of True \<Rightarrow> p | False \<Rightarrow> q) m"
  "(\<And>x y. orderly strict (i x y) m) \<Longrightarrow> orderly strict (case z of (x, y) \<Rightarrow> i x y) m"
  by (simp_all split: sum.split option.split bool.split prod.split)

lemma orderly_join_room [orderly_rules]: "orderly strict k m \<Longrightarrow> orderly strict (join_room X key json_len gid sid room k) m"
  unfolding join_room_def by (intro orderly_rules orderly_clients)

lemma orderly_unlock [orderly_rules]: "orderly strict unlock_creation (Some g)"
  unfolding unlock_creation_def by (rule creation.disciplined_unlock) simp

text \<open>The section of the mutex.\<close>

lemma created_room_name:
  "create_room_with_visibility now rid gid name vis creator d = (d', Inr room) \<Longrightarrow> rs_room_name room = name"
  unfolding create_room_with_visibility_def
  by (auto simp: transaction_Inr and_then_Inr split: if_split_asm)

lemma orderly_announce [orderly_rules]:
  "orderly strict k m \<Longrightarrow> orderly strict ((case vis of Public_Room \<Rightarrow> broadcast (Room_Created room)
     | Private_Room \<Rightarrow> broadcast_private_room_created creator (Room_Created room)) k) m"
  by (cases vis) (simp_all add: orderly_broadcast)

lemma orderly_save_room:
  assumes free: "strict \<Longrightarrow> room_map_ok g \<and> length g < MAX_ROOMS \<and>
      \<not> (\<exists>room\<in>snd ` set g. eq_ignore_ascii_case (rs_room_name room) name)"
    and k: "\<And>room h. orderly strict (k room) (Some h)"
  shows "orderly strict (store_call (create_room_with_visibility now fresh gid name vis creator) (\<lambda>r.
      case r of
        Inl e \<Rightarrow> reply_error sid code notice unlock_creation
      | Inr room \<Rightarrow>
          act (\<lambda>w. w\<lparr>wd_rooms := amap_put (rs_room_id room) room (wd_rooms w)\<rparr>) (k room))) (Some g)"
  unfolding store_call_def
proof (rule creation.disciplined_call, intro conjI, goal_cases)
  case (3 w)
  obtain d r where dr: "create_room_with_visibility now fresh gid name vis creator (wd_db w) = (d, r)" by fastforce
  show ?case
  proof (cases r)
    case (Inl e)
    then show ?thesis by (simp add: dr orderly_rules)
  next
    case (Inr room)
    with dr have name: "rs_room_name room = name" using created_room_name by blast
    have "orderly strict (act (\<lambda>w. w\<lparr>wd_rooms := amap_put (rs_room_id room) room (wd_rooms w)\<rparr>) (k room)) (Some g)"
      by (rule creation.disciplined_change [where g' = "amap_put (rs_room_id room) room g"])
         (use free name in \<open>auto intro: room_map_ok_put k\<close>)
    with Inr dr show ?thesis by simp
  qed
qed (auto split: prod.split)

lemma orderly_create_room [orderly_rules]:
  "orderly strict (handle_create_room X key json_len dw gid sid creator name vis) None"
proof -
  have "orderly strict (ask (\<lambda>w. (length (wd_rooms w) \<ge> MAX_ROOMS,
        \<exists>room\<in>snd ` set (wd_rooms w). eq_ignore_ascii_case (rs_room_name room) name)) (\<lambda>(full, used).
      if full then reply_error sid ''room_limit'' ''this group has reached its room limit'' unlock_creation
      else if used then reply_error sid ''room_name_used'' ''a room with that name already exists'' unlock_creation
      else store_call (create_room_with_visibility (dw_now dw) (dw_room_id dw) gid name vis (Some creator)) (\<lambda>r.
        case r of
          Inl e \<Rightarrow> reply_error sid ''room_not_persisted'' ''the gateway could not create the room'' unlock_creation
        | Inr room \<Rightarrow>
            act (\<lambda>w. w\<lparr>wd_rooms := amap_put (rs_room_id room) room (wd_rooms w)\<rparr>)
              ((case vis of
                  Public_Room \<Rightarrow> broadcast (Room_Created room)
                | Private_Room \<Rightarrow> broadcast_private_room_created creator (Room_Created room))
               (join_room X key json_len gid sid room unlock_creation))))) (Some g)"
    if "strict \<longrightarrow> room_map_ok g" for g name
  proof (rule creation.disciplined_look, goal_cases)
    case (1 w)
    then show ?case
      using that by (auto intro!: orderly_reply_error orderly_unlock orderly_save_room orderly_announce orderly_join_room)
  qed
  then show ?thesis
    unfolding handle_create_room_def lock_creation_def
    by (intro orderly_branches orderly_send_error orderly_done creation.disciplined_lock)
qed

section \<open>All messages\<close>

lemma orderly_lists [orderly_rules]:
  "orderly strict (handle_list_join_requests gid sid) None"
  "orderly strict (handle_list_group_members gid sid offset) None"
  "orderly strict (handle_list_room_members gid sid actor rid offset) None"
  unfolding handle_list_join_requests_def handle_list_group_members_def handle_list_room_members_def
  by (intro orderly_rules)+

lemma orderly_handlers [orderly_rules]:
  "orderly strict (handle_set_room_member dw gid sid actor rid mid included) None"
  "orderly strict (handle_rotate_group_token X dw gid sid mid kind) None"
  "orderly strict (handle_room_chat X key dw gid peer rid message_id body) None"
  "orderly strict (handle_join_room X key json_len gid sid rid) None"
  "orderly strict (handle_load_history X key json_len gid sid rid before limit) None"
  "orderly strict (handle_leave_room sid rid) None"
  "orderly strict (handle_decide_join_request gid sid request_id approve) None"
  "orderly strict (handle_set_member_banned dw gid sid mid banned) None"
  unfolding handle_set_room_member_def handle_rotate_group_token_def handle_room_chat_def handle_join_room_def
    handle_load_history_def handle_leave_room_def handle_decide_join_request_def handle_set_member_banned_def Let_def
  by (intro orderly_rules orderly_clients)+

lemma orderly_dispatch: "orderly strict (dispatch X key json_len dw gid peer role message) None"
  by (cases message) (simp_all add: orderly_rules)

lemma orderly_session:
  "orderly strict (rate_limit_notice sid) None"
  "orderly strict (leave_group sid) None"
  "orderly strict (enter_group X key json_len writes summary sid entry) None"
proof -
  have forget: "orderly strict (act (forget_client sid) k) None" "orderly strict (act (close_queue sid) k) None"
    if "orderly strict k None" for k
    using that by (auto intro!: creation.disciplined_act simp: forget_client_def close_queue_def)
  show "orderly strict (rate_limit_notice sid) None" unfolding rate_limit_notice_def by (intro orderly_rules)
  show "orderly strict (leave_group sid) None" unfolding leave_group_def by (intro orderly_rules forget)
  show "orderly strict (enter_group X key json_len writes summary sid entry) None"
    unfolding enter_group_def Let_def
    by (rule creation.disciplined_call) (auto simp: add_client_def Let_def intro!: orderly_rules forget)
qed

section \<open>The gateway\<close>

definition orderly_gateway :: "bool \<Rightarrow> (uuid \<Rightarrow> world prog) \<times> world \<Rightarrow> bool" where
  "orderly_gateway strict s \<longleftrightarrow> creation.guarded_pool strict (fst s) (snd s) \<and> finite (busy (fst s))"

lemma orderly_spawn:
  "orderly_gateway strict (tasks, w) \<Longrightarrow> tasks sid = Done \<Longrightarrow> orderly strict p None \<Longrightarrow>
   orderly_gateway strict (tasks(sid := p), w)"
  by (simp add: orderly_gateway_def creation.guarded_pool_spawn del: fun_upd_apply)

lemma orderly_frame:
  "orderly_gateway strict (tasks, w) \<Longrightarrow> wd_creating v = wd_creating w \<and> wd_rooms v = wd_rooms w \<Longrightarrow>
   orderly_gateway strict (tasks, v)"
  unfolding orderly_gateway_def by (auto intro: creation.guarded_pool_frame)

lemma orderly_gateway_step: "gateway_step X key json_len s s' \<Longrightarrow> orderly_gateway strict s \<Longrightarrow> orderly_gateway strict s'"
proof (induction rule: gateway_step.induct)
  case (gw_work tasks w tasks' w')
  then show ?case
    using creation.guarded_pool_step pool_step_work by (fastforce simp: orderly_gateway_def)
next
  case (gw_message tasks sid w client dw message)
  then show ?case by (intro orderly_spawn orderly_dispatch)
next
  case (gw_rate_notice tasks sid w)
  then show ?case by (intro orderly_spawn orderly_session)
next
  case (gw_write sid w w' message tasks)
  then show ?case
    by (intro orderly_frame [of strict tasks w w']) (auto simp: take_outbound_def split: option.splits list.splits)
next
  case (gw_enter tasks sid w writes entry)
  then show ?case by (intro orderly_spawn orderly_session)
next
  case (gw_leave tasks sid w)
  then show ?case by (intro orderly_spawn orderly_session)
next
  case (gw_store w d tasks)
  then show ?case by (intro orderly_frame [of strict tasks w "w\<lparr>wd_db := d\<rparr>"]) simp_all
qed

lemma orderly_start:
  assumes "\<not> wd_creating w" "strict \<longrightarrow> room_map_ok (wd_rooms w)"
  shows "orderly_gateway strict (\<lambda>_. Done, w)"
proof -
  have "creation.inside strict None (\<lambda>_. Done) w" using assms by (simp add: creation.inside_def)
  then show ?thesis by (auto simp: orderly_gateway_def creation.guarded_pool_def busy_def)
qed

lemma orderly_run:
  assumes "(gateway_step X key json_len)\<^sup>*\<^sup>* s s'" "orderly_gateway strict s"
  shows "orderly_gateway strict s'"
  using assms by (induction rule: rtranclp_induct) (auto intro: orderly_gateway_step)


lemma run_steps:
  "run p w = Some v \<Longrightarrow> tasks sid = p \<Longrightarrow> (gateway_step X key json_len)\<^sup>*\<^sup>* (tasks, w) (tasks(sid := Done), v)"
proof (induction p arbitrary: tasks w)
  case Done
  then have "tasks(sid := Done) = tasks" "v = w" by auto
  then show ?case by simp
next
  case (Step f)
  then obtain u q where q: "f w = Some (u, q)" "run q u = Some v" by (cases "f w") auto
  have "Some (u, q) \<in> range f" using q(1) by (metis rangeI)
  then have "(gateway_step X key json_len)\<^sup>*\<^sup>* (tasks(sid := q), u) ((tasks(sid := q))(sid := Done), v)"
    by (rule Step.IH [of "Some (u, q)" "(u, q)" q]) (use q(2) in simp_all)
  moreover have "gateway_step X key json_len (tasks, w) (tasks(sid := q), u)"
    by (intro gw_work pool_step.intros) (simp add: Step.prems(2) q(1))
  ultimately show ?case by (simp add: converse_rtranclp_into_rtranclp del: fun_upd_apply)
qed




text \<open>
  C31. Room creations of one group are serialised: from a start with at most 64 rooms of different names,
  however many connections create rooms at the same time, the cache never holds more than 64 rooms nor
  two whose names differ only in the case of letters.
\<close>

theorem rooms_stay_limited:
  assumes "\<not> wd_creating start" "room_map_ok (wd_rooms start)"
    and "(gateway_step X key json_len)\<^sup>*\<^sup>* (\<lambda>_. Done, start) (tasks, w)"
  shows "length (wd_rooms w) \<le> 64 \<and>
    (\<forall>i < length (wd_rooms w). \<forall>j < length (wd_rooms w). i \<noteq> j \<longrightarrow>
      \<not> eq_ignore_ascii_case (rs_room_name (snd (wd_rooms w ! i))) (rs_room_name (snd (wd_rooms w ! j))))"
proof -
  have "orderly_gateway True (tasks, w)" by (rule orderly_run [OF assms(3)]) (simp add: assms orderly_start)
  then have "room_map_ok (wd_rooms w)"
    using creation.guarded_pool_inv [of True tasks w] by (simp only: orderly_gateway_def fst_conv snd_conv simp_thms)
  then show ?thesis by (auto simp: room_map_ok_def MAX_ROOMS_def distinct_conv_nth eq_ignore_ascii_case_def)
qed

text \<open>Session 90 creates the room \<open>dev\<close>.\<close>

definition sample_dev :: room_summary where
  "sample_dev = \<lparr>rs_room_id = str ''r2'', rs_room_name = str ''dev'', rs_visibility = Public_Room\<rparr>"

definition sample_creating :: "world prog" where
  "sample_creating = dispatch sample_externals [1] sample_len sample_draws 5 sample_peer Member
     (Create_Room (str ''dev'') Public_Room)"

definition sample_dev_store :: database where
  "sample_dev_store = fst (create_room_with_visibility 1003 (str ''r2'') 5 (str ''dev'') Public_Room (Some 11) sample_room)"

lemma sample_create_dev:
  "create_room_with_visibility 1003 (str ''r2'') 5 (str ''dev'') Public_Room (Some 11) sample_room = (sample_dev_store, Inr sample_dev)"
proof -
  have "snd (create_room_with_visibility 1003 (str ''r2'') 5 (str ''dev'') Public_Room (Some 11) sample_room) = Inr sample_dev"
    unfolding sample_room_eq sample_joined_eq sample_created_eq sample_dev_def by code_simp
  then show ?thesis by (simp add: sample_dev_store_def prod_eq_iff)
qed

lemma sample_dev_history: "history sample_externals [1] sample_dev_store 5 (str ''r2'') HISTORY_CAPACITY = Inr []"
proof -
  have "t_messages sample_dev_store = []"
    unfolding sample_dev_store_def sample_room_eq sample_joined_eq sample_created_eq by code_simp
  then show ?thesis by (simp add: history_def newest_rows_def)
qed

definition sample_created_room :: world where
  "sample_created_room = sample_entered\<lparr>wd_db := sample_dev_store,
     wd_rooms := [(str ''general'', sample_general), (str ''r1'', sample_ops), (str ''r2'', sample_dev)],
     wd_clients := [(90, sample_client {str ''r2'', str ''general''})],
     wd_queues := [(90, [Room_Created sample_dev, Room_Joined sample_dev []])]\<rparr>"

lemma sample_creates: "run sample_creating sample_entered = Some sample_created_room"
proof -
  have clean: "sanitize_room_name (str ''dev'') = Inr (str ''dev'')"
    by (simp add: sanitize_room_name_def sanitize_single_line_def str_def flatten_char_def is_forbidden_terminal_char_def
        is_control_def trim_def trim_start_def trim_end_def is_whitespace_def MAX_NICKNAME_CHARS_def)
  have name: "\<not> eq_ignore_ascii_case (str ''general'') (str ''dev'')" "\<not> eq_ignore_ascii_case (str ''ops'') (str ''dev'')"
    "str ''r2'' \<noteq> str ''general''" "str ''r2'' \<noteq> str ''r1''" by code_simp+
  have ids: "rs_room_id sample_dev = str ''r2''" "rs_room_name sample_general = str ''general''" "rs_room_name sample_ops = str ''ops''"
    "p_session_id sample_peer = 90" "p_member_id sample_peer = 11" "dw_now sample_draws = 1003" "dw_room_id sample_draws = str ''r2''"
    by (simp_all add: sample_dev_def sample_general_def sample_ops_def sample_peer_def sample_draws_def)
  have start: "sample_entered = sample_entered\<lparr>wd_rooms := [(str ''general'', sample_general), (str ''r1'', sample_ops)], wd_creating := False,
      wd_db := sample_room, wd_clients := [(90, sample_client {str ''general''})], wd_queues := [(90, [])]\<rparr>"
    by (simp add: sample_entered_def sample_start_eq)
  show ?thesis
    by (subst start, simp add: sample_creating_def handle_create_room_def clean name ids lock_creation_def unlock_creation_def
          MAX_ROOMS_def store_call_def sample_create_dev join_room_def store_query_def,
        simp add: broadcast_def broadcast_except_def broadcast_where_def clients_where_def sample_dev_history
          send_to_client_def offer_def amap_adjust_def CLIENT_QUEUE_CAPACITY_def fit_history_to_frame_def ids name,
        simp add: sample_created_room_def sample_client_def sample_entered_def sample_start_eq)
qed

theorem rooms_stay_limited_witness:
  "length (wd_rooms sample_created_room) \<le> 64 \<and> map fst (wd_rooms sample_created_room) = [str ''general'', str ''r1'', str ''r2'']"
proof -
  have free: "\<not> wd_creating sample_entered" and "room_map_ok (wd_rooms sample_entered)"
    by (simp_all add: sample_entered_def sample_start_eq sample_general_def sample_ops_def room_map_ok_def MAX_ROOMS_def
        str_def nocase_def ascii_lower_def)
  have "gateway_step sample_externals [1] sample_len (\<lambda>_. Done, sample_entered) ((\<lambda>_. Done)(90 := sample_creating), sample_entered)"
    using gw_message [of "\<lambda>_. Done" 90 sample_entered "sample_client {str ''general''}" sample_draws
        "Create_Room (str ''dev'') Public_Room" sample_externals "[1]" sample_len] sample_valid_draws
    by (simp add: sample_creating_def sample_client_def sample_entered_def sample_start_eq sample_summary_def)
  then have "(gateway_step sample_externals [1] sample_len)\<^sup>*\<^sup>* (\<lambda>_. Done, sample_entered)
      (((\<lambda>_. Done)(90 := sample_creating))(90 := Done), sample_created_room)"
    by (rule converse_rtranclp_into_rtranclp) (rule run_steps [OF sample_creates], simp)
  from rooms_stay_limited [OF free \<open>room_map_ok (wd_rooms sample_entered)\<close> this]
  show ?thesis by (simp add: sample_created_room_def)
qed

end
