(* ===== verification/Credentials.thy ===== *)
theory Credentials
  imports Security "HOL-Library.RBT"
begin

text \<open>
  The client's saved group tokens (\<open>src/credentials.rs\<close>): the records and their checks, opening and
  atomically replacing the file, and the choice of the data directory. The disk is explicit, with the
  modes of its files (the Unix configuration); any system call may fail. JSON is \<open>serde_json\<close>: the
  record \<open>credential_codec\<close> stands for it.
\<close>

section \<open>Records\<close>

definition CREDENTIAL_FILE_VERSION :: byte where "CREDENTIAL_FILE_VERSION = 1"
definition MAX_CREDENTIAL_FILE_BYTES :: nat where "MAX_CREDENTIAL_FILE_BYTES = 1024 * 1024"

record stored_group_credential =
  sc_gateway_id :: uuid
  sc_group_id :: uuid
  sc_join_token :: rstring
  sc_invite_token :: "rstring option"

record credential_file =
  cf_version :: byte
  cf_records :: "stored_group_credential list"

text \<open>The key of the map, ordered as the tuple of the source.\<close>

datatype group_key = Group_Key (gk_gateway: uuid) (gk_group: uuid)

instantiation group_key :: linorder
begin

definition less_eq_group_key :: "group_key \<Rightarrow> group_key \<Rightarrow> bool" where
  "less_eq_group_key a b \<longleftrightarrow> gk_gateway a < gk_gateway b \<or> gk_gateway a = gk_gateway b \<and> gk_group a \<le> gk_group b"

definition less_group_key :: "group_key \<Rightarrow> group_key \<Rightarrow> bool" where
  "less_group_key a b \<longleftrightarrow> gk_gateway a < gk_gateway b \<or> gk_gateway a = gk_gateway b \<and> gk_group a < gk_group b"

instance
  by standard (auto simp: less_eq_group_key_def less_group_key_def group_key.expand)

end

type_synonym credential_map = "(group_key, stored_group_credential) RBT.rbt"
type_synonym path = "rstring list"

record credential_store =
  cs_path :: path
  cs_records :: credential_map

definition validate_record :: "stored_group_credential \<Rightarrow> error + unit" where
  "validate_record r =
     (if \<not> is_valid_group_credential (sc_join_token r) \<or>
         (case sc_invite_token r of Some token \<Rightarrow> \<not> is_valid_group_credential token | None \<Rightarrow> False)
      then Inl (Bail (str ''client credential file contains an invalid token''))
      else Inr ())"

definition key_of :: "stored_group_credential \<Rightarrow> group_key" where
  "key_of r = Group_Key (sc_gateway_id r) (sc_group_id r)"

section \<open>The disk\<close>

text \<open>A link is known by whether it leads anywhere.\<close>

datatype node = Regular_File nat "byte list" | Directory nat | Symbolic_Link bool

type_synonym disk = "path \<Rightarrow> node option"

text \<open>The system calls that can fail.\<close>

datatype io_call = Create_Directory | Set_Directory_Mode | Inspect_File | Set_File_Mode | Read_File
  | Create_Temporary | Write_Temporary | Sync_Temporary | Rename_Temporary | Sync_Directory | Remove_Temporary

type_synonym io_action = "disk \<Rightarrow> disk \<times> (error + unit)"

definition io_try :: "bool \<Rightarrow> error \<Rightarrow> io_action \<Rightarrow> io_action" where
  "io_try failing e act d = (if failing then (d, Inl e) else act d)"

text \<open>Calls in sequence, up to the first that fails.\<close>

primrec run_calls :: "io_action list \<Rightarrow> io_action" where
  "run_calls [] d = (d, Inr ())"
| "run_calls (act # acts) d = (case act d of (d1, Inl e) \<Rightarrow> (d1, Inl e) | (d1, Inr _) \<Rightarrow> run_calls acts d1)"

definition path_exists :: "disk \<Rightarrow> path \<Rightarrow> bool" where
  "path_exists d p = (case d p of None \<Rightarrow> False | Some (Symbolic_Link leads) \<Rightarrow> leads | Some _ \<Rightarrow> True)"

definition set_mode :: "nat \<Rightarrow> path \<Rightarrow> io_action" where
  "set_mode mode p d =
     (case d p of
        Some (Regular_File _ content) \<Rightarrow> (d(p \<mapsto> Regular_File mode content), Inr ())
      | Some (Directory _) \<Rightarrow> (d(p \<mapsto> Directory mode), Inr ())
      | Some (Symbolic_Link True) \<Rightarrow> (d, Inr ())
      | _ \<Rightarrow> (d, Inl Io_Error))"

text \<open>
  \<open>create_dir_all\<close> on the parent directory, whose own ancestors are left aside; the modes are octal 755,
  700 and 600.
\<close>

definition NEW_DIRECTORY_MODE :: nat where "NEW_DIRECTORY_MODE = 7 * 64 + 5 * 8 + 5"
definition PRIVATE_DIRECTORY_MODE :: nat where "PRIVATE_DIRECTORY_MODE = 7 * 64"
definition PRIVATE_FILE_MODE :: nat where "PRIVATE_FILE_MODE = 6 * 64"

fun show_path :: "path \<Rightarrow> rstring" where
  "show_path [] = []"
| "show_path [c] = c"
| "show_path (c # cs) = c @ [47] @ show_path cs"

definition directory_error :: "path \<Rightarrow> error" where
  "directory_error p = Bail (str ''failed to create client data directory '' @ show_path p)"

definition make_directory :: "path \<Rightarrow> io_action" where
  "make_directory p d =
     (case d p of
        None \<Rightarrow> (d(p \<mapsto> Directory NEW_DIRECTORY_MODE), Inr ())
      | Some (Directory _) \<Rightarrow> (d, Inr ())
      | Some (Symbolic_Link True) \<Rightarrow> (d, Inr ())
      | _ \<Rightarrow> (d, Inl (directory_error p)))"

definition create_private_directory :: "(io_call \<Rightarrow> bool) \<Rightarrow> path \<Rightarrow> io_action" where
  "create_private_directory fails p =
     run_calls
       [io_try (fails Create_Directory) (directory_error p) (make_directory p),
        io_try (fails Set_Directory_Mode) Io_Error (set_mode PRIVATE_DIRECTORY_MODE p)]"

definition set_private_path_permissions :: "(io_call \<Rightarrow> bool) \<Rightarrow> path \<Rightarrow> io_action" where
  "set_private_path_permissions fails p = io_try (fails Set_File_Mode) Io_Error (set_mode PRIVATE_FILE_MODE p)"

text \<open>\<open>Path::parent\<close> on the components of a path.\<close>

definition parent_of :: "path \<Rightarrow> path option" where
  "parent_of p = (if p = [] then None else Some (butlast p))"

section \<open>Opening\<close>

text \<open>The JSON encoder, which can fail, and the decoder.\<close>

record credential_codec =
  cc_encode :: "credential_file \<Rightarrow> byte list option"
  cc_decode :: "byte list \<Rightarrow> credential_file option"

fun load_records :: "stored_group_credential list \<Rightarrow> credential_map \<Rightarrow> error + credential_map" where
  "load_records [] records = Inr records"
| "load_records (r # rest) records =
     and_then (validate_record r) (\<lambda>_.
       if RBT.lookup records (key_of r) \<noteq> None
       then Inl (Bail (str ''client credential file contains a duplicate group''))
       else load_records rest (RBT.insert (key_of r) r records))"

definition read_credentials :: "credential_codec \<Rightarrow> byte list \<Rightarrow> error + credential_map" where
  "read_credentials C encoded =
     (case cc_decode C encoded of
        None \<Rightarrow> Inl (Bail (str ''client credential file is invalid''))
      | Some file \<Rightarrow>
          if cf_version file \<noteq> CREDENTIAL_FILE_VERSION
          then Inl (Bail (str ''client credential file has an unsupported version''))
          else load_records (cf_records file) RBT.empty)"

definition open_existing ::
  "(io_call \<Rightarrow> bool) \<Rightarrow> credential_codec \<Rightarrow> path \<Rightarrow> disk \<Rightarrow> disk \<times> (error + credential_map)" where
  "open_existing fails C p d =
     (if fails Inspect_File then (d, Inl (Bail (str ''failed to inspect client credentials'')))
      else case d p of
        Some (Regular_File mode content) \<Rightarrow>
          if length content > MAX_CREDENTIAL_FILE_BYTES
          then (d, Inl (Bail (str ''client credential file is unexpectedly large'')))
          else (case set_private_path_permissions fails p d of
              (d1, Inl e) \<Rightarrow> (d1, Inl e)
            | (d1, Inr _) \<Rightarrow>
                if fails Read_File then (d1, Inl (Bail (str ''failed to read client credentials'')))
                else (d1, read_credentials C content))
      | _ \<Rightarrow> (d, Inl (Bail (str ''client credential path must be a regular file, not a link''))))"

definition open_at ::
  "(io_call \<Rightarrow> bool) \<Rightarrow> credential_codec \<Rightarrow> path \<Rightarrow> disk \<Rightarrow> disk \<times> (error + credential_store)" where
  "open_at fails C p d =
     (case parent_of p of
        None \<Rightarrow> (d, Inl (Bail (str ''client credential path has no parent directory'')))
      | Some parent \<Rightarrow>
          (case create_private_directory fails parent d of
             (d1, Inl e) \<Rightarrow> (d1, Inl e)
           | (d1, Inr _) \<Rightarrow>
               (let (d2, records) = (if path_exists d1 p then open_existing fails C p d1 else (d1, Inr RBT.empty))
                in (d2, and_then records (\<lambda>rs. Inr \<lparr>cs_path = p, cs_records = rs\<rparr>)))))"

section \<open>Reading the store\<close>

definition credential_get :: "credential_store \<Rightarrow> uuid \<Rightarrow> uuid \<Rightarrow> stored_group_credential option" where
  "credential_get store gw gid = RBT.lookup (cs_records store) (Group_Key gw gid)"

definition credential_contains :: "credential_store \<Rightarrow> uuid \<Rightarrow> uuid \<Rightarrow> bool" where
  "credential_contains store gw gid \<longleftrightarrow> RBT.lookup (cs_records store) (Group_Key gw gid) \<noteq> None"

definition known_groups :: "credential_store \<Rightarrow> (uuid \<times> uuid) list" where
  "known_groups store = map (\<lambda>k. (gk_gateway k, gk_group k)) (RBT.keys (cs_records store))"

definition credential_records :: "credential_store \<Rightarrow> stored_group_credential list" where
  "credential_records store = map snd (RBT.entries (cs_records store))"

section \<open>Saving\<close>

definition create_temporary :: "path \<Rightarrow> io_action" where
  "create_temporary p d =
     (case d p of
        None \<Rightarrow> (d(p \<mapsto> Regular_File PRIVATE_FILE_MODE []), Inr ())
      | Some _ \<Rightarrow> (d, Inl (Bail (str ''failed to create temporary client credential file''))))"

text \<open>A failing write leaves the first \<open>written\<close> bytes behind.\<close>

definition write_temporary :: "bool \<Rightarrow> nat \<Rightarrow> path \<Rightarrow> byte list \<Rightarrow> io_action" where
  "write_temporary failing written p encoded d =
     (case d p of
        Some (Regular_File mode _) \<Rightarrow>
          if failing then (d(p \<mapsto> Regular_File mode (take written encoded)), Inl Io_Error)
          else (d(p \<mapsto> Regular_File mode encoded), Inr ())
      | _ \<Rightarrow> (d, Inl Io_Error))"

definition rename_to :: "path \<Rightarrow> path \<Rightarrow> io_action" where
  "rename_to source target d =
     (case (d source, d target) of
        (None, _) \<Rightarrow> (d, Inl (Bail (str ''failed to replace client credential file'')))
      | (_, Some (Directory _)) \<Rightarrow> (d, Inl (Bail (str ''failed to replace client credential file'')))
      | (Some moved, _) \<Rightarrow> (d(source := None, target \<mapsto> moved), Inr ()))"

definition save_calls :: "(io_call \<Rightarrow> bool) \<Rightarrow> nat \<Rightarrow> path \<Rightarrow> path \<Rightarrow> byte list \<Rightarrow> io_action list" where
  "save_calls fails written temporary p encoded =
     [io_try (fails Create_Temporary) (Bail (str ''failed to create temporary client credential file''))
        (create_temporary temporary),
      write_temporary (fails Write_Temporary) written temporary encoded,
      io_try (fails Sync_Temporary) Io_Error (\<lambda>d. (d, Inr ())),
      io_try (fails Rename_Temporary) (Bail (str ''failed to replace client credential file'')) (rename_to temporary p),
      set_private_path_permissions fails p,
      io_try (fails Sync_Directory) Io_Error (\<lambda>d. (d, Inr ()))]"

text \<open>\<open>unique\<close> is the simple form of the fresh UUID.\<close>

definition temporary_name :: "rstring \<Rightarrow> rstring" where
  "temporary_name unique = str ''.credentials-'' @ unique @ str ''.tmp''"

definition file_of :: "credential_store \<Rightarrow> credential_file" where
  "file_of store = \<lparr>cf_version = CREDENTIAL_FILE_VERSION, cf_records = credential_records store\<rparr>"

definition save :: "(io_call \<Rightarrow> bool) \<Rightarrow> nat \<Rightarrow> rstring \<Rightarrow> credential_codec \<Rightarrow> credential_store \<Rightarrow> io_action" where
  "save fails written unique C store d =
     (case parent_of (cs_path store) of
        None \<Rightarrow> (d, Inl (Bail (str ''client credential path has no parent directory'')))
      | Some parent \<Rightarrow>
          (case create_private_directory fails parent d of
             (d1, Inl e) \<Rightarrow> (d1, Inl e)
           | (d1, Inr _) \<Rightarrow>
               (case cc_encode C (file_of store) of
                  None \<Rightarrow> (d1, Inl Io_Error)
                | Some encoded \<Rightarrow>
                    (let temporary = parent @ [temporary_name unique]
                     in case run_calls (save_calls fails written temporary (cs_path store) encoded) d1 of
                          (d2, Inl e) \<Rightarrow> (if fails Remove_Temporary then d2 else d2(temporary := None), Inl e)
                        | (d2, Inr _) \<Rightarrow> (d2, Inr ())))))"

text \<open>The answer is the store in memory, the disk and the result of saving.\<close>

definition credential_set ::
  "(io_call \<Rightarrow> bool) \<Rightarrow> nat \<Rightarrow> rstring \<Rightarrow> credential_codec \<Rightarrow> uuid \<Rightarrow> uuid \<Rightarrow> rstring \<Rightarrow> rstring option \<Rightarrow>
   credential_store \<Rightarrow> disk \<Rightarrow> credential_store \<times> disk \<times> (error + unit)" where
  "credential_set fails written unique C gw gid join invite store d =
     (let r = \<lparr>sc_gateway_id = gw, sc_group_id = gid, sc_join_token = join, sc_invite_token = invite\<rparr>
      in case validate_record r of
           Inl e \<Rightarrow> (store, d, Inl e)
         | Inr _ \<Rightarrow>
             (let store' = store\<lparr>cs_records := RBT.insert (Group_Key gw gid) r (cs_records store)\<rparr>
              in (store', save fails written unique C store' d)))"

definition credential_remove ::
  "(io_call \<Rightarrow> bool) \<Rightarrow> nat \<Rightarrow> rstring \<Rightarrow> credential_codec \<Rightarrow> uuid \<Rightarrow> uuid \<Rightarrow>
   credential_store \<Rightarrow> disk \<Rightarrow> credential_store \<times> disk \<times> (error + bool)" where
  "credential_remove fails written unique C gw gid store d =
     (let removed = (RBT.lookup (cs_records store) (Group_Key gw gid) \<noteq> None);
          store' = store\<lparr>cs_records := RBT.delete (Group_Key gw gid) (cs_records store)\<rparr>
      in if removed
         then (let (d1, r) = save fails written unique C store' d in (store', d1, and_then r (\<lambda>_. Inr True)))
         else (store', d, Inr False))"

section \<open>The data directory\<close>

text \<open>The environment as text; an empty variable counts as unset. A directory is a variable and what is joined to it.\<close>

definition env_path :: "(rstring \<Rightarrow> rstring option) \<Rightarrow> rstring \<Rightarrow> path option" where
  "env_path env name = (case env name of Some value \<Rightarrow> if value = [] then None else Some [value] | None \<Rightarrow> None)"

definition default_client_data_directory_for :: "bool \<Rightarrow> (rstring \<Rightarrow> rstring option) \<Rightarrow> error + path" where
  "default_client_data_directory_for windows env =
     (let var = (\<lambda>name. env_path env (str name)); app = str ''lan-chat'';
          none = Inl (Bail (str ''cannot locate a client data directory; set LAN_CHAT_CLIENT_DATA_DIR, or configure the platform user data directory''))
      in case var ''LAN_CHAT_CLIENT_DATA_DIR'' of
           Some p \<Rightarrow> Inr p
         | None \<Rightarrow>
             if windows
             then (case var ''LOCALAPPDATA'' of
                 Some p \<Rightarrow> Inr (p @ [app])
               | None \<Rightarrow> (case var ''APPDATA'' of
                   Some p \<Rightarrow> Inr (p @ [app])
                 | None \<Rightarrow> (case var ''USERPROFILE'' of
                     Some p \<Rightarrow> Inr (p @ [str ''AppData'', str ''Local'', app])
                   | None \<Rightarrow> none)))
             else (case var ''XDG_DATA_HOME'' of
                 Some p \<Rightarrow> Inr (p @ [app])
               | None \<Rightarrow> (case var ''HOME'' of
                   Some p \<Rightarrow> Inr (p @ [str ''.local'', str ''share'', app])
                 | None \<Rightarrow> none)))"

definition open_default ::
  "(io_call \<Rightarrow> bool) \<Rightarrow> credential_codec \<Rightarrow> bool \<Rightarrow> (rstring \<Rightarrow> rstring option) \<Rightarrow> disk \<Rightarrow> disk \<times> (error + credential_store)" where
  "open_default fails C windows env d =
     (case default_client_data_directory_for windows env of
        Inl e \<Rightarrow> (d, Inl e)
      | Inr directory \<Rightarrow> open_at fails C (directory @ [str ''credentials.json'']) d)"

end
