(* ===== verification/Credentials_Theorems.thy ===== *)
theory Credentials_Theorems
  imports Credentials
begin

text \<open>
  What the saved group tokens guarantee: records stay well formed and filed under their own group, a
  save replaces the file in one step whatever fails, and what was saved is read back.
\<close>

section \<open>Well-formed stores\<close>

definition records_ok :: "credential_map \<Rightarrow> bool" where
  "records_ok m \<longleftrightarrow> (\<forall>k r. RBT.lookup m k = Some r \<longrightarrow> key_of r = k \<and> validate_record r = Inr ())"

lemma records_ok_simps [simp]:
  "records_ok RBT.empty"
  "records_ok m \<Longrightarrow> validate_record r = Inr () \<Longrightarrow> records_ok (RBT.insert (key_of r) r m)"
  "records_ok m \<Longrightarrow> records_ok (RBT.delete k m)"
  by (auto simp: records_ok_def)

lemma load_records_ok: "load_records rs m = Inr m' \<Longrightarrow> records_ok m \<Longrightarrow> records_ok m'"
  by (induction rs m rule: load_records.induct) (auto simp: and_then_Inr split: if_splits)

lemma open_at_records:
  assumes "open_at fails C p d = (d', Inr store)"
  shows "records_ok (cs_records store) \<and> cs_path store = p"
proof -
  have "records_ok rs" if "open_existing fails C p e = (e', Inr rs)" for e e' rs
    using that by (auto simp: open_existing_def read_credentials_def load_records_ok
        split: if_splits option.splits node.splits prod.splits sum.splits)
  with assms show ?thesis
    by (auto simp: open_at_def Let_def and_then_Inr split: option.splits prod.splits sum.splits if_splits)
qed

text \<open>A store as the program comes by it.\<close>

inductive store_held :: "credential_codec \<Rightarrow> credential_store \<Rightarrow> bool" for C where
  held_open: "open_at fails C p d = (d', Inr store) \<Longrightarrow> store_held C store"
| held_set: "store_held C store \<Longrightarrow>
    store_held C (fst (credential_set fails written unique C gw gid join invite store d))"
| held_remove: "store_held C store \<Longrightarrow>
    store_held C (fst (credential_remove fails written unique C gw gid store d))"

lemma set_records_ok:
  "records_ok (cs_records store) \<Longrightarrow>
   records_ok (cs_records (fst (credential_set fails written unique C gw gid join invite store d)))"
proof -
  let ?r = "\<lparr>sc_gateway_id = gw, sc_group_id = gid, sc_join_token = join, sc_invite_token = invite\<rparr>"
  assume ok: "records_ok (cs_records store)"
  have "Group_Key gw gid = key_of ?r" by (simp add: key_of_def)
  with ok have "validate_record ?r = Inr () \<Longrightarrow> records_ok (RBT.insert (Group_Key gw gid) ?r (cs_records store))"
    by (simp only: records_ok_simps)
  with ok show ?thesis by (cases "validate_record ?r") (simp_all add: credential_set_def Let_def)
qed

lemma held_records_ok: "store_held C store \<Longrightarrow> records_ok (cs_records store)"
  by (induction rule: store_held.induct) (auto simp: open_at_records set_records_ok credential_remove_def Let_def split: prod.splits)

text \<open>
  Whatever the file contained, every record of the store is filed under the gateway and group it
  names, with a well-formed join token and, when it has one, a well-formed invite token.
\<close>

theorem credentials_well_formed:
  assumes "store_held C store" "credential_get store gw gid = Some r"
  shows "sc_gateway_id r = gw \<and> sc_group_id r = gid \<and> is_valid_group_credential (sc_join_token r) \<and>
    (case sc_invite_token r of Some token \<Rightarrow> is_valid_group_credential token | None \<Rightarrow> True)"
proof -
  have "records_ok (cs_records store)" using assms(1) by (rule held_records_ok)
  with assms(2) have "key_of r = Group_Key gw gid" "validate_record r = Inr ()"
    by (auto simp: records_ok_def credential_get_def)
  then show ?thesis by (auto simp: key_of_def validate_record_def split: if_splits option.splits)
qed

section \<open>Saving\<close>

lemma run_calls_append:
  "run_calls (xs @ ys) d = (case run_calls xs d of (d1, Inl e) \<Rightarrow> (d1, Inl e) | (d1, Inr _) \<Rightarrow> run_calls ys d1)"
  by (induction xs arbitrary: d) (auto split: prod.splits sum.splits)

text \<open>
  The states of the disk a save passes through: the temporary file grows, then takes the place of the
  old file; \<open>replaced\<close> says whether it has.
\<close>

definition saving :: "disk \<Rightarrow> path \<Rightarrow> path \<Rightarrow> byte list \<Rightarrow> bool \<Rightarrow> disk \<Rightarrow> bool" where
  "saving d temporary p encoded replaced e \<longleftrightarrow>
     (\<forall>q. q \<noteq> p \<and> q \<noteq> temporary \<longrightarrow> e q = d q) \<and>
     (if replaced then e p = Some (Regular_File PRIVATE_FILE_MODE encoded) \<and> e temporary = None
      else e p = d p \<and> (e temporary = d temporary \<or>
        (\<exists>n. d temporary = None \<and> e temporary = Some (Regular_File PRIVATE_FILE_MODE (take n encoded)))))"

text \<open>The calls one by one, from the state that the earlier ones leave.\<close>

abbreviation with_temporary :: "disk \<Rightarrow> path \<Rightarrow> byte list \<Rightarrow> disk" where
  "with_temporary d temporary content \<equiv> d(temporary \<mapsto> Regular_File PRIVATE_FILE_MODE content)"

abbreviation with_replaced :: "disk \<Rightarrow> path \<Rightarrow> path \<Rightarrow> byte list \<Rightarrow> disk" where
  "with_replaced d temporary p content \<equiv> d(temporary := None, p \<mapsto> Regular_File PRIVATE_FILE_MODE content)"

definition stages :: "path \<Rightarrow> path \<Rightarrow> byte list \<Rightarrow> disk \<Rightarrow> disk list" where
  "stages temporary p encoded d =
     [d, with_temporary d temporary [], with_temporary d temporary encoded, with_temporary d temporary encoded,
      with_replaced d temporary p encoded, with_replaced d temporary p encoded, with_replaced d temporary p encoded]"

lemma saving_stages:
  assumes "p \<noteq> temporary" "d temporary = None"
  shows "\<exists>replaced. saving d temporary p encoded replaced (with_temporary d temporary (take n encoded))"
    "\<exists>replaced. saving d temporary p encoded replaced (with_replaced d temporary p encoded)"
    "\<exists>replaced. saving d temporary p encoded replaced (with_temporary d temporary [])"
    "\<exists>replaced. saving d temporary p encoded replaced (with_temporary d temporary encoded)"
proof -
  have "saving d temporary p encoded False (with_temporary d temporary (take n encoded))" for n
    using assms by (auto simp: saving_def)
  from this [of n] this [of 0] this [of "length encoded"]
  show "\<exists>replaced. saving d temporary p encoded replaced (with_temporary d temporary (take n encoded))"
    "\<exists>replaced. saving d temporary p encoded replaced (with_temporary d temporary [])"
    "\<exists>replaced. saving d temporary p encoded replaced (with_temporary d temporary encoded)" by auto
  have "saving d temporary p encoded True (with_replaced d temporary p encoded)"
    using assms by (auto simp: saving_def)
  then show "\<exists>replaced. saving d temporary p encoded replaced (with_replaced d temporary p encoded)" by blast
qed

lemma saving_start: "\<exists>replaced. saving d temporary p encoded replaced d"
  by (intro exI [of _ False]) (simp add: saving_def)

lemmas save_actions = save_calls_def stages_def io_try_def set_private_path_permissions_def

lemma save_call_step:
  assumes "p \<noteq> temporary" "n < 6" "d temporary = None \<or> n = 0"
    and call: "(save_calls fails written temporary p encoded ! n) (stages temporary p encoded d ! n) = (e, r)"
  shows "(\<exists>replaced. saving d temporary p encoded replaced e) \<and>
    (r = Inr () \<longrightarrow> d temporary = None \<and> e = stages temporary p encoded d ! Suc n)"
proof -
  consider "n = 0" | "n = 1" | "n = 2" | "n = 3" | "n = 4" | "n = 5" using assms(2) by linarith
  then show ?thesis
  proof cases
    case 1
    with call have "e = d \<and> isl r \<or> d temporary = None \<and> e = with_temporary d temporary []"
      by (auto simp: save_actions create_temporary_def split: if_splits option.splits)
    with 1 assms(1) show ?thesis using saving_stages(3) [OF assms(1)] saving_start by (auto simp: stages_def)
  next
    case 2
    with call assms(3) have "e = with_temporary d temporary (take written encoded) \<and> isl r \<or> e = with_temporary d temporary encoded"
      by (auto simp: save_actions write_temporary_def split: if_splits)
    with 2 assms(3) show ?thesis using saving_stages(1,4) [OF assms(1)] by (auto simp: stages_def)
  next
    case 3
    with call have "e = with_temporary d temporary encoded" by (auto simp: save_actions split: if_splits)
    with 3 assms(3) show ?thesis using saving_stages(4) [OF assms(1)] by (auto simp: stages_def)
  next
    case 4
    with call have "e = with_temporary d temporary encoded \<and> isl r \<or> e = with_replaced d temporary p encoded"
      using assms(1) by (auto simp: save_actions rename_to_def split: if_splits option.splits node.splits)
    with 4 assms(3) show ?thesis using saving_stages(2,4) [OF assms(1)] by (auto simp: stages_def)
  next
    case 5
    with call have "e = with_replaced d temporary p encoded" by (auto simp: save_actions set_mode_def split: if_splits)
    with 5 assms(3) show ?thesis using saving_stages(2) [OF assms(1)] by (auto simp: stages_def)
  next
    case 6
    with call have "e = with_replaced d temporary p encoded" by (auto simp: save_actions split: if_splits)
    with 6 assms(3) show ?thesis using saving_stages(2) [OF assms(1)] by (auto simp: stages_def)
  qed
qed

lemma save_calls_saving:
  assumes "p \<noteq> temporary" "n \<le> 6" "run_calls (take n (save_calls fails written temporary p encoded)) d = (e, r)"
  shows "(\<exists>replaced. saving d temporary p encoded replaced e) \<and>
    (r = Inr () \<longrightarrow> (d temporary = None \<or> n = 0) \<and> e = stages temporary p encoded d ! n)"
  using assms(2,3)
proof (induction n arbitrary: e r)
  case 0
  then have "e = d" by simp
  then show ?case using saving_start by (auto simp: stages_def)
next
  case (Suc n)
  let ?calls = "save_calls fails written temporary p encoded"
  have len: "length ?calls = 6" by (simp add: save_calls_def)
  obtain d1 r1 where first: "run_calls (take n ?calls) d = (d1, r1)" by fastforce
  with Suc have ih: "(\<exists>replaced. saving d temporary p encoded replaced d1) \<and>
      (r1 = Inr () \<longrightarrow> (d temporary = None \<or> n = 0) \<and> d1 = stages temporary p encoded d ! n)" by simp
  have whole: "run_calls (take (Suc n) ?calls) d =
      (case run_calls (take n ?calls) d of (d1, Inl e) \<Rightarrow> (d1, Inl e) | (d1, Inr _) \<Rightarrow> run_calls [?calls ! n] d1)"
    using Suc.prems(1) len by (simp add: take_Suc_conv_app_nth run_calls_append)
  show ?case
  proof (cases r1)
    case (Inl x)
    with whole first Suc.prems(2) ih show ?thesis by simp
  next
    case (Inr u)
    with ih have st: "d temporary = None \<or> n = 0" "d1 = stages temporary p encoded d ! n" by simp_all
    obtain d2 r2 where step: "(?calls ! n) d1 = (d2, r2)" by fastforce
    with whole first Inr Suc.prems(2) have "e = d2" "r = r2" by (auto split: sum.splits)
    then show ?thesis
      using save_call_step [of p temporary n d fails written encoded e r] assms(1) Suc.prems(1) step st by auto
  qed
qed

lemma save_calls_end:
  "take 6 (save_calls fails written temporary p encoded) = save_calls fails written temporary p encoded"
  by (simp add: save_calls_def)

text \<open>
  C32. Saving replaces the file in one step: if the machine stops after any number of the calls, or any
  of them fails, the credential file is either still the old one or the complete new one, with access
  for its owner only; nothing else on the disk changes but the temporary file, which holds a part of
  the new content and is private as well.
\<close>

theorem saving_is_atomic:
  assumes "temporary = parent @ [temporary_name unique]" "p = parent @ [str ''credentials.json'']" "n \<le> 6"
    and "run_calls (take n (save_calls fails written temporary p encoded)) d = (e, r)"
  shows "(e p = d p \<or> e p = Some (Regular_File (6 * 64) encoded)) \<and>
    (e temporary = d temporary \<or> e temporary = None \<or> (\<exists>k. e temporary = Some (Regular_File (6 * 64) (take k encoded)))) \<and>
    (\<forall>q. q = p \<or> q = temporary \<or> e q = d q) \<and>
    (n = 6 \<and> r = Inr () \<longrightarrow> e p = Some (Regular_File (6 * 64) encoded) \<and> e temporary = None)"
proof -
  have "p \<noteq> temporary" using assms(1,2) by (simp add: temporary_name_def str_def)
  note s = save_calls_saving [OF this assms(3,4)]
  have "stages temporary p encoded d ! 6 = with_replaced d temporary p encoded"
    by (simp add: stages_def)
  with s \<open>p \<noteq> temporary\<close> show ?thesis by (auto simp: saving_def PRIVATE_FILE_MODE_def split: if_splits)
qed

section \<open>Reading back\<close>

lemma load_records_all:
  assumes "list_all (\<lambda>r. validate_record r = Inr ()) rs" "distinct (map key_of rs)" "\<forall>k\<in>key_of ` set rs. RBT.lookup m k = None"
  shows "\<exists>m'. load_records rs m = Inr m' \<and> RBT.lookup m' = RBT.lookup m ++ map_of (map (\<lambda>r. (key_of r, r)) rs)"
  using assms
proof (induction rs arbitrary: m)
  case (Cons r rs)
  let ?m = "RBT.insert (key_of r) r m"
  have "\<forall>k\<in>key_of ` set rs. RBT.lookup ?m k = None"
    using Cons.prems(2,3) by (simp del: image_iff) (metis image_eqI)
  with Cons.IH [of ?m] Cons.prems(1,2) obtain m' where m': "load_records rs ?m = Inr m'"
      "RBT.lookup m' = RBT.lookup ?m ++ map_of (map (\<lambda>r. (key_of r, r)) rs)"
    by (auto simp del: lookup_insert)
  moreover have "map_of (map (\<lambda>r. (key_of r, r)) rs) (key_of r) = None"
    using Cons.prems(2) by (auto simp: map_of_eq_None_iff comp_def)
  ultimately show ?case
    using Cons.prems by (auto simp: fun_eq_iff map_add_def split: option.splits)
qed simp

lemma stored_records:
  assumes "records_ok m"
  shows "list_all (\<lambda>r. validate_record r = Inr ()) (map snd (RBT.entries m))" "distinct (map key_of (map snd (RBT.entries m)))"
    "map_of (map (\<lambda>r. (key_of r, r)) (map snd (RBT.entries m))) = RBT.lookup m"
proof -
  have e: "key_of r = k \<and> validate_record r = Inr ()" if "(k, r) \<in> set (RBT.entries m)" for k r
    using assms that by (auto simp: records_ok_def lookup_in_tree)
  then show "list_all (\<lambda>r. validate_record r = Inr ()) (map snd (RBT.entries m))"
    by (auto simp: list_all_iff)
  have "map key_of (map snd (RBT.entries m)) = map fst (RBT.entries m)"
    using e by auto
  then show "distinct (map key_of (map snd (RBT.entries m)))" by (simp only: RBT.distinct_entries)
  have "map (\<lambda>r. (key_of r, r)) (map snd (RBT.entries m)) = RBT.entries m"
    using e by (auto intro!: map_idI)
  then show "map_of (map (\<lambda>r. (key_of r, r)) (map snd (RBT.entries m))) = RBT.lookup m" by simp
qed

text \<open>The decoder of \<open>serde_json\<close> reads what its encoder wrote.\<close>

definition codec_reads_back :: "credential_codec \<Rightarrow> bool" where
  "codec_reads_back C \<longleftrightarrow> (\<forall>file encoded. cc_encode C file = Some encoded \<longrightarrow> cc_decode C encoded = Some file)"

lemma read_saved:
  assumes "records_ok (cs_records store)" "codec_reads_back C" "cc_encode C (file_of store) = Some encoded"
  shows "\<exists>m. read_credentials C encoded = Inr m \<and> RBT.lookup m = RBT.lookup (cs_records store)"
proof -
  let ?rs = "credential_records store"
  have "\<exists>m. load_records ?rs RBT.empty = Inr m \<and> RBT.lookup m = RBT.lookup RBT.empty ++ map_of (map (\<lambda>r. (key_of r, r)) ?rs)"
    unfolding credential_records_def
    by (rule load_records_all) (use stored_records(1,2) [OF assms(1)] in simp_all)
  then show ?thesis
    using assms stored_records(3) [OF assms(1)]
    by (auto simp: read_credentials_def codec_reads_back_def file_of_def credential_records_def)
qed

lemma private_directory_made:
  assumes "create_private_directory fails p d = (e, Inr ())"
  shows "e p = Some (Directory PRIVATE_DIRECTORY_MODE) \<or> e p = Some (Symbolic_Link True)"
  using assms
  by (auto simp: create_private_directory_def io_try_def make_directory_def set_mode_def
      split: if_splits option.splits node.splits bool.splits)

lemma private_directory_again:
  assumes "d p = Some (Directory m) \<or> d p = Some (Symbolic_Link True)"
  shows "\<exists>e. create_private_directory (\<lambda>_. False) p d = (e, Inr ()) \<and> (\<forall>q. q \<noteq> p \<longrightarrow> e q = d q)"
  using assms by (auto simp: create_private_directory_def io_try_def make_directory_def set_mode_def)

lemma save_succeeds:
  assumes "save fails written unique C store d = (e, Inr ())" "cs_path store = parent @ [name]"
    "cc_encode C (file_of store) = Some encoded"
  obtains d1 where "create_private_directory fails parent d = (d1, Inr ())"
    "run_calls (save_calls fails written (parent @ [temporary_name unique]) (cs_path store) encoded) d1 = (e, Inr ())"
  using assms by (auto simp: save_def parent_of_def Let_def split: prod.splits sum.splits)

text \<open>What the next opening finds.\<close>

lemma saved_is_found:
  assumes "codec_reads_back C" "store_held C store" "cs_path store = parent @ [str ''credentials.json'']"
    and "cc_encode C (file_of store) = Some encoded" "save fails written unique C store d = (e, Inr ())"
  obtains e' m where "create_private_directory (\<lambda>_. False) parent e = (e', Inr ())"
    "e' (cs_path store) = Some (Regular_File PRIVATE_FILE_MODE encoded)" "parent_of (cs_path store) = Some parent"
    "read_credentials C encoded = Inr m" "RBT.lookup m = RBT.lookup (cs_records store)"
proof -
  let ?p = "cs_path store" and ?tmp = "parent @ [temporary_name unique]"
  have paths: "?p \<noteq> ?tmp" "parent \<noteq> ?p" "parent \<noteq> ?tmp" "parent_of ?p = Some parent"
    using assms(3) by (auto simp: temporary_name_def str_def parent_of_def)
  obtain d1 where d1: "create_private_directory fails parent d = (d1, Inr ())"
      "run_calls (save_calls fails written ?tmp ?p encoded) d1 = (e, Inr ())"
    using save_succeeds [OF assms(5,3,4)] .
  then have "e = with_replaced d1 ?tmp ?p encoded"
    using save_calls_saving [OF paths(1), of 6 fails written encoded d1 e "Inr ()"] by (simp add: save_calls_end) (simp add: stages_def)
  then have e: "e ?p = Some (Regular_File PRIVATE_FILE_MODE encoded)" "e parent = d1 parent" using paths by auto
  with private_directory_made [OF d1(1)] obtain e1 where
    e1: "create_private_directory (\<lambda>_. False) parent e = (e1, Inr ())" "e1 ?p = e ?p"
    using private_directory_again [of e parent PRIVATE_DIRECTORY_MODE] paths(2) by metis
  have ok: "records_ok (cs_records store)" using assms(2) by (rule held_records_ok)
  obtain m where "read_credentials C encoded = Inr m" "RBT.lookup m = RBT.lookup (cs_records store)"
    using read_saved [OF ok assms(1,4)] by blast
  with that e(1) e1 paths(4) show thesis by metis
qed

lemmas opening_defs = open_at_def path_exists_def open_existing_def set_private_path_permissions_def io_try_def set_mode_def
  MAX_CREDENTIAL_FILE_BYTES_def credential_get_def

lemma saved_reopens:
  assumes "codec_reads_back C" "store_held C store" "cs_path store = parent @ [str ''credentials.json'']"
    and "cc_encode C (file_of store) = Some encoded" "save fails written unique C store d = (e, Inr ())" "length encoded \<le> 1048576"
  shows "\<exists>e' store'. open_at (\<lambda>_. False) C (cs_path store) e = (e', Inr store') \<and> cs_path store' = cs_path store \<and>
    (\<forall>gw gid. credential_get store' gw gid = credential_get store gw gid)"
  by (rule saved_is_found [OF assms(1-5)]) (use assms(6) in \<open>auto simp: opening_defs\<close>)

text \<open>
  What was saved is read back at the next start: the same records, as long as the file is at most
  1 MiB long. A longer file is written without complaint and then refused by every later start.
\<close>

theorem saved_credentials_reopen:
  assumes "codec_reads_back C" "store_held C store" "cs_path store = parent @ [str ''credentials.json'']"
    and "cc_encode C (file_of store) = Some encoded" "save fails written unique C store d = (e, Inr ())"
  shows "(length encoded \<le> 1048576 \<longrightarrow> (\<exists>e' store'. open_at (\<lambda>_. False) C (cs_path store) e = (e', Inr store') \<and>
        (\<forall>gw gid. credential_get store' gw gid = credential_get store gw gid))) \<and>
    (length encoded > 1048576 \<longrightarrow> snd (open_at (\<lambda>_. False) C (cs_path store) e) =
        Inl (Bail (str ''client credential file is unexpectedly large'')))"
proof -
  obtain e' m where "create_private_directory (\<lambda>_. False) parent e = (e', Inr ())"
    "e' (cs_path store) = Some (Regular_File PRIVATE_FILE_MODE encoded)" "parent_of (cs_path store) = Some parent"
    using saved_is_found [OF assms] .
  then have "length encoded > 1048576 \<longrightarrow> snd (open_at (\<lambda>_. False) C (cs_path store) e) =
      Inl (Bail (str ''client credential file is unexpectedly large''))"
    by (auto simp: opening_defs)
  with saved_reopens [OF assms] show ?thesis by blast
qed

text \<open>
  The store as a map, on every branch: a valid record is found afterwards under its group and changes no
  other, an invalid one changes nothing; a removed group is gone, and removing an unknown one does not
  touch the disk. When saving fails the answer is the error, yet memory already has the change.
\<close>

theorem credential_operations:
  assumes "r = \<lparr>sc_gateway_id = gw, sc_group_id = gid, sc_join_token = join, sc_invite_token = invite\<rparr>"
    and "credential_set fails written unique C gw gid join invite store d = (stored, d1, result)"
    and "credential_remove fails written unique C gw gid store d = (removed, d2, outcome)"
  shows "(if validate_record r = Inr ()
      then (\<forall>g h. credential_get stored g h = (if g = gw \<and> h = gid then Some r else credential_get store g h)) \<and>
        (d1, result) = save fails written unique C stored d
      else stored = store \<and> d1 = d \<and> result = Inl (Bail (str ''client credential file contains an invalid token''))) \<and>
    (\<forall>g h. credential_get removed g h = (if g = gw \<and> h = gid then None else credential_get store g h)) \<and>
    (if credential_contains store gw gid then outcome = and_then (snd (save fails written unique C removed d)) (\<lambda>_. Inr True)
     else d2 = d \<and> outcome = Inr False) \<and>
    set (known_groups store) = {(g, h). credential_contains store g h} \<and> distinct (known_groups store)"
proof -
  have set: "if validate_record r = Inr ()
      then (\<forall>g h. credential_get stored g h = (if g = gw \<and> h = gid then Some r else credential_get store g h)) \<and>
        (d1, result) = save fails written unique C stored d
      else stored = store \<and> d1 = d \<and> result = Inl (Bail (str ''client credential file contains an invalid token''))"
    using assms(1,2) by (auto simp: credential_set_def Let_def validate_record_def credential_get_def split: if_splits option.splits)
  have remove: "(\<forall>g h. credential_get removed g h = (if g = gw \<and> h = gid then None else credential_get store g h)) \<and>
    (if credential_contains store gw gid then outcome = and_then (snd (save fails written unique C removed d)) (\<lambda>_. Inr True)
     else d2 = d \<and> outcome = Inr False)"
    using assms(3)
    by (auto simp: credential_remove_def Let_def credential_get_def credential_contains_def restrict_map_def split: if_splits prod.splits)
  have "set (known_groups store) = {(g, h). credential_contains store g h}"
    by (auto simp: known_groups_def credential_contains_def lookup_keys [symmetric] image_iff) (metis domI group_key.sel)+
  moreover have "distinct (known_groups store)"
    by (auto simp: known_groups_def distinct_map inj_on_def group_key.expand)
  ultimately show ?thesis using set remove by blast
qed

section \<open>A sample\<close>

text \<open>One token is stored on an empty disk; the codec knows the one file it is used on.\<close>

definition sample_credential :: stored_group_credential where
  "sample_credential = \<lparr>sc_gateway_id = 1, sc_group_id = 5, sc_join_token = str ''lc_m'', sc_invite_token = None\<rparr>"

definition sample_file :: credential_file where
  "sample_file = \<lparr>cf_version = 1, cf_records = [sample_credential]\<rparr>"

definition sample_codec :: credential_codec where
  "sample_codec = \<lparr>cc_encode = (\<lambda>f. if f = sample_file then Some [7, 7] else None),
     cc_decode = (\<lambda>b. if b = [7, 7] then Some sample_file else None)\<rparr>"

definition sample_path :: path where
  "sample_path = [str ''data'', str ''credentials.json'']"

definition empty_store :: credential_store where
  "empty_store = \<lparr>cs_path = sample_path, cs_records = RBT.empty\<rparr>"

definition sample_credentials :: credential_store where
  "sample_credentials = \<lparr>cs_path = sample_path, cs_records = RBT.insert (Group_Key 1 5) sample_credential RBT.empty\<rparr>"

lemma sample_opens: "\<exists>d. open_at (\<lambda>_. False) sample_codec sample_path Map.empty = (d, Inr empty_store)"
proof -
  have "str ''credentials.json'' \<noteq> str ''data''" by (simp add: str_def)
  then show ?thesis
    by (simp add: open_at_def sample_path_def parent_of_def create_private_directory_def io_try_def make_directory_def
        set_mode_def path_exists_def empty_store_def)
qed

lemma sample_valid: "is_valid_group_credential (str ''lc_m'')"
  by (simp add: is_valid_group_credential_ascii str_def byte_len_def len_utf8_def MAX_GROUP_CREDENTIAL_BYTES_def
      credential_byte_def is_ascii_alphanumeric_def is_ascii_digit_def)

lemma sample_held: "store_held sample_codec sample_credentials"
proof -
  obtain d where "open_at (\<lambda>_. False) sample_codec sample_path Map.empty = (d, Inr empty_store)" using sample_opens ..
  then have "store_held sample_codec (fst (credential_set (\<lambda>_. False) 0 [] sample_codec 1 5 (str ''lc_m'') None empty_store d))"
    by (rule held_set [OF held_open])
  moreover have "fst (credential_set (\<lambda>_. False) 0 [] sample_codec 1 5 (str ''lc_m'') None empty_store d) = sample_credentials"
    by (simp add: credential_set_def Let_def validate_record_def sample_valid empty_store_def sample_credentials_def sample_credential_def)
  ultimately show ?thesis by simp
qed

theorem credentials_well_formed_witness: "is_valid_group_credential (str ''lc_m'')"
proof -
  have "credential_get sample_credentials 1 5 = Some sample_credential"
    by (simp add: credential_get_def sample_credentials_def)
  from credentials_well_formed [OF sample_held this] show ?thesis by (simp add: sample_credential_def)
qed

theorem saving_is_atomic_witness:
  "fst (run_calls (take 4 (save_calls (\<lambda>_. False) 0 (sample_path @ [temporary_name []]) (sample_path @ [str ''credentials.json'']) [7])) Map.empty)
     (sample_path @ [str ''credentials.json'']) \<in> {None, Some (Regular_File (6 * 64) [7])}"
proof -
  let ?finish = "run_calls (take 4 (save_calls (\<lambda>_. False) 0 (sample_path @ [temporary_name []]) (sample_path @ [str ''credentials.json'']) [7])) Map.empty"
  from saving_is_atomic [of _ sample_path "[]" _ 4 "\<lambda>_. False" 0 "[7]" Map.empty "fst ?finish" "snd ?finish"]
  show ?thesis by simp
qed

lemma sample_file_of: "file_of sample_credentials = sample_file"
proof -
  have "credential_records sample_credentials = [sample_credential]"
    unfolding credential_records_def sample_credentials_def sample_credential_def by code_simp
  then show ?thesis by (simp add: file_of_def sample_file_def CREDENTIAL_FILE_VERSION_def)
qed

lemma sample_save: "\<exists>e. save (\<lambda>_. False) 0 [] sample_codec sample_credentials Map.empty = (e, Inr ())"
proof -
  have paths: "cs_path sample_credentials = sample_path" "parent_of sample_path = Some [str ''data'']"
    "sample_path \<noteq> [str ''data'']" "[str ''data'', temporary_name []] \<noteq> [str ''data'']" "sample_path \<noteq> [str ''data'', temporary_name []]"
    by (simp_all add: sample_credentials_def sample_path_def parent_of_def temporary_name_def str_def)
  then show ?thesis
    by (simp add: save_def sample_file_of sample_codec_def create_private_directory_def io_try_def make_directory_def
        set_mode_def save_calls_def create_temporary_def write_temporary_def rename_to_def set_private_path_permissions_def)
qed

theorem saved_credentials_reopen_witness:
  "\<exists>e e' store'. save (\<lambda>_. False) 0 [] sample_codec sample_credentials Map.empty = (e, Inr ()) \<and>
     open_at (\<lambda>_. False) sample_codec sample_path e = (e', Inr store') \<and> credential_get store' 1 5 = Some sample_credential"
proof -
  obtain e where e: "save (\<lambda>_. False) 0 [] sample_codec sample_credentials Map.empty = (e, Inr ())"
    using sample_save ..
  have "codec_reads_back sample_codec" by (simp add: codec_reads_back_def sample_codec_def)
  moreover have "cs_path sample_credentials = [str ''data''] @ [str ''credentials.json'']"
    by (simp add: sample_credentials_def sample_path_def)
  moreover have "cc_encode sample_codec (file_of sample_credentials) = Some [7, 7]"
    by (simp add: sample_codec_def sample_file_of)
  ultimately have "\<exists>e' store'. open_at (\<lambda>_. False) sample_codec (cs_path sample_credentials) e = (e', Inr store') \<and>
      (\<forall>gw gid. credential_get store' gw gid = credential_get sample_credentials gw gid)"
    using saved_credentials_reopen [OF _ sample_held _ _ e] by simp
  then obtain e' store' where "open_at (\<lambda>_. False) sample_codec sample_path e = (e', Inr store')"
      "credential_get store' 1 5 = credential_get sample_credentials 1 5"
    by (auto simp: sample_credentials_def)
  with e show ?thesis by (auto simp: credential_get_def sample_credentials_def)
qed

end
