(* ===== verification/Identity.thy ===== *)
theory Identity
  imports Security
begin

text \<open>
  Random nicknames (\<open>src/identity.rs\<close>): the two tables of words, as code points, and the choice of a
  pair from four random bytes. A nickname has the form of a modifier, the character U+7684 and a
  subject.
\<close>

definition MODIFIERS :: "rstring list" where
  "MODIFIERS = [
    [0x5B89, 0x9759], [0x71AC, 0x591C], [0x8FF7, 0x8DEF], [0x53D1, 0x5446],
    [0x6F02, 0x6D6E], [0x9690, 0x8EAB], [0x6162, 0x70ED], [0x8D70, 0x795E],
    [0x6E05, 0x9192], [0x56F0, 0x5026], [0x5F00, 0x5FC3], [0x8C28, 0x614E],
    [0x52C7, 0x6562], [0x6E29, 0x67D4], [0x56FA, 0x6267], [0x597D, 0x5947],
    [0x795E, 0x79D8], [0x81EA, 0x7531], [0x5B64, 0x72EC], [0x6175, 0x61D2],
    [0x95EA, 0x5149], [0x900F, 0x660E], [0x892A, 0x8272], [0x65AD, 0x7EBF],
    [0x79BB, 0x7EBF], [0x6EE1, 0x7535], [0x4F4E, 0x8C03], [0x5931, 0x7720],
    [0x8D2A, 0x5403], [0x7231, 0x7B11], [0x6015, 0x51B7], [0x8FFD, 0x98CE],
    [0x770B, 0x4E91], [0x542C, 0x96E8], [0x6570, 0x661F, 0x661F], [0x559D, 0x5496, 0x5561],
    [0x6652, 0x592A, 0x9633], [0x7B49, 0x65E5, 0x843D], [0x7A7F, 0x96E8, 0x8863], [0x6234, 0x8033, 0x673A],
    [0x85CF, 0x79D8, 0x5BC6], [0x5199, 0x4EE3, 0x7801], [0x6361, 0x8D1D, 0x58F3], [0x79CD, 0x8611, 0x83C7],
    [0x6536, 0x96C6, 0x6708, 0x5149], [0x5BFB, 0x627E, 0x4FE1, 0x53F7], [0x5FD8, 0x8BB0, 0x5BC6, 0x7801], [0x62D2, 0x7EDD, 0x52A0, 0x73ED],
    [0x5076, 0x5C14, 0x4E0A, 0x7EBF], [0x6B63, 0x5728, 0x7F13, 0x51B2], [0x4FDD, 0x6301, 0x6C89, 0x9ED8], [0x8DEF, 0x8FC7, 0x8FD9, 0x91CC],
    [0x6765, 0x81EA, 0x672A, 0x6765], [0x6CA1, 0x6709, 0x540D, 0x5B57], [0x4E0D, 0x4F1A, 0x6E38, 0x6CF3], [0x4E0D, 0x5403, 0x9999, 0x83DC],
    [0x60F3, 0x8981, 0x653E, 0x5047], [0x5077, 0x5077, 0x6478, 0x9C7C], [0x8BA4, 0x771F, 0x6F5C, 0x6C34], [0x539F, 0x5730, 0x5F85, 0x673A],
    [0x9006, 0x98CE, 0x98DE, 0x884C], [0x7F13, 0x6162, 0x52A0, 0x8F7D], [0x4FDD, 0x6301, 0x533F, 0x540D], [0x7B49, 0x5F85, 0x56DE, 0x590D]]"

definition SUBJECTS :: "rstring list" where
  "SUBJECTS = [
    [0x6D77, 0x736D], [0x4F01, 0x9E45], [0x6C34, 0x6BCD], [0x9CB8, 0x9C7C],
    [0x6D77, 0x8C79], [0x6CB3, 0x8C5A], [0x7AE0, 0x9C7C], [0x6D77, 0x661F],
    [0x4FE1, 0x5929, 0x7FC1], [0x732B, 0x5934, 0x9E70], [0x72D0, 0x72F8], [0x6D63, 0x718A],
    [0x677E, 0x9F20], [0x523A, 0x732C], [0x5154, 0x5B50], [0x9ED1, 0x732B],
    [0x67F4, 0x72AC], [0x7F8A, 0x9A7C], [0x6811, 0x61D2], [0x718A, 0x732B],
    [0x58C1, 0x864E], [0x8717, 0x725B], [0x8424, 0x706B, 0x866B], [0x8774, 0x8776],
    [0x98DE, 0x86FE], [0x4E4C, 0x9E26], [0x9EBB, 0x96C0], [0x767D, 0x9E6D],
    [0x9E66, 0x9E49], [0x4ED9, 0x4EBA, 0x638C], [0x8611, 0x83C7], [0x84B2, 0x516C, 0x82F1],
    [0x5C0F, 0x884C, 0x661F], [0x6708, 0x4EAE], [0x4E91, 0x6735], [0x96E8, 0x6EF4],
    [0x96EA, 0x82B1], [0x5F71, 0x5B50], [0x56DE, 0x58F0], [0x50CF, 0x7D20],
    [0x5149, 0x6807], [0x7EC8, 0x7AEF], [0x8DEF, 0x7531, 0x5668], [0x6536, 0x97F3, 0x673A],
    [0x65E7, 0x7535, 0x89C6], [0x673A, 0x5668, 0x4EBA], [0x5B87, 0x822A, 0x5458], [0x6F5C, 0x6C34, 0x5458],
    [0x90AE, 0x5DEE], [0x5B88, 0x591C, 0x4EBA], [0x89C2, 0x5BDF, 0x5458], [0x65C5, 0x884C, 0x8005],
    [0x964C, 0x751F, 0x4EBA], [0x9B54, 0x672F, 0x5E08], [0x70BC, 0x91D1, 0x672F, 0x58EB], [0x7A0B, 0x5E8F, 0x5458],
    [0x4FE1, 0x53F7, 0x5854], [0x9ED1, 0x80F6, 0x5531, 0x7247], [0x7EB8, 0x98DE, 0x673A], [0x81EA, 0x52A8, 0x552E, 0x8D27, 0x673A],
    [0x6545, 0x969C, 0x706F], [0x7A7A, 0x6587, 0x4EF6, 0x5939], [0x533F, 0x540D, 0x7528, 0x6237], [0x5C40, 0x57DF, 0x7F51, 0x5E7D, 0x7075]]"

definition u16_from_le_bytes :: "byte \<Rightarrow> byte \<Rightarrow> u16" where
  "u16_from_le_bytes b0 b1 = ucast b0 + 256 * ucast b1"

text \<open>The argument has four bytes.\<close>

definition nickname_from_entropy :: "byte list \<Rightarrow> rstring" where
  "nickname_from_entropy entropy =
     (let modifier = unat (u16_from_le_bytes (entropy ! 0) (entropy ! 1));
          subject = unat (u16_from_le_bytes (entropy ! 2) (entropy ! 3))
      in MODIFIERS ! (modifier mod length MODIFIERS) @ [0x7684] @ SUBJECTS ! (subject mod length SUBJECTS))"

text \<open>The entropy is absent when \<open>getrandom\<close> fails.\<close>

definition random_nickname :: "byte list option \<Rightarrow> error + rstring" where
  "random_nickname entropy =
     (case entropy of
        None \<Rightarrow> Inl (Bail (str ''failed to generate a random nickname''))
      | Some bytes \<Rightarrow> Inr (nickname_from_entropy bytes))"

section \<open>What is drawn\<close>

definition ideograph :: "rchar \<Rightarrow> bool" where
  "ideograph c \<longleftrightarrow> 0x4E00 \<le> c \<and> c \<le> 0x9FFF"

definition word_ok :: "rstring \<Rightarrow> bool" where
  "word_ok w \<longleftrightarrow> 2 \<le> length w \<and> length w \<le> 5 \<and> list_all (\<lambda>c. ideograph c \<and> c \<noteq> 0x7684) w"

lemma tables:
  "length MODIFIERS = 64" "length SUBJECTS = 64" "list_all word_ok MODIFIERS" "list_all word_ok SUBJECTS"
  "distinct MODIFIERS" "distinct SUBJECTS"
  by (simp_all add: MODIFIERS_def SUBJECTS_def word_ok_def ideograph_def)

lemma ideograph_plain:
  assumes "ideograph c"
  shows "\<not> is_control c" "\<not> is_whitespace c"
  using assms by (auto simp: ideograph_def is_control_def is_whitespace_def)

lemma ideographs_accepted:
  assumes "list_all ideograph w" "w \<noteq> []" "length w \<le> MAX_NICKNAME_CHARS"
  shows "sanitize_nickname w = Inr w"
proof -
  have "ideograph (hd w)" "ideograph (last w)" using assms(1,2) by (auto simp: list_all_iff)
  then have "trimmed w" using ideograph_plain by (auto simp: trimmed_def)
  with assms show ?thesis
    unfolding sanitize_nickname_def by (intro sanitize_single_line_clean) (auto simp: list_all_iff ideograph_plain)
qed

lemma nickname_words:
  obtains m s where "m \<in> set MODIFIERS" "s \<in> set SUBJECTS" "nickname_from_entropy entropy = m @ [0x7684] @ s"
proof
  show "MODIFIERS ! (unat (u16_from_le_bytes (entropy ! 0) (entropy ! 1)) mod length MODIFIERS) \<in> set MODIFIERS"
    "SUBJECTS ! (unat (u16_from_le_bytes (entropy ! 2) (entropy ! 3)) mod length SUBJECTS) \<in> set SUBJECTS"
    by (simp_all add: tables(1,2))
qed (simp add: nickname_from_entropy_def Let_def)

lemma split_at_unique: "x \<notin> set a \<Longrightarrow> x \<notin> set b \<Longrightarrow> a @ [x] @ s = b @ [x] @ t \<Longrightarrow> a = b \<and> s = t"
proof (induction a arbitrary: b)
  case Nil
  then show ?case by (cases b) auto
next
  case (Cons y a)
  then show ?case by (cases b) auto
qed

lemma word_bytes: "i < 64 \<Longrightarrow> unat (u16_from_le_bytes (of_nat i) 0) = i"
proof -
  assume i: "i < 64"
  then have "unat (of_nat i :: byte) = i" by (simp add: unat_of_nat)
  then have "unat (ucast (of_nat i :: byte) :: u16) = i"
    using i by (simp add: unsigned_ucast_eq take_bit_eq_mod)
  then show ?thesis by (simp add: u16_from_le_bytes_def)
qed

lemma all_nicknames:
  "nickname_from_entropy ` {e. length e = 4} = (\<lambda>(m, s). m @ [0x7684] @ s) ` (set MODIFIERS \<times> set SUBJECTS)"
  (is "?drawn = ?all")
proof
  show "?drawn \<subseteq> ?all"
  proof
    fix name assume "name \<in> ?drawn"
    then obtain e where "name = nickname_from_entropy e" by blast
    moreover obtain m s where "m \<in> set MODIFIERS" "s \<in> set SUBJECTS" "nickname_from_entropy e = m @ [0x7684] @ s"
      by (rule nickname_words)
    ultimately show "name \<in> ?all" by (intro image_eqI [of _ _ "(m, s)"]) simp_all
  qed
  show "?all \<subseteq> ?drawn"
  proof
    fix name assume "name \<in> ?all"
    then obtain i j where ij: "i < 64" "j < 64" "name = MODIFIERS ! i @ [0x7684] @ SUBJECTS ! j"
      by (auto simp: in_set_conv_nth tables(1,2))
    then have "name = nickname_from_entropy [of_nat i, 0, of_nat j, 0]"
      by (simp add: nickname_from_entropy_def word_bytes tables(1,2))
    then show "name \<in> ?drawn"
      by (intro image_eqI [of _ _ "[of_nat i, 0, of_nat j, 0]"]) (simp_all only: mem_Collect_eq list.size)
  qed
qed

text \<open>
  Every drawn nickname is accepted unchanged by the check of nicknames and has at most 11
  characters, and exactly 4096 different ones can be drawn, every pair of words among them.
\<close>

theorem drawn_nicknames:
  "(\<forall>entropy. sanitize_nickname (nickname_from_entropy entropy) = Inr (nickname_from_entropy entropy) \<and>
      length (nickname_from_entropy entropy) \<le> 11) \<and>
   card (nickname_from_entropy ` {entropy. length entropy = 4}) = 4096"
proof (intro conjI allI)
  fix entropy
  obtain m s where ms: "m \<in> set MODIFIERS" "s \<in> set SUBJECTS" "nickname_from_entropy entropy = m @ [0x7684] @ s"
    by (rule nickname_words)
  with tables(3,4) have "word_ok m" "word_ok s" by (auto simp: list_all_iff)
  then have "list_all ideograph (m @ [0x7684] @ s)" "length (m @ [0x7684] @ s) \<le> 11"
    by (auto simp: word_ok_def list_all_iff ideograph_def)
  then show "sanitize_nickname (nickname_from_entropy entropy) = Inr (nickname_from_entropy entropy)"
      "length (nickname_from_entropy entropy) \<le> 11"
    unfolding ms(3) by (auto intro!: ideographs_accepted simp: MAX_NICKNAME_CHARS_def)
next
  have "0x7684 \<notin> set m" if "m \<in> set MODIFIERS" for m using that tables(3) by (auto simp: list_all_iff word_ok_def)
  then have "inj_on (\<lambda>(m, s). m @ [0x7684] @ s) (set MODIFIERS \<times> set SUBJECTS)"
    unfolding inj_on_def using split_at_unique [of "0x7684 :: rchar"] by (clarsimp simp del: append_Cons) metis
  then show "card (nickname_from_entropy ` {entropy. length entropy = 4}) = 4096"
    by (simp add: all_nicknames card_image card_cartesian_product distinct_card tables)
qed

end
