(* ===== verification/Terminal_Input.thy ===== *)
theory Terminal_Input
  imports Security Protocol
begin

text \<open>
  Keys and text editing shared by the two screens of \<open>src/tui.rs\<close>. Status lines are Chinese sentences in
  the source; \<open>notice\<close> gives each an English name, with the number or text that \<open>format!\<close> puts in. Where
  the source would panic, a function answers \<open>None\<close>.
\<close>

datatype key_code =
    Key_Esc | Key_Enter | Key_Backspace | Key_Tab | Key_BackTab | Key_Up | Key_Down
  | Key_PageUp | Key_PageDown | Key_End | Key_Delete | Key_Function nat | Key_Char rchar | Key_Other

record key_event =
  ke_code :: key_code
  ke_control :: bool

text \<open>\<open>Char\<close> patterns with their alternatives.\<close>

definition pressed :: "key_code \<Rightarrow> string \<Rightarrow> bool" where
  "pressed code chars = (case code of Key_Char c \<Rightarrow> c \<in> set (str chars) | _ \<Rightarrow> False)"

lemma pressed_simps [simp]:
  "pressed (Key_Char c) chars \<longleftrightarrow> c \<in> set (str chars)"
  "\<not> pressed Key_Esc chars" "\<not> pressed Key_Enter chars" "\<not> pressed Key_Backspace chars" "\<not> pressed Key_Tab chars"
  "\<not> pressed Key_BackTab chars" "\<not> pressed Key_Up chars" "\<not> pressed Key_Down chars" "\<not> pressed Key_PageUp chars"
  "\<not> pressed Key_PageDown chars" "\<not> pressed Key_End chars" "\<not> pressed Key_Delete chars"
  "\<not> pressed (Key_Function n) chars" "\<not> pressed Key_Other chars"
  by (simp_all add: pressed_def)

text \<open>\<open>String::pop\<close>.\<close>

definition pop_char :: "rstring \<Rightarrow> rstring" where
  "pop_char s = butlast s"

text \<open>The guard of typed characters, with the limit of the field in bytes.\<close>

definition typed :: "key_event \<Rightarrow> rstring \<Rightarrow> nat \<Rightarrow> rstring option" where
  "typed key value limit =
     (case ke_code key of
        Key_Char c \<Rightarrow>
          if \<not> ke_control key \<and> \<not> is_control c \<and> byte_len value + len_utf8 c \<le> limit then Some (value @ [c]) else None
      | _ \<Rightarrow> None)"

text \<open>\<open>value.extend(pasted.chars().take(limit.saturating_sub(value.len())))\<close>: bytes left, characters taken.\<close>

definition extend_pasted :: "rstring \<Rightarrow> rstring \<Rightarrow> nat \<Rightarrow> rstring" where
  "extend_pasted value pasted limit = value @ take (limit - byte_len value) pasted"

text \<open>Cursor movements in a list of \<open>n\<close> entries.\<close>

definition cursor_up :: "nat \<Rightarrow> nat" where
  "cursor_up selected = selected - 1"

definition cursor_down :: "nat \<Rightarrow> nat \<Rightarrow> nat" where
  "cursor_down n selected = min (selected + 1) (n - 1)"

text \<open>Indexing, which panics outside the list.\<close>

definition entry_at :: "'a list \<Rightarrow> nat \<Rightarrow> 'a option" where
  "entry_at xs i = (if i < length xs then Some (xs ! i) else None)"

lemma entry_at_None [simp]: "entry_at xs i = None \<longleftrightarrow> length xs \<le> i"
  by (auto simp: entry_at_def)

lemma entry_at_Some [simp]: "entry_at xs i = Some x \<longleftrightarrow> i < length xs \<and> x = xs ! i"
  by (auto simp: entry_at_def)

lemma cursor_bounds [simp]:
  "i \<le> n - Suc 0 \<Longrightarrow> cursor_up i \<le> n - Suc 0" "cursor_down n i \<le> n - Suc 0"
  "i < m \<Longrightarrow> cursor_up i < m" "0 < n \<Longrightarrow> cursor_down n i < n" "cursor_up 0 = 0" "cursor_down 0 i = 0"
  by (auto simp: cursor_up_def cursor_down_def)

text \<open>\<open>trim_last_word\<close>: the white space at the end, then the word before it.\<close>

definition trim_last_word :: "rstring \<Rightarrow> rstring" where
  "trim_last_word s = rev (dropWhile (\<lambda>c. \<not> is_whitespace c) (dropWhile is_whitespace (rev s)))"

definition MAX_UI_ITEMS :: nat where "MAX_UI_ITEMS = 1000"

definition push_bounded :: "'a list \<Rightarrow> 'a \<Rightarrow> 'a list" where
  "push_bounded items x = (if length items = MAX_UI_ITEMS then tl items else items) @ [x]"

datatype notice =
    Line string
  | Counting string nat
  | Naming string rstring
  | Error_Line rstring rstring
  | Given_Text rstring

end
