(* ===== verification/Discovery.thy ===== *)
theory Discovery
  imports Security Protocol
begin

text \<open>
  Discovery of gateways on the LAN (\<open>discover\<close> of \<open>src/discovery.rs\<close>): which datagrams are accepted as
  beacons, and the list shown to the user. JSON decoding is \<open>serde_json\<close>: the parameter \<open>decode\<close>. The
  sockets and the deadline are the network's: the datagrams received before the deadline are the input.
\<close>

definition MAX_BEACON_SIZE :: nat where "MAX_BEACON_SIZE = 2048"

record discovered_gateway =
  dg_gateway_id :: uuid
  dg_gateway_name :: rstring
  dg_endpoint :: socket_addr
  dg_server_fingerprint :: rstring
  dg_protocol_min :: u16
  dg_protocol_max :: u16

type_synonym found_map = "((uuid \<times> ip_addr \<times> u16) \<times> discovered_gateway) list"

text \<open>The reception of a datagram, its source address first, or a failure of the socket.\<close>

datatype reception = Datagram ip_addr "byte list" | Reception_Failed

text \<open>\<open>recv_from\<close> cuts a datagram to the size of the buffer.\<close>

definition received_bytes :: "byte list \<Rightarrow> byte list" where
  "received_bytes bytes = take MAX_BEACON_SIZE bytes"

definition beacon_acceptable :: "discovery_beacon \<Rightarrow> bool" where
  "beacon_acceptable beacon \<longleftrightarrow>
     \<not> (beacon_app beacon \<noteq> str ''lan-chat-gateway'' \<or> beacon_port beacon = 0 \<or>
        beacon_protocol_min beacon > PROTOCOL_MAX \<or> beacon_protocol_max beacon < PROTOCOL_MIN \<or>
        \<not> is_valid_fingerprint (beacon_server_fingerprint beacon))"

definition accept_datagram ::
  "(byte list \<Rightarrow> discovery_beacon option) \<Rightarrow> ip_addr \<Rightarrow> byte list \<Rightarrow> discovered_gateway option" where
  "accept_datagram decode source bytes =
     (let buffer = received_bytes bytes
      in if length buffer = 0 \<or> length buffer = MAX_BEACON_SIZE then None
         else case decode buffer of
           None \<Rightarrow> None
         | Some beacon \<Rightarrow>
             if \<not> beacon_acceptable beacon then None
             else case sanitize_group_name (beacon_gateway_name beacon) of
               Inl e \<Rightarrow> None
             | Inr name \<Rightarrow> Some
                 \<lparr>dg_gateway_id = beacon_gateway_id beacon, dg_gateway_name = name,
                  dg_endpoint = \<lparr>sa_ip = source, sa_port = beacon_port beacon\<rparr>,
                  dg_server_fingerprint = beacon_server_fingerprint beacon,
                  dg_protocol_min = beacon_protocol_min beacon, dg_protocol_max = beacon_protocol_max beacon\<rparr>)"

definition gateway_key :: "discovered_gateway \<Rightarrow> uuid \<times> ip_addr \<times> u16" where
  "gateway_key g = (dg_gateway_id g, sa_ip (dg_endpoint g), sa_port (dg_endpoint g))"

text \<open>The loop, which a failing socket ends like the deadline.\<close>

fun discover_loop ::
  "(byte list \<Rightarrow> discovery_beacon option) \<Rightarrow> reception list \<Rightarrow> found_map \<Rightarrow> found_map" where
  "discover_loop decode [] found = found"
| "discover_loop decode (Reception_Failed # rest) found = found"
| "discover_loop decode (Datagram source bytes # rest) found =
     (case accept_datagram decode source bytes of
        None \<Rightarrow> discover_loop decode rest found
      | Some g \<Rightarrow> discover_loop decode rest (amap_put (gateway_key g) g found))"

text \<open>The map's own order, which is unspecified, shows in the order of gateways of one name only.\<close>

definition discover :: "(byte list \<Rightarrow> discovery_beacon option) \<Rightarrow> reception list \<Rightarrow> discovered_gateway list" where
  "discover decode receptions = sort_key dg_gateway_name (map snd (discover_loop decode receptions []))"

section \<open>What is shown\<close>

fun before_failure :: "reception list \<Rightarrow> (ip_addr \<times> byte list) list" where
  "before_failure [] = []"
| "before_failure (Reception_Failed # rest) = []"
| "before_failure (Datagram source bytes # rest) = (source, bytes) # before_failure rest"

text \<open>The beacons accepted in a session, in their order.\<close>

definition accepted :: "(byte list \<Rightarrow> discovery_beacon option) \<Rightarrow> reception list \<Rightarrow> discovered_gateway list" where
  "accepted decode receptions =
     List.map_filter (\<lambda>(source, bytes). accept_datagram decode source bytes) (before_failure receptions)"

lemma discover_loop_accepted:
  "discover_loop decode receptions found = fold (\<lambda>g. amap_put (gateway_key g) g) (accepted decode receptions) found"
  by (induction decode receptions found rule: discover_loop.induct)
    (auto simp: accepted_def List.map_filter_simps split: option.splits)

lemma fold_put:
  fixes gs :: "discovered_gateway list"
  defines "m \<equiv> fold (\<lambda>g. amap_put (gateway_key g) g) gs []"
  shows "distinct (map fst m)"
    and "map_of m k = Some g \<longleftrightarrow> gateway_key g = k \<and> (\<exists>xs ys. gs = xs @ g # ys \<and> k \<notin> gateway_key ` set ys)"
proof -
  have "distinct (map fst m) \<and> (\<forall>k g. map_of m k = Some g \<longleftrightarrow>
      gateway_key g = k \<and> (\<exists>xs ys. gs = xs @ g # ys \<and> k \<notin> gateway_key ` set ys))"
    unfolding m_def
  proof (induction gs rule: rev_induct)
    case (snoc h gs)
    have cut: "(\<exists>xs ys. gs @ [h] = xs @ g # ys \<and> k \<notin> gateway_key ` set ys) \<longleftrightarrow>
        g = h \<or> gateway_key h \<noteq> k \<and> (\<exists>xs ys. gs = xs @ g # ys \<and> k \<notin> gateway_key ` set ys)" for k g
    proof
      assume "\<exists>xs ys. gs @ [h] = xs @ g # ys \<and> k \<notin> gateway_key ` set ys"
      then obtain xs ys where c: "gs @ [h] = xs @ g # ys" "k \<notin> gateway_key ` set ys" by blast
      show "g = h \<or> gateway_key h \<noteq> k \<and> (\<exists>xs ys. gs = xs @ g # ys \<and> k \<notin> gateway_key ` set ys)"
      proof (cases ys rule: rev_cases)
        case (snoc zs z)
        with c(1) have "z = h" "gs = xs @ g # zs" by auto
        with c(2) snoc show ?thesis by auto
      qed (use c in simp)
    next
      assume "g = h \<or> gateway_key h \<noteq> k \<and> (\<exists>xs ys. gs = xs @ g # ys \<and> k \<notin> gateway_key ` set ys)"
      then show "\<exists>xs ys. gs @ [h] = xs @ g # ys \<and> k \<notin> gateway_key ` set ys"
      proof (elim disjE conjE exE)
        fix xs ys assume "gateway_key h \<noteq> k" "gs = xs @ g # ys" "k \<notin> gateway_key ` set ys"
        then show ?thesis by (intro exI [of _ xs] exI [of _ "ys @ [h]"]) auto
      qed fastforce
    qed
    show ?case unfolding cut using snoc by (auto simp: distinct_amap_put)
  qed simp
  then show "distinct (map fst m)"
    and "map_of m k = Some g \<longleftrightarrow> gateway_key g = k \<and> (\<exists>xs ys. gs = xs @ g # ys \<and> k \<notin> gateway_key ` set ys)"
    by blast+
qed

definition displayable :: "discovered_gateway \<Rightarrow> bool" where
  "displayable g \<longleftrightarrow> is_valid_fingerprint (dg_server_fingerprint g) \<and> sa_port (dg_endpoint g) \<noteq> 0 \<and>
     dg_protocol_min g \<le> PROTOCOL_MAX \<and> PROTOCOL_MIN \<le> dg_protocol_max g \<and>
     dg_gateway_name g \<noteq> [] \<and> length (dg_gateway_name g) \<le> MAX_GROUP_NAME_CHARS \<and>
     list_all (\<lambda>ch. \<not> is_control ch) (dg_gateway_name g)"

lemma accept_datagram_displayable: "accept_datagram decode source bytes = Some g \<Longrightarrow> displayable g"
  by (auto simp: accept_datagram_def Let_def beacon_acceptable_def sanitize_group_name_def displayable_def not_less
      split: if_splits option.splits sum.splits dest: sanitize_single_line_out)

lemma accepted_gateway:
  "g \<in> set (accepted decode receptions) \<Longrightarrow> \<exists>source bytes. accept_datagram decode source bytes = Some g"
  unfolding accepted_def List.map_filter_def by clarsimp blast

text \<open>
  The gateways shown to the user are those of the acceptable beacons received, sorted by name, one for each
  gateway, address and port, with what its latest beacon said; all have a well-formed fingerprint, a
  port, a displayable name and a protocol range that meets the client's.
\<close>

theorem discovered_gateways:
  "set (discover decode receptions) =
     {g. \<exists>xs ys. accepted decode receptions = xs @ g # ys \<and> gateway_key g \<notin> gateway_key ` set ys} \<and>
   sorted (map dg_gateway_name (discover decode receptions)) \<and>
   distinct (map gateway_key (discover decode receptions)) \<and>
    list_all displayable (discover decode receptions)"
proof -
  let ?m = "discover_loop decode receptions []" and ?gs = "accepted decode receptions"
  note m = fold_put [of ?gs, folded discover_loop_accepted]
  have entries: "set (map snd ?m) = {g. \<exists>xs ys. ?gs = xs @ g # ys \<and> gateway_key g \<notin> gateway_key ` set ys}" (is "_ = ?shown")
  proof -
    have "g \<in> set (map snd ?m) \<longleftrightarrow> (\<exists>k. map_of ?m k = Some g)" for g
      using m(1) by (simp add: map_of_eq_Some_iff image_iff Bex_def)
    then show ?thesis unfolding m(2) by (intro set_eqI) (simp only: mem_Collect_eq, simp)
  qed
  have keys: "map gateway_key (map snd ?m) = map fst ?m"
    using m by (auto simp: map_of_eq_Some_iff)
  have "distinct (map gateway_key (discover decode receptions))"
  proof -
    have "inj_on gateway_key (set (map snd ?m))" "distinct (map snd ?m)"
      using m(1) keys by (metis distinct_map)+
    then show ?thesis by (simp add: discover_def distinct_map)
  qed
  moreover have "list_all displayable (discover decode receptions)"
    using accepted_gateway [of _ decode receptions] accept_datagram_displayable [of decode] entries
    by (fastforce simp: list_all_iff discover_def)
  moreover have "set (discover decode receptions) = ?shown" "sorted (map dg_gateway_name (discover decode receptions))"
    unfolding discover_def set_sort by (fact entries, simp)
  ultimately show ?thesis by blast
qed

end
