(* ===== verification/Lobby.thy ===== *)
theory Lobby
  imports Terminal_Input Discovery Client
begin

text \<open>
  The lobby of the terminal interface (\<open>LobbyApp\<close> and \<open>run_lobby\<close> of \<open>src/tui.rs\<close>): its state, its keys,
  pasting, the results of searches, and the loop that a search and the keyboard drive. Parsing a socket
  address is the parameter \<open>parse_addr\<close>; drawing is in \<open>Lobby_Display\<close>.
\<close>

definition ACCESS_MODES :: "group_access_mode list" where
  "ACCESS_MODES = [Public, Invite, Approval]"

definition LOBBY_FIELD_BYTES :: nat where "LOBBY_FIELD_BYTES = 128"

datatype lobby_action =
    Lobby_Quit
  | Lobby_Join socket_addr "rstring option" "uuid option" "uuid option" "rstring option"
  | Lobby_Create rstring group_access_mode socket_addr rstring
  | Set_Nickname rstring
  | Forget_Credential uuid uuid

record lobby_group =
  lg_gateway_id :: uuid
  lg_group_id :: uuid
  lg_group_name :: rstring
  lg_access_mode :: group_access_mode
  lg_gateway_name :: rstring
  lg_endpoint :: socket_addr
  lg_server_fingerprint :: rstring

record lobby_discovery =
  ld_gateways :: "discovered_gateway list"
  ld_groups :: "lobby_group list"

datatype lobby_input_kind = Input_Create_Group | Input_Direct_Join | Input_Nickname

datatype lobby_mode =
    Browse
  | Lobby_Input lobby_input_kind rstring
  | Choose_Access rstring socket_addr rstring nat
  | Invite_Input nat rstring
  | Confirm_Forget nat

record lobby_app =
  lo_nickname :: rstring
  lo_gateways :: "discovered_gateway list"
  lo_groups :: "lobby_group list"
  lo_selected :: nat
  lo_mode :: lobby_mode
  lo_status :: notice
  lo_refreshing :: bool
  lo_refresh_requested :: bool
  lo_known_credentials :: "(uuid \<times> uuid) set"

definition new_lobby :: "rstring \<Rightarrow> rstring option \<Rightarrow> (uuid \<times> uuid) list \<Rightarrow> lobby_app" where
  "new_lobby nickname initial known =
     \<lparr>lo_nickname = nickname, lo_gateways = [], lo_groups = [], lo_selected = 0, lo_mode = Browse,
      lo_status = (case initial of Some s \<Rightarrow> Given_Text s | None \<Rightarrow> (Line ''searching'')), lo_refreshing = False,
      lo_refresh_requested = False, lo_known_credentials = set known\<rparr>"

section \<open>Searching\<close>

text \<open>
  The groups of a search (\<open>start_discovery\<close>): those of each discovered gateway that could be inspected,
  sorted by group name and then by gateway name; the search fails only as a whole.
\<close>

definition groups_of_snapshot :: "discovered_gateway \<Rightarrow> gateway_snapshot \<Rightarrow> lobby_group list" where
  "groups_of_snapshot gateway snapshot =
     map (\<lambda>grp. \<lparr>lg_gateway_id = gsn_gateway_id snapshot, lg_group_id = gs_group_id grp,
                   lg_group_name = gs_group_name grp, lg_access_mode = gs_access_mode grp,
                   lg_gateway_name = gsn_gateway_name snapshot, lg_endpoint = dg_endpoint gateway,
                   lg_server_fingerprint = dg_server_fingerprint gateway\<rparr>) (gsn_groups snapshot)"

definition search_groups :: "gateway_network \<Rightarrow> rstring \<Rightarrow> discovered_gateway list \<Rightarrow> lobby_discovery" where
  "search_groups N nickname gateways =
     \<lparr>ld_gateways = gateways,
      ld_groups = sort_key (\<lambda>g. (lg_group_name g, lg_gateway_name g))
        (concat (map (\<lambda>gateway.
           case inspect_gateway N (dg_endpoint gateway) nickname (Some (dg_server_fingerprint gateway)) of
             Inr snapshot \<Rightarrow> groups_of_snapshot gateway snapshot
           | Inl e \<Rightarrow> []) gateways))\<rparr>"

definition set_discovery :: "lobby_discovery \<Rightarrow> lobby_app \<Rightarrow> lobby_app" where
  "set_discovery found app =
     (let groups = ld_groups found; gateways = ld_gateways found
      in app\<lparr>lo_gateways := gateways, lo_groups := groups, lo_selected := min (lo_selected app) (length groups - 1),
             lo_status := (if groups = [] then (if gateways = [] then (Line ''no gateway found'') else Counting ''gateways found'' (length gateways))
                           else Counting ''groups found'' (length groups))\<rparr>)"

section \<open>Keys\<close>

type_synonym lobby_answer = "(lobby_app \<times> lobby_action option) option"

abbreviation stay :: "lobby_app \<Rightarrow> lobby_answer" where
  "stay app \<equiv> Some (app, None)"

abbreviation act_on :: "lobby_app \<Rightarrow> lobby_action \<Rightarrow> lobby_answer" where
  "act_on app action \<equiv> Some (app, Some action)"

definition credential_known :: "lobby_app \<Rightarrow> lobby_group \<Rightarrow> bool" where
  "credential_known app grp \<longleftrightarrow> (lg_gateway_id grp, lg_group_id grp) \<in> lo_known_credentials app"

definition join_action :: "lobby_group \<Rightarrow> rstring option \<Rightarrow> lobby_action" where
  "join_action grp credential =
     Lobby_Join (lg_endpoint grp) (Some (lg_server_fingerprint grp)) (Some (lg_gateway_id grp))
       (Some (lg_group_id grp)) credential"

definition browse_enter :: "lobby_app \<Rightarrow> lobby_answer" where
  "browse_enter app =
     (case entry_at (lo_groups app) (lo_selected app) of
        None \<Rightarrow> None
      | Some grp \<Rightarrow>
          if lg_access_mode grp = Invite \<and> \<not> credential_known app grp
          then stay (app\<lparr>lo_mode := Invite_Input (lo_selected app) [], lo_status := (Line ''paste the invite token'')\<rparr>)
          else act_on app (join_action grp None))"

definition browse_forget :: "lobby_app \<Rightarrow> lobby_answer" where
  "browse_forget app =
     (case entry_at (lo_groups app) (lo_selected app) of
        None \<Rightarrow> None
      | Some grp \<Rightarrow>
          if credential_known app grp
          then stay (app\<lparr>lo_mode := Confirm_Forget (lo_selected app), lo_status := (Line ''forgetting needs a new verification'')\<rparr>)
          else stay (app\<lparr>lo_status := (Line ''no saved credential'')\<rparr>))"

definition browse_key :: "key_code \<Rightarrow> lobby_app \<Rightarrow> lobby_answer" where
  "browse_key code app =
     (if code = Key_Esc \<or> pressed code ''q'' then act_on app Lobby_Quit
      else if code = Key_Up \<or> pressed code ''k'' then stay (app\<lparr>lo_selected := cursor_up (lo_selected app)\<rparr>)
      else if code = Key_Down then stay (app\<lparr>lo_selected := cursor_down (length (lo_groups app)) (lo_selected app)\<rparr>)
      else if code = Key_Enter \<and> lo_groups app \<noteq> [] then browse_enter app
      else if pressed code ''cC'' then
        (if lo_gateways app = [] then stay (app\<lparr>lo_status := (Line ''no usable gateway'')\<rparr>)
         else stay (app\<lparr>lo_mode := Lobby_Input Input_Create_Group []\<rparr>))
      else if pressed code ''jJ'' then stay (app\<lparr>lo_mode := Lobby_Input Input_Direct_Join []\<rparr>)
      else if pressed code ''nN'' then stay (app\<lparr>lo_mode := Lobby_Input Input_Nickname (lo_nickname app)\<rparr>)
      else if pressed code ''rR'' then stay (app\<lparr>lo_refresh_requested := True\<rparr>)
      else if pressed code ''xX'' \<and> lo_groups app \<noteq> [] then browse_forget app
      else stay app)"

definition chosen_gateway :: "lobby_app \<Rightarrow> (socket_addr \<times> rstring) option" where
  "chosen_gateway app =
     (case entry_at (lo_groups app) (lo_selected app) of
        Some grp \<Rightarrow> Some (lg_endpoint grp, lg_server_fingerprint grp)
      | None \<Rightarrow> (case lo_gateways app of
          gateway # _ \<Rightarrow> Some (dg_endpoint gateway, dg_server_fingerprint gateway)
        | [] \<Rightarrow> None))"

definition submit_input ::
  "(rstring \<Rightarrow> socket_addr option) \<Rightarrow> lobby_input_kind \<Rightarrow> rstring \<Rightarrow> lobby_app \<Rightarrow> lobby_answer" where
  "submit_input parse_addr kind value app =
     (case kind of
        Input_Create_Group \<Rightarrow> (case sanitize_group_name value of
          Inr name \<Rightarrow> (case chosen_gateway app of
              None \<Rightarrow> stay (app\<lparr>lo_status := (Line ''no gateway available'')\<rparr>)
            | Some (endpoint, fingerprint) \<Rightarrow>
                stay (app\<lparr>lo_mode := Choose_Access name endpoint fingerprint 0, lo_status := (Line ''choose how to join'')\<rparr>))
        | Inl e \<Rightarrow> stay (app\<lparr>lo_status := (Line ''bad group name'')\<rparr>))
      | Input_Direct_Join \<Rightarrow> (case parse_addr value of
          Some endpoint \<Rightarrow> act_on app (Lobby_Join endpoint None None None None)
        | None \<Rightarrow> stay (app\<lparr>lo_status := (Line ''bad address'')\<rparr>))
      | Input_Nickname \<Rightarrow> (case sanitize_nickname value of
          Inr nickname \<Rightarrow> act_on app (Set_Nickname nickname)
        | Inl e \<Rightarrow> stay (app\<lparr>lo_status := (Line ''bad nickname'')\<rparr>)))"

definition back_to_browse :: "notice \<Rightarrow> lobby_app \<Rightarrow> lobby_app" where
  "back_to_browse status app = app\<lparr>lo_mode := Browse, lo_status := status\<rparr>"

definition input_key ::
  "(rstring \<Rightarrow> socket_addr option) \<Rightarrow> key_event \<Rightarrow> lobby_input_kind \<Rightarrow> rstring \<Rightarrow> lobby_app \<Rightarrow> lobby_answer" where
  "input_key parse_addr key kind value app =
     (case ke_code key of
        Key_Esc \<Rightarrow> stay (back_to_browse (Line ''cancelled'') app)
      | Key_Backspace \<Rightarrow> stay (app\<lparr>lo_mode := Lobby_Input kind (pop_char value)\<rparr>)
      | Key_Enter \<Rightarrow> submit_input parse_addr kind value app
      | _ \<Rightarrow> (case typed key value LOBBY_FIELD_BYTES of
          Some value \<Rightarrow> stay (app\<lparr>lo_mode := Lobby_Input kind value\<rparr>)
        | None \<Rightarrow> stay app))"

definition access_key ::
  "key_code \<Rightarrow> rstring \<Rightarrow> socket_addr \<Rightarrow> rstring \<Rightarrow> nat \<Rightarrow> lobby_app \<Rightarrow> lobby_answer" where
  "access_key code name endpoint fingerprint selected app =
     (let pick = (\<lambda>i. stay (app\<lparr>lo_mode := Choose_Access name endpoint fingerprint i\<rparr>))
      in if code = Key_Esc then stay (back_to_browse (Line ''cancelled'') app)
         else if code = Key_Up \<or> pressed code ''k'' then pick (cursor_up selected)
         else if code = Key_Down \<or> pressed code ''j'' then pick (cursor_down (length ACCESS_MODES) selected)
         else if pressed code ''1'' then pick 0
         else if pressed code ''2'' then pick 1
         else if pressed code ''3'' then pick 2
         else if code = Key_Enter then
           (case entry_at ACCESS_MODES selected of
              None \<Rightarrow> None
            | Some mode \<Rightarrow> act_on app (Lobby_Create name mode endpoint fingerprint))
         else stay app)"

definition token_char :: "rchar \<Rightarrow> bool" where
  "token_char c \<longleftrightarrow> is_ascii_alphanumeric c \<or> c = 95"

definition invite_key :: "key_event \<Rightarrow> nat \<Rightarrow> rstring \<Rightarrow> lobby_app \<Rightarrow> lobby_answer" where
  "invite_key key group_index value app =
     (case ke_code key of
        Key_Esc \<Rightarrow> stay (back_to_browse (Line ''cancelled'') app)
      | Key_Backspace \<Rightarrow> stay (app\<lparr>lo_mode := Invite_Input group_index (pop_char value)\<rparr>)
      | Key_Enter \<Rightarrow> (case sanitize_group_credential value of
          Inr credential \<Rightarrow> (case entry_at (lo_groups app) group_index of
              None \<Rightarrow> None
            | Some grp \<Rightarrow> act_on app (join_action grp (Some credential)))
        | Inl e \<Rightarrow> stay (app\<lparr>lo_status := (Line ''bad invite token'')\<rparr>))
      | Key_Char c \<Rightarrow>
          if \<not> ke_control key \<and> token_char c \<and> byte_len value + len_utf8 c \<le> LOBBY_FIELD_BYTES
          then stay (app\<lparr>lo_mode := Invite_Input group_index (value @ [c])\<rparr>) else stay app
      | _ \<Rightarrow> stay app)"

definition forget_key :: "key_code \<Rightarrow> nat \<Rightarrow> lobby_app \<Rightarrow> lobby_answer" where
  "forget_key code group_index app =
     (if pressed code ''yY'' then
        (case entry_at (lo_groups app) group_index of
           None \<Rightarrow> None
         | Some grp \<Rightarrow> act_on app (Forget_Credential (lg_gateway_id grp) (lg_group_id grp)))
      else if code = Key_Esc \<or> pressed code ''nN'' then stay (back_to_browse (Line ''credential kept'') app)
      else stay app)"

definition lobby_key :: "(rstring \<Rightarrow> socket_addr option) \<Rightarrow> key_event \<Rightarrow> lobby_app \<Rightarrow> lobby_answer" where
  "lobby_key parse_addr key app =
     (case lo_mode app of
        Browse \<Rightarrow> browse_key (ke_code key) app
      | Lobby_Input kind value \<Rightarrow> input_key parse_addr key kind value app
      | Choose_Access name endpoint fingerprint selected \<Rightarrow> access_key (ke_code key) name endpoint fingerprint selected app
      | Invite_Input group_index value \<Rightarrow> invite_key key group_index value app
      | Confirm_Forget group_index \<Rightarrow> forget_key (ke_code key) group_index app)"

definition lobby_paste :: "rstring \<Rightarrow> lobby_app \<Rightarrow> lobby_app" where
  "lobby_paste raw app =
     (case lo_mode app of
        Lobby_Input kind value \<Rightarrow>
          app\<lparr>lo_mode := Lobby_Input kind (extend_pasted value (sanitize_paste_for_input raw) LOBBY_FIELD_BYTES)\<rparr>
      | Invite_Input group_index value \<Rightarrow>
          app\<lparr>lo_mode := Invite_Input group_index (extend_pasted value (filter token_char (trim raw)) LOBBY_FIELD_BYTES)\<rparr>
      | _ \<Rightarrow> app)"

section \<open>The loop\<close>

text \<open>The end of a search carries what was found, or that it failed; a closed terminal quits.\<close>

datatype lobby_event =
    Lobby_Key bool key_event
  | Lobby_Paste rstring
  | Lobby_Terminal_Error
  | Lobby_Terminal_Closed
  | Search_Done "lobby_discovery option"
  | Refresh_Tick

definition begin_search :: "lobby_app \<Rightarrow> lobby_app" where
  "begin_search app = (if \<not> lo_refreshing app then app\<lparr>lo_refreshing := True, lo_status := (Line ''refreshing'')\<rparr> else app)"

text \<open>The flag of a key event says that the key was released.\<close>

fun lobby_step :: "(rstring \<Rightarrow> socket_addr option) \<Rightarrow> lobby_event \<Rightarrow> lobby_app \<Rightarrow> lobby_answer" where
  "lobby_step parse_addr (Lobby_Key released key) app =
     (if released then stay app
      else case lobby_key parse_addr key app of
        None \<Rightarrow> None
      | Some (app, Some action) \<Rightarrow> act_on app action
      | Some (app, None) \<Rightarrow>
          stay (if lo_refresh_requested app then begin_search (app\<lparr>lo_refresh_requested := False\<rparr>) else app))"
| "lobby_step parse_addr (Lobby_Paste raw) app = stay (lobby_paste raw app)"
| "lobby_step parse_addr Lobby_Terminal_Error app = stay (app\<lparr>lo_status := (Line ''input failed'')\<rparr>)"
| "lobby_step parse_addr Lobby_Terminal_Closed app = act_on app Lobby_Quit"
| "lobby_step parse_addr (Search_Done found) app =
     stay (let app = app\<lparr>lo_refreshing := False\<rparr>
           in case found of Some result \<Rightarrow> set_discovery result app | None \<Rightarrow> app\<lparr>lo_status := (Line ''search failed'')\<rparr>)"
| "lobby_step parse_addr Refresh_Tick app = stay (begin_search app)"

text \<open>The screen from start to its action; \<open>Inl\<close> is the panic, \<open>None\<close> that the events have not ended it.\<close>

fun lobby_loop :: "(rstring \<Rightarrow> socket_addr option) \<Rightarrow> lobby_event list \<Rightarrow> lobby_app \<Rightarrow> (unit + lobby_action) option" where
  "lobby_loop parse_addr [] app = None"
| "lobby_loop parse_addr (event # events) app =
     (case lobby_step parse_addr event app of
        None \<Rightarrow> Some (Inl ())
      | Some (app, Some action) \<Rightarrow> Some (Inr action)
      | Some (app, None) \<Rightarrow> lobby_loop parse_addr events app)"

definition run_lobby ::
  "(rstring \<Rightarrow> socket_addr option) \<Rightarrow> rstring \<Rightarrow> rstring option \<Rightarrow> (uuid \<times> uuid) list \<Rightarrow> lobby_event list \<Rightarrow>
   (unit + lobby_action) option" where
  "run_lobby parse_addr nickname initial known events =
     lobby_loop parse_addr events ((new_lobby nickname initial known)\<lparr>lo_refreshing := True\<rparr>)"

section \<open>Staying within the lists\<close>

fun mode_ok :: "nat \<Rightarrow> lobby_mode \<Rightarrow> bool" where
  "mode_ok n (Choose_Access _ _ _ selected) \<longleftrightarrow> selected < 3"
| "mode_ok n (Invite_Input i _) \<longleftrightarrow> i < n"
| "mode_ok n (Confirm_Forget i) \<longleftrightarrow> i < n"
| "mode_ok n _ \<longleftrightarrow> True"

definition lobby_ok :: "lobby_app \<Rightarrow> bool" where
  "lobby_ok app \<longleftrightarrow> lo_selected app \<le> length (lo_groups app) - 1 \<and> mode_ok (length (lo_groups app)) (lo_mode app)"

definition lobby_fine :: "lobby_answer \<Rightarrow> bool" where
  "lobby_fine answer \<longleftrightarrow> (case answer of None \<Rightarrow> False | Some (app, _) \<Rightarrow> lobby_ok app)"

lemma lobby_fine_simps [simp]: "lobby_fine (Some (app, action)) = lobby_ok app" "\<not> lobby_fine None"
  by (simp_all add: lobby_fine_def)

lemma three_modes [simp]: "length ACCESS_MODES = 3"
  by (simp add: ACCESS_MODES_def)

lemma browse_fine: "lobby_ok app \<Longrightarrow> lo_mode app = Browse \<Longrightarrow> lobby_fine (browse_key code app)"
proof -
  assume ok: "lobby_ok app" and mode: "lo_mode app = Browse"
  have "lo_selected app < length (lo_groups app)" if "lo_groups app \<noteq> []"
    using ok that by (auto simp: lobby_ok_def) (metis Suc_pred le_imp_less_Suc length_greater_0_conv)
  then have "lo_groups app \<noteq> [] \<Longrightarrow> lobby_fine (browse_enter app)" "lo_groups app \<noteq> [] \<Longrightarrow> lobby_fine (browse_forget app)"
    using ok by (auto simp: browse_enter_def browse_forget_def lobby_ok_def split: option.split)
  with ok mode show ?thesis by (auto simp: browse_key_def lobby_ok_def)
qed

lemma submit_fine: "lobby_ok app \<Longrightarrow> lo_mode app = Lobby_Input kind value \<Longrightarrow> lobby_fine (submit_input parse_addr kind value app)"
  by (auto simp: submit_input_def lobby_ok_def split: lobby_input_kind.split sum.split option.split)

lemma input_fine:
  "lobby_ok app \<Longrightarrow> lo_mode app = Lobby_Input kind value \<Longrightarrow> lobby_fine (input_key parse_addr key kind value app)"
  using submit_fine [of app kind _ parse_addr]
  by (auto simp: input_key_def back_to_browse_def lobby_ok_def split: key_code.split option.split)

lemma access_fine:
  "lobby_ok app \<Longrightarrow> lo_mode app = Choose_Access name endpoint fingerprint selected \<Longrightarrow>
   lobby_fine (access_key code name endpoint fingerprint selected app)"
  by (auto simp: access_key_def Let_def back_to_browse_def lobby_ok_def split: option.split)

lemma invite_fine: "lobby_ok app \<Longrightarrow> lo_mode app = Invite_Input i value \<Longrightarrow> lobby_fine (invite_key key i value app)"
  by (auto simp: invite_key_def back_to_browse_def lobby_ok_def split: key_code.split option.split sum.split)

lemma forget_fine: "lobby_ok app \<Longrightarrow> lo_mode app = Confirm_Forget i \<Longrightarrow> lobby_fine (forget_key code i app)"
  by (auto simp: forget_key_def back_to_browse_def lobby_ok_def split: option.split)

lemma lobby_key_fine: "lobby_ok app \<Longrightarrow> lobby_fine (lobby_key parse_addr key app)"
  by (cases "lo_mode app") (simp_all add: lobby_key_def browse_fine input_fine access_fine invite_fine forget_fine)

text \<open>The events at which the lists may change under an open question.\<close>

definition asking :: "lobby_app \<Rightarrow> bool" where
  "asking app \<longleftrightarrow> (case lo_mode app of Invite_Input _ _ \<Rightarrow> True | Confirm_Forget _ \<Rightarrow> True | _ \<Rightarrow> False)"

fun search_result :: "lobby_event \<Rightarrow> bool" where
  "search_result (Search_Done (Some found)) = True"
| "search_result _ = False"

lemma lobby_ok_frame:
  "lobby_ok app \<Longrightarrow> lobby_ok (app\<lparr>lo_status := st\<rparr>)" "lobby_ok app \<Longrightarrow> lobby_ok (app\<lparr>lo_refreshing := b\<rparr>)"
  "lobby_ok app \<Longrightarrow> lobby_ok (app\<lparr>lo_refresh_requested := b\<rparr>)" "lobby_ok app \<Longrightarrow> lobby_ok (begin_search app)"
  by (auto simp: lobby_ok_def begin_search_def)

lemma lobby_step_fine:
  assumes "lobby_ok app" "\<not> (asking app \<and> search_result event)"
  shows "lobby_fine (lobby_step parse_addr event app)"
proof (cases event)
  case (Lobby_Key released key)
  then show ?thesis
    using lobby_key_fine [OF assms(1), of parse_addr key] assms(1) lobby_ok_frame
    by (auto simp: lobby_fine_def split: option.splits)
next
  case (Lobby_Paste raw)
  then show ?thesis using assms(1) by (auto simp: lobby_paste_def lobby_ok_def split: lobby_mode.splits)
next
  case (Search_Done found)
  then show ?thesis
    using assms lobby_ok_frame
    by (cases found) (auto simp: set_discovery_def lobby_ok_def asking_def Let_def split: lobby_mode.splits)
qed (use assms(1) lobby_ok_frame in auto)

text \<open>No search result comes under an open question.\<close>

fun undisturbed :: "(rstring \<Rightarrow> socket_addr option) \<Rightarrow> lobby_event list \<Rightarrow> lobby_app \<Rightarrow> bool" where
  "undisturbed parse_addr [] app \<longleftrightarrow> True"
| "undisturbed parse_addr (event # events) app \<longleftrightarrow>
     \<not> (asking app \<and> search_result event) \<and>
     (case lobby_step parse_addr event app of Some (app', None) \<Rightarrow> undisturbed parse_addr events app' | _ \<Rightarrow> True)"

lemma undisturbed_loop:
  "lobby_ok app \<Longrightarrow> undisturbed parse_addr events app \<Longrightarrow> lobby_loop parse_addr events app \<noteq> Some (Inl ())"
proof (induction events arbitrary: app)
  case (Cons event events)
  then have "lobby_fine (lobby_step parse_addr event app)" by (intro lobby_step_fine) auto
  with Cons show ?case by (auto simp: lobby_fine_def split: option.splits prod.splits)
qed simp

lemma new_lobby_ok: "lobby_ok ((new_lobby nickname initial known)\<lparr>lo_refreshing := b\<rparr>)"
  by (simp add: lobby_ok_def new_lobby_def)

text \<open>
  The lobby never panics, whatever is typed and pasted, as long as no search result arrives while it
  asks for an invite token or for the confirmation of forgetting a credential.
\<close>

theorem lobby_does_not_panic:
  assumes "undisturbed parse_addr events ((new_lobby nickname initial known)\<lparr>lo_refreshing := True\<rparr>)"
  shows "run_lobby parse_addr nickname initial known events \<noteq> Some (Inl ())"
  unfolding run_lobby_def by (rule undisturbed_loop [OF new_lobby_ok assms])

theorem lobby_does_not_panic_witness:
  "run_lobby (\<lambda>_. None) (str ''ann'') None [] [Lobby_Key False \<lparr>ke_code = Key_Down, ke_control = False\<rparr>,
     Lobby_Paste (str ''x''), Lobby_Key False \<lparr>ke_code = Key_Char 110, ke_control = False\<rparr>] \<noteq> Some (Inl ())"
  by (rule lobby_does_not_panic)
     (simp add: asking_def new_lobby_def lobby_key_def browse_key_def lobby_paste_def str_def)

text \<open>
  A search that ends while the lobby asks for the invite token of a group changes the group under the
  question: the token is then sent to whatever group has its place in the new list, at that group's
  gateway, and the program panics when there is none; a confirmed forgetting meets the same.
\<close>

theorem search_changes_the_question:
  assumes "ke_code enter = Key_Enter" "ke_code yes = Key_Char 121"
    and "lo_mode app = Invite_Input i token" "sanitize_group_credential token = Inr credential"
    and "lo_mode other = Confirm_Forget j"
  shows "lobby_loop parse_addr [Search_Done (Some found), Lobby_Key False enter] app =
      Some (if i < length (ld_groups found) then Inr (join_action (ld_groups found ! i) (Some credential)) else Inl ()) \<and>
    lobby_loop parse_addr [Search_Done (Some found), Lobby_Key False yes] other =
      Some (if j < length (ld_groups found)
        then Inr (Forget_Credential (lg_gateway_id (ld_groups found ! j)) (lg_group_id (ld_groups found ! j))) else Inl ())"
  using assms
  by (simp add: set_discovery_def Let_def lobby_key_def invite_key_def forget_key_def entry_at_def str_def)

text \<open>A group of gateway 1 is asked for; the search finds a group of gateway 2 in its place.\<close>

definition sample_lobby_group :: "uuid \<Rightarrow> lobby_group" where
  "sample_lobby_group gw = \<lparr>lg_gateway_id = gw, lg_group_id = 5, lg_group_name = str ''ops'', lg_access_mode = Invite,
     lg_gateway_name = str ''g'', lg_endpoint = \<lparr>sa_ip = V4 (ucast gw), sa_port = 7373\<rparr>, lg_server_fingerprint = str ''f''\<rparr>"

definition sample_question :: "lobby_mode \<Rightarrow> lobby_app" where
  "sample_question mode = (new_lobby (str ''ann'') None [])\<lparr>lo_groups := [sample_lobby_group 1], lo_mode := mode\<rparr>"

theorem search_changes_the_question_witness:
  "lobby_loop (\<lambda>_. None) [Search_Done (Some \<lparr>ld_gateways = [], ld_groups = [sample_lobby_group 2]\<rparr>),
       Lobby_Key False \<lparr>ke_code = Key_Enter, ke_control = False\<rparr>] (sample_question (Invite_Input 0 (str ''lc_i''))) =
     Some (Inr (Lobby_Join \<lparr>sa_ip = V4 2, sa_port = 7373\<rparr> (Some (str ''f'')) (Some 2) (Some 5) (Some (str ''lc_i'')))) \<and>
   lobby_loop (\<lambda>_. None) [Search_Done (Some \<lparr>ld_gateways = [], ld_groups = []\<rparr>),
       Lobby_Key False \<lparr>ke_code = Key_Char 121, ke_control = False\<rparr>] (sample_question (Confirm_Forget 0)) = Some (Inl ())"
proof -
  have token: "sanitize_group_credential (str ''lc_i'') = Inr (str ''lc_i'')"
    by (simp add: sanitize_group_credential_def is_valid_group_credential_ascii trim_def trim_start_def trim_end_def str_def
        byte_len_def len_utf8_def MAX_GROUP_CREDENTIAL_BYTES_def credential_byte_def is_ascii_alphanumeric_def
        is_ascii_digit_def is_whitespace_def)
  have modes: "lo_mode (sample_question m) = m" for m by (simp add: sample_question_def)
  note applied = search_changes_the_question [of "\<lparr>ke_code = Key_Enter, ke_control = False\<rparr>" "\<lparr>ke_code = Key_Char 121, ke_control = False\<rparr>"
      "sample_question (Invite_Input 0 (str ''lc_i''))" 0 "str ''lc_i''" "str ''lc_i''" "sample_question (Confirm_Forget 0)" 0 "\<lambda>_. None"]
  from applied [of "\<lparr>ld_gateways = [], ld_groups = [sample_lobby_group 2]\<rparr>"] applied [of "\<lparr>ld_gateways = [], ld_groups = []\<rparr>"]
  show ?thesis by (simp add: token modes join_action_def sample_lobby_group_def)
qed

end
