(* ===== verification/Chat_View.thy ===== *)
theory Chat_View
  imports Terminal_Input Client "HOL-Library.RBT"
begin

text \<open>
  The chat screen of the terminal interface (\<open>ChatApp\<close> of \<open>src/tui.rs\<close>): its state, and how the events of
  the connection change it. A \<open>BTreeMap\<close> is a red-black tree; counters are unbounded.
\<close>

section \<open>State\<close>

datatype conversation = In_Room rstring | With_Peer uuid

datatype chat_focus = Focus_Input | Focus_Conversations | Focus_Members

datatype chat_overlay =
    Create_Room_Form rstring room_visibility
  | Join_Request_List "join_request_summary list" nat bool
  | Credentials_Shown issued_group_credentials
  | Group_Member_List "group_member_summary list" nat bool u32 bool
  | Room_Member_List rstring "room_member_summary list" nat bool u32 bool
  | Rotation_Choice nat bool
  | Token_Shown group_token_kind rstring

datatype ui_item = Chat_Item chat_record | Notice_Item notice

record room_view =
  rv_summary :: room_summary
  rv_joined :: bool
  rv_items :: "ui_item list"
  rv_unread :: nat
  rv_has_more :: bool
  rv_loading :: bool

record private_view =
  pv_peer :: peer
  pv_items :: "direct_record list"
  pv_status :: "private_conversation_status option"
  pv_unread :: nat
  pv_online :: bool

type_synonym room_views = "(rstring, room_view) RBT.rbt"
type_synonym private_views = "(uuid, private_view) RBT.rbt"

record chat_app =
  ca_group_name :: rstring
  ca_access_mode :: group_access_mode
  ca_role :: group_role
  ca_session_id :: uuid
  ca_member_id :: uuid
  ca_rooms :: room_views
  ca_private_chats :: private_views
  ca_members :: "(uuid, rstring) RBT.rbt"
  ca_active :: conversation
  ca_selected_conversation :: nat
  ca_selected_member :: nat
  ca_focus :: chat_focus
  ca_overlay :: "chat_overlay option"
  ca_input :: rstring
  ca_status :: notice
  ca_scroll :: nat
  ca_connected :: bool
  ca_focus_mode :: bool

text \<open>\<open>entry(k).or_insert(v)\<close>.\<close>

definition or_insert :: "'k::linorder \<Rightarrow> 'v \<Rightarrow> ('k, 'v) RBT.rbt \<Rightarrow> ('k, 'v) RBT.rbt" where
  "or_insert k v m = (if RBT.lookup m k = None then RBT.insert k v m else m)"

lemma lookup_or_insert [simp]:
  "RBT.lookup (or_insert k v m) j = (if j = k \<and> RBT.lookup m k = None then Some v else RBT.lookup m j)"
  by (auto simp: or_insert_def)

definition new_room_view :: "room_summary \<Rightarrow> bool \<Rightarrow> room_view" where
  "new_room_view summary joined =
     \<lparr>rv_summary = summary, rv_joined = joined, rv_items = [], rv_unread = 0, rv_has_more = False, rv_loading = False\<rparr>"

definition new_private_view :: "peer \<Rightarrow> private_view" where
  "new_private_view peer = \<lparr>pv_peer = peer, pv_items = [], pv_status = None, pv_unread = 0, pv_online = True\<rparr>"

section \<open>Lists shown\<close>

definition conversation_entries :: "chat_app \<Rightarrow> conversation list" where
  "conversation_entries app =
     map (\<lambda>room. In_Room (rs_room_id (rv_summary room)))
       (sort_key (\<lambda>room. rs_room_name (rv_summary room)) (map snd (RBT.entries (ca_rooms app)))) @
     map (\<lambda>chat. With_Peer (p_session_id (pv_peer chat)))
       (sort_key (\<lambda>chat. p_nickname (pv_peer chat)) (map snd (RBT.entries (ca_private_chats app))))"

definition member_entries :: "chat_app \<Rightarrow> (uuid \<times> rstring) list" where
  "member_entries app = sort_key snd (filter (\<lambda>(session_id, _). session_id \<noteq> ca_session_id app) (RBT.entries (ca_members app)))"

fun position :: "'a \<Rightarrow> 'a list \<Rightarrow> nat option" where
  "position x [] = None"
| "position x (y # ys) = (if y = x then Some 0 else map_option Suc (position x ys))"

definition sync_conversation_selection :: "chat_app \<Rightarrow> chat_app" where
  "sync_conversation_selection app =
     (case position (ca_active app) (conversation_entries app) of
        Some index \<Rightarrow> app\<lparr>ca_selected_conversation := index\<rparr>
      | None \<Rightarrow> app)"

text \<open>The sequence number of the first chat message of a room.\<close>

fun first_sequence :: "ui_item list \<Rightarrow> u64 option" where
  "first_sequence [] = None"
| "first_sequence (Chat_Item message # _) = Some (cr_sequence message)"
| "first_sequence (Notice_Item _ # items) = first_sequence items"

definition own_nickname :: "chat_app \<Rightarrow> rstring" where
  "own_nickname app = (case RBT.lookup (ca_members app) (ca_session_id app) of Some n \<Rightarrow> n | None \<Rightarrow> [])"

section \<open>Opening the screen\<close>

definition session_rooms :: "welcome_message \<Rightarrow> room_views" where
  "session_rooms w =
     (let listed = fold (\<lambda>summary. RBT.insert (rs_room_id summary) (new_room_view summary (rs_room_id summary = w_room_id w)))
            (w_rooms w) RBT.empty;
          own = new_room_view \<lparr>rs_room_id = w_room_id w, rs_room_name = w_room_name w, rs_visibility = Public_Room\<rparr> True
      in RBT.map_entry (w_room_id w) (\<lambda>room. room\<lparr>rv_items := rv_items room @ map Chat_Item (w_history w),
            rv_has_more := (case w_history w of message # _ \<Rightarrow> cr_sequence message > 1 | [] \<Rightarrow> False)\<rparr>)
           (or_insert (w_room_id w) own listed))"

definition new_chat :: "session_info \<Rightarrow> chat_app" where
  "new_chat session =
     (let w = si_welcome session
      in sync_conversation_selection
        \<lparr>ca_group_name = w_group_name w, ca_access_mode = w_access_mode w, ca_role = w_role w,
         ca_session_id = w_session_id w,
         ca_member_id = (case find (\<lambda>member. p_session_id member = w_session_id w) (w_members w) of
            Some member \<Rightarrow> p_member_id member | None \<Rightarrow> 0),
         ca_rooms = session_rooms w, ca_private_chats = RBT.empty,
         ca_members = fold (\<lambda>member. RBT.insert (p_session_id member) (p_nickname member)) (w_members w) RBT.empty,
         ca_active = In_Room (w_room_id w), ca_selected_conversation = 0, ca_selected_member = 0,
         ca_focus = Focus_Input, ca_overlay = map_option Credentials_Shown (w_issued_credentials w), ca_input = [],
         ca_status = Line ''connection ready'', ca_scroll = 0, ca_connected = True, ca_focus_mode = False\<rparr>)"

section \<open>Messages\<close>

definition push_room_notice :: "rstring \<Rightarrow> notice \<Rightarrow> chat_app \<Rightarrow> chat_app" where
  "push_room_notice rid notice app =
     app\<lparr>ca_rooms := RBT.map_entry rid (\<lambda>room. room\<lparr>rv_items := push_bounded (rv_items room) (Notice_Item notice)\<rparr>) (ca_rooms app)\<rparr>"

definition show_chat :: "chat_record \<Rightarrow> chat_app \<Rightarrow> chat_app" where
  "show_chat message app =
     app\<lparr>ca_rooms := RBT.map_entry (cr_room_id message) (\<lambda>room. room
        \<lparr>rv_unread := (if ca_active app \<noteq> In_Room (cr_room_id message) then rv_unread room + 1 else rv_unread room),
         rv_items := push_bounded (rv_items room) (Chat_Item message)\<rparr>) (ca_rooms app)\<rparr>"

definition show_room :: "room_summary \<Rightarrow> chat_app \<Rightarrow> chat_app" where
  "show_room room app =
     (let app = app\<lparr>ca_rooms := or_insert (rs_room_id room) (new_room_view room False) (ca_rooms app)\<rparr>;
          app = (if ca_focus app \<noteq> Focus_Conversations then sync_conversation_selection app else app)
      in app\<lparr>ca_status := Line ''new room''\<rparr>)"

definition enter_room :: "room_summary \<Rightarrow> chat_record list \<Rightarrow> chat_app \<Rightarrow> chat_app" where
  "enter_room room records app =
     (let rid = rs_room_id room; items = map Chat_Item records;
          rms = RBT.map_entry rid (\<lambda>view. view\<lparr>rv_summary := room, rv_joined := True, rv_unread := 0, rv_items := items,
              rv_has_more := (case first_sequence items of Some n \<Rightarrow> n > 1 | None \<Rightarrow> False), rv_loading := False\<rparr>)
            (or_insert rid (new_room_view room True) (ca_rooms app));
          app = sync_conversation_selection (app\<lparr>ca_rooms := rms, ca_active := In_Room rid\<rparr>)
      in app\<lparr>ca_focus := Focus_Input, ca_status := Line ''room entered''\<rparr>)"

definition exit_room :: "rstring \<Rightarrow> chat_app \<Rightarrow> chat_app" where
  "exit_room rid app =
     (let private = (case RBT.lookup (ca_rooms app) rid of
            Some room \<Rightarrow> rs_visibility (rv_summary room) = Private_Room | None \<Rightarrow> False);
          app = (if ca_active app = In_Room rid then app\<lparr>ca_active := In_Room (str ''general'')\<rparr> else app)
      in if private
         then app\<lparr>ca_rooms := RBT.delete rid (ca_rooms app), ca_status := Line ''private access lost''\<rparr>
         else app\<lparr>ca_rooms := RBT.map_entry rid (\<lambda>room. room\<lparr>rv_joined := False\<rparr>) (ca_rooms app),
                  ca_status := Line ''left room''\<rparr>)"

text \<open>The identifiers of the chat messages shown.\<close>

fun chat_ids :: "ui_item list \<Rightarrow> uuid list" where
  "chat_ids [] = []"
| "chat_ids (Chat_Item message # items) = cr_message_id message # chat_ids items"
| "chat_ids (Notice_Item _ # items) = chat_ids items"

text \<open>From the newest of the page backwards, each in front; what was shown before the page counts.\<close>

definition prepend_page :: "chat_record list \<Rightarrow> ui_item list \<Rightarrow> ui_item list" where
  "prepend_page messages items =
     fold (\<lambda>message shown. if cr_message_id message \<notin> set (chat_ids items) then Chat_Item message # shown else shown)
       (rev messages) items"

definition show_page :: "rstring \<Rightarrow> chat_record list \<Rightarrow> bool \<Rightarrow> chat_app \<Rightarrow> chat_app" where
  "show_page rid messages has_more app =
     (case RBT.lookup (ca_rooms app) rid of
        None \<Rightarrow> app
      | Some room \<Rightarrow>
          app\<lparr>ca_rooms := RBT.insert rid (room\<lparr>rv_items := prepend_page messages (rv_items room), rv_has_more := has_more,
                                              rv_loading := False\<rparr>) (ca_rooms app),
              ca_scroll := ca_scroll app + length messages,
              ca_status := (if length messages = 0 then Line ''start of the history''
                            else Counting ''older messages loaded'' (length messages))\<rparr>)"

definition private_partner :: "chat_app \<Rightarrow> direct_record \<Rightarrow> uuid" where
  "private_partner app message =
     (if p_session_id (dr_sender message) = ca_session_id app then dr_recipient_session_id message
      else p_session_id (dr_sender message))"

definition handle_private_message :: "direct_record \<Rightarrow> private_conversation_status \<Rightarrow> chat_app \<Rightarrow> chat_app" where
  "handle_private_message message status app =
     (let peer_id = private_partner app message;
          peer = (if p_session_id (dr_sender message) = peer_id then dr_sender message
                  else \<lparr>p_session_id = peer_id, p_member_id = 0,
                        p_nickname = (case RBT.lookup (ca_members app) peer_id of Some n \<Rightarrow> n | None \<Rightarrow> [0x672A, 0x77E5, 0x6210, 0x5458]),
                        p_direct = None\<rparr>);
          was_waiting = (case RBT.lookup (ca_private_chats app) peer_id of
              Some chat \<Rightarrow> pv_status chat = Some (Awaiting_Reply (ca_session_id app)) | None \<Rightarrow> False);
          chats = RBT.map_entry peer_id (\<lambda>view. view\<lparr>pv_status := Some status, pv_online := True,
              pv_unread := (if ca_active app \<noteq> With_Peer peer_id then pv_unread view + 1 else pv_unread view),
              pv_items := push_bounded (pv_items view) message\<rparr>)
            (or_insert peer_id (new_private_view peer) (ca_private_chats app));
          nickname = (case RBT.lookup chats peer_id of Some view \<Rightarrow> p_nickname (pv_peer view) | None \<Rightarrow> [])
      in sync_conversation_selection
          (app\<lparr>ca_private_chats := chats,
               ca_status := (if was_waiting \<and> status = Active_Conversation then Naming ''peer replied'' nickname
                             else case status of Awaiting_Reply _ \<Rightarrow> Line ''opening waits for a reply''
                                  | Active_Conversation \<Rightarrow> ca_status app)\<rparr>))"

section \<open>Panels\<close>

definition show_requests :: "join_request_summary list \<Rightarrow> chat_app \<Rightarrow> chat_app" where
  "show_requests requests app =
     (let selected = (case ca_overlay app of Some (Join_Request_List _ i _) \<Rightarrow> i | _ \<Rightarrow> 0)
      in app\<lparr>ca_status := (if requests = [] then Line ''no requests'' else Counting ''requests waiting'' (length requests)),
             ca_overlay := Some (Join_Request_List requests (min selected (length requests - 1)) False)\<rparr>)"

definition show_group_members :: "group_member_summary list \<Rightarrow> u32 \<Rightarrow> bool \<Rightarrow> chat_app \<Rightarrow> chat_app" where
  "show_group_members members offset has_more app =
     (let selected = (case ca_overlay app of Some (Group_Member_List _ i _ _ _) \<Rightarrow> i | _ \<Rightarrow> 0)
      in app\<lparr>ca_status := Counting ''group members'' (length members),
             ca_overlay := Some (Group_Member_List members (min selected (length members - 1)) False offset has_more)\<rparr>)"

definition show_room_members :: "rstring \<Rightarrow> room_member_summary list \<Rightarrow> u32 \<Rightarrow> bool \<Rightarrow> chat_app \<Rightarrow> chat_app" where
  "show_room_members rid members offset has_more app =
     (let selected = (case ca_overlay app of Some (Room_Member_List _ _ i _ _ _) \<Rightarrow> i | _ \<Rightarrow> 0)
      in app\<lparr>ca_status := Counting ''room members'' (length members),
             ca_overlay := Some (Room_Member_List rid members (min selected (length members - 1)) False offset has_more)\<rparr>)"

fun stop_loading :: "chat_overlay \<Rightarrow> chat_overlay" where
  "stop_loading (Join_Request_List requests i _) = Join_Request_List requests i False"
| "stop_loading (Group_Member_List members i _ offset has_more) = Group_Member_List members i False offset has_more"
| "stop_loading (Room_Member_List rid members i _ offset has_more) = Room_Member_List rid members i False offset has_more"
| "stop_loading overlay = overlay"

definition peer_offline :: "uuid \<Rightarrow> chat_app \<Rightarrow> chat_app" where
  "peer_offline session_id app =
     app\<lparr>ca_private_chats := RBT.map_entry session_id (\<lambda>chat. chat\<lparr>pv_online := False\<rparr>) (ca_private_chats app)\<rparr>"

definition member_gone :: "uuid \<Rightarrow> chat_app \<Rightarrow> chat_app" where
  "member_gone session_id app =
     (let known = RBT.lookup (ca_members app) session_id;
          app = app\<lparr>ca_members := RBT.delete session_id (ca_members app)\<rparr>;
          app = (case known of Some n \<Rightarrow> push_room_notice (str ''general'') (Naming ''left the group'' n) app | None \<Rightarrow> app);
          app = peer_offline session_id app
      in app\<lparr>ca_selected_member := min (ca_selected_member app) (length (member_entries app) - 1)\<rparr>)"

section \<open>Events\<close>

fun handle_server_message :: "server_message \<Rightarrow> chat_app \<Rightarrow> chat_app" where
  "handle_server_message (Server_Chat message) app = show_chat message app"
| "handle_server_message (Room_Created room) app = show_room room app"
| "handle_server_message (Room_Joined room records) app = enter_room room records app"
| "handle_server_message (Room_Left rid) app = exit_room rid app"
| "handle_server_message (History_Page rid messages has_more) app = show_page rid messages has_more app"
| "handle_server_message (Join_Requests requests) app = show_requests requests app"
| "handle_server_message (Group_Members members offset has_more) app = show_group_members members offset has_more app"
| "handle_server_message (Room_Members rid members offset has_more) app = show_room_members rid members offset has_more app"
| "handle_server_message (Group_Token_Rotated kind token) app =
     app\<lparr>ca_status := Line ''token saved'', ca_overlay := Some (Token_Shown kind token)\<rparr>"
| "handle_server_message (Private_Message message status) app = handle_private_message message status app"
| "handle_server_message (Private_Closed peer_id) app = (peer_offline peer_id app)\<lparr>ca_status := Line ''peer left''\<rparr>"
| "handle_server_message (Member_Joined member) app =
     push_room_notice (str ''general'') (Naming ''joined the group'' (p_nickname member))
       (app\<lparr>ca_members := RBT.insert (p_session_id member) (p_nickname member) (ca_members app)\<rparr>)"
| "handle_server_message (Member_Left session_id) app = member_gone session_id app"
| "handle_server_message (Server_Error code message) app =
     app\<lparr>ca_overlay := map_option stop_loading (ca_overlay app), ca_status := Error_Line code message\<rparr>"
| "handle_server_message Pong app = app\<lparr>ca_status := Line ''connection fine''\<rparr>"
| "handle_server_message (Welcome _) app = app\<lparr>ca_status := Line ''repeated welcome ignored''\<rparr>"
| "handle_server_message (Gateway_Welcome _ _ _ _) app = app\<lparr>ca_status := Line ''gateway welcome ignored''\<rparr>"
| "handle_server_message (Join_Pending _ _ _) app = app\<lparr>ca_status := Line ''pending message ignored''\<rparr>"

fun handle_server_event :: "client_event \<Rightarrow> chat_app \<Rightarrow> chat_app" where
  "handle_server_event (From_Server message) app = handle_server_message message app"
| "handle_server_event (Disconnected reason) app =
     app\<lparr>ca_connected := False, ca_status := Naming ''disconnected'' reason\<rparr>"

end
