(* ===== verification/Chat_Keys.thy ===== *)
theory Chat_Keys
  imports Chat_View Credentials
begin

text \<open>
  The keys of the chat screen, pasting, and its loop (\<open>ChatApp::handle_key\<close>, \<open>paste\<close> and \<open>run_chat\<close> of
  \<open>src/tui.rs\<close>). A fresh message identifier is an argument; \<open>None\<close> is a panic.
\<close>

definition MEMBER_PAGE_SIZE_tui :: u32 where "MEMBER_PAGE_SIZE_tui = 40"
definition ROOM_NAME_BYTES :: nat where "ROOM_NAME_BYTES = 64"

datatype chat_key_action = No_Action | Send_Message client_message | Go_Back | Quit_Application

type_synonym chat_answer = "(chat_app \<times> chat_key_action) option"

abbreviation quiet :: "chat_app \<Rightarrow> chat_answer" where
  "quiet app \<equiv> Some (app, No_Action)"

abbreviation sending :: "chat_app \<Rightarrow> client_message \<Rightarrow> chat_answer" where
  "sending app message \<equiv> Some (app, Send_Message message)"

abbreviation with_overlay :: "chat_overlay \<Rightarrow> chat_app \<Rightarrow> chat_app" where
  "with_overlay overlay app \<equiv> app\<lparr>ca_overlay := Some overlay\<rparr>"

abbreviation without_overlay :: "chat_app \<Rightarrow> chat_app" where
  "without_overlay app \<equiv> app\<lparr>ca_overlay := None\<rparr>"

text \<open>\<open>u32::saturating_add\<close> and \<open>saturating_sub\<close>.\<close>

definition saturating_add :: "u32 \<Rightarrow> u32 \<Rightarrow> u32" where
  "saturating_add a b = (if unat a + unat b < 2 ^ 32 then a + b else -1)"

definition saturating_sub :: "u32 \<Rightarrow> u32 \<Rightarrow> u32" where
  "saturating_sub a b = (if b \<le> a then a - b else 0)"

text \<open>The kinds of token offered, without their labels.\<close>

definition token_rotation_choices :: "group_role \<Rightarrow> group_access_mode \<Rightarrow> group_token_kind list" where
  "token_rotation_choices role mode =
     (if role = Member then [Member_Token]
      else Admin_Token # (if mode = Invite then [Invite_Token] else []))"

section \<open>Panels\<close>

definition form_key :: "key_event \<Rightarrow> rstring \<Rightarrow> room_visibility \<Rightarrow> chat_app \<Rightarrow> chat_answer" where
  "form_key key name vis app =
     (case ke_code key of
        Key_Esc \<Rightarrow> quiet (without_overlay app)
      | Key_Backspace \<Rightarrow> quiet (with_overlay (Create_Room_Form (pop_char name) vis) app)
      | Key_Tab \<Rightarrow> quiet (with_overlay (Create_Room_Form name
          (case vis of Public_Room \<Rightarrow> Private_Room | Private_Room \<Rightarrow> Public_Room)) app)
      | Key_Enter \<Rightarrow> (case sanitize_room_name name of
          Inr name \<Rightarrow> sending (without_overlay app) (Create_Room name vis)
        | Inl e \<Rightarrow> quiet (app\<lparr>ca_status := Given_Text (error_text e)\<rparr>))
      | _ \<Rightarrow> (case typed key name ROOM_NAME_BYTES of
          Some name \<Rightarrow> quiet (with_overlay (Create_Room_Form name vis) app)
        | None \<Rightarrow> quiet app))"

definition notice_key :: "key_code \<Rightarrow> chat_app \<Rightarrow> chat_answer" where
  "notice_key code app = (if code = Key_Esc \<or> code = Key_Enter then quiet (without_overlay app) else quiet app)"

definition requests_key :: "key_code \<Rightarrow> join_request_summary list \<Rightarrow> nat \<Rightarrow> bool \<Rightarrow> chat_app \<Rightarrow> chat_answer" where
  "requests_key code requests selected loading app =
     (let panel = (\<lambda>i l. with_overlay (Join_Request_List requests i l) app);
          decide = (\<lambda>approve. case entry_at requests selected of
              None \<Rightarrow> None
            | Some request \<Rightarrow> sending (panel selected True) (Decide_Join_Request (jrs_request_id request) approve))
      in if code = Key_Esc then quiet (without_overlay app)
         else if code = Key_Up \<or> pressed code ''k'' then quiet (panel (cursor_up selected) loading)
         else if code = Key_Down \<or> pressed code ''j'' then quiet (panel (cursor_down (length requests) selected) loading)
         else if pressed code ''rR'' then sending (panel selected True) List_Join_Requests
         else if (code = Key_Enter \<or> pressed code ''aA'') \<and> requests \<noteq> [] \<and> \<not> loading then decide True
         else if (code = Key_Delete \<or> pressed code ''dD'') \<and> requests \<noteq> [] \<and> \<not> loading then decide False
         else quiet app)"

definition group_members_key ::
  "key_code \<Rightarrow> group_member_summary list \<Rightarrow> nat \<Rightarrow> bool \<Rightarrow> u32 \<Rightarrow> bool \<Rightarrow> chat_app \<Rightarrow> chat_answer" where
  "group_members_key code members selected loading offset has_more app =
     (let panel = (\<lambda>i l. with_overlay (Group_Member_List members i l offset has_more) app)
      in if code = Key_Esc then quiet (without_overlay app)
         else if code = Key_Up \<or> pressed code ''k'' then quiet (panel (cursor_up selected) loading)
         else if code = Key_Down \<or> pressed code ''j'' then quiet (panel (cursor_down (length members) selected) loading)
         else if pressed code ''rR'' then sending (panel selected True) (List_Group_Members offset)
         else if code = Key_PageDown \<and> has_more \<and> \<not> loading
         then sending (panel 0 True) (List_Group_Members (saturating_add offset MEMBER_PAGE_SIZE_tui))
         else if code = Key_PageUp \<and> offset > 0 \<and> \<not> loading
         then sending (panel 0 True) (List_Group_Members (saturating_sub offset MEMBER_PAGE_SIZE_tui))
         else if (code = Key_Enter \<or> pressed code ''bB'') \<and> members \<noteq> [] \<and> \<not> loading
         then (case entry_at members selected of
                 None \<Rightarrow> None
               | Some member \<Rightarrow>
                   if gms_role member = Admin then quiet (app\<lparr>ca_status := Line ''cannot ban an administrator''\<rparr>)
                   else sending (panel selected True) (Set_Member_Banned (gms_member_id member) (gms_status member = Active)))
         else quiet app)"

definition room_members_key ::
  "key_code \<Rightarrow> rstring \<Rightarrow> room_member_summary list \<Rightarrow> nat \<Rightarrow> bool \<Rightarrow> u32 \<Rightarrow> bool \<Rightarrow> chat_app \<Rightarrow> chat_answer" where
  "room_members_key code rid members selected loading offset has_more app =
     (let panel = (\<lambda>i l. with_overlay (Room_Member_List rid members i l offset has_more) app)
      in if code = Key_Esc then quiet (without_overlay app)
         else if code = Key_Up \<or> pressed code ''k'' then quiet (panel (cursor_up selected) loading)
         else if code = Key_Down \<or> pressed code ''j'' then quiet (panel (cursor_down (length members) selected) loading)
         else if pressed code ''rR'' then sending (panel selected True) (List_Room_Members rid offset)
         else if code = Key_PageDown \<and> has_more \<and> \<not> loading
         then sending (panel 0 True) (List_Room_Members rid (saturating_add offset MEMBER_PAGE_SIZE_tui))
         else if code = Key_PageUp \<and> offset > 0 \<and> \<not> loading
         then sending (panel 0 True) (List_Room_Members rid (saturating_sub offset MEMBER_PAGE_SIZE_tui))
         else if (code = Key_Enter \<or> pressed code '' '') \<and> members \<noteq> [] \<and> \<not> loading
         then (case entry_at members selected of
                 None \<Rightarrow> None
               | Some member \<Rightarrow>
                   if rms_is_owner member \<or> rms_group_role member = Admin
                   then quiet (app\<lparr>ca_status := Line ''owners and administrators keep access''\<rparr>)
                   else sending (panel selected True) (Set_Room_Member rid (rms_member_id member) (\<not> rms_included member)))
         else quiet app)"

definition rotation_key :: "key_code \<Rightarrow> nat \<Rightarrow> bool \<Rightarrow> chat_app \<Rightarrow> chat_answer" where
  "rotation_key code selected confirming app =
     (let choices = token_rotation_choices (ca_role app) (ca_access_mode app)
      in if code = Key_Esc then quiet (without_overlay app)
         else if code = Key_Up \<or> pressed code ''k'' then quiet (with_overlay (Rotation_Choice (cursor_up selected) False) app)
         else if code = Key_Down \<or> pressed code ''j''
         then quiet (with_overlay (Rotation_Choice (cursor_down (length choices) selected) False) app)
         else if code = Key_Enter
         then quiet (with_overlay (Rotation_Choice selected True) (app\<lparr>ca_status := Line ''confirm the rotation''\<rparr>))
         else if pressed code ''yY'' \<and> confirming
         then (case entry_at choices selected of None \<Rightarrow> None | Some kind \<Rightarrow> sending app (Rotate_Group_Token kind))
         else quiet app)"

definition overlay_key :: "key_event \<Rightarrow> chat_overlay \<Rightarrow> chat_app \<Rightarrow> chat_answer" where
  "overlay_key key overlay app =
     (let code = ke_code key
      in case overlay of
           Create_Room_Form name vis \<Rightarrow> form_key key name vis app
         | Credentials_Shown _ \<Rightarrow> notice_key code app
         | Join_Request_List requests selected loading \<Rightarrow> requests_key code requests selected loading app
         | Group_Member_List members selected loading offset has_more \<Rightarrow>
             group_members_key code members selected loading offset has_more app
         | Room_Member_List rid members selected loading offset has_more \<Rightarrow>
             room_members_key code rid members selected loading offset has_more app
         | Rotation_Choice selected confirming \<Rightarrow> rotation_key code selected confirming app
         | Token_Shown _ _ \<Rightarrow> notice_key code app)"

section \<open>Conversations\<close>

definition clear_active_view :: "chat_app \<Rightarrow> chat_app" where
  "clear_active_view app =
     (case ca_active app of
        In_Room rid \<Rightarrow> app\<lparr>ca_rooms := RBT.map_entry rid (\<lambda>room. room\<lparr>rv_items := []\<rparr>) (ca_rooms app)\<rparr>
      | With_Peer peer_id \<Rightarrow>
          app\<lparr>ca_private_chats := RBT.map_entry peer_id (\<lambda>chat. chat\<lparr>pv_items := []\<rparr>) (ca_private_chats app)\<rparr>)
       \<lparr>ca_status := Line ''view cleared''\<rparr>"

definition activate :: "conversation \<Rightarrow> chat_app \<Rightarrow> chat_app" where
  "activate target app =
     (let app = app\<lparr>ca_active := target, ca_scroll := 0\<rparr>
      in case target of
           In_Room rid \<Rightarrow> app\<lparr>ca_rooms := RBT.map_entry rid (\<lambda>room. room\<lparr>rv_unread := 0\<rparr>) (ca_rooms app)\<rparr>
         | With_Peer peer_id \<Rightarrow>
             app\<lparr>ca_private_chats := RBT.map_entry peer_id (\<lambda>chat. chat\<lparr>pv_unread := 0\<rparr>) (ca_private_chats app)\<rparr>)"

definition private_send_locked :: "chat_app \<Rightarrow> notice option" where
  "private_send_locked app =
     (case ca_active app of
        In_Room _ \<Rightarrow> None
      | With_Peer peer_id \<Rightarrow> (case RBT.lookup (ca_private_chats app) peer_id of
          None \<Rightarrow> None
        | Some chat \<Rightarrow>
            if \<not> pv_online chat then Some (Line ''peer offline'')
            else if pv_status chat = Some (Awaiting_Reply (ca_session_id app)) then Some (Line ''waiting for the first reply'')
            else None))"

definition prepare_message :: "uuid \<Rightarrow> chat_app \<Rightarrow> chat_app \<times> chat_key_action" where
  "prepare_message fresh app =
     (case sanitize_chat_text (ca_input app) of
        Inl e \<Rightarrow> (app\<lparr>ca_status := Given_Text (error_text e)\<rparr>, No_Action)
      | Inr body \<Rightarrow>
          (case ca_active app of
             In_Room rid \<Rightarrow>
               if \<not> (case RBT.lookup (ca_rooms app) rid of Some room \<Rightarrow> rv_joined room | None \<Rightarrow> False)
               then (app\<lparr>ca_status := Line ''join the room first''\<rparr>, No_Action)
               else (app, Send_Message (Chat rid fresh body))
           | With_Peer peer_id \<Rightarrow>
               (case RBT.lookup (ca_private_chats app) peer_id of
                  None \<Rightarrow> (app, No_Action)
                | Some private \<Rightarrow>
                    if \<not> pv_online private then (app\<lparr>ca_status := Line ''peer offline''\<rparr>, No_Action)
                    else if pv_status private = Some (Awaiting_Reply (ca_session_id app))
                    then (app\<lparr>ca_status := Line ''wait for a reply''\<rparr>, No_Action)
                    else (if pv_status private = None
                            then app\<lparr>ca_private_chats := RBT.map_entry peer_id
                                   (\<lambda>chat. chat\<lparr>pv_status := Some (Awaiting_Reply (ca_session_id app))\<rparr>) (ca_private_chats app)\<rparr>
                            else app,
                          Send_Message (Private_Chat peer_id fresh body)))))"

text \<open>\<open>PageUp\<close>: further up, and from the gateway when the room has more.\<close>

definition page_up :: "chat_app \<Rightarrow> chat_app \<times> chat_key_action" where
  "page_up app =
     (let app = app\<lparr>ca_scroll := ca_scroll app + 8\<rparr>
      in case ca_active app of
           With_Peer _ \<Rightarrow> (app, No_Action)
         | In_Room rid \<Rightarrow>
             (case RBT.lookup (ca_rooms app) rid of
                None \<Rightarrow> (app, No_Action)
              | Some room \<Rightarrow>
                  if rv_has_more room \<and> \<not> rv_loading room
                  then (case first_sequence (rv_items room) of
                      None \<Rightarrow> (app, No_Action)
                    | Some before \<Rightarrow>
                        (app\<lparr>ca_rooms := RBT.map_entry rid (\<lambda>room. room\<lparr>rv_loading := True\<rparr>) (ca_rooms app),
                             ca_status := Line ''loading older messages''\<rparr>,
                         Send_Message (Load_History rid before 100)))
                  else (app, No_Action)))"

definition handle_input_key :: "uuid \<Rightarrow> key_event \<Rightarrow> chat_app \<Rightarrow> chat_app \<times> chat_key_action" where
  "handle_input_key fresh key app =
     (case ke_code key of
        Key_Enter \<Rightarrow> if trim (ca_input app) \<noteq> [] then prepare_message fresh app else (app, No_Action)
      | Key_Backspace \<Rightarrow> (app\<lparr>ca_input := pop_char (ca_input app)\<rparr>, No_Action)
      | Key_PageUp \<Rightarrow> page_up app
      | Key_PageDown \<Rightarrow> (app\<lparr>ca_scroll := ca_scroll app - 8\<rparr>, No_Action)
      | Key_End \<Rightarrow> (app\<lparr>ca_scroll := 0\<rparr>, No_Action)
      | _ \<Rightarrow> (case typed key (ca_input app) MAX_MESSAGE_BYTES of
          Some typed_input \<Rightarrow> (app\<lparr>ca_input := typed_input\<rparr>, No_Action)
        | None \<Rightarrow> (app, No_Action)))"

definition handle_conversation_key :: "key_code \<Rightarrow> chat_app \<Rightarrow> chat_app \<times> chat_key_action" where
  "handle_conversation_key code app =
     (let entries = conversation_entries app; chosen = entry_at entries (ca_selected_conversation app)
      in if code = Key_Up \<or> pressed code ''k''
         then (app\<lparr>ca_selected_conversation := cursor_up (ca_selected_conversation app)\<rparr>, No_Action)
         else if code = Key_Down \<or> pressed code ''j''
         then (app\<lparr>ca_selected_conversation := cursor_down (length entries) (ca_selected_conversation app)\<rparr>, No_Action)
         else if pressed code ''cC'' then (with_overlay (Create_Room_Form [] Public_Room) app, No_Action)
         else if code = Key_Delete
         then (case chosen of Some (In_Room rid) \<Rightarrow> (app, Send_Message (Leave_Room rid)) | _ \<Rightarrow> (app, No_Action))
         else if code = Key_Enter
         then (case chosen of
                 None \<Rightarrow> (app, No_Action)
               | Some (In_Room rid) \<Rightarrow>
                   if (case RBT.lookup (ca_rooms app) rid of Some room \<Rightarrow> rv_joined room | None \<Rightarrow> False)
                   then ((activate (In_Room rid) app)\<lparr>ca_focus := Focus_Input\<rparr>, No_Action)
                   else (app\<lparr>ca_status := Line ''joining the room''\<rparr>, Send_Message (Join_Room rid))
               | Some (With_Peer peer_id) \<Rightarrow> ((activate (With_Peer peer_id) app)\<lparr>ca_focus := Focus_Input\<rparr>, No_Action))
         else (app, No_Action))"

definition open_private :: "uuid \<Rightarrow> rstring \<Rightarrow> chat_app \<Rightarrow> chat_app" where
  "open_private peer_id nickname app =
     (let peer = \<lparr>p_session_id = peer_id, p_member_id = 0, p_nickname = nickname, p_direct = None\<rparr>;
          app = app\<lparr>ca_private_chats := or_insert peer_id (new_private_view peer) (ca_private_chats app)\<rparr>
      in (sync_conversation_selection (activate (With_Peer peer_id) app))
           \<lparr>ca_focus := Focus_Input, ca_status := Line ''the first message waits for a reply''\<rparr>)"

definition handle_member_key :: "key_code \<Rightarrow> chat_app \<Rightarrow> chat_app" where
  "handle_member_key code app =
     (let members = member_entries app
      in if code = Key_Up \<or> pressed code ''k'' then app\<lparr>ca_selected_member := cursor_up (ca_selected_member app)\<rparr>
         else if code = Key_Down \<or> pressed code ''j''
         then app\<lparr>ca_selected_member := cursor_down (length members) (ca_selected_member app)\<rparr>
         else if code = Key_Enter
         then (case entry_at members (ca_selected_member app) of
                 Some (peer_id, nickname) \<Rightarrow> open_private peer_id nickname app
               | None \<Rightarrow> app)
         else app)"

section \<open>Keys\<close>

definition next_focus :: "chat_focus \<Rightarrow> chat_focus" where
  "next_focus f = (case f of Focus_Input \<Rightarrow> Focus_Conversations | Focus_Conversations \<Rightarrow> Focus_Members | Focus_Members \<Rightarrow> Focus_Input)"

definition previous_focus :: "chat_focus \<Rightarrow> chat_focus" where
  "previous_focus f = (case f of Focus_Input \<Rightarrow> Focus_Members | Focus_Members \<Rightarrow> Focus_Conversations | Focus_Conversations \<Rightarrow> Focus_Input)"

definition toggle_focus_mode :: "chat_app \<Rightarrow> chat_app" where
  "toggle_focus_mode app =
     app\<lparr>ca_focus_mode := \<not> ca_focus_mode app, ca_focus := Focus_Input,
         ca_status := (if \<not> ca_focus_mode app then Line ''focus mode on'' else Line ''focus mode off'')\<rparr>"

definition open_room_members :: "chat_app \<Rightarrow> chat_app \<times> chat_key_action" where
  "open_room_members app =
     (case ca_active app of
        With_Peer _ \<Rightarrow> (app\<lparr>ca_status := Line ''select a private room first''\<rparr>, No_Action)
      | In_Room rid \<Rightarrow>
          if (case RBT.lookup (ca_rooms app) rid of Some room \<Rightarrow> rs_visibility (rv_summary room) = Private_Room | None \<Rightarrow> False)
          then (with_overlay (Room_Member_List rid [] 0 True 0 False) app, Send_Message (List_Room_Members rid 0))
          else (app\<lparr>ca_status := Line ''the room is public''\<rparr>, No_Action))"

text \<open>The control shortcuts, when they apply.\<close>

definition control_key :: "key_event \<Rightarrow> chat_app \<Rightarrow> (chat_app \<times> chat_key_action) option" where
  "control_key key app =
     (if \<not> ke_control key then None
      else if pressed (ke_code key) ''q'' then Some (app, Quit_Application)
      else if pressed (ke_code key) ''l'' then Some (clear_active_view app, No_Action)
      else if pressed (ke_code key) ''w'' \<and> ca_focus app = Focus_Input
      then Some (app\<lparr>ca_input := trim_last_word (ca_input app)\<rparr>, No_Action)
      else None)"

definition focused_key :: "uuid \<Rightarrow> key_event \<Rightarrow> chat_app \<Rightarrow> chat_app \<times> chat_key_action" where
  "focused_key fresh key app =
     (case ca_focus app of
        Focus_Input \<Rightarrow> handle_input_key fresh key app
      | Focus_Conversations \<Rightarrow> handle_conversation_key (ke_code key) app
      | Focus_Members \<Rightarrow> (handle_member_key (ke_code key) app, No_Action))"

definition screen_key :: "uuid \<Rightarrow> key_event \<Rightarrow> chat_app \<Rightarrow> chat_app \<times> chat_key_action" where
  "screen_key fresh key app =
     (let code = ke_code key; admin = (ca_role app = Admin)
      in if code = Key_Esc then (app, Go_Back)
         else if code = Key_Function 2 then (with_overlay (Create_Room_Form [] Public_Room) app, No_Action)
         else if code = Key_Function 4 \<and> admin
         then (with_overlay (Join_Request_List [] 0 True) (app\<lparr>ca_status := Line ''loading requests''\<rparr>), Send_Message List_Join_Requests)
         else if code = Key_Function 5 then open_room_members app
         else if code = Key_Function 6 \<and> admin
         then (with_overlay (Group_Member_List [] 0 True 0 False) app, Send_Message (List_Group_Members 0))
         else if code = Key_Function 7 then (with_overlay (Rotation_Choice 0 False) app, No_Action)
         else if code = Key_Tab then (app\<lparr>ca_focus := next_focus (ca_focus app)\<rparr>, No_Action)
         else if code = Key_BackTab then (app\<lparr>ca_focus := previous_focus (ca_focus app)\<rparr>, No_Action)
         else focused_key fresh key app)"

definition chat_key :: "uuid \<Rightarrow> key_event \<Rightarrow> chat_app \<Rightarrow> chat_answer" where
  "chat_key fresh key app =
     (if ca_overlay app = None \<and> ke_code key = Key_Function 3 then quiet (toggle_focus_mode app)
      else case ca_overlay app of
        Some overlay \<Rightarrow> overlay_key key overlay app
      | None \<Rightarrow> (case control_key key app of
          Some answer \<Rightarrow> Some answer
        | None \<Rightarrow>
            if ca_focus_mode app
            then (if ke_code key = Key_Esc then Some (app, Go_Back) else Some (handle_input_key fresh key app))
            else Some (screen_key fresh key app)))"

definition chat_paste :: "rstring \<Rightarrow> chat_app \<Rightarrow> chat_app" where
  "chat_paste raw app =
     (case ca_overlay app of
        Some (Create_Room_Form name vis) \<Rightarrow>
          with_overlay (Create_Room_Form (extend_pasted name (sanitize_paste_for_input raw) ROOM_NAME_BYTES) vis) app
      | Some _ \<Rightarrow> app
      | None \<Rightarrow>
          if ca_focus app = Focus_Input
          then (let pasted = sanitize_paste_for_input raw
                in if byte_len (ca_input app) + byte_len pasted \<le> MAX_MESSAGE_BYTES
                   then app\<lparr>ca_input := ca_input app @ pasted\<rparr>
                   else app\<lparr>ca_status := Line ''message too long''\<rparr>)
          else app)"

section \<open>The loop\<close>

text \<open>What the system does to one saving: which calls fail, how much a failing write wrote, the fresh name.\<close>

record saving_conditions =
  sv_fails :: "io_call \<Rightarrow> bool"
  sv_written :: nat
  sv_unique :: rstring

text \<open>
  A rotated token replaces the saved one of its kind; the error of a failed saving carries the token to
  the user.
\<close>

definition persist_rotated_token ::
  "saving_conditions \<Rightarrow> credential_codec \<Rightarrow> uuid \<Rightarrow> uuid \<Rightarrow> group_token_kind \<Rightarrow> rstring \<Rightarrow>
   credential_store \<Rightarrow> disk \<Rightarrow> credential_store \<times> disk \<times> (error + unit)" where
  "persist_rotated_token sv C gw gid kind token store d =
     (case credential_get store gw gid of
        None \<Rightarrow> (store, d, Inl (Bail (str ''rotated token arrived without a saved group credential'')))
      | Some existing \<Rightarrow>
          (let (join, invite) = (case kind of
                 Invite_Token \<Rightarrow> (sc_join_token existing, Some token)
               | _ \<Rightarrow> (token, sc_invite_token existing))
           in case credential_set (sv_fails sv) (sv_written sv) (sv_unique sv) C gw gid join invite store d of
                (store', d', Inl e) \<Rightarrow>
                  (store', d', Inl (Bail (str ''rotated token could not be saved; copy this token now: '' @ token)))
              | (store', d', Inr _) \<Rightarrow> (store', d', Inr ())))"

text \<open>
  Events of the terminal and of the connection. A key comes with whether it was released, the identifier
  for a message it may send, and why the channel would refuse that message, if it does. A closed
  channel is a connection event without content.
\<close>

datatype chat_event =
    Chat_Key bool key_event uuid "rstring option"
  | Chat_Paste rstring
  | Chat_Terminal_Error rstring
  | Chat_Terminal_Closed
  | Connection_Event saving_conditions "client_event option"

datatype chat_action = Back_To_Lobby | Quit_The_Application

text \<open>Why the loop ends: a panic, an error, or an action.\<close>

datatype chat_end = Chat_Panics | Chat_Fails error | Chat_Ends chat_action

record chat_world =
  cw_app :: chat_app
  cw_store :: credential_store
  cw_disk :: disk

definition finish_send :: "rstring option \<Rightarrow> chat_app \<Rightarrow> chat_app" where
  "finish_send refused app =
     (case refused of
        None \<Rightarrow> app\<lparr>ca_input := [], ca_status := Line ''sent''\<rparr>
      | Some reason \<Rightarrow> app\<lparr>ca_status := Naming ''sending failed'' reason\<rparr>)"

text \<open>The saving before an event is shown, for a session with a group of a gateway.\<close>

definition persist_event ::
  "credential_codec \<Rightarrow> uuid \<Rightarrow> uuid \<Rightarrow> saving_conditions \<Rightarrow> client_event \<Rightarrow> credential_store \<Rightarrow> disk \<Rightarrow>
   credential_store \<times> disk \<times> (error + unit)" where
  "persist_event C gw gid sv event store d =
     (case event of
        From_Server (Group_Token_Rotated kind token) \<Rightarrow> persist_rotated_token sv C gw gid kind token store d
      | _ \<Rightarrow> (store, d, Inr ()))"

text \<open>One turn of the loop; the messages that were sent are part of the answer.\<close>

fun chat_step ::
  "credential_codec \<Rightarrow> uuid \<Rightarrow> uuid \<Rightarrow> chat_event \<Rightarrow> chat_world \<Rightarrow> chat_world \<times> client_message list \<times> chat_end option" where
  "chat_step C gw gid (Chat_Key released key fresh refused) cw =
     (if released then (cw, [], None)
      else case chat_key fresh key (cw_app cw) of
        None \<Rightarrow> (cw, [], Some Chat_Panics)
      | Some (app, No_Action) \<Rightarrow> (cw\<lparr>cw_app := app\<rparr>, [], None)
      | Some (app, Go_Back) \<Rightarrow> (cw\<lparr>cw_app := app\<rparr>, [], Some (Chat_Ends Back_To_Lobby))
      | Some (app, Quit_Application) \<Rightarrow> (cw\<lparr>cw_app := app\<rparr>, [], Some (Chat_Ends Quit_The_Application))
      | Some (app, Send_Message message) \<Rightarrow>
          (cw\<lparr>cw_app := finish_send refused app\<rparr>, (if refused = None then [message] else []), None))"
| "chat_step C gw gid (Chat_Paste raw) cw = (cw\<lparr>cw_app := chat_paste raw (cw_app cw)\<rparr>, [], None)"
| "chat_step C gw gid (Chat_Terminal_Error e) cw =
     (cw\<lparr>cw_app := (cw_app cw)\<lparr>ca_status := Naming ''terminal failed'' e\<rparr>\<rparr>, [], None)"
| "chat_step C gw gid Chat_Terminal_Closed cw = (cw, [], Some (Chat_Ends Back_To_Lobby))"
| "chat_step C gw gid (Connection_Event sv None) cw =
     (cw\<lparr>cw_app := (cw_app cw)\<lparr>ca_connected := False, ca_status := Line ''connection closed''\<rparr>\<rparr>, [], None)"
| "chat_step C gw gid (Connection_Event sv (Some event)) cw =
     (case persist_event C gw gid sv event (cw_store cw) (cw_disk cw) of
        (store, d, Inl e) \<Rightarrow> (cw\<lparr>cw_store := store, cw_disk := d\<rparr>, [], Some (Chat_Fails e))
      | (store, d, Inr _) \<Rightarrow>
          (\<lparr>cw_app = handle_server_event event (cw_app cw), cw_store = store, cw_disk = d\<rparr>, [], None))"

fun chat_loop ::
  "credential_codec \<Rightarrow> uuid \<Rightarrow> uuid \<Rightarrow> chat_event list \<Rightarrow> chat_world \<Rightarrow> chat_world \<times> client_message list \<times> chat_end option" where
  "chat_loop C gw gid [] cw = (cw, [], None)"
| "chat_loop C gw gid (event # events) cw =
     (case chat_step C gw gid event cw of
        (cw, sent, Some finish) \<Rightarrow> (cw, sent, Some finish)
      | (cw, sent, None) \<Rightarrow> (case chat_loop C gw gid events cw of (cw, later, finish) \<Rightarrow> (cw, sent @ later, finish)))"

definition run_chat ::
  "credential_codec \<Rightarrow> session_info \<Rightarrow> credential_store \<Rightarrow> disk \<Rightarrow> chat_event list \<Rightarrow>
   chat_world \<times> client_message list \<times> chat_end option" where
  "run_chat C session store d events =
     chat_loop C (gsn_gateway_id (si_gateway session)) (w_group_id (si_welcome session)) events
       \<lparr>cw_app = new_chat session, cw_store = store, cw_disk = d\<rparr>"

end
