(* ===== verification/Chat_Theorems.thy ===== *)
theory Chat_Theorems
  imports Chat_Keys Credentials_Theorems
begin

text \<open>
  What the chat screen guarantees, whatever is typed, pasted and received, and where it does not do what
  it means to.
\<close>

section \<open>Staying within the panels\<close>

fun panel_ok :: "nat \<Rightarrow> chat_overlay \<Rightarrow> bool" where
  "panel_ok n (Join_Request_List requests i _) \<longleftrightarrow> i \<le> length requests - 1"
| "panel_ok n (Group_Member_List members i _ _ _) \<longleftrightarrow> i \<le> length members - 1"
| "panel_ok n (Room_Member_List _ members i _ _ _) \<longleftrightarrow> i \<le> length members - 1"
| "panel_ok n (Rotation_Choice i _) \<longleftrightarrow> i \<le> n - 1"
| "panel_ok n _ \<longleftrightarrow> True"

definition choices_of :: "chat_app \<Rightarrow> nat" where
  "choices_of app = length (token_rotation_choices (ca_role app) (ca_access_mode app))"

definition chat_ok :: "chat_app \<Rightarrow> bool" where
  "chat_ok app \<longleftrightarrow> pred_option (panel_ok (choices_of app)) (ca_overlay app)"

lemma chat_ok_None: "ca_overlay app = None \<Longrightarrow> chat_ok app"
  by (simp add: chat_ok_def)

lemma closed_panel_ok [simp]: "chat_ok (without_overlay app)"
  by (simp add: chat_ok_def)


text \<open>Nothing but the overlay, the role and the access mode matters.\<close>

definition same_panel :: "chat_app \<Rightarrow> chat_app \<Rightarrow> bool" where
  "same_panel app app' \<longleftrightarrow> ca_overlay app' = ca_overlay app \<and> ca_role app' = ca_role app \<and> ca_access_mode app' = ca_access_mode app"

lemma same_panel_ok: "same_panel app app' \<Longrightarrow> chat_ok app' = chat_ok app"
  by (simp add: same_panel_def chat_ok_def choices_of_def)

named_theorems panel_defs \<open>operations that leave the panel alone\<close>

lemma sync_panel [simp]:
  "ca_overlay (sync_conversation_selection app) = ca_overlay app"
  "ca_role (sync_conversation_selection app) = ca_role app"
  "ca_access_mode (sync_conversation_selection app) = ca_access_mode app"
  by (simp_all add: sync_conversation_selection_def split: option.split)

declare push_room_notice_def [panel_defs] show_chat_def [panel_defs] show_room_def [panel_defs] enter_room_def [panel_defs]
  exit_room_def [panel_defs] show_page_def [panel_defs] handle_private_message_def [panel_defs] peer_offline_def [panel_defs]
  member_gone_def [panel_defs] clear_active_view_def [panel_defs] activate_def [panel_defs] finish_send_def [panel_defs]

lemma message_panels:
  "same_panel app (show_chat m app)" "same_panel app (show_room room app)" "same_panel app (enter_room room records app)"
  "same_panel app (exit_room rid app)" "same_panel app (show_page rid ms b app)"
  "same_panel app (handle_private_message dm st app)" "same_panel app (peer_offline sid app)"
  "same_panel app (member_gone sid app)" "same_panel app (push_room_notice rid line app)"
  by (auto simp: same_panel_def panel_defs Let_def split: option.split)

lemma loading_ok [simp]: "panel_ok n (stop_loading overlay) = panel_ok n overlay"
  by (cases overlay) simp_all

lemma chat_ok_updates [simp]:
  "chat_ok (app\<lparr>ca_status := n\<rparr>) = chat_ok app" "chat_ok (app\<lparr>ca_connected := b\<rparr>) = chat_ok app"
  "chat_ok (app\<lparr>ca_rooms := rs\<rparr>) = chat_ok app" "chat_ok (app\<lparr>ca_private_chats := ps\<rparr>) = chat_ok app"
  "chat_ok (app\<lparr>ca_members := ms\<rparr>) = chat_ok app" "chat_ok (app\<lparr>ca_input := w\<rparr>) = chat_ok app"
  "chat_ok (app\<lparr>ca_scroll := i\<rparr>) = chat_ok app" "chat_ok (app\<lparr>ca_focus := f\<rparr>) = chat_ok app"
  "chat_ok (app\<lparr>ca_active := c\<rparr>) = chat_ok app" "chat_ok (app\<lparr>ca_focus_mode := b\<rparr>) = chat_ok app"
  "chat_ok (app\<lparr>ca_selected_conversation := i\<rparr>) = chat_ok app" "chat_ok (app\<lparr>ca_selected_member := i\<rparr>) = chat_ok app"
  by (simp_all add: chat_ok_def choices_of_def)

lemma open_panel_ok [simp]:
  "chat_ok (app\<lparr>ca_overlay := Some overlay\<rparr>) \<longleftrightarrow> panel_ok (choices_of app) overlay"
  by (simp add: chat_ok_def choices_of_def)

lemma stop_panel_ok [simp]:
  "chat_ok (app\<lparr>ca_overlay := map_option stop_loading (ca_overlay app)\<rparr>) = chat_ok app"
  by (cases "ca_overlay app") (simp_all add: chat_ok_def choices_of_def)

lemma shown_panels_ok [simp]:
  "chat_ok (show_requests requests app)" "chat_ok (show_group_members members off b app)"
  "chat_ok (show_room_members rid room_members off b app)"
  by (simp_all add: show_requests_def show_group_members_def show_room_members_def Let_def)

lemmas message_panels_ok [simp] = message_panels [THEN same_panel_ok]



section \<open>Keys\<close>


lemma choices_same [simp]:
  "choices_of (app\<lparr>ca_status := n\<rparr>) = choices_of app"
  by (simp add: choices_of_def)




section \<open>The screen\<close>

lemma sync_ok [simp]: "chat_ok (sync_conversation_selection app) = chat_ok app"
  by (simp add: sync_conversation_selection_def split: option.split)

lemma view_ok [simp]:
  "chat_ok (activate target app) = chat_ok app" "chat_ok (clear_active_view app) = chat_ok app"
  "chat_ok (finish_send refused app) = chat_ok app" "chat_ok (open_private pid n app) = chat_ok app"
  by (simp_all add: activate_def clear_active_view_def finish_send_def open_private_def Let_def
    split: conversation.split option.split)

lemma member_key_ok [simp]: "chat_ok (handle_member_key code app) = chat_ok app"
  by (simp add: handle_member_key_def Let_def split: option.split prod.split)

lemma prepare_ok [simp]: "chat_ok (fst (prepare_message fresh app)) = chat_ok app"
  by (simp add: prepare_message_def split: sum.split conversation.split option.split)

lemma page_up_ok [simp]: "chat_ok (fst (page_up app)) = chat_ok app"
  by (simp add: page_up_def Let_def split: conversation.split option.split)

lemma input_key_ok [simp]: "chat_ok (fst (handle_input_key fresh key app)) = chat_ok app"
  by (simp add: handle_input_key_def split: key_code.split option.split)











end
