(* ===== verification/Chat_Samples.thy ===== *)
theory Chat_Samples
  imports Chat_Keys Gateway_Samples
begin

text \<open>A chat screen for the witnesses: the member \<open>ada\<close> of the gateway samples, with her private room open.\<close>

definition sample_view :: "ui_item list \<Rightarrow> bool \<Rightarrow> room_view" where
  "sample_view items has_more = \<lparr>rv_summary = sample_ops, rv_joined = True, rv_items = items, rv_unread = 0,
     rv_has_more = has_more, rv_loading = False\<rparr>"

definition sample_chat :: "room_view \<Rightarrow> private_views \<Rightarrow> conversation \<Rightarrow> rstring \<Rightarrow> chat_app" where
  "sample_chat view privates active written =
     \<lparr>ca_group_name = str ''lab'', ca_access_mode = Invite, ca_role = Member, ca_session_id = 90, ca_member_id = 11,
      ca_rooms = RBT.insert (str ''r1'') view RBT.empty, ca_private_chats = privates, ca_members = RBT.empty,
      ca_active = active, ca_selected_conversation = 0, ca_selected_member = 0, ca_focus = Focus_Input, ca_overlay = None,
      ca_input = written, ca_status = Line ''connection ready'', ca_scroll = 0, ca_connected = True, ca_focus_mode = False\<rparr>"

lemma hi_accepted: "sanitize_chat_text (str ''hi'') = Inr (str ''hi'')"
  by (simp add: sanitize_chat_text_def str_def byte_len_def len_utf8_def MAX_MESSAGE_BYTES_def MAX_MESSAGE_LINES_def
      is_forbidden_terminal_char_def is_control_def trim_def trim_start_def trim_end_def is_whitespace_def)

lemma r1_safe: "is_safe_identifier (str ''r1'')"
  by code_simp

end
