(* ===== verification/Chat_Requests.thy ===== *)
theory Chat_Requests
  imports Chat_Samples
begin

text \<open>
  What a user can make the chat screen send: a table of the requests with the state each needs, and that
  no key sends anything else.
\<close>

section \<open>Requests and what they need\<close>

definition joined_room :: "chat_app \<Rightarrow> rstring \<Rightarrow> bool" where
  "joined_room app rid = (case RBT.lookup (ca_rooms app) rid of Some room \<Rightarrow> rv_joined room | None \<Rightarrow> False)"

definition writable_peer :: "chat_app \<Rightarrow> uuid \<Rightarrow> bool" where
  "writable_peer app peer =
     (case RBT.lookup (ca_private_chats app) peer of
        Some chat \<Rightarrow> pv_online chat \<and> pv_status chat \<noteq> Some (Awaiting_Reply (ca_session_id app))
      | None \<Rightarrow> False)"

definition pageable_room :: "chat_app \<Rightarrow> rstring \<Rightarrow> u64 \<Rightarrow> bool" where
  "pageable_room app rid before =
     (case RBT.lookup (ca_rooms app) rid of
        Some room \<Rightarrow> rv_has_more room \<and> \<not> rv_loading room \<and> first_sequence (rv_items room) = Some before
      | None \<Rightarrow> False)"

fun listed_request :: "uuid \<Rightarrow> chat_overlay option \<Rightarrow> bool" where
  "listed_request rid (Some (Join_Request_List requests _ loading)) \<longleftrightarrow>
     \<not> loading \<and> rid \<in> jrs_request_id ` set requests"
| "listed_request rid _ \<longleftrightarrow> False"

fun bannable_member :: "uuid \<Rightarrow> bool \<Rightarrow> chat_overlay option \<Rightarrow> bool" where
  "bannable_member mid banned (Some (Group_Member_List members _ loading _ _)) \<longleftrightarrow>
     \<not> loading \<and> (\<exists>m \<in> set members. gms_member_id m = mid \<and> gms_role m \<noteq> Admin \<and> banned = (gms_status m = Active))"
| "bannable_member mid banned _ \<longleftrightarrow> False"

fun switchable_member :: "rstring \<Rightarrow> uuid \<Rightarrow> bool \<Rightarrow> chat_overlay option \<Rightarrow> bool" where
  "switchable_member rid mid included (Some (Room_Member_List room members _ loading _ _)) \<longleftrightarrow>
     \<not> loading \<and> room = rid \<and>
     (\<exists>m \<in> set members. rms_member_id m = mid \<and> \<not> rms_is_owner m \<and> rms_group_role m \<noteq> Admin \<and> included = (\<not> rms_included m))"
| "switchable_member rid mid included _ \<longleftrightarrow> False"

fun confirmed_rotation :: "chat_overlay option \<Rightarrow> bool" where
  "confirmed_rotation (Some (Rotation_Choice _ confirming)) \<longleftrightarrow> confirming"
| "confirmed_rotation _ \<longleftrightarrow> False"

fun form_name :: "chat_overlay option \<Rightarrow> (rstring \<times> room_visibility) option" where
  "form_name (Some (Create_Room_Form name vis)) = Some (name, vis)"
| "form_name _ = None"

fun permitted :: "uuid \<Rightarrow> chat_app \<Rightarrow> client_message \<Rightarrow> bool" where
  "permitted fresh app (Chat rid mid body) \<longleftrightarrow>
     mid = fresh \<and> ca_overlay app = None \<and> ca_active app = In_Room rid \<and> joined_room app rid \<and> sanitize_chat_text (ca_input app) = Inr body"
| "permitted fresh app (Private_Chat peer mid body) \<longleftrightarrow>
     mid = fresh \<and> ca_overlay app = None \<and> ca_active app = With_Peer peer \<and> writable_peer app peer \<and>
     sanitize_chat_text (ca_input app) = Inr body"
| "permitted fresh app (Create_Room name vis) \<longleftrightarrow>
     (\<exists>raw. form_name (ca_overlay app) = Some (raw, vis) \<and> sanitize_room_name raw = Inr name)"
| "permitted fresh app (Join_Room rid) \<longleftrightarrow> In_Room rid \<in> set (conversation_entries app) \<and> \<not> joined_room app rid"
| "permitted fresh app (Leave_Room rid) \<longleftrightarrow> In_Room rid \<in> set (conversation_entries app)"
| "permitted fresh app (Load_History rid before limit) \<longleftrightarrow>
     ca_active app = In_Room rid \<and> pageable_room app rid before \<and> limit = 100"
| "permitted fresh app (Decide_Join_Request rid approve) \<longleftrightarrow> listed_request rid (ca_overlay app)"
| "permitted fresh app (Set_Member_Banned mid banned) \<longleftrightarrow> bannable_member mid banned (ca_overlay app)"
| "permitted fresh app (Set_Room_Member rid mid included) \<longleftrightarrow> switchable_member rid mid included (ca_overlay app)"
| "permitted fresh app (Rotate_Group_Token kind) \<longleftrightarrow>
     confirmed_rotation (ca_overlay app) \<and> kind \<in> set (token_rotation_choices (ca_role app) (ca_access_mode app))"
| "permitted fresh app List_Join_Requests \<longleftrightarrow> True"
| "permitted fresh app (List_Group_Members offset) \<longleftrightarrow> True"
| "permitted fresh app (List_Room_Members rid offset) \<longleftrightarrow> True"
| "permitted fresh app message \<longleftrightarrow> False"

fun sends_permitted :: "uuid \<Rightarrow> chat_app \<Rightarrow> chat_key_action \<Rightarrow> bool" where
  "sends_permitted fresh app (Send_Message message) \<longleftrightarrow> permitted fresh app message"
| "sends_permitted fresh app _ \<longleftrightarrow> True"

section \<open>Panels\<close>

lemma entry_at_image: "entry_at xs i = Some x \<Longrightarrow> x \<in> set xs"
  by (simp add: entry_at_Some)

lemma form_sends:
  "ca_overlay app = Some (Create_Room_Form name vis) \<Longrightarrow> form_key key name vis app = Some (app', action) \<Longrightarrow> sends_permitted fresh app action"
  by (auto simp: form_key_def split: key_code.splits sum.splits option.splits)

lemma requests_sends:
  "ca_overlay app = Some (Join_Request_List requests i l) \<Longrightarrow> requests_key code requests i l app = Some (app', action) \<Longrightarrow>
   sends_permitted fresh app action"
  by (auto simp: requests_key_def Let_def split: if_splits option.splits)

lemma group_members_sends:
  "ca_overlay app = Some (Group_Member_List members i l off b) \<Longrightarrow>
   group_members_key code members i l off b app = Some (app', action) \<Longrightarrow> sends_permitted fresh app action"
  by (auto simp: group_members_key_def Let_def split: if_splits option.splits intro!: bexI [of _ "members ! i"])

lemma room_members_sends:
  "ca_overlay app = Some (Room_Member_List rid members i l off b) \<Longrightarrow>
   room_members_key code rid members i l off b app = Some (app', action) \<Longrightarrow> sends_permitted fresh app action"
  by (auto simp: room_members_key_def Let_def split: if_splits option.splits intro!: bexI [of _ "members ! i"])

lemma rotation_sends:
  "ca_overlay app = Some (Rotation_Choice i c) \<Longrightarrow> rotation_key code i c app = Some (app', action) \<Longrightarrow> sends_permitted fresh app action"
  by (auto simp: rotation_key_def Let_def split: if_splits option.splits)

lemma notice_sends: "notice_key code app = Some (app', action) \<Longrightarrow> sends_permitted fresh app action"
  by (auto simp: notice_key_def split: if_splits)

lemma overlay_sends:
  "ca_overlay app = Some overlay \<Longrightarrow> overlay_key key overlay app = Some (app', action) \<Longrightarrow> sends_permitted fresh app action"
  by (cases overlay)
    (auto simp: overlay_key_def
      intro: form_sends requests_sends group_members_sends room_members_sends rotation_sends notice_sends)

section \<open>The screen\<close>

lemma input_sends: "ca_overlay app = None \<Longrightarrow> sends_permitted fresh app (snd (handle_input_key fresh key app))"
  by (auto simp: handle_input_key_def prepare_message_def page_up_def joined_room_def writable_peer_def pageable_room_def Let_def
    split: key_code.split sum.split option.splits conversation.split)

lemma conversation_sends: "sends_permitted fresh app (snd (handle_conversation_key code app))"
  by (auto simp: handle_conversation_key_def joined_room_def Let_def split: option.splits conversation.splits dest: nth_mem)

lemma screen_sends: "ca_overlay app = None \<Longrightarrow> sends_permitted fresh app (snd (screen_key fresh key app))"
  by (simp add: screen_key_def focused_key_def open_room_members_def conversation_sends input_sends Let_def
    split: chat_focus.split conversation.split)

lemma key_sends: "chat_key fresh key app = Some (app', action) \<Longrightarrow> sends_permitted fresh app action"
proof (cases "ca_overlay app")
  case None
  moreover assume "chat_key fresh key app = Some (app', action)"
  ultimately show ?thesis
    using input_sends [OF None, of fresh key] screen_sends [OF None, of fresh key]
    by (auto simp: chat_key_def control_key_def split: if_splits option.splits)
qed (auto simp: chat_key_def intro: overlay_sends)

section \<open>The loop\<close>

text \<open>The identifier drawn for a key.\<close>

fun drawn_for :: "chat_event \<Rightarrow> uuid" where
  "drawn_for (Chat_Key _ _ fresh _) = fresh"
| "drawn_for _ = 0"

text \<open>Text that the next filter leaves as it is.\<close>

fun settled_text :: "client_message \<Rightarrow> bool" where
  "settled_text (Chat _ _ body) \<longleftrightarrow> sanitize_chat_text body = Inr body"
| "settled_text (Private_Chat _ _ body) \<longleftrightarrow> sanitize_chat_text body = Inr body"
| "settled_text _ \<longleftrightarrow> True"

lemma permitted_settled: "permitted fresh app message \<Longrightarrow> settled_text message"
  by (cases message) (auto intro: chat_text.accepted_stable)

definition sent_by :: "credential_codec \<Rightarrow> uuid \<Rightarrow> uuid \<Rightarrow> chat_event \<Rightarrow> chat_world \<Rightarrow> client_message list" where
  "sent_by C gw gid event cw = fst (snd (chat_step C gw gid event cw))"

lemma step_sends: "list_all (permitted (drawn_for event) (cw_app cw)) (sent_by C gw gid event cw)"
  unfolding sent_by_def
  by (cases "(C, gw, gid, event, cw)" rule: chat_step.cases)
    (auto split: option.split chat_key_action.split prod.split sum.split dest: key_sends)

lemma step_sends_one: "length (sent_by C gw gid event cw) \<le> 1"
  unfolding sent_by_def
  by (cases "(C, gw, gid, event, cw)" rule: chat_step.cases)
    (auto split: option.split chat_key_action.split prod.split sum.split)

text \<open>
  C34. The chat screen sends only what the state in front of the user permits, at most one message per
  key: room text to the open room when it is joined, private text to the open peer when that peer is
  online and the opening is answered, a decision or a ban on an entry of the loaded list (never on an
  administrator, never on a room's owner), a rotation that was confirmed and that the role may ask for,
  a page only while none is loading. The text is filtered so that the gateway's own filter leaves it as
  it is, and neither pastes nor events of the connection send anything.
\<close>

theorem requests_are_permitted:
  "length (sent_by C gw gid event cw) \<le> 1 \<and>
   list_all (\<lambda>m. permitted (drawn_for event) (cw_app cw) m \<and> settled_text m) (sent_by C gw gid event cw) \<and>
   (sent_by C gw gid event cw = [] \<or> (\<exists>key. event = Chat_Key False key (drawn_for event) None))"
proof -
  have "sent_by C gw gid event cw = [] \<or> (\<exists>key. event = Chat_Key False key (drawn_for event) None)"
    unfolding sent_by_def
    by (cases "(C, gw, gid, event, cw)" rule: chat_step.cases)
      (auto split: option.split chat_key_action.split prod.split sum.split)
  then show ?thesis
    using step_sends_one [of C gw gid event cw] step_sends [of event cw C gw gid]
    by (auto simp: list_all_iff intro: permitted_settled)
qed

end
