(* ===== verification/Chat_Scrollback.thy ===== *)
theory Chat_Scrollback
  imports Chat_Samples Message_Log
begin

text \<open>
  Scrolling back through a room: \<open>PageUp\<close> of the chat screen, the gateway's answer, the client's filter and
  the page shown, put together. Nobody else is at work meanwhile.
\<close>

section \<open>The page shown\<close>

lemma prepend_page_eq:
  "prepend_page messages items =
   map Chat_Item (filter (\<lambda>m. cr_message_id m \<notin> set (chat_ids items)) messages) @ items"
  unfolding prepend_page_def by (induction messages) (simp_all add: fold_append)

lemma chat_ids_items [simp]: "chat_ids (map Chat_Item ms) = map cr_message_id ms"
  by (induction ms) simp_all

lemma first_sequence_items [simp]:
  "first_sequence (map Chat_Item ms) = (case ms of [] \<Rightarrow> None | m # _ \<Rightarrow> Some (cr_sequence m))"
  by (cases ms) simp_all

section \<open>The page sent\<close>

lemma fit_loop_prefix:
  "\<exists>i. fit_loop json_len ms used selected = selected @ take i ms \<and> (selected = [] \<and> ms \<noteq> [] \<longrightarrow> 0 < i)"
proof (induction ms arbitrary: used selected)
  case (Cons m ms)
  show ?case
  proof (cases "selected \<noteq> [] \<and> used + (case json_len m of Some n \<Rightarrow> n | None \<Rightarrow> HISTORY_FRAME_BUDGET) > HISTORY_FRAME_BUDGET")
    case True
    then show ?thesis by (intro exI [of _ 0]) (simp add: Let_def)
  next
    case False
    from Cons [of "used + (case json_len m of Some n \<Rightarrow> n | None \<Rightarrow> HISTORY_FRAME_BUDGET)" "selected @ [m]"] obtain i where
      "fit_loop json_len ms (used + (case json_len m of Some n \<Rightarrow> n | None \<Rightarrow> HISTORY_FRAME_BUDGET)) (selected @ [m]) =
       (selected @ [m]) @ take i ms" by blast
    with False show ?thesis by (intro exI [of _ "Suc i"]) (simp add: Let_def)
  qed
qed simp

lemma fit_history_suffix: "\<exists>i. fit_history_to_frame json_len ms = drop i ms \<and> (ms \<noteq> [] \<longrightarrow> i < length ms)"
proof -
  from fit_loop_prefix [of json_len "rev ms" 512 "[]"] obtain i where
    i: "fit_loop json_len (rev ms) 512 [] = take i (rev ms)" "ms \<noteq> [] \<Longrightarrow> 0 < i" by auto
  then have "fit_history_to_frame json_len ms = drop (length ms - i) ms"
    by (simp add: fit_history_to_frame_def take_rev)
  with i(2) show ?thesis by (intro exI [of _ "length ms - i"]) auto
qed

section \<open>Sequence numbers of a whole log\<close>

definition numbered :: "chat_record list \<Rightarrow> bool" where
  "numbered rs \<longleftrightarrow> length rs < 2 ^ 63 \<and> map cr_sequence rs = map (\<lambda>i. word_of_nat (i + 1)) [0..<length rs] \<and>
     distinct (map cr_message_id rs)"

lemma numbered_nth: "numbered rs \<Longrightarrow> i < length rs \<Longrightarrow> unat (cr_sequence (rs ! i)) = i + 1"
proof -
  assume n: "numbered rs" "i < length rs"
  then have "map cr_sequence rs ! i = word_of_nat (Suc i)" by (simp add: numbered_def)
  with n have "cr_sequence (rs ! i) = word_of_nat (Suc i)" by simp
  moreover have "Suc i < 2 ^ 64" using n by (simp add: numbered_def)
  ultimately show ?thesis by (simp add: unsigned_of_nat take_bit_nat_eq_self del: of_nat_Suc)
qed

lemma numbered_before:
  assumes "numbered rs" "k < length rs"
  shows "filter (\<lambda>m. cr_sequence m < cr_sequence (rs ! k)) rs = take k rs"
proof -
  have "filter (\<lambda>m. cr_sequence m < cr_sequence (rs ! k)) rs =
      filter (\<lambda>m. cr_sequence m < cr_sequence (rs ! k)) (take k rs) @ filter (\<lambda>m. cr_sequence m < cr_sequence (rs ! k)) (drop k rs)"
    by (metis append_take_drop_id filter_append)
  moreover have "filter (\<lambda>m. cr_sequence m < cr_sequence (rs ! k)) (take k rs) = take k rs"
    using assms by (auto simp: filter_id_conv in_set_conv_nth word_less_nat_alt numbered_nth)
  moreover have "filter (\<lambda>m. cr_sequence m < cr_sequence (rs ! k)) (drop k rs) = []"
    using assms by (auto simp: filter_empty_conv in_set_conv_nth word_less_nat_alt numbered_nth)
  ultimately show ?thesis by simp
qed

lemma room_numbered:
  assumes inv: "store_inv X key d" and r: "find_room d gid rid = Some r" and rs: "room_records X key d gid rid = Inr rs"
  shows "numbered rs"
proof -
  from room_records_Inr [OF inv r] rs have seq: "map cr_sequence rs = map word_of_int [1..r_next_sequence r - 1]"
    and ids: "map cr_message_id rs = map m_id (room_log d gid rid)" by auto
  have bound: "r_next_sequence r \<le> i64_max" using room_log_sequences(2) [OF inv r] .
  have len: "length rs = nat (r_next_sequence r - 1)" using arg_cong [OF seq, of length] by simp
  have "map cr_sequence rs = map (\<lambda>i. word_of_nat (i + 1)) [0..<length rs]"
    unfolding seq by (rule nth_equalityI) (auto simp: len nth_upto)
  moreover have "distinct (map m_id (t_messages d))"
    using inv by (simp add: store_inv_def schema_ok_def messages_ok_def)
  then have "distinct (map m_id (room_log d gid rid))"
    by (simp add: room_log_def distinct_map_filter)
  ultimately show ?thesis using bound len ids by (simp add: numbered_def i64_max_def)
qed

section \<open>One round\<close>

definition shows_from :: "chat_app \<Rightarrow> rstring \<Rightarrow> chat_record list \<Rightarrow> nat \<Rightarrow> bool" where
  "shows_from app rid rs k \<longleftrightarrow> ca_active app = In_Room rid \<and>
     (case RBT.lookup (ca_rooms app) rid of
        Some room \<Rightarrow> rv_items room = map Chat_Item (drop k rs) \<and> rv_has_more room = (0 < k) \<and> \<not> rv_loading room
      | None \<Rightarrow> False)"

text \<open>\<open>PageUp\<close>, and what it sets off.\<close>

definition scroll_round ::
  "externals \<Rightarrow> byte list \<Rightarrow> (chat_record \<Rightarrow> nat option) \<Rightarrow> uuid \<Rightarrow> uuid \<Rightarrow> world \<Rightarrow> chat_app \<Rightarrow> chat_app" where
  "scroll_round X key json_len gid sid w app =
     (case page_up app of
        (app, Send_Message (Load_History rid before limit)) \<Rightarrow>
          (case Option.bind (run (handle_load_history X key json_len gid sid rid before limit) w) (take_outbound sid) of
             Some (_, message) \<Rightarrow>
               (case sanitize_server_message message of
                  Inr message \<Rightarrow> handle_server_message message (finish_send None app)
                | Inl _ \<Rightarrow> finish_send None app)
           | None \<Rightarrow> finish_send None app)
      | (app, _) \<Rightarrow> app)"

lemma prepend_older:
  assumes "numbered rs" "j \<le> k" "k \<le> length rs"
  shows "prepend_page (drop j (take k rs)) (map Chat_Item (drop k rs)) = map Chat_Item (drop j rs)"
proof -
  have "distinct (map cr_message_id (take k rs @ drop k rs))" using assms by (simp add: numbered_def)
  then have "set (map cr_message_id (take k rs)) \<inter> set (map cr_message_id (drop k rs)) = {}"
    by (simp only: map_append distinct_append)
  then have "filter (\<lambda>m. cr_message_id m \<notin> set (map cr_message_id (drop k rs))) (drop j (take k rs)) = drop j (take k rs)"
    by (auto simp: filter_id_conv dest: in_set_dropD)
  moreover have "drop j (take k rs @ drop k rs) = drop j (take k rs) @ drop k rs"
    using assms(2,3) by (simp only: drop_append length_take) simp
  ultimately show ?thesis
    by (simp add: prepend_page_eq flip: map_append)
qed

text \<open>The request that \<open>PageUp\<close> makes, and what the gateway answers.\<close>

lemma page_up_asks:
  assumes "shows_from app rid rs k" "0 < k" "k < length rs"
  obtains app' where "page_up app = (app', Send_Message (Load_History rid (cr_sequence (rs ! k)) 100))"
    "ca_active app' = In_Room rid" "RBT.lookup (ca_rooms app') rid = map_option (\<lambda>room. room\<lparr>rv_loading := True\<rparr>) (RBT.lookup (ca_rooms app) rid)"
proof -
  from assms obtain room where room: "RBT.lookup (ca_rooms app) rid = Some room" "ca_active app = In_Room rid"
      "rv_items room = map Chat_Item (drop k rs)" "rv_has_more room" "\<not> rv_loading room"
    by (auto simp: shows_from_def split: option.splits)
  moreover have "first_sequence (rv_items room) = Some (cr_sequence (rs ! k))"
    by (simp add: room(3) Cons_nth_drop_Suc [OF assms(3), symmetric])
  ultimately show thesis using that by (simp add: page_up_def)
qed

lemma gateway_pages:
  assumes inv: "store_inv X key (wd_db w)" and r: "find_room (wd_db w) gid rid = Some r"
    and rs: "room_records X key (wd_db w) gid rid = Inr rs"
    and id: "is_safe_identifier rid" and joined: "has_joined w sid rid" and queue: "queue_of w sid = Some []"
    and k: "0 < k" "k < length rs"
  obtains w' w'' j where "run (handle_load_history X key json_len gid sid rid (cr_sequence (rs ! k)) 100) w = Some w'"
    "take_outbound sid w' = Some (w'', History_Page rid (drop j (take k rs)) (0 < j))" "j < k"
proof -
  have num: "numbered rs" using room_numbered [OF inv r rs] .
  let ?before = "cr_sequence (rs ! k)"
  have "unat ?before = k + 1" using num k(2) by (rule numbered_nth)
  then have valid: "\<not> ?before \<le> 1" using k(1) by (simp add: word_le_nat_alt)
  have records: "history_before X key (wd_db w) gid rid ?before (clamp 1 100 (unat (100 :: u16))) = Inr (last_n 100 (take k rs))"
    using history_before_eq [OF inv r rs, of ?before] numbered_before [OF num k(2)] by (simp add: clamp_def)
  have some: "last_n 100 (take k rs) \<noteq> []" using k by (simp add: last_n_def)
  then obtain i where i: "fit_history_to_frame json_len (last_n 100 (take k rs)) = drop i (last_n 100 (take k rs))"
      "i < length (last_n 100 (take k rs))"
    using fit_history_suffix [of json_len "last_n 100 (take k rs)"] by blast
  define j where "j = i + (k - 100)"
  have j: "j < k" using i(2) k(2) by (simp add: last_n_def j_def)
  have page: "fit_history_to_frame json_len (last_n 100 (take k rs)) = drop j (take k rs)"
    using i(1) k(2) by (simp add: last_n_def j_def add.commute)
  have "hd (drop j (take k rs)) = rs ! j" using j k(2) by (simp add: hd_drop_conv_nth)
  moreover have "unat (cr_sequence (rs ! j)) = j + 1" using num j k(2) by (intro numbered_nth) auto
  ultimately have more: "(drop j (take k rs) \<noteq> [] \<and> 1 < cr_sequence (hd (drop j (take k rs)))) = (0 < j)"
    using j k(2) by (simp add: word_less_nat_alt)
  define w' where "w' = send_to_client sid (History_Page rid (drop j (take k rs)) (0 < j)) w"
  have "run (handle_load_history X key json_len gid sid rid ?before 100) w = Some w'"
    using id valid joined records by (simp add: handle_load_history_def store_query_def page more Let_def w'_def del: drop_eq_Nil drop_eq_Nil2)
  moreover have "queue_of w' sid = Some [History_Page rid (drop j (take k rs)) (0 < j)]"
    using queue by (simp add: w'_def send_to_client_def offer_def CLIENT_QUEUE_CAPACITY_def)
  ultimately show thesis using that j by (auto simp: take_outbound_def)
qed

lemma unchanged_page:
  assumes "is_safe_identifier rid" "list_all (\<lambda>m. sanitize_chat_record m = Inr m) ms"
  shows "sanitize_server_message (History_Page rid ms b) = Inr (History_Page rid ms b)"
proof -
  have "collect_result sanitize_chat_record ms = Inr ms"
    using assms(2) by (induction ms) (simp_all add: and_then_def)
  with assms(1) show ?thesis by simp
qed

lemma round_shows_more:
  assumes inv: "store_inv X key (wd_db w)" and r: "find_room (wd_db w) gid rid = Some r"
    and rs: "room_records X key (wd_db w) gid rid = Inr rs"
    and id: "is_safe_identifier rid" and joined: "has_joined w sid rid" and queue: "queue_of w sid = Some []"
    and clean: "list_all (\<lambda>m. sanitize_chat_record m = Inr m) rs"
    and shown: "shows_from app rid rs k" and k: "0 < k" "k < length rs"
  obtains j where "j < k" "shows_from (scroll_round X key json_len gid sid w app) rid rs j"
proof -
  obtain app' where up: "page_up app = (app', Send_Message (Load_History rid (cr_sequence (rs ! k)) 100))"
      "ca_active app' = In_Room rid"
      "RBT.lookup (ca_rooms app') rid = map_option (\<lambda>room. room\<lparr>rv_loading := True\<rparr>) (RBT.lookup (ca_rooms app) rid)"
    using page_up_asks [OF shown k] .
  obtain w' w'' j where page: "run (handle_load_history X key json_len gid sid rid (cr_sequence (rs ! k)) 100) w = Some w'"
      "take_outbound sid w' = Some (w'', History_Page rid (drop j (take k rs)) (0 < j))" and j: "j < k"
    using gateway_pages [OF inv r rs id joined queue k] .
  have "list_all (\<lambda>m. sanitize_chat_record m = Inr m) (drop j (take k rs))"
    using clean by (auto simp: list_all_iff dest: in_set_dropD in_set_takeD)
  then have "scroll_round X key json_len gid sid w app = show_page rid (drop j (take k rs)) (0 < j) (finish_send None app')"
    using unchanged_page [OF id] by (simp add: scroll_round_def up(1) page)
  moreover have "shows_from (show_page rid (drop j (take k rs)) (0 < j) (finish_send None app')) rid rs j"
    using shown up(2,3) j k prepend_older [OF room_numbered [OF inv r rs], of j k]
    by (auto simp: shows_from_def show_page_def finish_send_def split: option.splits)
  ultimately show thesis using that j by simp
qed

text \<open>
  C35. Scrolling back reaches the first message. The chat shows the newest messages of a room, from the
  one at position \<open>k\<close> of the log on; after at most \<open>k\<close> presses of \<open>PageUp\<close>, each with the gateway's page in
  answer (cut to what fits a frame, whatever the encoded sizes), it shows the whole log, every message
  once and in order, and knows that there is nothing older.
\<close>

theorem scrolling_back_shows_the_log:
  assumes "ct_eq_is_equality X" "aead_opens X" "reachable X key (wd_db w)" "find_room (wd_db w) gid rid = Some r"
    and rs: "room_records X key (wd_db w) gid rid = Inr rs"
    and id: "is_safe_identifier rid" and joined: "has_joined w sid rid" and queue: "queue_of w sid = Some []"
    and clean: "list_all (\<lambda>m. sanitize_chat_record m = Inr m) rs"
    and shown: "shows_from app rid rs k" and k: "k < length rs"
  shows "\<exists>n \<le> k. shows_from ((scroll_round X key json_len gid sid w ^^ n) app) rid rs 0"
  using shown k
proof (induction k arbitrary: app rule: less_induct)
  case (less k)
  show ?case
  proof (cases "k = 0")
    case True
    with less.prems show ?thesis by (intro exI [of _ 0]) simp
  next
    case False
    with less.prems obtain j where j: "j < k" "shows_from (scroll_round X key json_len gid sid w app) rid rs j"
      using round_shows_more [OF reachable_store_inv [OF assms(1-3)] assms(4) rs id joined queue clean] by blast
    with less.IH [OF j] less.prems(2) obtain n where
      "n \<le> j" "shows_from ((scroll_round X key json_len gid sid w ^^ n) (scroll_round X key json_len gid sid w app)) rid rs 0"
      by auto
    with j(1) show ?thesis by (intro exI [of _ "Suc n"]) (simp add: funpow_swap1)
  qed
qed

text \<open>A room with two messages, of which the second is shown.\<close>

definition sample_thread :: database where
  "sample_thread = fst (append_message sample_externals [1] sample_nonce 5 (str ''r1'') 21 sample_peer 1004
     (str ''hi'') sample_store)"

abbreviation sample_record :: "u64 \<Rightarrow> uuid \<Rightarrow> u64 \<Rightarrow> chat_record" where
  "sample_record n mid at \<equiv> \<lparr>cr_sequence = n, cr_message_id = mid, cr_sender = sample_peer, cr_room_id = str ''r1'',
     cr_sent_at_ms = at, cr_text = str ''hi''\<rparr>"

lemma sample_second_body: "encrypt_body sample_externals [1] sample_nonce 5 (str ''r1'') 21 2 (utf8 (str ''hi''))
    = Inr (1 # replicate 24 7 @ [104, 105] @ replicate 16 0)"
  by (simp add: encrypt_body_def sample_externals_def sample_nonce_def ENCRYPTED_BODY_VERSION_def str_def
     utf8_def encode_char_def byte_of_def)

lemma sample_append_thread: "append_message sample_externals [1] sample_nonce 5 (str ''r1'') 21 sample_peer 1004
     (str ''hi'') sample_store = (sample_thread, Inr (sample_record 2 21 1004))"
proof -
  have "i64_of_u64 2 = Some 2" "i64_of_u64 1004 = Some 1004" by (simp_all add: i64_of_u64_def i64_max_def)
  then have "snd (append_message sample_externals [1] sample_nonce 5 (str ''r1'') 21 sample_peer 1004 (str ''hi'') sample_store) =
      Inr (sample_record 2 21 1004)"
    using sample_second_body
    by (simp add: append_message_def run_simps sample_rows sample_peer_def i64_max_def nocase_def ascii_lower_def)
  then show ?thesis by (simp add: sample_thread_def prod_eq_iff)
qed

lemma sample_thread_reachable: "reachable sample_externals [1] sample_thread"
  unfolding sample_thread_def
  by (rule reachable_step [OF sample_store_reachable], rule step_append_message, rule prod.collapse [symmetric])
    (simp_all add: valid_str_def scalar_def str_def sample_nonce_def limits)

lemma sample_thread_records:
  "room_records sample_externals [1] sample_thread 5 (str ''r1'') = Inr [sample_record 1 20 1003, sample_record 2 21 1004]"
proof -
  have "room_records sample_externals [1] sample_room 5 (str ''r1'') = Inr []"
    by (simp add: room_records_def room_log_def sample_rows)
  moreover have facts: "valid_str (str ''hi'')" "sample_nonce = Some n \<Longrightarrow> length n = NONCE_LENGTH" "uint (1003 :: u64) \<le> i64_max"
      "uint (1004 :: u64) \<le> i64_max" for n
    by (auto simp: valid_str_def scalar_def str_def sample_nonce_def i64_max_def limits)
  note append_message_records(1) [OF reachable_store_inv [OF sample_ct_eq sample_aead sample_room_reachable] sample_aead
      facts(2) facts(1,3) sample_append_store]
  moreover note append_message_records(1) [OF reachable_store_inv [OF sample_ct_eq sample_aead sample_store_reachable] sample_aead
      facts(2) facts(1,4) sample_append_thread]
  ultimately show ?thesis by (auto simp: stored_form_def sample_peer_def)
qed

lemma sample_thread_room: "\<exists>r. find_room sample_thread 5 (str ''r1'') = Some r"
proof -
  have "i64_of_u64 2 = Some 2" "i64_of_u64 1004 = Some 1004" by (simp_all add: i64_of_u64_def i64_max_def)
  then show ?thesis
    using sample_second_body
    by (simp add: sample_thread_def append_message_def run_simps sample_rows sample_peer_def i64_max_def nocase_def ascii_lower_def)
qed

theorem scrolling_back_shows_the_log_witness:
  "\<exists>n \<le> 1. shows_from ((scroll_round sample_externals [1] sample_len 5 90
       (sample_in_room\<lparr>wd_db := sample_thread, wd_queues := [(90, [])]\<rparr>) ^^ n)
     (sample_chat (sample_view [Chat_Item (sample_record 2 21 1004)] True) RBT.empty (In_Room (str ''r1'')) [])) (str ''r1'')
     [sample_record 1 20 1003, sample_record 2 21 1004] 0"
proof -
  let ?w = "sample_in_room\<lparr>wd_db := sample_thread, wd_queues := [(90, [])]\<rparr>"
  have db: "wd_db ?w = sample_thread" by simp
  have "sanitize_nickname (str ''ada'') = Inr (str ''ada'')"
    by (simp add: sanitize_nickname_def sanitize_single_line_def str_def flatten_char_def byte_len_def len_utf8_def
      limits is_forbidden_terminal_char_def is_control_def trim_def trim_start_def trim_end_def is_whitespace_def)
  then have clean: "list_all (\<lambda>m. sanitize_chat_record m = Inr m) [sample_record 1 20 1003, sample_record 2 21 1004]"
    by (simp add: sanitize_chat_record_def sanitize_peer_def hi_accepted r1_safe sample_peer_def)
  obtain r where r: "find_room sample_thread 5 (str ''r1'') = Some r" using sample_thread_room by blast
  have shown: "shows_from (sample_chat (sample_view [Chat_Item (sample_record 2 21 1004)] True) RBT.empty (In_Room (str ''r1'')) [])
      (str ''r1'') [sample_record 1 20 1003, sample_record 2 21 1004] 1"
    by (simp add: shows_from_def sample_chat_def sample_view_def)
  have "has_joined ?w 90 (str ''r1'')"
    by (simp add: has_joined_def sample_in_room_def sample_entered_def sample_client_def)
  then show ?thesis
    using scrolling_back_shows_the_log [where w = ?w, OF sample_ct_eq sample_aead _ _ _ r1_safe _ _ clean shown, unfolded db,
      OF sample_thread_reachable r sample_thread_records, of 90 sample_len]
    by simp
qed

end
