(* ===== verification/Chat_Outcomes.thy ===== *)
theory Chat_Outcomes
  imports Chat_Requests Chat_Scrollback Credentials_Theorems
begin

text \<open>
  What becomes of the text, the openings, the lists and the tokens of the chat screen when a request is
  sent or answered; where this is not what the screen means to do, the theorem states what it does.
\<close>

section \<open>Sending\<close>

text \<open>Keys go to the input of the open conversation.\<close>

definition at_input :: "chat_app \<Rightarrow> bool" where
  "at_input app \<longleftrightarrow> ca_overlay app = None \<and> (ca_focus app = Focus_Input \<or> ca_focus_mode app)"

abbreviation press :: "key_code \<Rightarrow> uuid \<Rightarrow> rstring option \<Rightarrow> chat_event" where
  "press code fresh refused \<equiv> Chat_Key False \<lparr>ke_code = code, ke_control = False\<rparr> fresh refused"

lemma press_at_input:
  assumes "at_input app" "code = Key_Enter \<or> code = Key_PageUp"
  shows "chat_key fresh \<lparr>ke_code = code, ke_control = False\<rparr> app = Some (handle_input_key fresh \<lparr>ke_code = code, ke_control = False\<rparr> app)"
  using assms by (auto simp: at_input_def chat_key_def control_key_def screen_key_def focused_key_def)

text \<open>
  An opening that fails locks the conversation for good. Enter marks it as waiting for a reply and
  hands the text to the private-chat hub; when the hub cannot reach the peer, it keeps no link and
  answers with an error, so a second attempt could succeed. The chat screen shows the error but keeps
  the mark: whatever the user writes next to this peer, Enter sends nothing.
\<close>

theorem failed_opening_locks_the_chat:
  assumes "at_input app" "ca_active app = With_Peer peer_id" "RBT.lookup (ca_private_chats app) peer_id = Some chat"
    "pv_online chat" "pv_status chat = None" "trim (ca_input app) \<noteq> []" "sanitize_chat_text (ca_input app) = Inr body"
    and hub: "map_of links peer_id = None" "map_of (he_members env) peer_id = Some peer" "he_connect env peer = Inl e"
  shows "\<exists>marked why.
    chat_step C gw gid (press Key_Enter fresh None) (cw\<lparr>cw_app := app\<rparr>) = (cw\<lparr>cw_app := marked\<rparr>, [Private_Chat peer_id fresh body], None) \<and>
    handle_command env links (Direct_Send peer_id fresh body) = (links, [Emit (Server_Error (str ''private_connect_failed'') why)]) \<and>
    (let told = handle_server_message (Server_Error (str ''private_connect_failed'') why) marked
     in private_send_locked told = Some (Line ''waiting for the first reply'') \<and>
        fst (snd (chat_step C gw gid (press Key_Enter fresh' refused) (cw\<lparr>cw_app := told\<lparr>ca_input := next_try\<rparr>\<rparr>))) = [])"
proof -
  let ?chats = "RBT.map_entry peer_id (\<lambda>chat. chat\<lparr>pv_status := Some (Awaiting_Reply (ca_session_id app))\<rparr>) (ca_private_chats app)"
  let ?marked = "finish_send None (app\<lparr>ca_private_chats := ?chats\<rparr>)"
  let ?why = "str ''could not establish a direct encrypted connection: '' @ he_describe env e"
  let ?told = "handle_server_message (Server_Error (str ''private_connect_failed'') ?why) ?marked"
  have "chat_step C gw gid (press Key_Enter fresh None) (cw\<lparr>cw_app := app\<rparr>) = (cw\<lparr>cw_app := ?marked\<rparr>, [Private_Chat peer_id fresh body], None)"
    using assms(2-7) by (simp add: press_at_input [OF assms(1)] handle_input_key_def prepare_message_def)
  moreover have "handle_command env links (Direct_Send peer_id fresh body) = (links, [Emit (Server_Error (str ''private_connect_failed'') ?why)])"
    using hub by (simp add: chat_text.accepted_stable [OF assms(7)] direct_error_def)
  moreover have "private_send_locked ?told = Some (Line ''waiting for the first reply'')"
    using assms(2-5) by (simp add: private_send_locked_def finish_send_def)
  moreover have "at_input (?told\<lparr>ca_input := next_try\<rparr>)"
    using assms(1) by (simp add: at_input_def finish_send_def)
  then have "fst (snd (chat_step C gw gid (press Key_Enter fresh' refused) (cw\<lparr>cw_app := ?told\<lparr>ca_input := next_try\<rparr>\<rparr>))) = []"
    using assms(2-5)
    by (simp add: press_at_input handle_input_key_def prepare_message_def finish_send_def split: sum.split)
  ultimately show ?thesis by (intro exI [of _ ?marked] exI [of _ ?why]) (simp only: Let_def)
qed

text \<open>
  Whatever a key sends, the text being written is lost. Every message that the connection accepts
  clears the input, the page of older messages that \<open>PageUp\<close> asks for while the user is writing included;
  a refused message leaves the text.
\<close>

theorem sending_clears_the_draft:
  assumes "at_input app" "ca_active app = In_Room rid" "pageable_room app rid before"
  shows "(\<exists>after. chat_step C gw gid (press Key_PageUp fresh None) (cw\<lparr>cw_app := app\<rparr>) =
      (cw\<lparr>cw_app := after\<rparr>, [Load_History rid before 100], None) \<and> ca_input after = []) \<and>
    (\<exists>after. chat_step C gw gid (press Key_PageUp fresh (Some why)) (cw\<lparr>cw_app := app\<rparr>) =
      (cw\<lparr>cw_app := after\<rparr>, [], None) \<and> ca_input after = ca_input app)"
  using assms(2,3)
  by (auto simp: press_at_input [OF assms(1)] handle_input_key_def page_up_def pageable_room_def finish_send_def Let_def
    split: option.splits)

text \<open>
  A page that does not come ends the scrolling. \<open>PageUp\<close> marks the room as loading before the request
  is handed on; when the connection refuses it, or the gateway answers with an error (as it does to a
  client that is too fast), nothing takes the mark away and \<open>PageUp\<close> never asks again.
\<close>

theorem failed_page_ends_the_scrolling:
  assumes "at_input app" "ca_active app = In_Room rid" "pageable_room app rid before"
  shows "\<exists>marked. chat_step C gw gid (press Key_PageUp fresh refused) (cw\<lparr>cw_app := app\<rparr>) =
      (cw\<lparr>cw_app := marked\<rparr>, if refused = None then [Load_History rid before 100] else [], None) \<and>
    sent_by C gw gid (press Key_PageUp fresh' None) (cw\<lparr>cw_app := marked\<rparr>) = [] \<and>
    sent_by C gw gid (press Key_PageUp fresh' None) (cw\<lparr>cw_app := handle_server_message (Server_Error code why) marked\<rparr>) = []"
proof -
  let ?asked = "app\<lparr>ca_scroll := ca_scroll app + 8,
    ca_rooms := RBT.map_entry rid (\<lambda>room. room\<lparr>rv_loading := True\<rparr>) (ca_rooms app), ca_status := Line ''loading older messages''\<rparr>"
  let ?marked = "finish_send refused ?asked"
  have "chat_step C gw gid (press Key_PageUp fresh refused) (cw\<lparr>cw_app := app\<rparr>) =
      (cw\<lparr>cw_app := ?marked\<rparr>, if refused = None then [Load_History rid before 100] else [], None)"
    using assms(2,3)
    by (auto simp: press_at_input [OF assms(1)] handle_input_key_def page_up_def pageable_room_def Let_def split: option.splits)
  moreover have "at_input ?marked" "at_input (handle_server_message (Server_Error code why) ?marked)"
    using assms(1) by (auto simp: at_input_def finish_send_def split: option.split)
  then have "sent_by C gw gid (press Key_PageUp fresh' None) (cw\<lparr>cw_app := ?marked\<rparr>) = []"
    "sent_by C gw gid (press Key_PageUp fresh' None) (cw\<lparr>cw_app := handle_server_message (Server_Error code why) ?marked\<rparr>) = []"
    using assms(2,3)
    by (auto simp: sent_by_def press_at_input handle_input_key_def page_up_def pageable_room_def finish_send_def Let_def
      split: option.splits)
  ultimately show ?thesis by blast
qed

section \<open>The lists shown\<close>

definition room_items :: "chat_app \<Rightarrow> rstring \<Rightarrow> ui_item list" where
  "room_items app rid = (case RBT.lookup (ca_rooms app) rid of Some room \<Rightarrow> rv_items room | None \<Rightarrow> [])"

lemma push_bounded_length:
  "length (push_bounded items x) = (if length items = 1000 then 1000 else Suc (length items))"
  by (simp add: push_bounded_def MAX_UI_ITEMS_def)

lemma show_chat_items:
  "room_items (show_chat message app) rid =
    (if cr_room_id message = rid \<and> RBT.lookup (ca_rooms app) rid \<noteq> None then push_bounded (room_items app rid) (Chat_Item message)
     else room_items app rid)"
  "RBT.lookup (ca_rooms (show_chat message app)) rid = None \<longleftrightarrow> RBT.lookup (ca_rooms app) rid = None"
  by (auto simp: room_items_def show_chat_def split: option.split)

lemma show_chats_length:
  "RBT.lookup (ca_rooms app) rid \<noteq> None \<Longrightarrow>
   length (room_items (fold show_chat messages app) rid) =
     (let n = length (room_items app rid) + length (filter (\<lambda>m. cr_room_id m = rid) messages)
      in if length (room_items app rid) \<le> 1000 then min 1000 n else n)"
proof (induction messages arbitrary: app)
  case (Cons m messages)
  have "RBT.lookup (ca_rooms (show_chat m app)) rid \<noteq> None" using Cons.prems by (simp only: show_chat_items not_False_eq_True)
  note Cons.IH [OF this]
  with Cons.prems show ?case by (simp add: show_chat_items(1) push_bounded_length Let_def)
qed (simp add: Let_def)

text \<open>
  The bound of the list of a room. Up to 1000 items, a new message beyond pushes the oldest out and
  the list stays at 1000. A page of older messages is put in front without looking at the bound, and
  once the list is longer than 1000, no message pushes anything out any more: the list grows by every
  message of the room, as long as the screen is open.
\<close>

theorem room_list_outgrows_its_bound:
  assumes "RBT.lookup (ca_rooms app) rid = Some room"
  shows "length (room_items (fold show_chat messages app) rid) =
      (let n = length (rv_items room) + length (filter (\<lambda>m. cr_room_id m = rid) messages)
       in if length (rv_items room) \<le> 1000 then min 1000 n else n) \<and>
    room_items (show_page rid older b app) rid =
      map Chat_Item (filter (\<lambda>m. cr_message_id m \<notin> set (chat_ids (rv_items room))) older) @ rv_items room"
proof -
  have "room_items app rid = rv_items room" using assms by (simp add: room_items_def)
  with show_chats_length [of app rid messages] assms show ?thesis
    by (simp add: room_items_def show_page_def prepend_page_eq)
qed

section \<open>Rotated tokens\<close>

text \<open>The saved record with the new token in its place.\<close>

fun renewed :: "group_token_kind \<Rightarrow> rstring \<Rightarrow> stored_group_credential \<Rightarrow> stored_group_credential" where
  "renewed Invite_Token token r = r\<lparr>sc_invite_token := Some token\<rparr>"
| "renewed _ token r = r\<lparr>sc_join_token := token\<rparr>"

text \<open>
  C36. A rotated token is not lost. When the gateway announces one for a group with a saved credential, the
  saved record gets the new token in the place of its kind and keeps the other one, no other record
  changes, and either the file was written and the token is shown, or the screen ends with an error
  that spells the token out.
\<close>

theorem rotated_token_is_kept:
  assumes "store_held C (cw_store cw)" "credential_get (cw_store cw) gw gid = Some old" "is_valid_group_credential token"
    and "chat_step C gw gid (Connection_Event sv (Some (From_Server (Group_Token_Rotated kind token)))) cw = (cw', sent, finish)"
  shows "credential_get (cw_store cw') gw gid = Some (renewed kind token old) \<and>
    (\<forall>g h. (g, h) = (gw, gid) \<or> credential_get (cw_store cw') g h = credential_get (cw_store cw) g h) \<and>
    ((finish = None \<and> ca_overlay (cw_app cw') = Some (Token_Shown kind token) \<and>
       save (sv_fails sv) (sv_written sv) (sv_unique sv) C (cw_store cw') (cw_disk cw) = (cw_disk cw', Inr ())) \<or>
     finish = Some (Chat_Fails (Bail (str ''rotated token could not be saved; copy this token now: '' @ token))))"
proof -
  have "validate_record old = Inr ()" "key_of old = Group_Key gw gid"
    using held_records_ok [OF assms(1)] assms(2) by (auto simp: records_ok_def credential_get_def)
  then have "validate_record (renewed kind token old) = Inr ()" "renewed kind token old =
      \<lparr>sc_gateway_id = gw, sc_group_id = gid, sc_join_token = (if kind = Invite_Token then sc_join_token old else token),
       sc_invite_token = (if kind = Invite_Token then Some token else sc_invite_token old)\<rparr>"
    using assms(3) by (cases kind; auto simp: validate_record_def key_of_def split: if_splits option.splits)+
  then show ?thesis using assms(2,4)
    by (cases kind)
      (auto simp: persist_event_def persist_rotated_token_def credential_set_def credential_get_def Let_def
        split: prod.splits sum.splits if_splits)
qed

section \<open>Samples\<close>

definition sample_writer :: chat_app where
  "sample_writer = sample_chat (sample_view [Chat_Item (sample_record 2 21 1004)] True)
     (RBT.insert 7 (new_private_view sample_peer) RBT.empty) (With_Peer 7) (str ''hi'')"

definition sample_hub_env :: hub_env where
  "sample_hub_env = \<lparr>he_local = sample_peer, he_now_ms = 5, he_members = [(7, sample_peer)], he_connect = (\<lambda>_. Inl Io_Error),
     he_open = (\<lambda>_. False), he_describe = (\<lambda>_. str ''refused'')\<rparr>"

definition sample_session :: chat_world where
  "sample_session = \<lparr>cw_app = sample_writer, cw_store = sample_credentials, cw_disk = Map.empty\<rparr>"

lemma hi_trimmed: "trim (str ''hi'') \<noteq> []"
  by (simp add: trim_def trim_start_def trim_end_def is_whitespace_def str_def)

theorem failed_opening_locks_the_chat_witness:
  "\<exists>marked why. chat_step sample_codec 1 5 (press Key_Enter 30 None) sample_session =
      (sample_session\<lparr>cw_app := marked\<rparr>, [Private_Chat 7 30 (str ''hi'')], None) \<and>
    private_send_locked (handle_server_message (Server_Error (str ''private_connect_failed'') why) marked) = Some (Line ''waiting for the first reply'')"
proof -
  have writer: "at_input sample_writer" "ca_active sample_writer = With_Peer 7"
      "RBT.lookup (ca_private_chats sample_writer) 7 = Some (new_private_view sample_peer)"
      "pv_online (new_private_view sample_peer)" "pv_status (new_private_view sample_peer) = None"
      "trim (ca_input sample_writer) \<noteq> []" "sanitize_chat_text (ca_input sample_writer) = Inr (str ''hi'')"
    by (simp_all add: sample_writer_def sample_chat_def at_input_def new_private_view_def hi_trimmed hi_accepted)
  have hub: "map_of [] 7 = None" "map_of (he_members sample_hub_env) 7 = Some sample_peer" "he_connect sample_hub_env sample_peer = Inl Io_Error"
    by (simp_all add: sample_hub_env_def)
  have "sample_session\<lparr>cw_app := sample_writer\<rparr> = sample_session" by (simp add: sample_session_def)
  with failed_opening_locks_the_chat [OF writer hub, of sample_codec 1 5 30 sample_session, where fresh' = 31 and refused = None and next_try = "[]"]
  show ?thesis unfolding Let_def by metis
qed

theorem sending_clears_the_draft_witness:
  "\<exists>after. chat_step sample_codec 1 5 (press Key_PageUp 30 None) (sample_session\<lparr>cw_app := sample_writer\<lparr>ca_active := In_Room (str ''r1'')\<rparr>\<rparr>) =
      (sample_session\<lparr>cw_app := after\<rparr>, [Load_History (str ''r1'') 2 100], None) \<and> ca_input after = []"
  using sending_clears_the_draft [of "sample_writer\<lparr>ca_active := In_Room (str ''r1'')\<rparr>" "str ''r1''" 2 sample_codec 1 5 30 sample_session]
  by (simp add: at_input_def pageable_room_def sample_writer_def sample_chat_def sample_view_def)

theorem failed_page_ends_the_scrolling_witness:
  "\<exists>marked. chat_step sample_codec 1 5 (press Key_PageUp 30 None) (sample_session\<lparr>cw_app := sample_writer\<lparr>ca_active := In_Room (str ''r1'')\<rparr>\<rparr>) =
      (sample_session\<lparr>cw_app := marked\<rparr>, [Load_History (str ''r1'') 2 100], None) \<and>
    sent_by sample_codec 1 5 (press Key_PageUp 31 None) (sample_session\<lparr>cw_app := marked\<rparr>) = []"
proof -
  let ?app = "sample_writer\<lparr>ca_active := In_Room (str ''r1'')\<rparr>"
  have "at_input ?app" "ca_active ?app = In_Room (str ''r1'')" "pageable_room ?app (str ''r1'') 2"
    by (simp_all add: at_input_def pageable_room_def sample_writer_def sample_chat_def sample_view_def)
  from failed_page_ends_the_scrolling [OF this, of sample_codec 1 5 30 None sample_session 31] show ?thesis by auto
qed

theorem room_list_outgrows_its_bound_witness:
  "length (room_items (fold show_chat (replicate 5 (sample_record 3 22 1005))
      (sample_chat (sample_view (replicate 1001 (Chat_Item (sample_record 2 21 1004))) True) RBT.empty (In_Room (str ''r1'')) []))
      (str ''r1'')) = 1006"
  using room_list_outgrows_its_bound [of "sample_chat (sample_view (replicate 1001 (Chat_Item (sample_record 2 21 1004))) True) RBT.empty
      (In_Room (str ''r1'')) []" "str ''r1''" "sample_view (replicate 1001 (Chat_Item (sample_record 2 21 1004))) True"
      "replicate 5 (sample_record 3 22 1005)" "[]" False]
  by (simp add: sample_chat_def sample_view_def Let_def)

theorem rotated_token_is_kept_witness:
  "\<exists>cw' sent finish. chat_step sample_codec 1 5 (Connection_Event \<lparr>sv_fails = (\<lambda>_. False), sv_written = 0, sv_unique = []\<rparr>
      (Some (From_Server (Group_Token_Rotated Invite_Token (str ''lc_m''))))) sample_session = (cw', sent, finish) \<and>
    credential_get (cw_store cw') 1 5 = Some (sample_credential\<lparr>sc_invite_token := Some (str ''lc_m'')\<rparr>)"
proof -
  let ?event = "Connection_Event \<lparr>sv_fails = (\<lambda>_. False), sv_written = 0, sv_unique = []\<rparr>
      (Some (From_Server (Group_Token_Rotated Invite_Token (str ''lc_m''))))"
  obtain cw' sent finish where step: "chat_step sample_codec 1 5 ?event sample_session = (cw', sent, finish)"
    by (metis prod_cases3)
  have "store_held sample_codec (cw_store sample_session)" "credential_get (cw_store sample_session) 1 5 = Some sample_credential"
    using sample_held by (simp_all add: sample_session_def credential_get_def) (simp add: sample_credentials_def)
  from rotated_token_is_kept [OF this sample_valid step] step show ?thesis by auto
qed

end
