(* ===== verification/Command_Line.thy ===== *)
theory Command_Line
  imports Lobby Chat_Keys
begin

text \<open>
  The program around the two screens (\<open>src/main.rs\<close>): finding the credential for a group, connecting,
  saving what the gateway issued, the interactive loop of lobby and chat, the commands on the saved
  credentials, and the commands \<open>create\<close>, \<open>join\<close>, \<open>send\<close> and \<open>discover\<close> between their arguments and their
  output. Parsing arguments is \<open>clap\<close>'s; the commands that run a gateway are in \<open>Serving\<close>.
\<close>

section \<open>Credentials for a group\<close>

text \<open>The network and the address that the client's direct-chat listener advertises.\<close>

type_synonym client_setup = "gateway_network \<times> (u16 \<times> rstring)"

definition resolve_saved_credential ::
  "gateway_network \<Rightarrow> credential_store \<Rightarrow> socket_addr \<Rightarrow> rstring \<Rightarrow> rstring option \<Rightarrow> uuid option \<Rightarrow> rstring option \<Rightarrow>
   error + rstring option" where
  "resolve_saved_credential N store endpoint nickname expected gid provided =
     (case gid of
        None \<Rightarrow> Inr provided
      | Some gid \<Rightarrow>
          if provided \<noteq> None then Inr provided
          else and_then (inspect_gateway N endpoint nickname expected) (\<lambda>snapshot.
            Inr (map_option sc_join_token (credential_get store (gsn_gateway_id snapshot) gid))))"

definition connect_to_selected_group ::
  "client_setup \<Rightarrow> (uuid \<Rightarrow> rstring) \<Rightarrow> socket_addr \<Rightarrow> rstring \<Rightarrow> rstring option \<Rightarrow> uuid option \<Rightarrow> rstring option \<Rightarrow>
   error + session_info" where
  "connect_to_selected_group setup show_uuid endpoint nickname expected gid credential =
     (case setup of (N, direct) \<Rightarrow>
       (case gid of
          Some gid \<Rightarrow>
            and_then (join_group_with_credential N endpoint nickname expected direct gid credential) (\<lambda>outcome.
              case outcome of
                Connected session \<Rightarrow> Inr session
              | Pending pending \<Rightarrow>
                  Inl (Bail (str ''join request '' @ show_uuid (pj_request_id pending) @
                    str '' is waiting for administrator approval; retry with credential '' @ pj_request_token pending)))
        | None \<Rightarrow>
            if credential \<noteq> None then Inl (Bail (str ''--credential requires --group''))
            else connect N endpoint nickname expected direct))"

definition set_saved ::
  "saving_conditions \<Rightarrow> credential_codec \<Rightarrow> uuid \<Rightarrow> uuid \<Rightarrow> rstring \<Rightarrow> rstring option \<Rightarrow>
   credential_store \<Rightarrow> disk \<Rightarrow> credential_store \<times> disk \<times> (error + unit)" where
  "set_saved sv C = credential_set (sv_fails sv) (sv_written sv) (sv_unique sv) C"

text \<open>
  What the gateway issued is saved, each token with the conditions of its own saving; \<open>describe\<close> renders
  an error with its causes.
\<close>

definition save_issued ::
  "saving_conditions \<Rightarrow> credential_codec \<Rightarrow> (error \<Rightarrow> rstring) \<Rightarrow> uuid \<Rightarrow> uuid \<Rightarrow> issued_group_credentials option \<Rightarrow>
   credential_store \<Rightarrow> disk \<Rightarrow> credential_store \<times> disk \<times> (error + unit)" where
  "save_issued sv C describe gw gid issued store d =
     (case issued of
        None \<Rightarrow> (store, d, Inr ())
      | Some issued \<Rightarrow>
          (case set_saved sv C gw gid (igc_admin_token issued) (igc_invite_token issued) store d of
             (store, d, Inr _) \<Rightarrow> (store, d, Inr ())
           | (store, d, Inl e) \<Rightarrow>
               (store, d, Inl (Bail (str ''could not save the new group's credentials ('' @ describe e @
                  str ''); copy this administrator token now: '' @ igc_admin_token issued @
                  (case igc_invite_token issued of Some token \<Rightarrow> str ''; invite token: '' @ token | None \<Rightarrow> []))))))"

definition save_member ::
  "saving_conditions \<Rightarrow> credential_codec \<Rightarrow> (error \<Rightarrow> rstring) \<Rightarrow> session_info \<Rightarrow> rstring option \<Rightarrow>
   credential_store \<Rightarrow> disk \<Rightarrow> credential_store \<times> disk \<times> (error + unit)" where
  "save_member sv C describe session supplied store d =
     (let gw = gsn_gateway_id (si_gateway session); gid = w_group_id (si_welcome session);
          saved = credential_get store gw gid
      in case w_issued_member_token (si_welcome session) of
           Some token \<Rightarrow>
             (case set_saved sv C gw gid token (Option.bind saved sc_invite_token) store d of
                (store, d, Inr _) \<Rightarrow> (store, d, Inr ())
              | (store, d, Inl e) \<Rightarrow>
                  (store, d, Inl (Bail (str ''could not save the newly issued member credential ('' @ describe e @
                     str ''); copy this member token now: '' @ token))))
         | None \<Rightarrow>
             (case supplied of
                Some supplied \<Rightarrow>
                  if w_issued_credentials (si_welcome session) = None \<and> saved = None
                  then set_saved sv C gw gid supplied None store d
                  else (store, d, Inr ())
              | None \<Rightarrow> (store, d, Inr ())))"

definition persist_connection_credentials ::
  "saving_conditions \<times> saving_conditions \<Rightarrow> credential_codec \<Rightarrow> (error \<Rightarrow> rstring) \<Rightarrow> session_info \<Rightarrow> rstring option \<Rightarrow>
   credential_store \<Rightarrow> disk \<Rightarrow> credential_store \<times> disk \<times> (error + unit)" where
  "persist_connection_credentials sv C describe session supplied store d =
     (case save_issued (fst sv) C describe (gsn_gateway_id (si_gateway session)) (w_group_id (si_welcome session))
             (w_issued_credentials (si_welcome session)) store d of
        (store, d, Inl e) \<Rightarrow> (store, d, Inl e)
      | (store, d, Inr _) \<Rightarrow> save_member (snd sv) C describe session supplied store d)"

section \<open>The interactive program\<close>

text \<open>Notices of the lobby, in the words of the source.\<close>

definition CREDENTIAL_FORGOTTEN :: rstring where
  "CREDENTIAL_FORGOTTEN = [0x5df2, 0x5220, 0x9664, 0x672c, 0x673a, 0x51ed, 0x636e, 0xff0c, 0x4e0b, 0x6b21, 0x52a0, 0x5165,
     0x65f6, 0x5c06, 0x91cd, 0x65b0, 0x9a8c, 0x8bc1]"

definition CANNOT_SAVE :: rstring where
  "CANNOT_SAVE = [0x65e0, 0x6cd5, 0x4fdd, 0x5b58, 0x672c, 0x673a, 0x51ed, 0x636e, 0xff1a]"

definition CHAT_INTERRUPTED :: rstring where
  "CHAT_INTERRUPTED = [0x804a, 0x5929, 0x5df2, 0x4e2d, 0x65ad, 0xff1a]"

definition CANNOT_JOIN :: rstring where
  "CANNOT_JOIN = [0x65e0, 0x6cd5, 0x52a0, 0x5165, 0x7fa4, 0x7ec4, 0xff1a]"

definition CANNOT_CREATE :: rstring where
  "CANNOT_CREATE = [0x65e0, 0x6cd5, 0x521b, 0x5efa, 0x7fa4, 0x7ec4, 0xff1a]"

definition JOIN_REQUEST :: rstring where
  "JOIN_REQUEST = [0x52a0, 0x5165, 0x7533, 0x8bf7, 0x20]"

definition REQUEST_SUBMITTED :: rstring where
  "REQUEST_SUBMITTED = [0x20, 0x5df2, 0x63d0, 0x4ea4, 0xff0c, 0x901a, 0x8fc7, 0x5ba1, 0x6279, 0x540e, 0x8bf7, 0x91cd,
     0x65b0, 0x9009, 0x62e9, 0x8be5, 0x7fa4, 0x7ec4]"

record interactive =
  it_nickname :: rstring
  it_notice :: "rstring option"
  it_store :: credential_store
  it_disk :: disk

text \<open>
  What the outside does during one turn of the loop: the events of the lobby, the network for the
  client's calls, the savings, and the events of the chat.
\<close>

record turn_conditions =
  tc_lobby :: "lobby_event list"
  tc_setup :: client_setup
  tc_saving :: "saving_conditions \<times> saving_conditions"
  tc_chat :: "chat_event list"

text \<open>Why the loop stops: a screen still waits for events, the user quits, an error, a panic.\<close>

datatype interactive_end = App_Waits | App_Quits | App_Fails error | App_Panics

type_synonym turn_answer = "interactive \<times> interactive_end option"

definition chat_turn ::
  "credential_codec \<Rightarrow> (error \<Rightarrow> rstring) \<Rightarrow> session_info \<Rightarrow> chat_event list \<Rightarrow> interactive \<Rightarrow> turn_answer" where
  "chat_turn C describe session events it =
     (case run_chat C session (it_store it) (it_disk it) events of
        (cw, sent, finish) \<Rightarrow>
          (let it = it\<lparr>it_store := cw_store cw, it_disk := cw_disk cw\<rparr>
           in case finish of
                None \<Rightarrow> (it, Some App_Waits)
              | Some Chat_Panics \<Rightarrow> (it, Some App_Panics)
              | Some (Chat_Ends Back_To_Lobby) \<Rightarrow> (it, None)
              | Some (Chat_Ends Quit_The_Application) \<Rightarrow> (it, Some App_Quits)
              | Some (Chat_Fails e) \<Rightarrow> (it\<lparr>it_notice := Some (CHAT_INTERRUPTED @ describe e)\<rparr>, None)))"

definition join_turn ::
  "credential_codec \<Rightarrow> (error \<Rightarrow> rstring) \<Rightarrow> (uuid \<Rightarrow> rstring) \<Rightarrow> turn_conditions \<Rightarrow>
   socket_addr \<Rightarrow> rstring option \<Rightarrow> uuid option \<Rightarrow> uuid option \<Rightarrow> rstring option \<Rightarrow> interactive \<Rightarrow> turn_answer" where
  "join_turn C describe show_uuid tc endpoint expected gw gid credential it =
     (let stored = (case (gw, gid) of
            (Some gw, Some gid) \<Rightarrow> map_option sc_join_token (credential_get (it_store it) gw gid)
          | _ \<Rightarrow> None);
          supplied = (if credential = None then stored else credential);
          (N, direct) = tc_setup tc;
          outcome = (case gid of
              Some gid \<Rightarrow> join_group_with_credential N endpoint (it_nickname it) expected direct gid supplied
            | None \<Rightarrow> and_then (connect N endpoint (it_nickname it) expected direct) (\<lambda>session. Inr (Connected session)))
      in case outcome of
           Inl e \<Rightarrow> (it\<lparr>it_notice := Some (CANNOT_JOIN @ describe e)\<rparr>, None)
         | Inr (Pending pending) \<Rightarrow>
             (case set_saved (fst (tc_saving tc)) C (pj_gateway_id pending) (pj_group_id pending) (pj_request_token pending) None
                     (it_store it) (it_disk it) of
                (store, d, Inl e) \<Rightarrow> (it\<lparr>it_store := store, it_disk := d\<rparr>, Some (App_Fails e))
              | (store, d, Inr _) \<Rightarrow>
                  (it\<lparr>it_store := store, it_disk := d,
                      it_notice := Some (JOIN_REQUEST @ show_uuid (pj_request_id pending) @ REQUEST_SUBMITTED)\<rparr>, None))
         | Inr (Connected session) \<Rightarrow>
             (case persist_connection_credentials (tc_saving tc) C describe session supplied (it_store it) (it_disk it) of
                (store, d, Inl e) \<Rightarrow>
                  (it\<lparr>it_store := store, it_disk := d, it_notice := Some (CANNOT_SAVE @ describe e)\<rparr>, None)
              | (store, d, Inr _) \<Rightarrow> chat_turn C describe session (tc_chat tc) (it\<lparr>it_store := store, it_disk := d\<rparr>)))"

definition create_turn ::
  "credential_codec \<Rightarrow> (error \<Rightarrow> rstring) \<Rightarrow> turn_conditions \<Rightarrow> rstring \<Rightarrow> group_access_mode \<Rightarrow> socket_addr \<Rightarrow> rstring \<Rightarrow>
   interactive \<Rightarrow> turn_answer" where
  "create_turn C describe tc name mode endpoint expected it =
     (let (N, direct) = tc_setup tc
      in case client_create_group_with_access N endpoint (it_nickname it) (Some expected) direct name mode of
           Inl e \<Rightarrow> (it\<lparr>it_notice := Some (CANNOT_CREATE @ describe e)\<rparr>, None)
         | Inr session \<Rightarrow>
             (case persist_connection_credentials (tc_saving tc) C describe session None (it_store it) (it_disk it) of
                (store, d, Inl e) \<Rightarrow> (it\<lparr>it_store := store, it_disk := d\<rparr>, Some (App_Fails e))
              | (store, d, Inr _) \<Rightarrow> chat_turn C describe session (tc_chat tc) (it\<lparr>it_store := store, it_disk := d\<rparr>)))"

definition interactive_turn ::
  "credential_codec \<Rightarrow> (error \<Rightarrow> rstring) \<Rightarrow> (uuid \<Rightarrow> rstring) \<Rightarrow> (rstring \<Rightarrow> socket_addr option) \<Rightarrow> turn_conditions \<Rightarrow>
   interactive \<Rightarrow> turn_answer" where
  "interactive_turn C describe show_uuid parse_addr tc it =
     (let action = run_lobby parse_addr (it_nickname it) (it_notice it) (known_groups (it_store it)) (tc_lobby tc);
          it = it\<lparr>it_notice := None\<rparr>
      in case action of
           None \<Rightarrow> (it, Some App_Waits)
         | Some (Inl _) \<Rightarrow> (it, Some App_Panics)
         | Some (Inr Lobby_Quit) \<Rightarrow> (it, Some App_Quits)
         | Some (Inr (Set_Nickname nickname)) \<Rightarrow> (it\<lparr>it_nickname := nickname\<rparr>, None)
         | Some (Inr (Forget_Credential gw gid)) \<Rightarrow>
             (let sv = fst (tc_saving tc)
              in case credential_remove (sv_fails sv) (sv_written sv) (sv_unique sv) C gw gid (it_store it) (it_disk it) of
                   (store, d, Inl e) \<Rightarrow> (it\<lparr>it_store := store, it_disk := d\<rparr>, Some (App_Fails e))
                 | (store, d, Inr _) \<Rightarrow> (it\<lparr>it_store := store, it_disk := d, it_notice := Some CREDENTIAL_FORGOTTEN\<rparr>, None))
         | Some (Inr (Lobby_Join endpoint expected gw gid credential)) \<Rightarrow>
             join_turn C describe show_uuid tc endpoint expected gw gid credential it
         | Some (Inr (Lobby_Create name mode endpoint expected)) \<Rightarrow> create_turn C describe tc name mode endpoint expected it)"

fun interactive_loop ::
  "credential_codec \<Rightarrow> (error \<Rightarrow> rstring) \<Rightarrow> (uuid \<Rightarrow> rstring) \<Rightarrow> (rstring \<Rightarrow> socket_addr option) \<Rightarrow> turn_conditions list \<Rightarrow>
   interactive \<Rightarrow> turn_answer" where
  "interactive_loop C describe show_uuid parse_addr [] it = (it, None)"
| "interactive_loop C describe show_uuid parse_addr (tc # tcs) it =
     (case interactive_turn C describe show_uuid parse_addr tc it of
        (it, Some finish) \<Rightarrow> (it, Some finish)
      | (it, None) \<Rightarrow> interactive_loop C describe show_uuid parse_addr tcs it)"

text \<open>The program from its start, with the calls that fail while the credentials are opened.\<close>

definition run_interactive ::
  "(io_call \<Rightarrow> bool) \<Rightarrow> bool \<Rightarrow> (rstring \<Rightarrow> rstring option) \<Rightarrow> credential_codec \<Rightarrow> (error \<Rightarrow> rstring) \<Rightarrow> (uuid \<Rightarrow> rstring) \<Rightarrow>
   (rstring \<Rightarrow> socket_addr option) \<Rightarrow> turn_conditions list \<Rightarrow> rstring \<Rightarrow> disk \<Rightarrow> disk \<times> (error + turn_answer)" where
  "run_interactive fails windows env C describe show_uuid parse_addr tcs nickname d =
     (case open_default fails C windows env d of
        (d, Inl e) \<Rightarrow> (d, Inl e)
      | (d, Inr store) \<Rightarrow>
          (let (it, finish) = interactive_loop C describe show_uuid parse_addr tcs
                 \<lparr>it_nickname = nickname, it_notice = None, it_store = store, it_disk = d\<rparr>
           in (it_disk it, Inr (it, finish))))"

section \<open>The commands on saved credentials\<close>

datatype credential_command =
    Show_Path
  | List_Credentials
  | Show_Credential uuid uuid
  | Set_Credential uuid uuid rstring "rstring option"
  | Remove_Credential uuid uuid

text \<open>The lines printed, without their labels.\<close>

datatype credential_line =
    Path_Line path
  | Group_Line uuid uuid bool
  | Join_Token_Line rstring
  | Invite_Token_Line rstring
  | Saved_Line path
  | Removed_Line bool

definition credential_action ::
  "saving_conditions \<Rightarrow> credential_codec \<Rightarrow> credential_command \<Rightarrow> credential_store \<Rightarrow> disk \<Rightarrow>
   disk \<times> (error + credential_line list)" where
  "credential_action sv C command store d =
     (case command of
        Show_Path \<Rightarrow> (d, Inr [Path_Line (cs_path store)])
      | List_Credentials \<Rightarrow>
          (d, Inr (map (\<lambda>r. Group_Line (sc_gateway_id r) (sc_group_id r) (sc_invite_token r \<noteq> None)) (credential_records store)))
      | Show_Credential gw gid \<Rightarrow>
          (case credential_get store gw gid of
             None \<Rightarrow> (d, Inl (Bail (str ''no saved credential for that gateway and group'')))
           | Some r \<Rightarrow> (d, Inr (Join_Token_Line (sc_join_token r) #
               (case sc_invite_token r of Some token \<Rightarrow> [Invite_Token_Line token] | None \<Rightarrow> []))))
      | Set_Credential gw gid token invite \<Rightarrow>
          (case set_saved sv C gw gid token invite store d of (store, d, r) \<Rightarrow> (d, and_then r (\<lambda>_. Inr [Saved_Line (cs_path store)])))
      | Remove_Credential gw gid \<Rightarrow>
          (case credential_remove (sv_fails sv) (sv_written sv) (sv_unique sv) C gw gid store d of
             (store, d, r) \<Rightarrow> (d, and_then r (\<lambda>removed. Inr [Removed_Line removed]))))"

definition manage_credentials ::
  "(io_call \<Rightarrow> bool) \<Rightarrow> bool \<Rightarrow> (rstring \<Rightarrow> rstring option) \<Rightarrow> saving_conditions \<Rightarrow> credential_codec \<Rightarrow> credential_command \<Rightarrow>
   disk \<Rightarrow> disk \<times> (error + credential_line list)" where
  "manage_credentials fails windows env sv C command d =
     (case open_default fails C windows env d of
        (d, Inl e) \<Rightarrow> (d, Inl e)
      | (d, Inr store) \<Rightarrow> credential_action sv C command store d)"

section \<open>The commands on groups\<close>

text \<open>The arguments that \<open>join\<close> and \<open>send\<close> share.\<close>

record target =
  tg_endpoint :: socket_addr
  tg_group :: "uuid option"
  tg_fingerprint :: "rstring option"
  tg_credential :: "rstring option"

text \<open>Both connect and save what was issued; the answer is the session with the store it left.\<close>

definition enter_target ::
  "client_setup \<Rightarrow> saving_conditions \<times> saving_conditions \<Rightarrow> credential_codec \<Rightarrow> (error \<Rightarrow> rstring) \<Rightarrow> (uuid \<Rightarrow> rstring) \<Rightarrow>
   rstring \<Rightarrow> target \<Rightarrow> credential_store \<Rightarrow> disk \<Rightarrow> credential_store \<times> disk \<times> (error + session_info)" where
  "enter_target setup sv C describe show_uuid nickname tg store d =
     (case resolve_saved_credential (fst setup) store (tg_endpoint tg) nickname (tg_fingerprint tg) (tg_group tg) (tg_credential tg) of
        Inl e \<Rightarrow> (store, d, Inl e)
      | Inr supplied \<Rightarrow>
          (case connect_to_selected_group setup show_uuid (tg_endpoint tg) nickname (tg_fingerprint tg) (tg_group tg) supplied of
             Inl e \<Rightarrow> (store, d, Inl e)
           | Inr session \<Rightarrow>
               (case persist_connection_credentials sv C describe session supplied store d of
                  (store, d, r) \<Rightarrow> (store, d, and_then r (\<lambda>_. Inr session)))))"

text \<open>\<open>send\<close>, with what \<open>send_message\<close> receives until its time is up; the message that goes out comes first.\<close>

definition send_command ::
  "client_setup \<Rightarrow> saving_conditions \<times> saving_conditions \<Rightarrow> credential_codec \<Rightarrow> (error \<Rightarrow> rstring) \<Rightarrow> (uuid \<Rightarrow> rstring) \<Rightarrow>
   rstring \<Rightarrow> target \<Rightarrow> rstring \<Rightarrow> uuid \<Rightarrow> bool \<Rightarrow> client_event list \<Rightarrow> bool \<Rightarrow>
   (disk \<Rightarrow> disk \<times> (error + credential_store)) \<Rightarrow> disk \<Rightarrow> client_message option \<times> disk \<times> (error + chat_record)" where
  "send_command setup sv C describe show_uuid nickname tg message fresh is_open events timed_out opened d =
     (case sanitize_chat_text message of
        Inl e \<Rightarrow> (None, d, Inl e)
      | Inr body \<Rightarrow>
          (case opened d of
             (d, Inl e) \<Rightarrow> (None, d, Inl e)
           | (d, Inr store) \<Rightarrow>
               (case enter_target setup sv C describe show_uuid nickname tg store d of
                  (store, d, Inl e) \<Rightarrow> (None, d, Inl e)
                | (store, d, Inr session) \<Rightarrow>
                    (case send_message (w_room_id (si_welcome session)) fresh body is_open events timed_out of
                       (sent, r) \<Rightarrow> (Some sent, d, r)))))"

text \<open>\<open>join\<close>: the chat screen on the session entered.\<close>

definition join_command ::
  "client_setup \<Rightarrow> saving_conditions \<times> saving_conditions \<Rightarrow> credential_codec \<Rightarrow> (error \<Rightarrow> rstring) \<Rightarrow> (uuid \<Rightarrow> rstring) \<Rightarrow>
   rstring \<Rightarrow> target \<Rightarrow> chat_event list \<Rightarrow> (disk \<Rightarrow> disk \<times> (error + credential_store)) \<Rightarrow> disk \<Rightarrow>
   disk \<times> (error + chat_end option)" where
  "join_command setup sv C describe show_uuid nickname tg events opened d =
     (case opened d of
        (d, Inl e) \<Rightarrow> (d, Inl e)
      | (d, Inr store) \<Rightarrow>
          (case enter_target setup sv C describe show_uuid nickname tg store d of
             (store, d, Inl e) \<Rightarrow> (d, Inl e)
           | (store, d, Inr session) \<Rightarrow>
               (case run_chat C session store d events of (cw, sent, finish) \<Rightarrow> (cw_disk cw, Inr finish))))"

definition create_command ::
  "client_setup \<Rightarrow> saving_conditions \<times> saving_conditions \<Rightarrow> credential_codec \<Rightarrow> (error \<Rightarrow> rstring) \<Rightarrow> rstring \<Rightarrow>
   socket_addr \<Rightarrow> rstring \<Rightarrow> rstring option \<Rightarrow> group_access_mode \<Rightarrow> (disk \<Rightarrow> disk \<times> (error + credential_store)) \<Rightarrow> disk \<Rightarrow>
   disk \<times> (error + session_info)" where
  "create_command setup sv C describe nickname endpoint name expected mode opened d =
     (case opened d of
        (d, Inl e) \<Rightarrow> (d, Inl e)
      | (d, Inr store) \<Rightarrow>
          (case client_create_group_with_access (fst setup) endpoint nickname expected (snd setup) name mode of
             Inl e \<Rightarrow> (d, Inl e)
           | Inr session \<Rightarrow>
               (case persist_connection_credentials sv C describe session None store d of
                  (store, d, r) \<Rightarrow> (d, and_then r (\<lambda>_. Inr session)))))"

text \<open>\<open>discover\<close>: each gateway found, with its number of groups when it can be inspected.\<close>

definition discover_command ::
  "(socket_addr \<Rightarrow> gateway_network) \<Rightarrow> rstring \<Rightarrow> (byte list \<Rightarrow> discovery_beacon option) \<Rightarrow> reception list \<Rightarrow>
   (discovered_gateway \<times> nat option) list" where
  "discover_command network nickname decode receptions =
     map (\<lambda>gateway. (gateway,
         case inspect_gateway (network (dg_endpoint gateway)) (dg_endpoint gateway) nickname (Some (dg_server_fingerprint gateway)) of
           Inr snapshot \<Rightarrow> Some (length (gsn_groups snapshot)) | Inl _ \<Rightarrow> None))
       (discover decode receptions)"

definition local_join_address :: "socket_addr \<Rightarrow> socket_addr" where
  "local_join_address listen =
     (case sa_ip listen of
        V4 address \<Rightarrow> if is_unspecified (V4 address) then \<lparr>sa_ip = V4 0x7F000001, sa_port = sa_port listen\<rparr> else listen
      | V6 address \<Rightarrow> if is_unspecified (V6 address) then \<lparr>sa_ip = V6 1, sa_port = sa_port listen\<rparr> else listen)"

end
