(* ===== verification/Command_Theorems.thy ===== *)
theory Command_Theorems
  imports Command_Line Credentials_Theorems
begin

text \<open>
  What the program as a whole does with credentials: what is saved after a connection, that it is what the
  next start presents, and that the store stays well-formed whatever happens.
\<close>

section \<open>What is saved\<close>

lemma set_saved_ok:
  assumes "set_saved sv C gw gid join invite store d = (store', d', Inr ())"
  shows "credential_get store' g h = (if g = gw \<and> h = gid then
      Some \<lparr>sc_gateway_id = gw, sc_group_id = gid, sc_join_token = join, sc_invite_token = invite\<rparr> else credential_get store g h)"
    and "cs_path store' = cs_path store" "save (sv_fails sv) (sv_written sv) (sv_unique sv) C store' d = (d', Inr ())"
  using assms by (auto simp: set_saved_def credential_set_def credential_get_def Let_def split: sum.splits)

text \<open>The record that a connection leaves, from the one saved before.\<close>

abbreviation entry_for :: "session_info \<Rightarrow> rstring \<Rightarrow> rstring option \<Rightarrow> stored_group_credential option" where
  "entry_for session join invite \<equiv> Some \<lparr>sc_gateway_id = gsn_gateway_id (si_gateway session),
     sc_group_id = w_group_id (si_welcome session), sc_join_token = join, sc_invite_token = invite\<rparr>"

definition founded :: "session_info \<Rightarrow> stored_group_credential option \<Rightarrow> stored_group_credential option" where
  "founded session before =
     (case w_issued_credentials (si_welcome session) of
        Some issued \<Rightarrow> entry_for session (igc_admin_token issued) (igc_invite_token issued) | None \<Rightarrow> before)"

definition joined_as ::
  "session_info \<Rightarrow> rstring option \<Rightarrow> stored_group_credential option \<Rightarrow> stored_group_credential option" where
  "joined_as session supplied before =
     (case w_issued_member_token (si_welcome session) of
        Some token \<Rightarrow> entry_for session token (Option.bind before sc_invite_token)
      | None \<Rightarrow> (case before of Some r \<Rightarrow> Some r | None \<Rightarrow> Option.bind supplied (\<lambda>token. entry_for session token None)))"

abbreviation own_entry :: "session_info \<Rightarrow> uuid \<Rightarrow> uuid \<Rightarrow> bool" where
  "own_entry session g h \<equiv> g = gsn_gateway_id (si_gateway session) \<and> h = w_group_id (si_welcome session)"

lemma save_issued_ok:
  assumes "save_issued sv C describe (gsn_gateway_id (si_gateway session)) (w_group_id (si_welcome session))
      (w_issued_credentials (si_welcome session)) store d = (store', d', Inr ())"
  shows "credential_get store' g h = (if own_entry session g h then founded session (credential_get store g h) else credential_get store g h)"
  using assms
  by (auto simp: save_issued_def founded_def set_saved_ok split: option.splits prod.splits sum.splits)

text \<open>The error of a failed saving spells the token out.\<close>

definition spells_out :: "error \<Rightarrow> rstring \<Rightarrow> bool" where
  "spells_out e token \<longleftrightarrow> (\<exists>pre post. e = Bail (pre @ token @ post))"

lemma save_issued_error:
  assumes "save_issued sv C describe gw gid issued store d = (store', d', Inl e)"
  shows "\<exists>i. issued = Some i \<and> spells_out e (igc_admin_token i) \<and> (\<forall>token. igc_invite_token i = Some token \<longrightarrow> spells_out e token)"
proof -
  from assms obtain i d1 e1 where i: "issued = Some i" and e: "e = Bail (str ''could not save the new group's credentials ('' @ describe e1 @
      str ''); copy this administrator token now: '' @ igc_admin_token i @
      (case igc_invite_token i of Some token \<Rightarrow> str ''; invite token: '' @ token | None \<Rightarrow> []))"
    by (auto simp: save_issued_def split: option.splits prod.splits sum.splits)
  have "spells_out e (igc_admin_token i)"
    unfolding spells_out_def e
    by (rule exI [of _ "str ''could not save the new group's credentials ('' @ describe e1 @ str ''); copy this administrator token now: ''"]) auto
  moreover have "spells_out e token" if "igc_invite_token i = Some token" for token
    unfolding spells_out_def e that
    by (rule exI [of _ "str ''could not save the new group's credentials ('' @ describe e1 @
      str ''); copy this administrator token now: '' @ igc_admin_token i @ str ''; invite token: ''"], rule exI [of _ "[]"]) simp
  ultimately show ?thesis using i by blast
qed

lemma save_member_ok:
  assumes "save_member sv C describe session supplied store d = (store', d', Inr ())"
    "w_issued_credentials (si_welcome session) \<noteq> None \<Longrightarrow>
      credential_get store (gsn_gateway_id (si_gateway session)) (w_group_id (si_welcome session)) \<noteq> None"
  shows "credential_get store' g h =
    (if own_entry session g h then joined_as session supplied (credential_get store g h) else credential_get store g h)"
  using assms
  by (auto simp: save_member_def joined_as_def set_saved_ok Let_def split: option.splits prod.splits sum.splits if_splits)

lemma save_member_error:
  assumes "save_member sv C describe session supplied store d = (store', d', Inl e)"
  shows "case w_issued_member_token (si_welcome session) of Some token \<Rightarrow> spells_out e token | None \<Rightarrow> supplied \<noteq> None"
proof (cases "w_issued_member_token (si_welcome session)")
  case (Some token)
  with assms obtain e1 where "e = Bail (str ''could not save the newly issued member credential ('' @ describe e1 @
      str ''); copy this member token now: '' @ token)"
    by (auto simp: save_member_def Let_def split: prod.splits sum.splits)
  then have "e = Bail ((str ''could not save the newly issued member credential ('' @ describe e1 @
      str ''); copy this member token now: '') @ token @ [])" by simp
  then show ?thesis unfolding spells_out_def Some option.case by blast
qed (use assms in \<open>auto simp: save_member_def Let_def split: option.splits\<close>)

text \<open>
  C37. After a connection, the saved record of the group holds what the gateway issued: the administrator
  and invite token of a new group, the new member token next to the invite token saved before, or, with
  nothing issued and nothing saved, the token that was supplied. No other record changes. A member token
  replaces whatever join token was saved, an administrator's included. When saving fails, the error
  spells out a token that was issued and is not yet on the disk.
\<close>

theorem connection_is_recorded:
  assumes "persist_connection_credentials sv C describe session supplied store d = (store', d', r)"
  shows "case r of
      Inr _ \<Rightarrow> (\<forall>g h. credential_get store' g h =
        (if own_entry session g h then joined_as session supplied (founded session (credential_get store g h)) else credential_get store g h))
    | Inl e \<Rightarrow>
        (\<exists>issued. w_issued_credentials (si_welcome session) = Some issued \<and> spells_out e (igc_admin_token issued) \<and>
           (\<forall>token. igc_invite_token issued = Some token \<longrightarrow> spells_out e token)) \<or>
        (case w_issued_member_token (si_welcome session) of Some token \<Rightarrow> spells_out e token | None \<Rightarrow> supplied \<noteq> None)"
proof -
  obtain store1 d1 r1 where issue: "save_issued (fst sv) C describe (gsn_gateway_id (si_gateway session)) (w_group_id (si_welcome session))
      (w_issued_credentials (si_welcome session)) store d = (store1, d1, r1)"
    by (metis prod_cases3)
  show ?thesis
  proof (cases r1)
    case (Inl e)
    with assms issue have "r = Inl e" by (simp add: persist_connection_credentials_def)
    with save_issued_error [OF issue [unfolded Inl]] show ?thesis by auto
  next
    case (Inr u)
    then have r1: "r1 = Inr ()" by simp
    note one = save_issued_ok [OF issue [unfolded r1]]
    have member: "save_member (snd sv) C describe session supplied store1 d1 = (store', d', r)"
      using assms issue r1 by (simp add: persist_connection_credentials_def)
    show ?thesis
    proof (cases r)
      case (Inl e)
      with save_member_error [OF member [unfolded Inl]] show ?thesis by simp
    next
      case (Inr u)
      then have r: "r = Inr ()" by simp
      have "credential_get store' g h =
          (if own_entry session g h then joined_as session supplied (credential_get store1 g h) else credential_get store1 g h)" for g h
        by (rule save_member_ok [OF member [unfolded r]]) (auto simp: one founded_def)
      then show ?thesis by (simp add: r one)
    qed
  qed
qed

section \<open>The store of the whole program\<close>

lemma held_steps:
  "credential_set fails written unique C gw gid join invite store d = (store', x) \<Longrightarrow> store_held C store \<Longrightarrow> store_held C store'"
  "credential_remove fails written unique C gw gid store d = (store', y) \<Longrightarrow> store_held C store \<Longrightarrow> store_held C store'"
  using held_set [of C store fails written unique gw gid join invite d] held_remove [of C store fails written unique gw gid d] by auto

lemma set_saved_held: "set_saved sv C gw gid join invite store d = (store', x) \<Longrightarrow> store_held C store \<Longrightarrow> store_held C store'"
  unfolding set_saved_def by (rule held_steps)

lemma save_issued_held: "save_issued sv C describe gw gid issued store d = (store', x) \<Longrightarrow> store_held C store \<Longrightarrow> store_held C store'"
  by (auto simp: save_issued_def split: option.splits prod.splits sum.splits dest: set_saved_held)

lemma save_member_held: "save_member sv C describe session supplied store d = (store', x) \<Longrightarrow> store_held C store \<Longrightarrow> store_held C store'"
  by (auto simp: save_member_def Let_def split: option.splits prod.splits sum.splits if_splits dest: set_saved_held)

lemma persist_held:
  "persist_connection_credentials sv C describe session supplied store d = (store', x) \<Longrightarrow> store_held C store \<Longrightarrow> store_held C store'"
  by (auto simp: persist_connection_credentials_def split: prod.splits sum.splits dest: save_issued_held save_member_held)

lemma rotated_held:
  "persist_rotated_token sv C gw gid kind token store d = (store', x) \<Longrightarrow> store_held C store \<Longrightarrow> store_held C store'"
  by (auto simp: persist_rotated_token_def Let_def split: option.splits prod.splits sum.splits dest: held_steps)

lemma chat_step_held:
  assumes "store_held C (cw_store cw)" "chat_step C gw gid event cw = (cw', x)"
  shows "store_held C (cw_store cw')"
  using assms(2,1)
proof (cases "(C, gw, gid, event, cw)" rule: chat_step.cases)
  case (6 C' gw' gid' sv ev cw1)
  with assms show ?thesis
    by (auto simp: persist_event_def split: prod.splits sum.splits client_event.splits server_message.splits dest: rotated_held)
qed (auto split: if_splits option.splits prod.splits chat_key_action.splits)

lemma chat_loop_held:
  "chat_loop C gw gid events cw = (cw', x) \<Longrightarrow> store_held C (cw_store cw) \<Longrightarrow> store_held C (cw_store cw')"
proof (induction C gw gid events cw arbitrary: cw' x rule: chat_loop.induct)
  case (2 C gw gid event events cw)
  obtain cw1 sent finish where step: "chat_step C gw gid event cw = (cw1, sent, finish)" by (metis prod_cases3)
  then have "store_held C (cw_store cw1)" using "2.prems"(2) by (rule chat_step_held [rotated])
  with 2 step show ?case by (auto split: option.splits prod.splits)
qed simp

lemma chat_turn_held: "chat_turn C describe session events it = (it', x) \<Longrightarrow> store_held C (it_store it) \<Longrightarrow> store_held C (it_store it')"
  by (auto simp: chat_turn_def run_chat_def Let_def split: prod.splits option.splits chat_end.splits chat_action.splits
      dest!: chat_loop_held)

lemma join_turn_held:
  "join_turn C describe show_uuid tc endpoint expected gw gid credential it = (it', x) \<Longrightarrow> store_held C (it_store it) \<Longrightarrow>
   store_held C (it_store it')"
  by (auto simp: join_turn_def Let_def split: prod.splits sum.splits join_outcome.splits dest!: set_saved_held persist_held chat_turn_held)

lemma create_turn_held:
  "create_turn C describe tc name mode endpoint expected it = (it', x) \<Longrightarrow> store_held C (it_store it) \<Longrightarrow> store_held C (it_store it')"
  by (auto simp: create_turn_def Let_def split: prod.splits sum.splits dest!: persist_held chat_turn_held)

lemma interactive_turn_held:
  "interactive_turn C describe show_uuid parse_addr tc it = (it', x) \<Longrightarrow> store_held C (it_store it) \<Longrightarrow> store_held C (it_store it')"
  by (auto simp: interactive_turn_def Let_def split: option.splits prod.splits sum.splits lobby_action.splits
      dest: held_steps join_turn_held create_turn_held)

lemma interactive_loop_held:
  "interactive_loop C describe show_uuid parse_addr tcs it = (it', x) \<Longrightarrow> store_held C (it_store it) \<Longrightarrow> store_held C (it_store it')"
  by (induction tcs arbitrary: it) (auto split: prod.splits option.splits dest: interactive_turn_held)

text \<open>
  C39. Whatever the credential file contained at the start, whatever the user does on the two screens, and
  whatever gateways, savings and connections do, every credential the program holds is filed under the
  gateway and group it names, and its tokens are well-formed.
\<close>

theorem interactive_credentials_well_formed:
  assumes "run_interactive fails windows env C describe show_uuid parse_addr tcs nickname d = (d', Inr (it, finish))"
    and "credential_get (it_store it) gw gid = Some r"
  shows "sc_gateway_id r = gw \<and> sc_group_id r = gid \<and> is_valid_group_credential (sc_join_token r) \<and>
    (case sc_invite_token r of Some token \<Rightarrow> is_valid_group_credential token | None \<Rightarrow> True)"
proof -
  have "store_held C (it_store it)"
    using assms(1)
    by (auto simp: run_interactive_def open_default_def Let_def split: prod.splits sum.splits
        dest!: interactive_loop_held intro: held_open)
  then have "key_of r = Group_Key gw gid" "validate_record r = Inr ()"
    using held_records_ok assms(2) by (auto simp: records_ok_def credential_get_def)
  then show ?thesis by (auto simp: key_of_def validate_record_def split: if_splits option.splits)
qed

section \<open>From one start to the next\<close>

text \<open>
  C38. The member token that a gateway issued is what the program presents at its next start. The
  connection is recorded, the file is written, the program ends; the next start opens the file without
  a failure and, when the gateway at the endpoint is the same, finds the token for the group.
\<close>

theorem issued_token_is_presented:
  assumes "codec_reads_back C" "store_held C store" "cs_path store = parent @ [str ''credentials.json'']"
    and saved: "persist_connection_credentials sv C describe session supplied store d = (store', d', Inr ())"
    and "w_issued_member_token (si_welcome session) = Some token"
    and encoded: "cc_encode C (file_of store') = Some encoded" "length encoded \<le> 1048576"
    and later: "inspect_gateway N endpoint nickname expected = Inr snapshot"
      "gsn_gateway_id snapshot = gsn_gateway_id (si_gateway session)"
  shows "\<exists>d2 store2. open_at (\<lambda>_. False) C (cs_path store) d' = (d2, Inr store2) \<and>
    resolve_saved_credential N store2 endpoint nickname expected (Some (w_group_id (si_welcome session))) None = Inr (Some token)"
proof -
  let ?gw = "gsn_gateway_id (si_gateway session)" and ?gid = "w_group_id (si_welcome session)"
  obtain store1 d1 where one: "save_issued (fst sv) C describe ?gw ?gid (w_issued_credentials (si_welcome session)) store d = (store1, d1, Inr ())"
      "save_member (snd sv) C describe session supplied store1 d1 = (store', d', Inr ())"
    using saved by (auto simp: persist_connection_credentials_def split: prod.splits sum.splits)
  have path1: "cs_path store1 = cs_path store"
    using one(1) by (auto simp: save_issued_def set_saved_ok(2) split: option.splits prod.splits sum.splits)
  have "set_saved (snd sv) C ?gw ?gid token (Option.bind (credential_get store1 ?gw ?gid) sc_invite_token) store1 d1 = (store', d', Inr ())"
    using one(2) assms(5) by (auto simp: save_member_def Let_def split: prod.splits sum.splits)
  note two = set_saved_ok [OF this]
  have path: "cs_path store' = parent @ [str ''credentials.json'']" using two(2) path1 assms(3) by simp
  have "store_held C store'" using persist_held [OF saved assms(2)] .
  from saved_reopens [OF assms(1) this path encoded(1) two(3) encoded(2)] obtain d2 store2 where
    reopened: "open_at (\<lambda>_. False) C (cs_path store') d' = (d2, Inr store2)"
      "credential_get store2 ?gw ?gid = credential_get store' ?gw ?gid" by blast
  have "credential_get store' ?gw ?gid = Some \<lparr>sc_gateway_id = ?gw, sc_group_id = ?gid, sc_join_token = token,
      sc_invite_token = Option.bind (credential_get store1 ?gw ?gid) sc_invite_token\<rparr>"
    by (simp add: two(1))
  with reopened later show ?thesis
    by (simp add: resolve_saved_credential_def path assms(3))
qed

section \<open>What is lost\<close>

text \<open>
  The token of a join request is lost when it can not be saved: the program ends with the error of the
  saving alone. (A connection whose credentials can not be saved returns to the lobby with the token.)
\<close>

theorem pending_token_is_lost:
  assumes "join_group_with_credential N endpoint (it_nickname it) expected direct gid credential = Inr (Pending pending)"
    and "set_saved (fst (tc_saving tc)) C (pj_gateway_id pending) (pj_group_id pending) (pj_request_token pending) None
      (it_store it) (it_disk it) = (store, d, Inl e)"
    and "tc_setup tc = (N, direct)" "credential \<noteq> None"
  shows "snd (join_turn C describe show_uuid tc endpoint expected gw (Some gid) credential it) = Some (App_Fails e)"
  using assms by (auto simp: join_turn_def Let_def)

section \<open>Commands\<close>

text \<open>The address that the host joins is one it can connect to, on the port it listens on.\<close>

theorem local_address_is_specified:
  "\<not> is_unspecified (sa_ip (local_join_address listen)) \<and> sa_port (local_join_address listen) = sa_port listen \<and>
   (\<not> is_unspecified (sa_ip listen) \<longrightarrow> local_join_address listen = listen)"
  by (cases "sa_ip listen") (auto simp: local_join_address_def)

text \<open>
  \<open>send\<close> sends filtered text or nothing: text the filter refuses touches neither the disk nor the network,
  and what is sent is left unchanged by the gateway's own filter.
\<close>

theorem send_command_filters:
  assumes "send_command setup sv C describe show_uuid nickname tg message fresh is_open events timed_out opened d = (sent, d', r)"
  shows "case sanitize_chat_text message of
      Inl e \<Rightarrow> sent = None \<and> d' = d \<and> r = Inl e
    | Inr body \<Rightarrow> (case sent of None \<Rightarrow> \<exists>e. r = Inl e | Some m \<Rightarrow> \<exists>rid. m = Chat rid fresh body \<and> sanitize_chat_text body = Inr body)"
  using assms
  by (auto simp: send_command_def send_message_def chat_text.accepted_stable split: sum.splits prod.splits option.split)

end
