(* ===== verification/Command_Samples.thy ===== *)
theory Command_Samples
  imports Command_Theorems Client_Theorems
begin

text \<open>
  A first connection, a first start and a restart of the program, for the properties of the command line.
\<close>

definition sample_first_session :: session_info where
  "sample_first_session =
     \<lparr>si_gateway = \<lparr>gsn_protocol_version = 5, gsn_gateway_id = 1, gsn_gateway_name = [103], gsn_groups = [],
        gsn_server_fingerprint = sample_fp, gsn_endpoint = \<lparr>sa_ip = V4 1, sa_port = 7373\<rparr>\<rparr>,
      si_welcome = sample_welcome\<lparr>w_issued_member_token := Some (str ''lc_m'')\<rparr>, si_local = sample_member\<rparr>"

definition smooth :: saving_conditions where
  "smooth = \<lparr>sv_fails = (\<lambda>_. False), sv_written = 0, sv_unique = []\<rparr>"

lemma sample_recorded:
  "\<exists>d'. persist_connection_credentials (smooth, smooth) sample_codec (\<lambda>_. []) sample_first_session None empty_store Map.empty =
     (sample_credentials, d', Inr ())"
proof -
  obtain d' where d': "save (\<lambda>_. False) 0 [] sample_codec sample_credentials Map.empty = (d', Inr ())" using sample_save by blast
  have "set_saved smooth sample_codec 1 5 (str ''lc_m'') None empty_store Map.empty = (sample_credentials, d', Inr ())"
    using d' by (simp add: set_saved_def credential_set_def validate_record_def sample_valid smooth_def empty_store_def
        sample_credentials_def sample_credential_def)
  then show ?thesis
    by (simp add: persist_connection_credentials_def save_issued_def save_member_def sample_first_session_def sample_welcome_def
        Let_def credential_get_def empty_store_def)
qed

lemma sample_inspected:
  "inspect_gateway sample_network \<lparr>sa_ip = V4 1, sa_port = 7373\<rparr> [97] None =
     Inr \<lparr>gsn_protocol_version = 5, gsn_gateway_id = 1, gsn_gateway_name = [103], gsn_groups = [],
       gsn_server_fingerprint = sample_fp, gsn_endpoint = \<lparr>sa_ip = V4 1, sa_port = 7373\<rparr>\<rparr>"
  by (simp add: inspect_gateway_def open_gateway_def sample_network_def hello_message_def one_letter supported_def
      PROTOCOL_MIN_def PROTOCOL_MAX_def)

theorem connection_is_recorded_witness:
  "\<exists>d'. persist_connection_credentials (smooth, smooth) sample_codec (\<lambda>_. []) sample_first_session None empty_store Map.empty =
     (sample_credentials, d', Inr ()) \<and> credential_get sample_credentials 1 5 = Some sample_credential"
proof -
  obtain d' where d': "persist_connection_credentials (smooth, smooth) sample_codec (\<lambda>_. []) sample_first_session None empty_store Map.empty =
     (sample_credentials, d', Inr ())" using sample_recorded by blast
  from connection_is_recorded [OF this] have "credential_get sample_credentials 1 5 =
      joined_as sample_first_session None (founded sample_first_session None)"
    by (simp add: sample_first_session_def sample_welcome_def credential_get_def empty_store_def)
  with d' show ?thesis
    by (simp add: joined_as_def founded_def sample_first_session_def sample_welcome_def sample_credential_def)
qed

theorem issued_token_is_presented_witness:
  "\<exists>d' d2 store2. persist_connection_credentials (smooth, smooth) sample_codec (\<lambda>_. []) sample_first_session None empty_store Map.empty =
     (sample_credentials, d', Inr ()) \<and> open_at (\<lambda>_. False) sample_codec sample_path d' = (d2, Inr store2) \<and>
     resolve_saved_credential sample_network store2 \<lparr>sa_ip = V4 1, sa_port = 7373\<rparr> [97] None (Some 5) None = Inr (Some (str ''lc_m''))"
proof -
  obtain d' where d': "persist_connection_credentials (smooth, smooth) sample_codec (\<lambda>_. []) sample_first_session None empty_store Map.empty =
     (sample_credentials, d', Inr ())" using sample_recorded by blast
  have codec: "codec_reads_back sample_codec" by (simp add: codec_reads_back_def sample_codec_def)
  have held: "store_held sample_codec empty_store" using sample_opens by (auto intro: held_open)
  have path: "cs_path empty_store = [str ''data''] @ [str ''credentials.json'']" by (simp add: empty_store_def sample_path_def)
  have issued: "w_issued_member_token (si_welcome sample_first_session) = Some (str ''lc_m'')" by (simp add: sample_first_session_def)
  have encoded: "cc_encode sample_codec (file_of sample_credentials) = Some [7, 7]" "length [7, 7] \<le> (1048576 :: nat)"
    by (simp_all add: sample_codec_def sample_file_of)
  show ?thesis
    using issued_token_is_presented [OF codec held path d' issued encoded sample_inspected] d'
    by (auto simp: sample_first_session_def sample_welcome_def empty_store_def)
qed

definition sample_home :: "rstring \<Rightarrow> rstring option" where
  "sample_home name = (if name = str ''LAN_CHAT_CLIENT_DATA_DIR'' then Some (str ''data'') else None)"

definition sample_disk :: disk where
  "sample_disk = [[str ''data''] \<mapsto> Directory PRIVATE_DIRECTORY_MODE, sample_path \<mapsto> Regular_File PRIVATE_FILE_MODE [7, 7]]"

lemma sample_started:
  "\<exists>d' it. run_interactive (\<lambda>_. False) False sample_home sample_codec (\<lambda>_. []) (\<lambda>_. []) (\<lambda>_. None) [] [97] sample_disk = (d', Inr (it, None)) \<and>
     credential_get (it_store it) 1 5 = Some sample_credential"
proof -
  have data: "[str ''data'', str ''credentials.json''] = sample_path" "str ''data'' \<noteq> []" "[str ''data''] \<noteq> sample_path" "sample_path \<noteq> [str ''data'']"
      "butlast sample_path = [str ''data'']" "sample_path \<noteq> []"
    by (simp_all add: str_def sample_path_def)
  have "read_credentials sample_codec [7, 7] = Inr (RBT.insert (Group_Key 1 5) sample_credential RBT.empty)"
    by (simp add: read_credentials_def sample_codec_def sample_file_def CREDENTIAL_FILE_VERSION_def validate_record_def sample_valid
        sample_credential_def key_of_def)
  then show ?thesis using data
    by (simp add: run_interactive_def open_default_def default_client_data_directory_for_def env_path_def sample_home_def sample_disk_def
        open_at_def parent_of_def create_private_directory_def make_directory_def opening_defs)
qed

theorem interactive_credentials_well_formed_witness:
  "is_valid_group_credential (sc_join_token sample_credential)"
proof -
  obtain d' it where "run_interactive (\<lambda>_. False) False sample_home sample_codec (\<lambda>_. []) (\<lambda>_. []) (\<lambda>_. None) [] [97] sample_disk = (d', Inr (it, None))"
    "credential_get (it_store it) 1 5 = Some sample_credential" using sample_started by blast
  from interactive_credentials_well_formed [OF this] show ?thesis by simp
qed

end
