(* ===== verification/Chat_Display.thy ===== *)
theory Chat_Display
  imports Chat_Keys
begin

text \<open>
  What the chat screen draws (the \<open>render_\<close> functions of \<open>src/tui.rs\<close> as far as they compute something): the
  lines of a conversation, the part of them in view, the list of conversations and the tail of the input
  line. Styles and the widgets are ratatui's; the width of a character and the wrapping of a line are
  parameters. \<open>None\<close> is the panic of an index into a map.
\<close>

section \<open>Messages as lines\<close>

text \<open>\<open>str::lines\<close>: without the line ends, a carriage return before a line feed included.\<close>

definition strip_cr :: "rstring \<Rightarrow> rstring" where
  "strip_cr l = (if l \<noteq> [] \<and> last l = 13 then butlast l else l)"

fun lines_from :: "rstring \<Rightarrow> rstring \<Rightarrow> rstring list" where
  "lines_from acc [] = (if acc = [] then [] else [acc])"
| "lines_from acc (c # cs) = (if c = 10 then strip_cr acc # lines_from [] cs else lines_from (acc @ [c]) cs)"

definition text_lines :: "rstring \<Rightarrow> rstring list" where
  "text_lines s = lines_from [] s"

definition two_digits :: "nat \<Rightarrow> rstring" where
  "two_digits n = (if n < 10 then 48 # show_nat n else show_nat n)"

definition short_time :: "u64 \<Rightarrow> rstring" where
  "short_time timestamp_ms =
     (let seconds = unat timestamp_ms div 1000
      in two_digits (seconds div 3600 mod 24) @ [58] @ two_digits (seconds div 60 mod 60) @ [58] @ two_digits (seconds mod 60))"

record shown_line =
  sl_text :: rstring
  sl_right :: bool

text \<open>Own messages are aligned to the right.\<close>

definition append_message_lines :: "shown_line list \<Rightarrow> u64 \<Rightarrow> rstring \<Rightarrow> rstring \<Rightarrow> bool \<Rightarrow> shown_line list" where
  "append_message_lines shown sent_at_ms nickname text own =
     (let (first, rest) = (case text_lines text of [] \<Rightarrow> ([], []) | l # ls \<Rightarrow> (l, ls))
      in if own
         then shown @ \<lparr>sl_text = first @ str ''  '' @ short_time sent_at_ms, sl_right = True\<rparr> #
              map (\<lambda>l. \<lparr>sl_text = l, sl_right = True\<rparr>) rest
         else shown @ \<lparr>sl_text = short_time sent_at_ms @ str ''  '' @ nickname @ str ''  '' @ first, sl_right = False\<rparr> #
              map (\<lambda>l. \<lparr>sl_text = str ''          '' @ l, sl_right = False\<rparr>) rest)"

text \<open>The lines of the source that are notices, by their names.\<close>

definition EMPTY_ROOM :: rstring where
  "EMPTY_ROOM = [0x8fd8, 0x6ca1, 0x6709, 0x6d88, 0x606f, 0x3002]"

definition EMPTY_PRIVATE :: rstring where
  "EMPTY_PRIVATE = [0x53d1, 0x9001, 0x7b2c, 0x4e00, 0x6761, 0x6d88, 0x606f, 0x540e, 0xff0c, 0x9700, 0x8981, 0x7b49, 0x5f85,
     0x5bf9, 0x65b9, 0x56de, 0x590d, 0x4e00, 0x53e5, 0x3002]"

definition SYSTEM_PREFIX :: rstring where
  "SYSTEM_PREFIX = [0x7cfb, 0x7edf, 0x20, 0x20]"

text \<open>\<open>wording\<close> gives the sentence of a notice.\<close>

definition room_lines :: "(notice \<Rightarrow> rstring) \<Rightarrow> ui_item list \<Rightarrow> uuid \<Rightarrow> shown_line list" where
  "room_lines wording items own_member_id =
     (if items = [] then [\<lparr>sl_text = EMPTY_ROOM, sl_right = False\<rparr>]
      else fold (\<lambda>item shown.
          case item of
            Notice_Item notice \<Rightarrow> shown @ [\<lparr>sl_text = SYSTEM_PREFIX @ wording notice, sl_right = False\<rparr>]
          | Chat_Item m \<Rightarrow> append_message_lines shown (cr_sent_at_ms m) (p_nickname (cr_sender m)) (cr_text m)
              (p_member_id (cr_sender m) = own_member_id)) items [])"

definition direct_lines :: "direct_record list \<Rightarrow> uuid \<Rightarrow> shown_line list" where
  "direct_lines items own_session_id =
     (if items = [] then [\<lparr>sl_text = EMPTY_PRIVATE, sl_right = False\<rparr>]
      else fold (\<lambda>m shown. append_message_lines shown (dr_sent_at_ms m) (p_nickname (dr_sender m)) (dr_text m)
          (p_session_id (dr_sender m) = own_session_id)) items [])"

section \<open>The part in view\<close>

definition active_lines :: "(notice \<Rightarrow> rstring) \<Rightarrow> chat_app \<Rightarrow> shown_line list option" where
  "active_lines wording app =
     (case ca_active app of
        In_Room rid \<Rightarrow> map_option (\<lambda>room. room_lines wording (rv_items room) (ca_member_id app)) (RBT.lookup (ca_rooms app) rid)
      | With_Peer peer_id \<Rightarrow> map_option (\<lambda>chat. direct_lines (pv_items chat) (ca_session_id app)) (RBT.lookup (ca_private_chats app) peer_id))"

definition lines_in_view :: "nat \<Rightarrow> nat \<Rightarrow> 'a list \<Rightarrow> 'a list" where
  "lines_in_view height scroll shown =
     (let finish = length shown - min scroll (length shown); start = finish - height
      in drop start (take finish shown))"

definition render_active_messages :: "(notice \<Rightarrow> rstring) \<Rightarrow> nat \<Rightarrow> chat_app \<Rightarrow> shown_line list option" where
  "render_active_messages wording height app =
     map_option (lines_in_view height (ca_scroll app)) (active_lines wording app)"

text \<open>The widget wraps each line into rows and draws as many rows as fit, from the first.\<close>

definition drawn_rows :: "('a \<Rightarrow> 'b list) \<Rightarrow> nat \<Rightarrow> 'a list \<Rightarrow> 'b list" where
  "drawn_rows wrap height shown = take height (concat (map wrap shown))"

section \<open>The list of conversations\<close>

definition room_display_name :: "room_view \<Rightarrow> rstring" where
  "room_display_name room =
     (if rs_room_id (rv_summary room) = str ''general'' then [0x5927, 0x5385] else rs_room_name (rv_summary room))"

record navigation_row =
  nr_y :: nat
  nr_label :: rstring
  nr_meta :: notice
  nr_selected :: bool
  nr_active :: bool

definition room_meta :: "room_view \<Rightarrow> notice" where
  "room_meta room =
     (if rv_unread room > 0 then Counting ''unread'' (rv_unread room)
      else if \<not> rv_joined room then Line ''not joined''
      else if rs_visibility (rv_summary room) = Private_Room then Line ''private'' else Line ''public'')"

definition private_meta :: "chat_app \<Rightarrow> private_view \<Rightarrow> notice" where
  "private_meta app chat =
     (if pv_unread chat > 0 then Counting ''unread'' (pv_unread chat)
      else if \<not> pv_online chat then Line ''offline''
      else if pv_status chat = Some (Awaiting_Reply (ca_session_id app)) then Line ''waiting for a reply''
      else Line ''private chat'')"

fun entry_text :: "chat_app \<Rightarrow> conversation \<Rightarrow> (rstring \<times> notice) option" where
  "entry_text app (In_Room rid) = map_option (\<lambda>room. (room_display_name room, room_meta room)) (RBT.lookup (ca_rooms app) rid)"
| "entry_text app (With_Peer peer_id) =
     map_option (\<lambda>chat. (p_nickname (pv_peer chat), private_meta app chat)) (RBT.lookup (ca_private_chats app) peer_id)"

text \<open>
  Two rows for each entry, from \<open>row_y\<close> on while it lies above \<open>bottom\<close>; the second part of the answer is
  the next row, or \<open>None\<close> when the drawing has returned. Coordinates are \<open>u16\<close> with saturating addition.
\<close>

fun navigation_rows ::
  "chat_app \<Rightarrow> nat \<Rightarrow> nat \<Rightarrow> (nat \<times> conversation) list \<Rightarrow> (navigation_row list \<times> nat option) option" where
  "navigation_rows app bottom row_y [] = Some ([], Some row_y)"
| "navigation_rows app bottom row_y ((index, target) # entries) =
     (if row_y \<ge> bottom then Some ([], None)
      else case entry_text app target of
        None \<Rightarrow> None
      | Some (label, meta) \<Rightarrow>
          map_option (\<lambda>(rows, y). (\<lparr>nr_y = row_y, nr_label = label, nr_meta = meta,
              nr_selected = (ca_focus app = Focus_Conversations \<and> index = ca_selected_conversation app),
              nr_active = (target = ca_active app)\<rparr> # rows, y))
            (navigation_rows app bottom (min 65535 (row_y + 2)) entries))"

fun is_room :: "conversation \<Rightarrow> bool" where
  "is_room (In_Room _) = True"
| "is_room (With_Peer _) = False"

text \<open>The pane has its top at \<open>y\<close> and the given size; the heading of the private chats takes one row.\<close>

definition render_conversations :: "nat \<Rightarrow> nat \<Rightarrow> nat \<Rightarrow> chat_app \<Rightarrow> navigation_row list option" where
  "render_conversations y width height app =
     (let entries = enumerate 0 (conversation_entries app);
          top = min 65535 (y + 1); bottom = min 65535 (top + (height - 2))
      in if width - 4 = 0 \<or> height - 2 = 0 then Some []
         else case navigation_rows app bottom (min 65535 (top + 2)) (filter (\<lambda>e. is_room (snd e)) entries) of
           None \<Rightarrow> None
         | Some (rows, None) \<Rightarrow> Some rows
         | Some (rows, Some row_y) \<Rightarrow>
             (let private = filter (\<lambda>e. \<not> is_room (snd e)) entries;
                  row_y = (if private \<noteq> [] \<and> row_y < bottom then min 65535 (row_y + 1) else row_y)
              in map_option (\<lambda>(more, _). rows @ more) (navigation_rows app bottom row_y private)))"

section \<open>The input line\<close>

text \<open>From the end of the text as many characters as fit, \<open>width\<close> being that of one.\<close>

fun tail_loop :: "(rchar \<Rightarrow> nat) \<Rightarrow> nat \<Rightarrow> rchar list \<Rightarrow> nat \<Rightarrow> rchar list \<Rightarrow> rchar list" where
  "tail_loop width maximum [] used chars = chars"
| "tail_loop width maximum (c # cs) used chars =
     (if used + width c > maximum then chars else tail_loop width maximum cs (used + width c) (chars @ [c]))"

definition tail_by_width :: "(rchar \<Rightarrow> nat) \<Rightarrow> rstring \<Rightarrow> nat \<Rightarrow> rstring" where
  "tail_by_width width value maximum = rev (tail_loop width maximum (rev value) 0 [])"

text \<open>The colour of a nickname, one of six, from a hash with wrapping arithmetic on 64 bits.\<close>

definition nickname_colour :: "rstring \<Rightarrow> nat" where
  "nickname_colour nickname = unat (fold (\<lambda>byte value. value * 31 + ucast byte) (utf8 nickname) (0 :: u64)) mod 6"

end
