(* ===== verification/Display_Theorems.thy ===== *)
theory Display_Theorems
  imports Chat_Display Chat_Outcomes
begin

text \<open>When drawing finds what it draws, and what the window on a conversation shows.\<close>

section \<open>Views that exist\<close>

fun has_view :: "chat_app \<Rightarrow> conversation \<Rightarrow> bool" where
  "has_view app (In_Room rid) \<longleftrightarrow> RBT.lookup (ca_rooms app) rid \<noteq> None"
| "has_view app (With_Peer peer_id) \<longleftrightarrow> RBT.lookup (ca_private_chats app) peer_id \<noteq> None"

definition keyed_rooms :: "room_views \<Rightarrow> bool" where
  "keyed_rooms m \<longleftrightarrow> (\<forall>rid room. RBT.lookup m rid = Some room \<longrightarrow> rs_room_id (rv_summary room) = rid)"

definition keyed_chats :: "private_views \<Rightarrow> bool" where
  "keyed_chats m \<longleftrightarrow> (\<forall>peer_id chat. RBT.lookup m peer_id = Some chat \<longrightarrow> p_session_id (pv_peer chat) = peer_id)"

definition views_ok :: "chat_app \<Rightarrow> bool" where
  "views_ok app \<longleftrightarrow> keyed_rooms (ca_rooms app) \<and> keyed_chats (ca_private_chats app) \<and>
     RBT.lookup (ca_rooms app) (str ''general'') \<noteq> None \<and> has_view app (ca_active app)"

lemma entries_have_views:
  assumes "keyed_rooms (ca_rooms app)" "keyed_chats (ca_private_chats app)" "target \<in> set (conversation_entries app)"
  shows "has_view app target"
proof -
  have "RBT.lookup (ca_rooms app) rid = Some room \<Longrightarrow> rs_room_id (rv_summary room) = rid"
    "RBT.lookup (ca_private_chats app) pid = Some chat \<Longrightarrow> p_session_id (pv_peer chat) = pid" for rid room pid chat
    using assms(1,2) by (auto simp: keyed_rooms_def keyed_chats_def)
  with assms(3) show ?thesis
    by (auto simp: conversation_entries_def lookup_in_tree [symmetric])
qed

section \<open>Keeping them\<close>

named_theorems keyed \<open>updates of the maps of views\<close>

lemma keyed_rooms_map [keyed]:
  "keyed_rooms m \<Longrightarrow> (\<And>room. rs_room_id (rv_summary (f room)) = rs_room_id (rv_summary room)) \<Longrightarrow> keyed_rooms (RBT.map_entry rid f m)"
  by (auto simp: keyed_rooms_def split: if_splits)

lemma keyed_rooms_enter [keyed]:
  "keyed_rooms m \<Longrightarrow> (\<And>room. rs_room_id (rv_summary (f room)) = rid) \<Longrightarrow> keyed_rooms (RBT.map_entry rid f m)"
  by (auto simp: keyed_rooms_def split: if_splits)

lemma keyed_rooms_simps [keyed]:
  "keyed_rooms m \<Longrightarrow> rs_room_id (rv_summary room) = rid \<Longrightarrow> keyed_rooms (RBT.insert rid room m)"
  "keyed_rooms m \<Longrightarrow> rs_room_id (rv_summary room) = rid \<Longrightarrow> keyed_rooms (or_insert rid room m)"
  "keyed_rooms m \<Longrightarrow> keyed_rooms (RBT.delete rid m)" "keyed_rooms RBT.empty"
  by (auto simp: keyed_rooms_def split: if_splits)

lemma keyed_chats_simps [keyed]:
  "keyed_chats p \<Longrightarrow> (\<And>chat. p_session_id (pv_peer (g chat)) = p_session_id (pv_peer chat)) \<Longrightarrow> keyed_chats (RBT.map_entry pid g p)"
  "keyed_chats p \<Longrightarrow> p_session_id (pv_peer chat) = pid \<Longrightarrow> keyed_chats (or_insert pid chat p)" "keyed_chats RBT.empty"
  by (auto simp: keyed_chats_def split: if_splits)

lemma views_ok_frame [simp]:
  "views_ok (app\<lparr>ca_status := n\<rparr>) = views_ok app" "views_ok (app\<lparr>ca_connected := b\<rparr>) = views_ok app"
  "views_ok (app\<lparr>ca_members := ms\<rparr>) = views_ok app" "views_ok (app\<lparr>ca_input := w\<rparr>) = views_ok app"
  "views_ok (app\<lparr>ca_scroll := i\<rparr>) = views_ok app" "views_ok (app\<lparr>ca_focus := f\<rparr>) = views_ok app"
  "views_ok (app\<lparr>ca_overlay := ov\<rparr>) = views_ok app" "views_ok (app\<lparr>ca_focus_mode := b\<rparr>) = views_ok app"
  "views_ok (app\<lparr>ca_selected_conversation := i\<rparr>) = views_ok app" "views_ok (app\<lparr>ca_selected_member := i\<rparr>) = views_ok app"
  by (cases "ca_active app"; simp add: views_ok_def)+

lemma views_ok_rooms:
  assumes "views_ok app" "keyed_rooms m" "\<And>rid. RBT.lookup (ca_rooms app) rid \<noteq> None \<Longrightarrow> RBT.lookup m rid \<noteq> None"
  shows "views_ok (app\<lparr>ca_rooms := m\<rparr>)"
  using assms by (cases "ca_active app") (auto simp: views_ok_def)

lemma views_ok_chats:
  assumes "views_ok app" "keyed_chats p" "\<And>pid. RBT.lookup (ca_private_chats app) pid \<noteq> None \<Longrightarrow> RBT.lookup p pid \<noteq> None"
  shows "views_ok (app\<lparr>ca_private_chats := p\<rparr>)"
  using assms by (cases "ca_active app") (auto simp: views_ok_def)

lemma views_ok_active: "views_ok app \<Longrightarrow> has_view app target \<Longrightarrow> views_ok (app\<lparr>ca_active := target\<rparr>)"
  by (cases target) (auto simp: views_ok_def)

lemma views_ok_parts: "views_ok app \<Longrightarrow> keyed_rooms (ca_rooms app)" "views_ok app \<Longrightarrow> keyed_chats (ca_private_chats app)"
  "views_ok app \<Longrightarrow> RBT.lookup (ca_rooms app) (str ''general'') \<noteq> None"
  by (simp_all add: views_ok_def)

lemma sync_views [simp]: "views_ok (sync_conversation_selection app) = views_ok app"
  by (simp add: sync_conversation_selection_def split: option.split)

lemma views_ok_map_room [intro]:
  "views_ok app \<Longrightarrow> (\<And>room. rs_room_id (rv_summary (f room)) = rs_room_id (rv_summary room)) \<Longrightarrow>
   views_ok (app\<lparr>ca_rooms := RBT.map_entry rid f (ca_rooms app)\<rparr>)"
  by (rule views_ok_rooms) (auto intro: keyed views_ok_parts)

lemma views_ok_map_chat [intro]:
  "views_ok app \<Longrightarrow> (\<And>chat. p_session_id (pv_peer (g chat)) = p_session_id (pv_peer chat)) \<Longrightarrow>
   views_ok (app\<lparr>ca_private_chats := RBT.map_entry pid g (ca_private_chats app)\<rparr>)"
  by (rule views_ok_chats) (auto intro: keyed views_ok_parts)

section \<open>Messages\<close>

lemma show_chat_views: "views_ok app \<Longrightarrow> views_ok (show_chat m app)"
  unfolding show_chat_def by (rule views_ok_map_room) simp_all

lemma notice_views: "views_ok app \<Longrightarrow> views_ok (push_room_notice rid n app)"
  unfolding push_room_notice_def by (rule views_ok_map_room) simp_all

lemma offline_views: "views_ok app \<Longrightarrow> views_ok (peer_offline sid app)"
  unfolding peer_offline_def by (rule views_ok_map_chat) simp_all

lemma show_room_views: "views_ok app \<Longrightarrow> views_ok (show_room room app)"
  by (auto simp: show_room_def Let_def new_room_view_def intro!: views_ok_rooms keyed dest: views_ok_parts)

lemma show_page_views: "views_ok app \<Longrightarrow> views_ok (show_page rid ms b app)"
proof (cases "RBT.lookup (ca_rooms app) rid")
  case (Some room)
  assume ok: "views_ok app"
  then have "rs_room_id (rv_summary room) = rid" using Some by (auto simp: keyed_rooms_def dest: views_ok_parts)
  then have "views_ok (app\<lparr>ca_rooms := RBT.insert rid (room\<lparr>rv_items := prepend_page ms (rv_items room), rv_has_more := b,
      rv_loading := False\<rparr>) (ca_rooms app)\<rparr>)"
    by (intro views_ok_rooms [OF ok] keyed_rooms_simps views_ok_parts [OF ok]) auto
  with Some show ?thesis by (simp add: show_page_def)
qed (simp add: show_page_def)

lemma enter_room_views: "views_ok app \<Longrightarrow> views_ok (enter_room room records app)"
proof -
  assume ok: "views_ok app"
  let ?rooms = "RBT.map_entry (rs_room_id room) (\<lambda>view. view\<lparr>rv_summary := room, rv_joined := True, rv_unread := 0,
      rv_items := map Chat_Item records,
      rv_has_more := (case first_sequence (map Chat_Item records) of Some n \<Rightarrow> n > 1 | None \<Rightarrow> False), rv_loading := False\<rparr>)
    (or_insert (rs_room_id room) (new_room_view room True) (ca_rooms app))"
  have "views_ok (app\<lparr>ca_rooms := ?rooms\<rparr>)"
    using ok by (auto intro!: views_ok_rooms keyed_rooms_enter keyed_rooms_simps views_ok_parts simp: new_room_view_def)
  then have "views_ok (app\<lparr>ca_rooms := ?rooms, ca_active := In_Room (rs_room_id room)\<rparr>)"
    by (rule views_ok_active) simp
  then show ?thesis by (simp add: enter_room_def Let_def)
qed

lemma exit_room_views:
  assumes ok: "views_ok app" and rid: "rid \<noteq> str ''general''"
  shows "views_ok (exit_room rid app)"
proof -
  define moved where "moved = (if ca_active app = In_Room rid then app\<lparr>ca_active := In_Room (str ''general'')\<rparr> else app)"
  have m: "views_ok moved" "ca_active moved \<noteq> In_Room rid" "ca_rooms moved = ca_rooms app"
    using ok rid by (auto simp: moved_def intro!: views_ok_active dest: views_ok_parts)
  have "views_ok (moved\<lparr>ca_rooms := RBT.delete rid (ca_rooms moved)\<rparr>)"
    using m rid by (cases "ca_active moved") (auto simp: views_ok_def restrict_map_def intro: keyed)
  moreover have "views_ok (moved\<lparr>ca_rooms := RBT.map_entry rid (\<lambda>room. room\<lparr>rv_joined := False\<rparr>) (ca_rooms moved)\<rparr>)"
    using m(1) by (rule views_ok_map_room) simp
  ultimately show ?thesis by (simp add: exit_room_def Let_def flip: moved_def)
qed

lemma private_views_ok: "views_ok app \<Longrightarrow> views_ok (handle_private_message m st app)"
  unfolding handle_private_message_def Let_def sync_views views_ok_frame
  by (rule views_ok_chats) (auto intro!: keyed simp: new_private_view_def dest: views_ok_parts)

lemma member_gone_views: "views_ok app \<Longrightarrow> views_ok (member_gone sid app)"
  by (simp add: member_gone_def Let_def offline_views notice_views split: option.split)

lemma message_views:
  "views_ok app \<Longrightarrow> message \<noteq> Room_Left (str ''general'') \<Longrightarrow> views_ok (handle_server_message message app)"
  by (cases message)
    (simp_all add: show_chat_views show_room_views enter_room_views exit_room_views show_page_views show_requests_def
      show_group_members_def show_room_members_def Let_def private_views_ok offline_views notice_views member_gone_views)

section \<open>Keys\<close>

fun answer_views :: "chat_answer \<Rightarrow> bool" where
  "answer_views None \<longleftrightarrow> True"
| "answer_views (Some (app, _)) \<longleftrightarrow> views_ok app"

lemma overlay_views: "views_ok app \<Longrightarrow> answer_views (overlay_key key overlay app)"
  by (cases overlay)
    (simp_all add: overlay_key_def form_key_def notice_key_def requests_key_def group_members_key_def room_members_key_def
      rotation_key_def Let_def split: key_code.split sum.split option.split)

lemma activate_views: "views_ok app \<Longrightarrow> has_view app target \<Longrightarrow> views_ok (activate target app)"
proof -
  assume "views_ok app" "has_view app target"
  then have a: "views_ok (app\<lparr>ca_active := target, ca_scroll := 0\<rparr>)" by (simp add: views_ok_active)
  then have "views_ok ((app\<lparr>ca_active := target, ca_scroll := 0\<rparr>)\<lparr>ca_rooms := RBT.map_entry rid (\<lambda>room. room\<lparr>rv_unread := 0\<rparr>)
      (ca_rooms (app\<lparr>ca_active := target, ca_scroll := 0\<rparr>))\<rparr>)" for rid
    by (rule views_ok_map_room) simp
  moreover from a have "views_ok ((app\<lparr>ca_active := target, ca_scroll := 0\<rparr>)\<lparr>ca_private_chats := RBT.map_entry pid (\<lambda>chat. chat\<lparr>pv_unread := 0\<rparr>)
      (ca_private_chats (app\<lparr>ca_active := target, ca_scroll := 0\<rparr>))\<rparr>)" for pid
    by (rule views_ok_map_chat) simp
  ultimately show ?thesis by (cases target) (simp_all add: activate_def Let_def)
qed

lemma prepare_views: "views_ok app \<Longrightarrow> views_ok (fst (prepare_message fresh app))"
  by (simp add: prepare_message_def views_ok_map_chat split: sum.split conversation.split option.split)

lemma page_up_views: "views_ok app \<Longrightarrow> views_ok (fst (page_up app))"
proof -
  assume "views_ok app"
  then have "views_ok (app\<lparr>ca_scroll := ca_scroll app + 8\<rparr>)" by simp
  from views_ok_map_room [OF this, of "\<lambda>room. room\<lparr>rv_loading := True\<rparr>"] \<open>views_ok app\<close> show ?thesis
    by (simp add: page_up_def Let_def split: conversation.split option.split)
qed

lemma input_views: "views_ok app \<Longrightarrow> views_ok (fst (handle_input_key fresh key app))"
  by (simp add: handle_input_key_def prepare_views page_up_views split: key_code.split option.split)

lemma conversation_views: "views_ok app \<Longrightarrow> views_ok (fst (handle_conversation_key code app))"
proof -
  assume ok: "views_ok app"
  have "RBT.lookup (ca_private_chats app) pid \<noteq> None" if "i < length (conversation_entries app)" "conversation_entries app ! i = With_Peer pid" for i pid
    using entries_have_views [of app "With_Peer pid"] views_ok_parts [OF ok] that by (metis has_view.simps(2) nth_mem)
  with ok show ?thesis
    by (auto simp: handle_conversation_key_def Let_def split: option.split conversation.split intro!: activate_views)
qed

lemma open_private_views: "views_ok app \<Longrightarrow> views_ok (open_private pid n app)"
proof -
  assume ok: "views_ok app"
  let ?peer = "\<lparr>p_session_id = pid, p_member_id = 0, p_nickname = n, p_direct = None\<rparr>"
  let ?app = "app\<lparr>ca_private_chats := or_insert pid (new_private_view ?peer) (ca_private_chats app)\<rparr>"
  have "views_ok ?app"
    using ok by (auto intro!: views_ok_chats keyed_chats_simps views_ok_parts simp: new_private_view_def)
  then have "views_ok (activate (With_Peer pid) ?app)" by (rule activate_views) simp
  then show ?thesis by (simp add: open_private_def Let_def)
qed

lemma member_views: "views_ok app \<Longrightarrow> views_ok (handle_member_key code app)"
  by (simp add: handle_member_key_def Let_def open_private_views split: option.split prod.split)

lemma screen_views: "views_ok app \<Longrightarrow> views_ok (fst (screen_key fresh key app))"
  by (simp add: screen_key_def focused_key_def open_room_members_def conversation_views input_views member_views Let_def
    split: chat_focus.split conversation.split)

lemma clear_views: "views_ok app \<Longrightarrow> views_ok (clear_active_view app)"
  by (auto simp: clear_active_view_def split: conversation.split)

lemma answer_views_Some: "answer_views (Some a) = views_ok (fst a)"
  by (cases a) simp

lemma key_views: "views_ok app \<Longrightarrow> answer_views (chat_key fresh key app)"
proof -
  assume ok: "views_ok app"
  show ?thesis
  proof (cases "ca_overlay app")
    case (Some overlay)
    with ok show ?thesis by (simp add: chat_key_def overlay_views)
  next
    case None
    with ok show ?thesis
      by (auto simp: chat_key_def toggle_focus_mode_def control_key_def answer_views_Some screen_views input_views clear_views)
  qed
qed

lemma paste_views: "views_ok app \<Longrightarrow> views_ok (chat_paste raw app)"
  by (simp add: chat_paste_def Let_def split: option.split chat_overlay.split)

lemma finish_views: "views_ok (finish_send refused app) = views_ok app"
  by (simp add: finish_send_def split: option.split)

section \<open>The loop\<close>

fun leaves_general :: "chat_event \<Rightarrow> bool" where
  "leaves_general (Connection_Event _ (Some (From_Server message))) \<longleftrightarrow> message = Room_Left (str ''general'')"
| "leaves_general _ \<longleftrightarrow> False"

lemma event_views: "views_ok app \<Longrightarrow> event \<noteq> From_Server (Room_Left (str ''general'')) \<Longrightarrow> views_ok (handle_server_event event app)"
  by (cases event) (auto simp: message_views)

lemma step_views:
  assumes "views_ok (cw_app cw)" "\<not> leaves_general event"
  shows "views_ok (cw_app (fst (chat_step C gw gid event cw)))"
proof (cases "(C, gw, gid, event, cw)" rule: chat_step.cases)
  case (1 C' gw' gid' released key fresh refused cw')
  with assms key_views [of "cw_app cw" fresh key] show ?thesis
    by (auto simp: answer_views_Some finish_views split: option.split chat_key_action.split)
next
  case (6 C' gw' gid' sv ev cw')
  with assms have "ev \<noteq> From_Server (Room_Left (str ''general''))" by (cases ev) auto
  with 6 assms show ?thesis by (auto simp: event_views split: prod.split sum.split)
qed (use assms in \<open>auto simp: paste_views\<close>)

lemma loop_views:
  "views_ok (cw_app cw) \<Longrightarrow> list_all (\<lambda>event. \<not> leaves_general event) events \<Longrightarrow> views_ok (cw_app (fst (chat_loop C gw gid events cw)))"
proof (induction C gw gid events cw rule: chat_loop.induct)
  case (2 C gw gid event events cw)
  obtain cw' sent finish where step: "chat_step C gw gid event cw = (cw', sent, finish)" by (metis prod_cases3)
  then have ok: "views_ok (cw_app cw')"
    using step_views [of cw event C gw gid] "2.prems" by simp
  show ?case
  proof (cases finish)
    case None
    then show ?thesis using "2.IH" [OF step [symmetric] refl] "2.prems" ok step by (auto split: prod.split)
  qed (use ok step in simp)
qed simp

lemma room_insert_fold:
  "RBT.lookup (fold (\<lambda>summary. RBT.insert (rs_room_id summary) (new_room_view summary (P summary))) rs m) rid \<noteq> None \<longleftrightarrow>
   rid \<in> rs_room_id ` set rs \<or> RBT.lookup m rid \<noteq> None"
  by (induction rs arbitrary: m) auto

lemma new_room_view_id [simp]: "rs_room_id (rv_summary (new_room_view summary b)) = rs_room_id summary"
  by (simp add: new_room_view_def)

lemma keyed_fold:
  "keyed_rooms m \<Longrightarrow> keyed_rooms (fold (\<lambda>summary. RBT.insert (rs_room_id summary) (new_room_view summary (P summary))) rs m)"
  by (induction rs arbitrary: m) (simp_all add: keyed_rooms_simps(1))

lemma session_rooms_ok: "keyed_rooms (session_rooms w)" "RBT.lookup (session_rooms w) (w_room_id w) \<noteq> None"
  unfolding session_rooms_def Let_def
  by (auto intro!: keyed_rooms_map keyed_rooms_simps(2) keyed_fold keyed_rooms_simps(4))

lemma new_chat_views: "w_room_id (si_welcome session) = str ''general'' \<Longrightarrow> views_ok (new_chat session)"
  using session_rooms_ok [of "si_welcome session"]
  unfolding new_chat_def Let_def sync_views by (simp add: views_ok_def keyed_chats_simps)

section \<open>Drawing\<close>

lemma view_text: "has_view app target \<Longrightarrow> entry_text app target \<noteq> None"
  by (cases target) auto

lemma navigation_present:
  "\<forall>e \<in> set entries. has_view app (snd e) \<Longrightarrow> navigation_rows app bottom row_y entries \<noteq> None"
proof (induction app bottom row_y entries rule: navigation_rows.induct)
  case (2 app bottom row_y index target entries)
  have "has_view app target" using "2.prems" by simp
  then obtain label meta where e: "entry_text app target = Some (label, meta)"
    using view_text [of app target] by (cases "entry_text app target") auto
  show ?case
  proof (cases "row_y \<ge> bottom")
    case False
    have "navigation_rows app bottom (min 65535 (row_y + 2)) entries \<noteq> None"
      by (rule "2.IH" [OF False e refl]) (use "2.prems" in simp)
    with False e show ?thesis by simp
  qed simp
qed simp

lemma conversations_present: "views_ok app \<Longrightarrow> render_conversations y width height app \<noteq> None"
proof -
  assume ok: "views_ok app"
  have "has_view app target" if "(i, target) \<in> set (enumerate 0 (conversation_entries app))" for i target
  proof -
    have "target \<in> snd ` set (enumerate 0 (conversation_entries app))" using that by force
    then have "target \<in> set (conversation_entries app)" by (simp flip: set_map)
    with entries_have_views [OF views_ok_parts(1) [OF ok] views_ok_parts(2) [OF ok]] show ?thesis .
  qed
  then have none: "False" if "navigation_rows app bottom row_y (filter P (enumerate 0 (conversation_entries app))) = None" for bottom row_y P
    using navigation_present [of "filter P (enumerate 0 (conversation_entries app))" app bottom row_y] that by auto
  have some: "\<exists>rows next_row. navigation_rows app bottom row_y (filter P (enumerate 0 (conversation_entries app))) = Some (rows, next_row)"
    for bottom row_y P using none [of bottom row_y P] by (cases "navigation_rows app bottom row_y (filter P (enumerate 0 (conversation_entries app)))") auto
  show ?thesis
    unfolding render_conversations_def Let_def by (auto split: option.split simp: some dest: none)
qed

lemma active_present: "views_ok app \<Longrightarrow> active_lines wording app \<noteq> None"
  by (cases "ca_active app") (auto simp: views_ok_def active_lines_def)

text \<open>
  C40. Every state of the chat screen can be drawn. With a gateway that enters its clients into the general
  room and never takes them out of it (as the gateway of this program does), the index expressions of
  \<open>render_active_messages\<close> and \<open>render_conversations\<close> find their views after any sequence of keys,
  pastes and events, in a terminal of any size.
\<close>

theorem chat_can_be_drawn:
  assumes "w_room_id (si_welcome session) = str ''general''" "list_all (\<lambda>event. \<not> leaves_general event) events"
  shows "render_active_messages wording height (cw_app (fst (run_chat C session store d events))) \<noteq> None \<and>
    render_conversations y width rows (cw_app (fst (run_chat C session store d events))) \<noteq> None"
proof -
  have "views_ok (cw_app (fst (run_chat C session store d events)))"
    unfolding run_chat_def by (rule loop_views) (use assms new_chat_views in auto)
  then show ?thesis using active_present conversations_present by (auto simp: render_active_messages_def)
qed

text \<open>
  A gateway can crash the chat screen. A client accepts any safe identifier as the room it enters; a
  gateway that enters it into another room than \<open>general\<close>, lists no \<open>general\<close>, and then takes it out of that
  room makes \<open>general\<close> the open room, and the next drawing indexes a room that is not there.
\<close>

theorem gateway_can_crash_the_screen:
  assumes "w_room_id (si_welcome session) \<noteq> str ''general''" "str ''general'' \<notin> rs_room_id ` set (w_rooms (si_welcome session))"
  shows "render_active_messages wording height (cw_app (fst (run_chat C session store d
      [Connection_Event sv (Some (From_Server (Room_Left (w_room_id (si_welcome session)))))]))) = None"
proof -
  let ?w = "si_welcome session"
  have sync: "ca_active (sync_conversation_selection app) = ca_active app" "ca_rooms (sync_conversation_selection app) = ca_rooms app" for app
    by (simp_all add: sync_conversation_selection_def split: option.split)
  have "RBT.lookup (session_rooms ?w) (str ''general'') = None"
    using assms room_insert_fold [of "\<lambda>s. rs_room_id s = w_room_id ?w" "w_rooms ?w" RBT.empty "str ''general''"]
    by (auto simp: session_rooms_def Let_def)
  moreover have "ca_active (new_chat session) = In_Room (w_room_id ?w)" "ca_rooms (new_chat session) = session_rooms ?w"
    by (simp_all add: new_chat_def Let_def sync)
  ultimately show ?thesis using assms(1)
    by (simp add: run_chat_def persist_event_def exit_room_def render_active_messages_def active_lines_def restrict_map_def Let_def)
qed

section \<open>The window\<close>

text \<open>
  Nothing bounds the scrolling: once \<open>PageUp\<close> was pressed for every eight lines of the conversation, the
  pane is empty, though the conversation is not.
\<close>

lemma page_up_scrolls:
  "ca_scroll (fst (page_up app)) = ca_scroll app + 8 \<and> active_lines wording (fst (page_up app)) = active_lines wording app"
  by (auto simp: page_up_def active_lines_def Let_def option.map_comp comp_def split: conversation.split option.split)

lemma pages_up:
  "ca_scroll (((\<lambda>a. fst (page_up a)) ^^ n) app) = ca_scroll app + 8 * n \<and>
   active_lines wording (((\<lambda>a. fst (page_up a)) ^^ n) app) = active_lines wording app"
proof (induction n)
  case (Suc n)
  then show ?case using page_up_scrolls [of "((\<lambda>a. fst (page_up a)) ^^ n) app" wording] by simp
qed simp

theorem scrolling_past_the_top:
  assumes "active_lines wording app = Some shown" "length shown \<le> 8 * n"
  shows "render_active_messages wording height (((\<lambda>a. fst (page_up a)) ^^ n) app) = Some []"
  using assms pages_up [of n app wording] by (simp add: render_active_messages_def lines_in_view_def)

text \<open>
  A wrapped line hides the newest one. The pane takes as many lines as it has rows, before they are
  wrapped; when one of them takes more than one row, the rows at the end, those of the newest message, are
  outside the pane, although the user has not scrolled.
\<close>

theorem wrapped_line_hides_the_newest:
  assumes wrap: "\<And>l. wrap l \<noteq> []" and full: "0 < height" "height \<le> length shown"
    and l: "l \<in> set (lines_in_view height 0 shown)" "1 < length (wrap l)"
  shows "\<exists>hidden. hidden \<noteq> [] \<and> concat (map wrap (lines_in_view height 0 shown)) = drawn_rows wrap height (lines_in_view height 0 shown) @ hidden \<and>
    last (lines_in_view height 0 shown) = last shown \<and> last (wrap (last shown)) = last hidden"
proof -
  let ?view = "lines_in_view height 0 shown"
  have view: "?view = drop (length shown - height) shown" by (simp add: lines_in_view_def)
  have "length xs < length (concat (map wrap xs))" if "l \<in> set xs" for xs
  proof -
    have one: "length ys \<le> length (concat (map wrap ys))" for ys
    proof (induction ys)
      case (Cons a ys)
      have "0 < length (wrap a)" using wrap by simp
      with Cons.IH have "Suc (length ys) \<le> length (wrap a) + length (concat (map wrap ys))" by linarith
      then show ?case by simp
    qed simp
    show ?thesis using that
    proof (induction xs)
      case (Cons x xs)
      have "0 < length (wrap x)" using wrap by simp
      show ?case
      proof (cases "l = x")
        case True
        with one [of xs] l(2) show ?thesis by simp
      next
        case False
        with Cons have "length xs < length (concat (map wrap xs))" by simp
        with \<open>0 < length (wrap x)\<close> have "Suc (length xs) < length (wrap x) + length (concat (map wrap xs))" by linarith
        then show ?thesis by simp
      qed
    qed simp
  qed
  then have more: "height < length (concat (map wrap ?view))" using l(1) full by (fastforce simp: view)
  define hidden where "hidden = drop height (concat (map wrap ?view))"
  have hidden: "hidden \<noteq> []" "concat (map wrap ?view) = drawn_rows wrap height ?view @ hidden"
    using more by (simp_all add: hidden_def drawn_rows_def)
  have some: "?view \<noteq> []" "last ?view = last shown" using full by (auto simp: view)
  have "last (concat (map wrap ?view)) = last (wrap (last ?view))"
  proof -
    have "concat (map wrap ?view) = concat (map wrap (butlast ?view @ [last ?view]))" using some(1) by simp
    then show ?thesis using wrap by simp
  qed
  with hidden some show ?thesis by (intro exI [of _ hidden]) simp
qed

section \<open>The input line\<close>

lemma tail_loop_prefix:
  "\<exists>n. tail_loop width maximum cs used chars = chars @ take n cs \<and> (used \<le> maximum \<longrightarrow> used + sum_list (map width (take n cs)) \<le> maximum) \<and>
     (n < length cs \<longrightarrow> used + sum_list (map width (take (Suc n) cs)) > maximum) \<and> n \<le> length cs"
proof (induction cs arbitrary: used chars)
  case (Cons c cs)
  show ?case
  proof (cases "used + width c > maximum")
    case True
    then show ?thesis by (intro exI [of _ 0]) simp
  next
    case False
    with Cons [of "used + width c" "chars @ [c]"] obtain n where n:
      "tail_loop width maximum cs (used + width c) (chars @ [c]) = (chars @ [c]) @ take n cs"
      "used + width c + sum_list (map width (take n cs)) \<le> maximum"
      "n < length cs \<longrightarrow> used + width c + sum_list (map width (take (Suc n) cs)) > maximum" "n \<le> length cs" by auto
    with False show ?thesis by (intro exI [of _ "Suc n"]) (simp add: add.assoc)
  qed
qed simp

text \<open>The input line shows the longest end of the text that fits.\<close>

theorem tail_is_the_longest_end:
  "\<exists>hidden. value = hidden @ tail_by_width width value maximum \<and>
     sum_list (map width (tail_by_width width value maximum)) \<le> maximum \<and>
     (hidden \<noteq> [] \<longrightarrow> width (last hidden) + sum_list (map width (tail_by_width width value maximum)) > maximum)"
proof -
  let ?cs = "rev value" and ?tail = "tail_by_width width value maximum"
  obtain n where n: "tail_loop width maximum ?cs 0 [] = take n ?cs" "sum_list (map width (take n ?cs)) \<le> maximum"
      "n < length ?cs \<longrightarrow> sum_list (map width (take (Suc n) ?cs)) > maximum" "n \<le> length ?cs"
    using tail_loop_prefix [of width maximum ?cs 0 "[]"] by auto
  have tail: "?tail = rev (take n ?cs)" by (simp add: tail_by_width_def n(1))
  have sum: "sum_list (map width ?tail) = sum_list (map width (take n ?cs))"
    by (simp only: tail rev_map [symmetric] sum_list_rev)
  have "value = rev (take n ?cs @ drop n ?cs)" by simp
  then have split: "value = rev (drop n ?cs) @ ?tail" by (simp only: tail rev_append)
  have "width (last (rev (drop n ?cs))) + sum_list (map width ?tail) > maximum" if "rev (drop n ?cs) \<noteq> []"
  proof -
    have less: "n < length ?cs" using that by simp
    then have "last (rev (drop n ?cs)) = ?cs ! n" by (simp add: last_rev hd_drop_conv_nth del: rev_rev_ident drop_rev)
    moreover have "take (Suc n) ?cs = take n ?cs @ [?cs ! n]" using less by (rule take_Suc_conv_app_nth)
    ultimately show ?thesis using n(3) less sum by simp
  qed
  with split n(2) sum show ?thesis by (intro exI [of _ "rev (drop n ?cs)"]) (simp only: conj_assoc, blast)
qed

section \<open>Samples\<close>

definition plain_session :: "rstring \<Rightarrow> session_info" where
  "plain_session rid =
     \<lparr>si_gateway = \<lparr>gsn_protocol_version = 5, gsn_gateway_id = 1, gsn_gateway_name = [103], gsn_groups = [],
        gsn_server_fingerprint = [], gsn_endpoint = \<lparr>sa_ip = V4 1, sa_port = 7373\<rparr>\<rparr>,
      si_welcome = \<lparr>w_protocol_version = 5, w_group_id = 5, w_group_name = [108], w_access_mode = Public, w_role = Member,
        w_issued_credentials = None, w_issued_member_token = None, w_room_id = rid, w_room_name = [103], w_rooms = [],
        w_session_id = 90, w_members = [sample_peer], w_history = []\<rparr>,
      si_local = sample_peer\<rparr>"

theorem chat_can_be_drawn_witness:
  "render_active_messages (\<lambda>_. []) 10 (cw_app (fst (run_chat sample_codec (plain_session (str ''general'')) sample_credentials Map.empty
     [Connection_Event \<lparr>sv_fails = (\<lambda>_. False), sv_written = 0, sv_unique = []\<rparr> (Some (From_Server (Room_Left (str ''r1''))))]))) \<noteq> None"
  using chat_can_be_drawn [of "plain_session (str ''general'')"
    "[Connection_Event \<lparr>sv_fails = (\<lambda>_. False), sv_written = 0, sv_unique = []\<rparr> (Some (From_Server (Room_Left (str ''r1''))))]"]
  by (simp add: plain_session_def str_def)

theorem gateway_can_crash_the_screen_witness:
  "sanitize_server_message (Welcome (si_welcome (plain_session [103]))) = Inr (Welcome (si_welcome (plain_session [103]))) \<and>
   sanitize_server_message (Room_Left [103]) = Inr (Room_Left [103]) \<and>
   render_active_messages (\<lambda>_. []) 10 (cw_app (fst (run_chat sample_codec (plain_session [103]) sample_credentials Map.empty
     [Connection_Event \<lparr>sv_fails = (\<lambda>_. False), sv_written = 0, sv_unique = []\<rparr> (Some (From_Server (Room_Left [103])))]))) = None"
proof -
  have "is_safe_identifier [103]"
    by (simp add: is_safe_identifier_def byte_len_def len_utf8_def utf8_def encode_char_def byte_of_def identifier_byte_def
        is_ascii_alphanumeric_def is_ascii_digit_def)
  moreover have "sanitize_nickname (str ''ada'') = Inr (str ''ada'')" "sanitize_group_name [108] = Inr [108]" "sanitize_room_name [103] = Inr [103]"
    by (simp_all add: sanitize_nickname_def sanitize_group_name_def sanitize_room_name_def sanitize_single_line_def str_def flatten_char_def
      byte_len_def len_utf8_def limits is_forbidden_terminal_char_def is_control_def trim_def trim_start_def trim_end_def is_whitespace_def)
  then have "sanitize_peer sample_peer = Inr sample_peer" "sanitize_group_name [108] = Inr [108]" "sanitize_room_name [103] = Inr [103]"
    by (simp_all add: sanitize_peer_def sample_peer_def)
  ultimately have "sanitize_server_message (Welcome (si_welcome (plain_session [103]))) = Inr (Welcome (si_welcome (plain_session [103])))"
    "sanitize_server_message (Room_Left [103]) = Inr (Room_Left [103])"
    by (simp_all add: sanitize_welcome_def plain_session_def supported_def PROTOCOL_MIN_def PROTOCOL_MAX_def)
  then show ?thesis
    using gateway_can_crash_the_screen [of "plain_session [103]" "\<lambda>_. []" 10 sample_codec sample_credentials Map.empty
      "\<lparr>sv_fails = (\<lambda>_. False), sv_written = 0, sv_unique = []\<rparr>"]
    by (simp add: plain_session_def str_def)
qed

theorem wrapped_line_hides_the_newest_witness:
  "\<exists>hidden. hidden \<noteq> [] \<and> concat (map (\<lambda>n. replicate (max 1 n) n) (lines_in_view 2 0 [1, 3, 1 :: nat])) =
     drawn_rows (\<lambda>n. replicate (max 1 n) n) 2 (lines_in_view 2 0 [1, 3, 1]) @ hidden"
  using wrapped_line_hides_the_newest [of "\<lambda>n. replicate (max 1 n) n" 2 "[1, 3, 1 :: nat]" 3]
  by (auto simp: lines_in_view_def)

end
