(* ===== verification/Chat_Screen.thy ===== *)
theory Chat_Screen
  imports Chat_Display Tokens
begin

text \<open>
  The composition of the chat screen (\<open>render_chat_app\<close> of \<open>src/tui.rs\<close> and what it calls): which parts are
  drawn, with which content, in a terminal of a given size. Padding, colours and the split of the
  terminal into areas are left aside; the width of a text is a parameter. Sentences are notices.
\<close>

section \<open>Headers\<close>

fun is_private_chat :: "conversation \<Rightarrow> bool" where
  "is_private_chat (In_Room _) = False"
| "is_private_chat (With_Peer _) = True"

definition connection_text :: "chat_app \<Rightarrow> notice" where
  "connection_text app =
     (if \<not> ca_connected app then Line ''disconnected''
      else if is_private_chat (ca_active app) then Line ''end to end encrypted'' else Line ''connected to the gateway'')"

definition active_name :: "chat_app \<Rightarrow> rstring" where
  "active_name app =
     (case ca_active app of
        In_Room rid \<Rightarrow> (case RBT.lookup (ca_rooms app) rid of
            Some room \<Rightarrow> room_display_name room | None \<Rightarrow> [0x804A, 0x5929, 0x5BA4])
      | With_Peer peer_id \<Rightarrow> (case RBT.lookup (ca_private_chats app) peer_id of
            Some chat \<Rightarrow> p_nickname (pv_peer chat) | None \<Rightarrow> [0x79C1, 0x804A]))"

text \<open>The title of the conversation and what stands beside it; \<open>None\<close> is the panic of the index.\<close>

definition active_title :: "chat_app \<Rightarrow> (rstring \<times> notice option) option" where
  "active_title app =
     (case ca_active app of
        In_Room rid \<Rightarrow> map_option (\<lambda>room. (room_display_name room,
            if rs_visibility (rv_summary room) = Private_Room then Some (Line ''private room'') else None))
          (RBT.lookup (ca_rooms app) rid)
      | With_Peer peer_id \<Rightarrow> map_option (\<lambda>chat. (p_nickname (pv_peer chat),
            Some (case private_send_locked app of
              Some lock \<Rightarrow> lock
            | None \<Rightarrow> if pv_online chat then Line ''end to end encrypted'' else Line ''peer offline'')))
          (RBT.lookup (ca_private_chats app) peer_id))"

text \<open>The pane of the conversation: the title takes two rows, unless the screen is in focus mode.\<close>

definition message_pane ::
  "(notice \<Rightarrow> rstring) \<Rightarrow> nat \<Rightarrow> chat_app \<Rightarrow> ((rstring \<times> notice option) option \<times> shown_line list) option" where
  "message_pane wording height app =
     (case (active_title app, render_active_messages wording (height - (if ca_focus_mode app then 0 else 2)) app) of
        (Some title, Some shown) \<Rightarrow> Some (if \<not> ca_focus_mode app \<and> height > 0 then Some title else None, shown)
      | _ \<Rightarrow> None)"

section \<open>The composer\<close>

datatype composer_text = Draft rstring | Placeholder string

definition side_padding :: "nat \<Rightarrow> nat" where
  "side_padding width = (if width \<ge> 40 then 2 else 1)"

definition composer_shown :: "(rchar \<Rightarrow> nat) \<Rightarrow> nat \<Rightarrow> chat_app \<Rightarrow> rstring" where
  "composer_shown char_width width app = tail_by_width char_width (ca_input app) (width - 2 * side_padding width - 2)"

definition composer_content :: "(rchar \<Rightarrow> nat) \<Rightarrow> nat \<Rightarrow> chat_app \<Rightarrow> composer_text" where
  "composer_content char_width width app =
     (let shown = composer_shown char_width width app
      in if private_send_locked app \<noteq> None then Placeholder ''waiting for a reply''
         else if shown = [] then Placeholder ''write a message'' else Draft shown)"

text \<open>The column of the cursor, when the composer has it; \<open>u16\<close> arithmetic saturates, \<open>as u16\<close> wraps.\<close>

definition composer_cursor :: "(rchar \<Rightarrow> nat) \<Rightarrow> (rstring \<Rightarrow> nat) \<Rightarrow> nat \<Rightarrow> nat \<Rightarrow> chat_app \<Rightarrow> nat option" where
  "composer_cursor char_width text_width x width app =
     (if private_send_locked app = None \<and> ca_focus app = Focus_Input \<and> ca_overlay app = None
      then (let left = min 65535 (x + side_padding width); columns = width - 2 * side_padding width;
                shown = text_width (composer_shown char_width width app) mod 2 ^ 16
            in Some (min (min 65535 (min 65535 (left + 1) + shown)) (min 65535 (left + columns) - 1)))
      else None)"

section \<open>Panels\<close>

datatype panel_line =
    Blank_Line
  | Panel_Notice notice
  | Panel_Text rstring
  | Panel_Entry bool rstring "notice option" rstring
  | Panel_Choice bool group_token_kind
  | Panel_Position "u32" bool

record panel =
  pn_title :: notice
  pn_height :: nat
  pn_lines :: "panel_line list"

text \<open>The first eight hexadecimal digits of an identifier.\<close>

definition short_id :: "uuid \<Rightarrow> rstring" where
  "short_id u = map (\<lambda>i. hex_digit (unat (drop_bit (124 - 4 * i) u) mod 16)) [0..<8]"

text \<open>Of a list, a window of at most \<open>window\<close> entries around the selected one.\<close>

definition window_start :: "nat \<Rightarrow> nat \<Rightarrow> nat \<Rightarrow> nat" where
  "window_start window selected n = min (selected - window div 2) (n - window)"

definition window_entries :: "nat \<Rightarrow> nat \<Rightarrow> 'a list \<Rightarrow> (nat \<times> 'a) list" where
  "window_entries window selected xs =
     (let start = window_start window selected (length xs)
      in drop start (take (min (start + window) (length xs)) (enumerate 0 xs)))"

definition form_panel :: "rstring \<Rightarrow> room_visibility \<Rightarrow> panel" where
  "form_panel name vis = \<lparr>pn_title = Line ''new room'', pn_height = 7, pn_lines =
     [Panel_Text name, Blank_Line,
      Panel_Notice (case vis of Public_Room \<Rightarrow> Line ''public, for all members of the group''
        | Private_Room \<Rightarrow> Line ''private, for chosen members''), Blank_Line, Panel_Notice (Line ''tab, enter, esc'')]\<rparr>"

definition member_state :: "group_member_summary \<Rightarrow> notice" where
  "member_state member =
     (case (gms_role member, gms_status member) of
        (Admin, _) \<Rightarrow> Line ''administrator'' | (_, Active) \<Rightarrow> Line ''active'' | (_, Banned) \<Rightarrow> Line ''banned'')"

definition group_members_panel :: "group_member_summary list \<Rightarrow> nat \<Rightarrow> bool \<Rightarrow> u32 \<Rightarrow> bool \<Rightarrow> panel" where
  "group_members_panel members selected loading offset has_more =
     \<lparr>pn_title = Counting ''group members'' (length members), pn_height = 16, pn_lines =
       (if loading then [Panel_Notice (Line ''loading members'')]
        else map (\<lambda>(i, m). Panel_Entry (i = selected) (gms_nickname m) (Some (member_state m)) (short_id (gms_member_id m)))
          (window_entries 10 selected members)) @ [Blank_Line, Panel_Position offset has_more]\<rparr>"

definition membership :: "room_member_summary \<Rightarrow> notice" where
  "membership member =
     (if rms_group_role member = Admin then Line ''administrator'' else if rms_is_owner member then Line ''owner''
      else if rms_included member then Line ''has access'' else Line ''not joined'')"

definition room_members_panel :: "room_member_summary list \<Rightarrow> nat \<Rightarrow> bool \<Rightarrow> u32 \<Rightarrow> bool \<Rightarrow> panel" where
  "room_members_panel members selected loading offset has_more =
     \<lparr>pn_title = Line ''members of the private room'', pn_height = 16, pn_lines =
       (if loading then [Panel_Notice (Line ''loading room members'')]
        else map (\<lambda>(i, m). Panel_Entry (i = selected) (rms_nickname m) (Some (membership m)) (short_id (rms_member_id m)))
          (window_entries 10 selected members)) @ [Blank_Line, Panel_Position offset has_more]\<rparr>"

definition rotation_panel :: "group_role \<Rightarrow> group_access_mode \<Rightarrow> nat \<Rightarrow> bool \<Rightarrow> panel" where
  "rotation_panel role mode selected confirming =
     \<lparr>pn_title = Line ''rotate tokens'', pn_height = 10, pn_lines =
       [Panel_Notice (Line ''the old token ends at once''), Blank_Line] @
       map (\<lambda>(i, kind). Panel_Choice (i = selected) kind) (enumerate 0 (token_rotation_choices role mode)) @
       [Blank_Line, Panel_Notice (if confirming then Line ''y confirms'' else Line ''enter continues'')]\<rparr>"

definition rotated_token_panel :: "group_token_kind \<Rightarrow> rstring \<Rightarrow> panel" where
  "rotated_token_panel kind token =
     \<lparr>pn_title = Line ''token rotated'', pn_height = 10, pn_lines =
       [Panel_Notice (Line ''saved''), Blank_Line,
        Panel_Notice (case kind of Member_Token \<Rightarrow> Line ''new member token'' | Admin_Token \<Rightarrow> Line ''new administrator token''
          | Invite_Token \<Rightarrow> Line ''new invite token''),
        Panel_Text token, Blank_Line, Panel_Notice (Line ''enter or esc closes'')]\<rparr>"

definition requests_panel :: "join_request_summary list \<Rightarrow> nat \<Rightarrow> bool \<Rightarrow> panel" where
  "requests_panel requests selected loading =
     \<lparr>pn_title = Counting ''join requests'' (length requests), pn_height = 14, pn_lines =
       (if loading then [Panel_Notice (Line ''loading requests'')]
        else if requests = [] then [Panel_Notice (Line ''no pending requests'')]
        else map (\<lambda>(i, r). Panel_Entry (i = selected) (jrs_nickname r) None (short_id (jrs_request_id r)))
          (window_entries 8 selected requests)) @ [Blank_Line, Panel_Notice (Line ''enter approves, d rejects'')]\<rparr>"

definition credentials_panel :: "issued_group_credentials \<Rightarrow> panel" where
  "credentials_panel credentials =
     \<lparr>pn_title = Line ''group credentials'', pn_height = (if igc_invite_token credentials \<noteq> None then 18 else 13), pn_lines =
       [Panel_Notice (Line ''saved''), Blank_Line, Panel_Notice (Line ''administrator token''),
        Panel_Text (igc_admin_token credentials)] @
       (case igc_invite_token credentials of
          Some token \<Rightarrow> [Blank_Line, Panel_Notice (Line ''invite token''), Panel_Text token] | None \<Rightarrow> []) @
       [Blank_Line, Panel_Notice (Line ''enter or esc closes'')]\<rparr>"

definition render_overlay :: "chat_app \<Rightarrow> chat_overlay \<Rightarrow> panel" where
  "render_overlay app overlay =
     (case overlay of
        Create_Room_Form name vis \<Rightarrow> form_panel name vis
      | Join_Request_List requests selected loading \<Rightarrow> requests_panel requests selected loading
      | Credentials_Shown credentials \<Rightarrow> credentials_panel credentials
      | Group_Member_List members selected loading offset has_more \<Rightarrow>
          group_members_panel members selected loading offset has_more
      | Room_Member_List _ members selected loading offset has_more \<Rightarrow>
          room_members_panel members selected loading offset has_more
      | Rotation_Choice selected confirming \<Rightarrow> rotation_panel (ca_role app) (ca_access_mode app) selected confirming
      | Token_Shown kind token \<Rightarrow> rotated_token_panel kind token)"

section \<open>The screen\<close>

datatype chat_part =
    Too_Small nat nat
  | Chat_Header rstring notice rstring
  | Focus_Header rstring
  | Conversation_Pane
  | Member_Pane
  | Message_Pane
  | Composer nat nat
  | Chat_Footer bool "notice option"
  | Shown_Panel panel

definition render_chat_header :: "nat \<Rightarrow> chat_app \<Rightarrow> chat_part list" where
  "render_chat_header width app =
     (if width - 4 = 0 then [] else [Chat_Header (ca_group_name app) (connection_text app) (own_nickname app)])"

definition render_focus_header :: "nat \<Rightarrow> chat_app \<Rightarrow> chat_part list" where
  "render_focus_header width app = (if width - 4 = 0 then [] else [Focus_Header (active_name app)])"

definition render_chat_body :: "nat \<Rightarrow> chat_app \<Rightarrow> chat_part list" where
  "render_chat_body width app =
     (if width \<ge> 78
      then (if is_private_chat (ca_active app) then [Conversation_Pane, Message_Pane]
            else [Conversation_Pane, Message_Pane, Member_Pane])
      else if width \<ge> 55
      then [if ca_focus app = Focus_Members \<and> \<not> is_private_chat (ca_active app) then Member_Pane else Conversation_Pane,
            Message_Pane]
      else [Message_Pane])"

definition routine_status :: "notice \<Rightarrow> bool" where
  "routine_status status \<longleftrightarrow>
     status \<in> {Line ''connection ready'', Line ''sent'', Line ''focus mode on'', Line ''focus mode off''}"

definition render_chat_footer :: "nat \<Rightarrow> chat_app \<Rightarrow> chat_part list" where
  "render_chat_footer width app =
     (if width - 4 = 0 then []
      else [Chat_Footer (is_private_chat (ca_active app))
        (if width \<ge> 110 \<and> \<not> routine_status (ca_status app) then Some (ca_status app) else None)])"

text \<open>The parts from top to bottom, the panel last, above the others; a composer has its height and width.\<close>

definition render_chat_app :: "nat \<Rightarrow> nat \<Rightarrow> chat_app \<Rightarrow> chat_part list" where
  "render_chat_app width height app =
     (let input_height = (if private_send_locked app \<noteq> None then 3 else 2)
      in if ca_focus_mode app
         then (if width < 24 \<or> height < 6 then [Too_Small 24 6]
               else render_focus_header width app @ [Message_Pane, Composer input_height width])
         else if width < 30 \<or> height < 10 then [Too_Small 30 10]
         else render_chat_header width app @ render_chat_body width app @
              [Composer input_height (if width \<ge> 78 \<and> is_private_chat (ca_active app) then width - 26 else width)] @
              render_chat_footer width app @
              (case ca_overlay app of Some overlay \<Rightarrow> [Shown_Panel (render_overlay app overlay)] | None \<Rightarrow> []))"

section \<open>The list of members\<close>

record member_row =
  mr_y :: nat
  mr_nickname :: rstring
  mr_selected :: bool

fun member_rows :: "chat_app \<Rightarrow> nat \<Rightarrow> nat \<Rightarrow> (nat \<times> uuid \<times> rstring) list \<Rightarrow> member_row list" where
  "member_rows app bottom row_y [] = []"
| "member_rows app bottom row_y ((index, _, nickname) # members) =
     (if row_y \<ge> bottom then []
      else \<lparr>mr_y = row_y, mr_nickname = nickname, mr_selected = (ca_focus app = Focus_Members \<and> index = ca_selected_member app)\<rparr> #
           member_rows app bottom (min 65535 (row_y + 2)) members)"

definition render_members :: "nat \<Rightarrow> nat \<Rightarrow> nat \<Rightarrow> chat_app \<Rightarrow> member_row list" where
  "render_members y width height app =
     (let top = min 65535 (y + 1); bottom = min 65535 (top + (height - 2))
      in if width - 2 = 0 \<or> height - 2 = 0 then []
         else member_rows app bottom (min 65535 (top + 2)) (enumerate 0 (member_entries app)))"

end
