(* ===== verification/Screen_Theorems.thy ===== *)
theory Screen_Theorems
  imports Chat_Screen Chat_Requests Display_Theorems
begin

text \<open>
  What the user of the chat screen sees: that a key acts on the marked entry of a drawn panel, and what the
  screen fails to show.
\<close>

section \<open>The window on a panel's list\<close>

lemma enumerate_as_map: "enumerate 0 xs = map (\<lambda>j. (j, xs ! j)) [0..<length xs]"
  by (rule nth_equalityI) (simp_all add: nth_enumerate_eq)

lemma window_as_map:
  "window_entries window i xs =
     map (\<lambda>j. (j, xs ! j)) [window_start window i (length xs)..<min (window_start window i (length xs) + window) (length xs)]"
  by (simp add: window_entries_def enumerate_as_map Let_def take_map drop_map take_upt min_def)

lemma filter_index: "a \<le> i \<Longrightarrow> i < b \<Longrightarrow> filter (\<lambda>j. j = i) [a..<b] = [i]" for i :: nat
proof (induction b)
  case (Suc b)
  show ?case
  proof (cases "i = b")
    case True
    then have "filter (\<lambda>j. j = i) [a..<b] = []" by (simp add: filter_empty_conv)
    with True Suc.prems show ?thesis by simp
  qed (use Suc in simp)
qed simp

lemma window_around:
  assumes "i < n" "1 < window"
  shows "window_start window i n \<le> i" "i < min (window_start window i n + window) n" "i - window_start window i n < window"
  using assms by (auto simp: window_start_def min_def split: if_splits)

lemma window_selected:
  assumes "i < length xs" "1 < window"
  shows "filter (\<lambda>e. fst e = i) (window_entries window i xs) = [(i, xs ! i)]"
  using filter_index [OF window_around(1,2) [OF assms]]
  by (simp add: window_as_map filter_map comp_def)

lemma window_take:
  assumes "i < length xs" "1 < window" "window \<le> rows"
  shows "take rows (window_entries window i xs) = window_entries window i xs"
  using assms by (simp add: window_as_map) 

section \<open>The marked entry\<close>

fun marked :: "panel_line \<Rightarrow> bool" where
  "marked (Panel_Entry chosen _ _ _) \<longleftrightarrow> chosen"
| "marked (Panel_Choice chosen _) \<longleftrightarrow> chosen"
| "marked _ \<longleftrightarrow> False"

text \<open>The requests that decide about somebody, and whether a line names what such a request is about.\<close>

fun deciding :: "client_message \<Rightarrow> bool" where
  "deciding (Decide_Join_Request _ _) \<longleftrightarrow> True"
| "deciding (Set_Member_Banned _ _) \<longleftrightarrow> True"
| "deciding (Set_Room_Member _ _ _) \<longleftrightarrow> True"
| "deciding (Rotate_Group_Token _) \<longleftrightarrow> True"
| "deciding _ \<longleftrightarrow> False"

fun names :: "client_message \<Rightarrow> panel_line \<Rightarrow> bool" where
  "names (Decide_Join_Request request_id _) (Panel_Entry _ _ _ shown) \<longleftrightarrow> shown = short_id request_id"
| "names (Set_Member_Banned member_id _) (Panel_Entry _ _ _ shown) \<longleftrightarrow> shown = short_id member_id"
| "names (Set_Room_Member _ member_id _) (Panel_Entry _ _ _ shown) \<longleftrightarrow> shown = short_id member_id"
| "names (Rotate_Group_Token kind) (Panel_Choice _ chosen) \<longleftrightarrow> chosen = kind"
| "names _ _ \<longleftrightarrow> False"

text \<open>A panel is as high as it asks for, at most as the terminal, with a border.\<close>

definition drawn_lines :: "nat \<Rightarrow> panel \<Rightarrow> panel_line list" where
  "drawn_lines height p = take (min (pn_height p) height - 2) (pn_lines p)"

lemma marked_in_window:
  assumes "i < length xs" "1 < window" "window \<le> rows"
    and entry: "\<And>j x. marked (f (j, x)) \<longleftrightarrow> j = i" and rest: "\<And>l. l \<in> set others \<Longrightarrow> \<not> marked l"
  shows "filter marked (take rows (map f (window_entries window i xs) @ others)) = [f (i, xs ! i)]"
proof -
  have "filter marked (take n others) = []" for n
    using rest by (auto simp: filter_empty_conv dest: in_set_takeD)
  moreover have "filter marked (map f (window_entries window i xs)) = [f (i, xs ! i)]"
  proof -
    have "marked (f e) \<longleftrightarrow> fst e = i" for e using entry [of "fst e" "snd e"] by simp
    then show ?thesis using window_selected [OF assms(1,2)] by (simp add: filter_map comp_def)
  qed
  ultimately show ?thesis
    by (simp add: take_map window_take [OF assms(1-3)])
qed

lemma deciding_panel:
  assumes "ca_overlay app = Some overlay" "overlay_key key overlay app = Some (app', Send_Message m)" "deciding m" "12 \<le> height"
  shows "\<exists>line. filter marked (drawn_lines height (render_overlay app overlay)) = [line] \<and> names m line"
proof (cases overlay)
  case (Join_Request_List requests i loading)
  then have sent: "i < length requests" "\<not> loading" "\<exists>b. m = Decide_Join_Request (jrs_request_id (requests ! i)) b" "requests \<noteq> []"
    using assms(2,3) by (auto simp: overlay_key_def requests_key_def Let_def split: if_splits option.splits)
  have "filter marked (take (min 14 height - 2) (map (\<lambda>(j, r). Panel_Entry (j = i) (jrs_nickname r) None (short_id (jrs_request_id r))) (window_entries 8 i requests) @ [Blank_Line, Panel_Notice (Line ''enter approves, d rejects'')])) = [(\<lambda>(j, r). Panel_Entry (j = i) (jrs_nickname r) None (short_id (jrs_request_id r))) (i, requests ! i)]"
    by (rule marked_in_window) (use sent(1) assms(4) in auto)
  with sent Join_Request_List show ?thesis
    by (auto simp: render_overlay_def requests_panel_def drawn_lines_def simp del: take_append)
next
  case (Group_Member_List members i loading offset has_more)
  then have sent: "i < length members" "\<not> loading" "\<exists>b. m = Set_Member_Banned (gms_member_id (members ! i)) b"
    using assms(2,3) by (auto simp: overlay_key_def group_members_key_def Let_def split: if_splits option.splits)
  have "filter marked (take (min 16 height - 2) (map (\<lambda>(j, m). Panel_Entry (j = i) (gms_nickname m) (Some (member_state m)) (short_id (gms_member_id m))) (window_entries 10 i members) @ [Blank_Line, Panel_Position offset has_more])) = [(\<lambda>(j, m). Panel_Entry (j = i) (gms_nickname m) (Some (member_state m)) (short_id (gms_member_id m))) (i, members ! i)]"
    by (rule marked_in_window) (use sent(1) assms(4) in auto)
  with sent Group_Member_List show ?thesis
    by (auto simp: render_overlay_def group_members_panel_def drawn_lines_def simp del: take_append)
next
  case (Room_Member_List rid members i loading offset has_more)
  then have sent: "i < length members" "\<not> loading" "\<exists>b. m = Set_Room_Member rid (rms_member_id (members ! i)) b"
    using assms(2,3) by (auto simp: overlay_key_def room_members_key_def Let_def split: if_splits option.splits)
  have "filter marked (take (min 16 height - 2) (map (\<lambda>(j, m). Panel_Entry (j = i) (rms_nickname m) (Some (membership m)) (short_id (rms_member_id m))) (window_entries 10 i members) @ [Blank_Line, Panel_Position offset has_more])) = [(\<lambda>(j, m). Panel_Entry (j = i) (rms_nickname m) (Some (membership m)) (short_id (rms_member_id m))) (i, members ! i)]"
    by (rule marked_in_window) (use sent(1) assms(4) in auto)
  with sent Room_Member_List show ?thesis
    by (auto simp: render_overlay_def room_members_panel_def drawn_lines_def simp del: take_append)
next
  case (Rotation_Choice i confirming)
  let ?choices = "token_rotation_choices (ca_role app) (ca_access_mode app)"
  have "i < length ?choices" "m = Rotate_Group_Token (?choices ! i)"
    using Rotation_Choice assms(2,3) by (auto simp: overlay_key_def rotation_key_def Let_def split: if_splits option.splits)
  moreover have "?choices = [Member_Token] \<or> ?choices = [Admin_Token] \<or> ?choices = [Admin_Token, Invite_Token]"
    by (simp add: token_rotation_choices_def)
  ultimately have "?choices = [Member_Token] \<and> i = 0 \<and> m = Rotate_Group_Token Member_Token \<or>
      ?choices = [Admin_Token] \<and> i = 0 \<and> m = Rotate_Group_Token Admin_Token \<or>
      ?choices = [Admin_Token, Invite_Token] \<and> (i = 0 \<and> m = Rotate_Group_Token Admin_Token \<or> i = 1 \<and> m = Rotate_Group_Token Invite_Token)"
    by (auto simp: less_Suc_eq)
  moreover have "min 10 height = 10" using assms(4) by simp
  ultimately show ?thesis
    using Rotation_Choice by (auto simp: render_overlay_def rotation_panel_def drawn_lines_def)
qed (use assms(2,3) in \<open>auto simp: overlay_key_def form_key_def notice_key_def Let_def split: key_code.splits sum.splits option.splits if_splits\<close>)

lemma deciding_needs_panel: "permitted fresh app m \<Longrightarrow> deciding m \<Longrightarrow> ca_overlay app \<noteq> None"
  by (cases "ca_overlay app"; cases m) auto

text \<open>
  A key acts on what is marked on the screen. Whenever a key sends a decision about a join request, a
  ban, a change of somebody's access to a room or the rotation of a token, the panel on top of the screen
  shows exactly one marked line, inside the rows that are drawn, and it names the request, the member or
  the kind of token that is sent; so long as the screen is not in focus mode and has the size it asks for,
  with twelve rows.
\<close>

theorem keys_act_on_the_marked_entry:
  assumes "chat_key fresh key app = Some (app', Send_Message m)" "deciding m"
    and "\<not> ca_focus_mode app" "30 \<le> width" "12 \<le> height"
  shows "\<exists>p line. last (render_chat_app width height app) = Shown_Panel p \<and>
    filter marked (drawn_lines height p) = [line] \<and> names m line"
proof -
  obtain overlay where overlay: "ca_overlay app = Some overlay"
    using deciding_needs_panel key_sends [OF assms(1)] assms(2) by fastforce
  then have "overlay_key key overlay app = Some (app', Send_Message m)" using assms(1) by (simp add: chat_key_def)
  from deciding_panel [OF overlay this assms(2,5)] overlay assms(3-5) show ?thesis
    by (auto simp: render_chat_app_def Let_def)
qed

section \<open>Focus mode\<close>

abbreviation plain_key :: "key_code \<Rightarrow> chat_event" where
  "plain_key code \<equiv> press code 0 None"

text \<open>The answer to a request comes after its panel was closed and focus mode begun.\<close>

fun is_panel :: "chat_part \<Rightarrow> bool" where
  "is_panel (Shown_Panel _) \<longleftrightarrow> True"
| "is_panel _ \<longleftrightarrow> False"

definition late_answer :: "saving_conditions \<Rightarrow> join_request_summary list \<Rightarrow> chat_event list" where
  "late_answer sv requests =
     [plain_key (Key_Function 4), plain_key Key_Esc, plain_key (Key_Function 3),
      Connection_Event sv (Some (From_Server (Join_Requests requests))), plain_key (Key_Function 3)]"

text \<open>
  In focus mode a panel takes the keys unseen. An administrator asks for the join requests, closes the
  panel before the answer and enters focus mode; the answer opens the panel again, which focus mode does
  not draw. \<open>F3\<close> does not leave focus mode then, and the first \<open>a\<close> of a message approves the first request.
\<close>

theorem hidden_panel_takes_the_keys:
  assumes "w_role (si_welcome session) = Admin" "w_issued_credentials (si_welcome session) = None" "requests \<noteq> []"
  shows "\<not> list_ex is_panel (render_chat_app width height (cw_app (fst (run_chat C session store d (late_answer sv requests))))) \<and>
    fst (snd (run_chat C session store d (late_answer sv requests @ [plain_key (Key_Char 97)]))) =
      [List_Join_Requests, Decide_Join_Request (jrs_request_id (hd requests)) True]"
proof -
  have "ca_role (new_chat session) = Admin" "ca_overlay (new_chat session) = None" "\<not> ca_focus_mode (new_chat session)"
    using assms(1,2) by (simp_all add: new_chat_def sync_conversation_selection_def Let_def split: option.split)
  moreover obtain r rs where "requests = r # rs" using assms(3) by (cases requests) auto
  ultimately show ?thesis
    by (simp add: run_chat_def late_answer_def chat_key_def control_key_def screen_key_def overlay_key_def requests_key_def
      toggle_focus_mode_def finish_send_def persist_event_def show_requests_def render_chat_app_def render_focus_header_def
      Let_def str_def entry_at_def)
qed

section \<open>Errors in narrow terminals\<close>

fun chat_unchanged :: "chat_app \<Rightarrow> chat_app \<times> chat_key_action \<Rightarrow> bool" where
  "chat_unchanged app (app', Send_Message (Chat _ _ _)) \<longleftrightarrow> app' = app"
| "chat_unchanged app _ \<longleftrightarrow> True"

lemma input_chat: "chat_unchanged app (handle_input_key fresh key app)"
  by (simp add: handle_input_key_def prepare_message_def page_up_def Let_def
    split: key_code.split sum.split conversation.split option.split)

lemma conversation_chat: "chat_unchanged app (handle_conversation_key code app)"
  by (simp add: handle_conversation_key_def Let_def split: conversation.split option.split)

lemma screen_chat: "chat_unchanged app (screen_key fresh key app)"
  by (simp add: screen_key_def focused_key_def open_room_members_def input_chat conversation_chat Let_def
    split: chat_focus.split conversation.split)

lemma sent_chat:
  assumes "chat_key fresh key app = Some (app', Send_Message (Chat rid mid body))"
  shows "app' = app \<and> ca_overlay app = None"
proof -
  have none: "ca_overlay app = None" using key_sends [OF assms] by simp
  with assms input_chat [of app fresh key] screen_chat [of app fresh key] show ?thesis
    by (auto simp: chat_key_def control_key_def split: if_splits option.splits)
qed

text \<open>The drawing does not depend on the status, but for the footer.\<close>

lemma drawn_status:
  "connection_text (app\<lparr>ca_status := n\<rparr>) = connection_text app" "own_nickname (app\<lparr>ca_status := n\<rparr>) = own_nickname app"
  "conversation_entries (app\<lparr>ca_status := n\<rparr>) = conversation_entries app" "member_entries (app\<lparr>ca_status := n\<rparr>) = member_entries app"
  "composer_shown char_width width (app\<lparr>ca_status := n\<rparr>) = composer_shown char_width width app"
  "ca_focus_mode (app\<lparr>ca_status := n\<rparr>) = ca_focus_mode app" "ca_scroll (app\<lparr>ca_status := n\<rparr>) = ca_scroll app"
  "ca_overlay (app\<lparr>ca_status := n\<rparr>) = ca_overlay app" "ca_focus (app\<lparr>ca_status := n\<rparr>) = ca_focus app"
  by (simp_all add: connection_text_def own_nickname_def conversation_entries_def member_entries_def composer_shown_def)

lemma drawn_status_active:
  "active_name (app\<lparr>ca_status := n\<rparr>) = active_name app"
  "private_send_locked (app\<lparr>ca_status := n\<rparr>) = private_send_locked app" "active_lines wording (app\<lparr>ca_status := n\<rparr>) = active_lines wording app"
  by (simp_all add: active_name_def private_send_locked_def active_lines_def split: conversation.split option.split)

lemma drawn_status_title: "active_title (app\<lparr>ca_status := n\<rparr>) = active_title app"
  by (simp add: active_title_def drawn_status_active split: conversation.split)

lemma drawn_status_entry: "entry_text (app\<lparr>ca_status := n\<rparr>) target = entry_text app target"
proof -
  have "private_meta (app\<lparr>ca_status := n\<rparr>) = private_meta app" by (rule ext) (simp add: private_meta_def)
  then show ?thesis by (cases target) simp_all
qed

lemmas drawn_statuses = drawn_status drawn_status_active drawn_status_title drawn_status_entry

lemma navigation_status:
  "navigation_rows (app\<lparr>ca_status := n\<rparr>) bottom row_y entries = navigation_rows app bottom row_y entries"
  by (induction app bottom row_y entries rule: navigation_rows.induct) (auto simp: drawn_statuses split: option.split)

lemma member_rows_status:
  "member_rows (app\<lparr>ca_status := n\<rparr>) bottom row_y members = member_rows app bottom row_y members"
  by (induction app bottom row_y members rule: member_rows.induct) simp_all

text \<open>All that is drawn of a chat screen, in a terminal and with panes of given sizes.\<close>

definition drawn_chat where
  "drawn_chat wording char_width text_width width height x y app =
     (render_chat_app width height app, message_pane wording height app, render_conversations y width height app,
      render_members y width height app, composer_content char_width width app, composer_cursor char_width text_width x width app)"

lemma drawn_overlay: "render_overlay (app\<lparr>ca_status := n\<rparr>) overlay = render_overlay app overlay"
  by (simp add: render_overlay_def split: chat_overlay.split)

lemma narrow_parts:
  "render_chat_header width (app\<lparr>ca_status := n\<rparr>) = render_chat_header width app"
  "render_focus_header width (app\<lparr>ca_status := n\<rparr>) = render_focus_header width app"
  "render_chat_body width (app\<lparr>ca_status := n\<rparr>) = render_chat_body width app"
  "width < 110 \<Longrightarrow> render_chat_footer width (app\<lparr>ca_status := n\<rparr>) = render_chat_footer width app"
  by (simp_all add: render_chat_header_def render_focus_header_def render_chat_body_def render_chat_footer_def drawn_statuses)

lemma narrow_screen: "width < 110 \<Longrightarrow> render_chat_app width height (app\<lparr>ca_status := n\<rparr>) = render_chat_app width height app"
  unfolding render_chat_app_def Let_def narrow_parts drawn_statuses
  by (cases "ca_overlay app") (simp_all add: narrow_parts drawn_overlay)

lemma status_panes:
  "message_pane wording height (app\<lparr>ca_status := n\<rparr>) = message_pane wording height app"
  "render_conversations y width height (app\<lparr>ca_status := n\<rparr>) = render_conversations y width height app"
  "render_members y width height (app\<lparr>ca_status := n\<rparr>) = render_members y width height app"
  "composer_content char_width width (app\<lparr>ca_status := n\<rparr>) = composer_content char_width width app"
  "composer_cursor char_width text_width x width (app\<lparr>ca_status := n\<rparr>) = composer_cursor char_width text_width x width app"
  unfolding message_pane_def render_active_messages_def render_conversations_def render_members_def composer_content_def
    composer_cursor_def drawn_statuses navigation_status member_rows_status
  by simp_all

lemma narrow_drawing:
  "width < 110 \<Longrightarrow> drawn_chat wording char_width text_width width height x y (app\<lparr>ca_status := n\<rparr>) =
     drawn_chat wording char_width text_width width height x y app"
  by (simp only: drawn_chat_def narrow_screen status_panes)

text \<open>
  A refused message leaves no trace in a terminal of less than 110 columns. A chat message is handed
  on, which clears the input line; the gateway answers with an error (the message could not be stored, or
  came too soon after others). The screen is then the one drawn before the error: the status line that
  tells of it is not drawn, the message is in no list and the input line is empty.
\<close>

theorem refused_message_leaves_no_trace:
  assumes "chat_key fresh key (cw_app cw) = Some (app, Send_Message (Chat rid mid body))" "width < 110"
  shows "\<exists>sending refused. chat_step C gw gid (Chat_Key False key fresh None) cw = (sending, [Chat rid mid body], None) \<and>
    chat_step C gw gid (Connection_Event sv (Some (From_Server (Server_Error code message)))) sending = (refused, [], None) \<and>
    ca_input (cw_app refused) = [] \<and>
    drawn_chat wording char_width text_width width height x y (cw_app refused) =
      drawn_chat wording char_width text_width width height x y (cw_app sending) \<and>
    active_lines wording (cw_app refused) = active_lines wording (cw_app cw)"
proof -
  have app: "app = cw_app cw" "ca_overlay (cw_app cw) = None" using sent_chat [OF assms(1)] by auto
  have lines: "active_lines wording (a\<lparr>ca_input := i\<rparr>) = active_lines wording a" for a i
    by (cases "ca_active a") (simp_all add: active_lines_def)
  define sending where "sending = cw\<lparr>cw_app := (cw_app cw)\<lparr>ca_input := [], ca_status := Line ''sent''\<rparr>\<rparr>"
  define refused where "refused = \<lparr>cw_app = (cw_app sending)\<lparr>ca_status := Error_Line code message\<rparr>, cw_store = cw_store cw, cw_disk = cw_disk cw\<rparr>"
  have first: "chat_step C gw gid (Chat_Key False key fresh None) cw = (sending, [Chat rid mid body], None)"
    using assms(1) app by (simp add: finish_send_def sending_def)
  have second: "chat_step C gw gid (Connection_Event sv (Some (From_Server (Server_Error code message)))) sending = (refused, [], None)"
    using app(2) by (simp add: persist_event_def refused_def sending_def)
  have "ca_input (cw_app refused) = []" "active_lines wording (cw_app refused) = active_lines wording (cw_app cw)"
    by (simp_all add: refused_def sending_def lines drawn_status_active)
  moreover have "drawn_chat wording char_width text_width width height x y (cw_app refused) =
      drawn_chat wording char_width text_width width height x y (cw_app sending)"
    using narrow_drawing [OF assms(2)] by (simp add: refused_def)
  ultimately show ?thesis using first second by blast
qed

section \<open>Samples\<close>

definition sample_request :: join_request_summary where
  "sample_request = \<lparr>jrs_request_id = 77, jrs_nickname = [98], jrs_requested_at_ms = 1\<rparr>"

theorem keys_act_on_the_marked_entry_witness:
  "\<exists>p line. last (render_chat_app 80 24 ((sample_chat (sample_view [] False) RBT.empty (In_Room (str ''r1'')) [])
      \<lparr>ca_overlay := Some (Join_Request_List [sample_request] 0 False)\<rparr>)) = Shown_Panel p \<and>
    filter marked (drawn_lines 24 p) = [line] \<and> names (Decide_Join_Request 77 True) line"
proof -
  let ?app = "(sample_chat (sample_view [] False) RBT.empty (In_Room (str ''r1'')) [])\<lparr>ca_overlay := Some (Join_Request_List [sample_request] 0 False)\<rparr>"
  obtain app' where "chat_key 0 \<lparr>ke_code = Key_Enter, ke_control = False\<rparr> ?app = Some (app', Send_Message (Decide_Join_Request 77 True))"
    by (simp add: chat_key_def overlay_key_def requests_key_def entry_at_def sample_request_def Let_def)
  from keys_act_on_the_marked_entry [OF this, of 80 24] show ?thesis by (simp add: sample_chat_def)
qed

definition all_fail :: saving_conditions where
  "all_fail = \<lparr>sv_fails = (\<lambda>_. True), sv_written = 0, sv_unique = []\<rparr>"

definition admin_session :: session_info where
  "admin_session = plain_session (str ''general'')\<lparr>si_welcome := (si_welcome (plain_session (str ''general'')))\<lparr>w_role := Admin\<rparr>\<rparr>"

theorem hidden_panel_takes_the_keys_witness:
  "fst (snd (run_chat sample_codec admin_session sample_credentials Map.empty (late_answer \<lparr>sv_fails = (\<lambda>_. False), sv_written = 0, sv_unique = []\<rparr> [sample_request] @
     [plain_key (Key_Char 97)]))) = [List_Join_Requests, Decide_Join_Request 77 True]"
  using hidden_panel_takes_the_keys [of admin_session "[sample_request]"]
  by (simp add: admin_session_def plain_session_def sample_request_def)

theorem refused_message_leaves_no_trace_witness:
  "\<exists>sending refused. chat_step sample_codec 1 5 (Chat_Key False \<lparr>ke_code = Key_Enter, ke_control = False\<rparr> 30 None)
      (sample_session\<lparr>cw_app := sample_chat (sample_view [] False) RBT.empty (In_Room (str ''r1'')) (str ''hi'')\<rparr>) =
      (sending, [Chat (str ''r1'') 30 (str ''hi'')], None) \<and>
    chat_step sample_codec 1 5 (Connection_Event all_fail (Some (From_Server (Server_Error [120] [121])))) sending = (refused, [], None) \<and>
    ca_input (cw_app refused) = [] \<and>
    drawn_chat (\<lambda>_. []) (\<lambda>_. 1) length 80 24 0 0 (cw_app refused) = drawn_chat (\<lambda>_. []) (\<lambda>_. 1) length 80 24 0 0 (cw_app sending)"
proof -
  let ?cw = "sample_session\<lparr>cw_app := sample_chat (sample_view [] False) RBT.empty (In_Room (str ''r1'')) (str ''hi'')\<rparr>"
  let ?key = "\<lparr>ke_code = Key_Enter, ke_control = False\<rparr>"
  have key: "chat_key 30 ?key (cw_app ?cw) = Some (cw_app ?cw, Send_Message (Chat (str ''r1'') 30 (str ''hi'')))"
    by (simp add: chat_key_def control_key_def screen_key_def focused_key_def handle_input_key_def prepare_message_def hi_accepted hi_trimmed
      sample_chat_def sample_view_def Let_def)
  have "80 < (110 :: nat)" by simp
  from refused_message_leaves_no_trace [OF key this, where ?C = sample_codec and ?gw = 1 and ?gid = 5 and ?wording = "\<lambda>_. []" and
        ?char_width = "\<lambda>_. 1" and ?text_width = length and ?height = 24 and ?x = 0 and ?y = 0 and ?sv = all_fail and ?code = "[120]" and ?message = "[121]"]
  show ?thesis by blast
qed

end
