(* ===== verification/Lobby_Display.thy ===== *)
theory Lobby_Display
  imports Lobby Chat_Screen
begin

text \<open>
  What the lobby draws (\<open>render_lobby\<close> of \<open>src/tui.rs\<close> and what it calls). The split of the terminal into
  areas is the layout engine's and comes as a \<open>lobby_layout\<close>; the width of a text, the sentence of a notice and
  the spelling of an address are parameters; colours are left aside.
\<close>

record lobby_layout =
  ll_list_y :: nat
  ll_list_width :: nat
  ll_list_height :: nat
  ll_details_width :: nat
  ll_popup_x :: nat
  ll_popup_width :: nat

section \<open>Header and footer\<close>

definition lobby_connection :: "lobby_app \<Rightarrow> notice" where
  "lobby_connection app =
     (if lo_refreshing app then Line ''refreshing''
      else if lo_gateways app = [] \<and> lo_groups app = [] then Line ''no gateway found'' else Line ''connected to the gateway'')"

text \<open>The status is drawn in wide terminals only, and not when it tells how many groups were found.\<close>

definition FOUND_PREFIX :: rstring where
  "FOUND_PREFIX = [0x5DF2, 0x53D1, 0x73B0]"

definition lobby_footer :: "(notice \<Rightarrow> rstring) \<Rightarrow> nat \<Rightarrow> lobby_app \<Rightarrow> rstring option" where
  "lobby_footer wording width app =
     (if width - 4 \<noteq> 0 \<and> width \<ge> 92 \<and> take 3 (wording (lo_status app)) \<noteq> FOUND_PREFIX
      then Some (wording (lo_status app)) else None)"

section \<open>Groups\<close>

record group_row =
  gr_y :: nat
  gr_name :: rstring
  gr_gap :: nat
  gr_access :: group_access_mode
  gr_selected :: bool

text \<open>Three rows for each group, as long as all three fit; the list always starts with the first group.\<close>

fun group_rows ::
  "(rstring \<Rightarrow> nat) \<Rightarrow> (group_access_mode \<Rightarrow> nat) \<Rightarrow> nat \<Rightarrow> nat \<Rightarrow> nat \<Rightarrow> nat \<Rightarrow> (nat \<times> lobby_group) list \<Rightarrow> group_row list" where
  "group_rows text_width label_width selected width bottom row_y [] = []"
| "group_rows text_width label_width selected width bottom row_y ((index, grp) # groups) =
     (if min 65535 (row_y + 3) > bottom then []
      else \<lparr>gr_y = row_y, gr_name = lg_group_name grp,
            gr_gap = max 1 (width - 2 - text_width (lg_group_name grp) - label_width (lg_access_mode grp)),
            gr_access = lg_access_mode grp, gr_selected = (index = selected)\<rparr> #
           group_rows text_width label_width selected width bottom (min 65535 (row_y + 3)) groups)"

datatype group_list = List_Hidden | List_Empty bool | List_Rows nat "group_row list"

definition render_group_list ::
  "(rstring \<Rightarrow> nat) \<Rightarrow> (group_access_mode \<Rightarrow> nat) \<Rightarrow> nat \<Rightarrow> nat \<Rightarrow> nat \<Rightarrow> lobby_app \<Rightarrow> group_list" where
  "render_group_list text_width label_width y area_width area_height app =
     (let padding = (if area_width \<ge> 52 then 3 else 1); width = area_width - 2 * padding; height = area_height - 2;
          top = min 65535 (y + 1); bottom = min 65535 (top + height)
      in if width = 0 \<or> height = 0 then List_Hidden
         else if lo_groups app = [] then List_Empty (lo_refreshing app)
         else List_Rows (length (lo_groups app))
           (group_rows text_width label_width (lo_selected app) width bottom (min 65535 (top + 3)) (enumerate 0 (lo_groups app))))"

record group_details =
  gd_name :: rstring
  gd_access :: group_access_mode
  gd_gateway :: rstring
  gd_endpoint :: rstring
  gd_saved :: bool
  gd_fingerprint :: rstring

text \<open>No panic here: without a selected group (\<open>Some None\<close>) a hint is drawn.\<close>

definition render_group_details :: "(socket_addr \<Rightarrow> rstring) \<Rightarrow> nat \<Rightarrow> nat \<Rightarrow> lobby_app \<Rightarrow> group_details option option" where
  "render_group_details show_addr area_width area_height app =
     (if area_width - 7 = 0 \<or> area_height - 4 = 0 then None
      else Some (map_option (\<lambda>grp. \<lparr>gd_name = lg_group_name grp, gd_access = lg_access_mode grp,
            gd_gateway = lg_gateway_name grp, gd_endpoint = show_addr (lg_endpoint grp), gd_saved = credential_known app grp,
            gd_fingerprint = lg_server_fingerprint grp\<rparr>)
          (entry_at (lo_groups app) (lo_selected app))))"

section \<open>Questions\<close>

text \<open>One line with the end of the text and the cursor; one column on each side is the border.\<close>

definition text_overlay ::
  "(rchar \<Rightarrow> nat) \<Rightarrow> (rstring \<Rightarrow> nat) \<Rightarrow> nat \<Rightarrow> nat \<Rightarrow> rstring \<Rightarrow> rstring \<times> nat" where
  "text_overlay char_width text_width popup_x popup_width value =
     (let width = popup_width - 2; left = min 65535 (popup_x + 1)
      in (tail_by_width char_width value (width - 3),
          min (min 65535 (min 65535 (left + 2) + text_width value mod 2 ^ 16)) (min 65535 (left + width) - 1)))"

datatype lobby_overlay =
    Text_Question lobby_input_kind rstring nat
  | Access_Question "(bool \<times> group_access_mode) list"
  | Token_Question rstring nat
  | Forget_Question "rstring option"

text \<open>The three ways to join, with the marker.\<close>

definition join_choices :: "nat \<Rightarrow> (bool \<times> group_access_mode) list" where
  "join_choices selected = map (\<lambda>(i, mode). (i = selected, mode)) (enumerate 0 [Public, Invite, Approval])"

definition HIDDEN_CHAR :: rchar where "HIDDEN_CHAR = 0x2022"

fun render_question ::
  "(rchar \<Rightarrow> nat) \<Rightarrow> (rstring \<Rightarrow> nat) \<Rightarrow> lobby_layout \<Rightarrow> lobby_app \<Rightarrow> lobby_mode \<Rightarrow> lobby_overlay option" where
  "render_question char_width text_width L app Browse = None"
| "render_question char_width text_width L app (Lobby_Input kind value) =
     (let (shown, cursor) = text_overlay char_width text_width (ll_popup_x L) (ll_popup_width L) value
      in Some (Text_Question kind shown cursor))"
| "render_question char_width text_width L app (Choose_Access _ _ _ selected) =
     Some (Access_Question (join_choices selected))"
| "render_question char_width text_width L app (Invite_Input _ value) =
     (let (shown, cursor) = text_overlay char_width text_width (ll_popup_x L) (ll_popup_width L)
        (replicate (length value) HIDDEN_CHAR)
      in Some (Token_Question shown cursor))"
| "render_question char_width text_width L app (Confirm_Forget i) =
     Some (Forget_Question (map_option lg_group_name (entry_at (lo_groups app) i)))"

section \<open>The screen\<close>

datatype lobby_screen =
    Lobby_Too_Small nat nat
  | Lobby_Screen notice rstring group_list "group_details option option" "rstring option" "lobby_overlay option"

definition render_lobby ::
  "(rchar \<Rightarrow> nat) \<Rightarrow> (rstring \<Rightarrow> nat) \<Rightarrow> (group_access_mode \<Rightarrow> nat) \<Rightarrow> (notice \<Rightarrow> rstring) \<Rightarrow> (socket_addr \<Rightarrow> rstring) \<Rightarrow>
   nat \<Rightarrow> nat \<Rightarrow> lobby_layout \<Rightarrow> lobby_app \<Rightarrow> lobby_screen" where
  "render_lobby char_width text_width label_width wording show_addr width height L app =
     (if width < 30 \<or> height < 12 then Lobby_Too_Small 30 12
      else Lobby_Screen (lobby_connection app) (lo_nickname app)
        (render_group_list text_width label_width (ll_list_y L) (ll_list_width L) (ll_list_height L) app)
        (if width \<ge> 78 then render_group_details show_addr (ll_details_width L) (ll_list_height L) app else None)
        (lobby_footer wording width app) (render_question char_width text_width L app (lo_mode app)))"

end
