(* ===== verification/Lobby_Theorems.thy ===== *)
theory Lobby_Theorems
  imports Lobby_Display Command_Line Screen_Theorems
begin

text \<open>What the lobby shows and does not show: the token that is typed, the groups, and the message it opens with.\<close>

section \<open>The invite token\<close>

text \<open>
  An invite token is not drawn. Two tokens of the same length give the same lobby, in every terminal and
  with every state of the search: only the number of characters is seen, never a character.
\<close>

theorem invite_token_is_never_drawn:
  assumes "length token = length token'"
  shows "render_lobby char_width text_width label_width wording show_addr width height L (app\<lparr>lo_mode := Invite_Input i token\<rparr>) =
    render_lobby char_width text_width label_width wording show_addr width height L (app\<lparr>lo_mode := Invite_Input i token'\<rparr>)"
  using assms
  by (simp add: render_lobby_def lobby_connection_def render_group_list_def render_group_details_def lobby_footer_def credential_known_def
    cong: if_cong)

section \<open>The list of groups\<close>

lemma three_rows_more:
  fixes bottom row_y :: nat
  assumes "row_y + 3 \<le> bottom" "bottom < 65535"
  shows "(bottom - row_y) div 3 = Suc ((bottom - (row_y + 3)) div 3)" "min 65535 (row_y + 3) = row_y + 3"
  using assms by auto

lemma no_row_more: "min 65535 (row_y + 3) > bottom \<Longrightarrow> (bottom - row_y) div 3 = (0 :: nat)"
  by auto

lemma group_rows_names:
  "bottom < 65535 \<Longrightarrow> map gr_name (group_rows text_width label_width selected width bottom row_y groups) =
    map (lg_group_name \<circ> snd) (take ((bottom - row_y) div 3) groups)"
proof (induction text_width label_width selected width bottom row_y groups rule: group_rows.induct)
  case (2 text_width label_width selected width bottom row_y index grp groups)
  then show ?case
    using three_rows_more [of row_y bottom] no_row_more [of bottom row_y] by (cases "row_y + 3 \<le> bottom") auto
qed simp

lemma group_rows_marks:
  "row \<in> set (group_rows text_width label_width selected width bottom row_y groups) \<Longrightarrow> bottom < 65535 \<Longrightarrow>
   gr_selected row \<Longrightarrow> selected \<in> fst ` set (take ((bottom - row_y) div 3) groups)"
proof (induction text_width label_width selected width bottom row_y groups rule: group_rows.induct)
  case (2 text_width label_width selected width bottom row_y index grp groups)
  then show ?case
    using three_rows_more [of row_y bottom] by (cases "row_y + 3 \<le> bottom") auto
qed simp

lemma take_enumerated: "take m (enumerate 0 xs) = enumerate 0 (take m xs)"
  by (rule nth_equalityI) (auto simp: nth_enumerate_eq)

text \<open>
  The list of groups does not scroll: of a selected group below the last row, nothing is drawn, and the
  return key still joins it.
\<close>

theorem unseen_group_is_joined:
  assumes list: "render_group_list text_width label_width y area_width area_height app = List_Rows n rows"
    and room: "y + area_height < 65535" "(area_height - 5) div 3 \<le> lo_selected app" "lo_selected app < length (lo_groups app)"
    and mode: "lo_mode app = Browse" "lg_access_mode (lo_groups app ! lo_selected app) \<noteq> Invite"
  shows "map gr_name rows = map lg_group_name (take ((area_height - 5) div 3) (lo_groups app)) \<and> list_all (\<lambda>row. \<not> gr_selected row) rows \<and>
    lobby_key parse_addr \<lparr>ke_code = Key_Enter, ke_control = False\<rparr> app = act_on app (join_action (lo_groups app ! lo_selected app) None)"
proof -
  let ?width = "area_width - 2 * (if area_width \<ge> 52 then 3 else 1)" and ?bottom = "y + 1 + (area_height - 2)"
  have high: "2 < area_height" using list by (auto simp: render_group_list_def Let_def split: if_splits)
  have rows: "rows = group_rows text_width label_width (lo_selected app) ?width ?bottom (4 + y) (enumerate 0 (lo_groups app))"
    using list room(1) by (auto simp: render_group_list_def Let_def split: if_splits)
  have bottom: "?bottom < 65535" "(?bottom - (4 + y)) div 3 = (area_height - 5) div 3" using room(1) high by (auto intro: arg_cong2 [of _ _ _ _ "(div)"])
  have "lo_selected app \<notin> fst ` set (take m (enumerate 0 (lo_groups app)))" if "m \<le> lo_selected app" for m
    using that by (simp add: take_enumerated flip: set_map)
  then have "list_all (\<lambda>row. \<not> gr_selected row) rows"
    using room(2) bottom group_rows_marks unfolding rows list_all_iff by metis
  moreover have "map gr_name rows = map lg_group_name (take ((area_height - 5) div 3) (lo_groups app))"
    using group_rows_names [OF bottom(1)] bottom(2) by (simp add: rows take_enumerated flip: map_map)
  moreover have "lo_groups app \<noteq> []" using room(3) by auto
  ultimately show ?thesis
    using room(3) mode by (simp add: lobby_key_def browse_key_def browse_enter_def entry_at_def)
qed

section \<open>The message the lobby opens with\<close>

text \<open>The lobby after events that do not end it.\<close>

fun lobby_after :: "(rstring \<Rightarrow> socket_addr option) \<Rightarrow> lobby_event list \<Rightarrow> lobby_app \<Rightarrow> lobby_app option" where
  "lobby_after parse_addr [] app = Some app"
| "lobby_after parse_addr (event # events) app =
     (case lobby_step parse_addr event app of Some (app, None) \<Rightarrow> lobby_after parse_addr events app | _ \<Rightarrow> None)"

definition blank :: "lobby_app \<Rightarrow> lobby_app" where
  "blank app = app\<lparr>lo_status := Line ''blank''\<rparr>"

abbreviation blank_answer :: "lobby_answer \<Rightarrow> lobby_answer" where
  "blank_answer \<equiv> map_option (map_prod blank id)"

lemma blank_status [simp]: "blank (app\<lparr>lo_status := n\<rparr>) = blank app"
  by (simp add: blank_def)

lemma blank_browse: "blank_answer (browse_key code (app\<lparr>lo_status := n\<rparr>)) = blank_answer (browse_key code app)"
  by (simp add: browse_key_def browse_enter_def browse_forget_def credential_known_def join_action_def blank_def split: option.split)

lemma blank_input: "blank_answer (input_key parse_addr key kind value (app\<lparr>lo_status := n\<rparr>)) = blank_answer (input_key parse_addr key kind value app)"
  by (simp add: input_key_def submit_input_def chosen_gateway_def back_to_browse_def blank_def
    split: key_code.split option.split lobby_input_kind.split sum.split list.split)

lemma blank_access: "blank_answer (access_key code name endpoint fingerprint i (app\<lparr>lo_status := n\<rparr>)) =
   blank_answer (access_key code name endpoint fingerprint i app)"
  by (simp add: access_key_def back_to_browse_def blank_def Let_def split: option.split)

lemma blank_invite: "blank_answer (invite_key key i value (app\<lparr>lo_status := n\<rparr>)) = blank_answer (invite_key key i value app)"
  by (simp add: invite_key_def back_to_browse_def blank_def split: key_code.split option.split sum.split)

lemma blank_forget: "blank_answer (forget_key code i (app\<lparr>lo_status := n\<rparr>)) = blank_answer (forget_key code i app)"
  by (simp add: forget_key_def back_to_browse_def blank_def split: option.split)

lemma blank_key: "blank_answer (lobby_key parse_addr key (app\<lparr>lo_status := n\<rparr>)) = blank_answer (lobby_key parse_addr key app)"
  by (cases "lo_mode app") (simp_all add: lobby_key_def blank_browse blank_input blank_access blank_invite blank_forget)

lemma blank_eq: "blank a = blank b \<Longrightarrow> \<exists>n. a = b\<lparr>lo_status := n\<rparr>"
  by (cases a; cases b) (auto simp: blank_def)

lemma blank_step: "blank_answer (lobby_step parse_addr event (app\<lparr>lo_status := n\<rparr>)) = blank_answer (lobby_step parse_addr event app)"
proof (cases event)
  case (Lobby_Key released key)
  show ?thesis
  proof (cases "lobby_key parse_addr key app")
    case None
    with blank_key [of parse_addr key n app] Lobby_Key show ?thesis by simp
  next
    case (Some a)
    obtain b action where a: "a = (b, action)" by (cases a)
    with Some blank_key [of parse_addr key n app] obtain c where c: "lobby_key parse_addr key (app\<lparr>lo_status := n\<rparr>) = Some (c, action)" "blank c = blank b"
      by (cases "lobby_key parse_addr key (app\<lparr>lo_status := n\<rparr>)") auto
    then obtain m where "c = b\<lparr>lo_status := m\<rparr>" using blank_eq by blast
    with a Some c(1) Lobby_Key show ?thesis by (cases action) (simp_all add: begin_search_def blank_def)
  qed
qed (simp_all add: lobby_paste_def begin_search_def set_discovery_def blank_def Let_def split: lobby_mode.split option.split)

lemma blank_after: "blank a = blank b \<Longrightarrow> map_option blank (lobby_after parse_addr events a) = map_option blank (lobby_after parse_addr events b)"
proof (induction events arbitrary: a b)
  case (Cons event events)
  obtain n where a: "a = b\<lparr>lo_status := n\<rparr>" using blank_eq [OF Cons.prems] by blast
  show ?case
  proof (cases "lobby_step parse_addr event b")
    case None
    with blank_step [of parse_addr event n b] a show ?thesis by simp
  next
    case (Some r)
    obtain c action where r: "r = (c, action)" by (cases r)
    with Some a blank_step [of parse_addr event n b] obtain d where d: "lobby_step parse_addr event a = Some (d, action)" "blank d = blank c"
      by (cases "lobby_step parse_addr event a") auto
    with Cons.IH [OF d(2)] Some r show ?thesis by (cases action) simp_all
  qed
qed simp

lemma narrow_lobby:
  assumes "blank a = blank b" "width < 92"
  shows "render_lobby char_width text_width label_width wording show_addr width height L a =
    render_lobby char_width text_width label_width wording show_addr width height L b"
proof -
  obtain n where a: "a = b\<lparr>lo_status := n\<rparr>" using blank_eq [OF assms(1)] by blast
  have "render_question char_width text_width L (b\<lparr>lo_status := n\<rparr>) mode = render_question char_width text_width L b mode" for mode
    by (cases mode) simp_all
  then show ?thesis using assms(2)
    by (simp add: a render_lobby_def lobby_connection_def render_group_list_def render_group_details_def lobby_footer_def
      credential_known_def cong: if_cong)
qed

lemma narrow_lobby_after:
  assumes "blank a = blank b" "width < 92"
  shows "map_option (render_lobby char_width text_width label_width wording show_addr width height L) (lobby_after parse_addr events a) =
    map_option (render_lobby char_width text_width label_width wording show_addr width height L) (lobby_after parse_addr events b)"
proof (cases "lobby_after parse_addr events a")
  case (Some c)
  then obtain d where d: "lobby_after parse_addr events b = Some d" "blank c = blank d"
    using blank_after [OF assms(1), of parse_addr events] by (cases "lobby_after parse_addr events b") auto
  with Some narrow_lobby [OF d(2) assms(2)] show ?thesis by simp
qed (use blank_after [OF assms(1), of parse_addr events] in simp)

lemma search_end: "blank a = blank b \<Longrightarrow> lobby_step parse_addr (Search_Done found) a = lobby_step parse_addr (Search_Done found) b"
  using blank_eq [of a b] by (auto simp: set_discovery_def Let_def split: option.split)

lemma after_append: "lobby_after parse_addr (events @ later) app = Option.bind (lobby_after parse_addr events app) (lobby_after parse_addr later)"
  by (induction events arbitrary: app) (auto split: option.split)

lemma search_forgets:
  assumes "blank a = blank b"
  shows "lobby_after parse_addr (events @ [Search_Done found]) a = lobby_after parse_addr (events @ [Search_Done found]) b"
proof (cases "lobby_after parse_addr events a")
  case (Some c)
  then obtain d where d: "lobby_after parse_addr events b = Some d" "blank c = blank d"
    using blank_after [OF assms, of parse_addr events] by (cases "lobby_after parse_addr events b") auto
  with Some search_end [OF d(2), of parse_addr found] show ?thesis by (simp add: after_append del: lobby_step.simps)
qed (use blank_after [OF assms, of parse_addr events] in \<open>simp add: after_append\<close>)

definition opened_lobby :: "rstring \<Rightarrow> rstring option \<Rightarrow> (uuid \<times> uuid) list \<Rightarrow> lobby_app" where
  "opened_lobby nickname initial known = (new_lobby nickname initial known)\<lparr>lo_refreshing := True\<rparr>"

lemma blank_opened: "blank (opened_lobby nickname initial known) = blank (opened_lobby nickname initial' known)"
  by (simp add: opened_lobby_def new_lobby_def blank_def)

text \<open>
  A rotated token that can not be saved is not shown either. The error spells the only copy of the
  token out and becomes the message the lobby opens with; but the lobby draws exactly what it would draw
  with any other message (or none) in a terminal of less than 92 columns, whatever happens in it, and in a
  wider one the message is gone for good when the search that runs from the start ends.
\<close>

theorem rescued_token_is_not_shown:
  assumes "credential_get (it_store it) (gsn_gateway_id (si_gateway session)) (w_group_id (si_welcome session)) = Some existing"
    and "persist_rotated_token sv C (gsn_gateway_id (si_gateway session)) (w_group_id (si_welcome session)) kind token (it_store it) (it_disk it)
      = (store, d, Inl e)"
    and "width < 92"
  shows "\<exists>notice. it_notice (fst (chat_turn C describe session [Connection_Event sv (Some (From_Server (Group_Token_Rotated kind token)))] it)) = Some notice \<and>
    notice = CHAT_INTERRUPTED @ describe (Bail (str ''rotated token could not be saved; copy this token now: '' @ token)) \<and>
    map_option (render_lobby char_width text_width label_width wording show_addr width height L)
      (lobby_after parse_addr events (opened_lobby nickname (Some notice) known)) =
    map_option (render_lobby char_width text_width label_width wording show_addr width height L)
      (lobby_after parse_addr events (opened_lobby nickname initial known)) \<and>
    lobby_after parse_addr (events @ [Search_Done found]) (opened_lobby nickname (Some notice) known) =
    lobby_after parse_addr (events @ [Search_Done found]) (opened_lobby nickname initial known)"
proof -
  have "e = Bail (str ''rotated token could not be saved; copy this token now: '' @ token)"
    using assms(1,2) by (auto simp: persist_rotated_token_def Let_def split: group_token_kind.splits prod.splits sum.splits)
  then have "it_notice (fst (chat_turn C describe session [Connection_Event sv (Some (From_Server (Group_Token_Rotated kind token)))] it)) =
      Some (CHAT_INTERRUPTED @ describe (Bail (str ''rotated token could not be saved; copy this token now: '' @ token)))"
    using assms(2) by (simp add: chat_turn_def run_chat_def persist_event_def)
  then show ?thesis
    by (intro exI conjI) (assumption, rule refl, rule narrow_lobby_after [OF blank_opened assms(3)], rule search_forgets [OF blank_opened])
qed

section \<open>Samples\<close>

definition sample_layout :: lobby_layout where
  "sample_layout = \<lparr>ll_list_y = 3, ll_list_width = 80, ll_list_height = 19, ll_details_width = 28, ll_popup_x = 12, ll_popup_width = 56\<rparr>"

theorem invite_token_is_never_drawn_witness:
  "render_lobby (\<lambda>_. 1) length (\<lambda>_. 4) (\<lambda>_. []) (\<lambda>_. []) 80 24 sample_layout ((new_lobby [97] None [])\<lparr>lo_mode := Invite_Input 0 [108, 99]\<rparr>) =
   render_lobby (\<lambda>_. 1) length (\<lambda>_. 4) (\<lambda>_. []) (\<lambda>_. []) 80 24 sample_layout ((new_lobby [97] None [])\<lparr>lo_mode := Invite_Input 0 [120, 121]\<rparr>)"
  by (rule invite_token_is_never_drawn) simp

definition sample_interactive :: interactive where
  "sample_interactive = \<lparr>it_nickname = [97], it_notice = None, it_store = sample_credentials, it_disk = Map.empty\<rparr>"

lemma sample_unsaved: "\<exists>store d e. persist_rotated_token all_fail sample_codec 1 5 Member_Token (str ''lc_m'') sample_credentials Map.empty = (store, d, Inl e)"
proof -
  have "credential_get sample_credentials 1 5 = Some sample_credential" by (simp add: credential_get_def sample_credentials_def)
  moreover have "save (\<lambda>_. True) 0 [] sample_codec store Map.empty \<noteq> (d, Inr ())" if "cs_path store = cs_path sample_credentials" for store d
    using that by (simp add: save_def sample_credentials_def sample_path_def parent_of_def create_private_directory_def io_try_def)
  ultimately show ?thesis
    by (simp add: persist_rotated_token_def credential_set_def all_fail_def Let_def split: prod.split sum.split)
qed

theorem rescued_token_is_not_shown_witness:
  "\<exists>notice. it_notice (fst (chat_turn sample_codec (\<lambda>_. [33]) (plain_session (str ''general''))
      [Connection_Event all_fail (Some (From_Server (Group_Token_Rotated Member_Token (str ''lc_m''))))] sample_interactive)) = Some notice \<and>
    map_option (render_lobby (\<lambda>_. 1) length (\<lambda>_. 4) (\<lambda>_. []) (\<lambda>_. []) 80 24 sample_layout)
      (lobby_after (\<lambda>_. None) [Refresh_Tick] (opened_lobby [97] (Some notice) [])) =
    map_option (render_lobby (\<lambda>_. 1) length (\<lambda>_. 4) (\<lambda>_. []) (\<lambda>_. []) 80 24 sample_layout)
      (lobby_after (\<lambda>_. None) [Refresh_Tick] (opened_lobby [97] None []))"
proof -
  let ?session = "plain_session (str ''general'')"
  obtain store d e where "persist_rotated_token all_fail sample_codec (gsn_gateway_id (si_gateway ?session)) (w_group_id (si_welcome ?session))
      Member_Token (str ''lc_m'') (it_store sample_interactive) (it_disk sample_interactive) = (store, d, Inl e)"
    using sample_unsaved by (auto simp: plain_session_def sample_interactive_def)
  moreover have "credential_get (it_store sample_interactive) (gsn_gateway_id (si_gateway ?session)) (w_group_id (si_welcome ?session)) =
      Some sample_credential"
    by (simp add: plain_session_def sample_interactive_def credential_get_def sample_credentials_def)
  moreover have "80 < (92 :: nat)" by simp
  ultimately show ?thesis
    using rescued_token_is_not_shown [of sample_interactive ?session sample_credential all_fail sample_codec Member_Token "str ''lc_m''" store d e 80
      "\<lambda>_. [33]" "\<lambda>_. 1" length "\<lambda>_. 4" "\<lambda>_. []" "\<lambda>_. []" 24 sample_layout "\<lambda>_. None" "[Refresh_Tick]" "[97]" "[]" None None]
    by blast
qed

end
