(* ===== verification/Gateway_Files.thy ===== *)
theory Gateway_Files
  imports Gateway_State Secure_Channel Discovery Credentials
begin

text \<open>
  The data directory of a gateway (\<open>src/storage.rs\<close>): opening it, which creates the key and the database
  or migrates an older one, and the backup; and the start of a gateway (\<open>spawn_gateway\<close> of
  \<open>src/server.rs\<close>) up to the beacon it advertises. The database file is known by its schema version and its
  tables; file modes are left aside, the failing calls are a parameter, and
  a failure of SQLite other than a broken constraint is an \<open>Io_Error\<close>.
\<close>

section \<open>Files\<close>

text \<open>Tables of version 1: groups without access modes, no members, no requests. Version 2 added the first and the last.\<close>

record old_group_row =
  og_id :: uuid
  og_name :: rstring
  og_created :: int

record old_room_row =
  or_id :: rstring
  or_group :: uuid
  or_name :: rstring
  or_next_sequence :: int
  or_created :: int

record old_message_row =
  om_id :: uuid
  om_group :: uuid
  om_room :: rstring
  om_sequence :: int
  om_sender_session :: uuid
  om_sender_nickname :: rstring
  om_sent_at :: int
  om_body :: "byte list"

record old_tables =
  ot_gateway_id :: "uuid option"
  ot_rooms :: "old_room_row list"
  ot_messages :: "old_message_row list"

datatype stored_schema =
    Version_0
  | Version_1 "old_group_row list" old_tables
  | Version_2 "group_row list" "request_row list" old_tables
  | Version_3 database
  | Newer_Version nat

text \<open>A directory with the database, its key and the Noise key, as far as they exist.\<close>

record data_files =
  df_database :: "stored_schema option"
  df_key :: "byte list option"
  df_noise :: "byte list option"

type_synonym data_disk = "path \<Rightarrow> data_files option"

definition no_files :: data_files where
  "no_files = \<lparr>df_database = None, df_key = None, df_noise = None\<rparr>"

text \<open>The system calls that can fail.\<close>

datatype data_call = Create_Data_Directory | Open_Key | Read_Key | Create_Key | Write_Key | Sync_Key
  | Open_Database | Configure_Database | Read_Version | Migrate_Database
  | Create_Backup | Backup_Database | Protect_Backup | Copy_Key | Copy_Noise

text \<open>How much of a new key a failing write wrote, the key that was drawn, and what a failing backup left.\<close>

record data_conditions =
  dc_fails :: "data_call \<Rightarrow> bool"
  dc_written :: nat
  dc_fresh_key :: "byte list option"
  dc_partial :: "stored_schema option"

section \<open>The key\<close>

definition load_or_create_key :: "data_conditions \<Rightarrow> data_files \<Rightarrow> data_files \<times> (error + byte list)" where
  "load_or_create_key dc f =
     (if dc_fails dc Open_Key then (f, Inl (Bail (str ''failed to open the gateway database key'')))
      else case df_key f of
        Some content \<Rightarrow>
          (f, if dc_fails dc Read_Key \<or> length content < 32 then Inl (Bail (str ''gateway database key is truncated''))
              else if length content > 32 then Inl (Bail (str ''gateway database key has an invalid length''))
              else Inr content)
      | None \<Rightarrow>
          (case dc_fresh_key dc of
             None \<Rightarrow> (f, Inl (Bail (str ''failed to generate the gateway database key'')))
           | Some key \<Rightarrow>
               if dc_fails dc Create_Key then (f, Inl (Bail (str ''failed to create the gateway database key'')))
               else if dc_fails dc Write_Key then (f\<lparr>df_key := Some (take (dc_written dc) key)\<rparr>, Inl Io_Error)
               else if dc_fails dc Sync_Key then (f\<lparr>df_key := Some key\<rparr>, Inl Io_Error)
               else (f\<lparr>df_key := Some key\<rparr>, Inr key)))"

section \<open>The schema\<close>

definition migrated_group :: "old_group_row \<Rightarrow> group_row" where
  "migrated_group g = \<lparr>g_id = og_id g, g_name = og_name g, g_access = Public, g_admin_hash = None, g_invite_hash = None,
     g_created = og_created g\<rparr>"

definition migrated_room :: "old_room_row \<Rightarrow> room_row" where
  "migrated_room r = \<lparr>r_id = or_id r, r_group = or_group r, r_name = or_name r, r_visibility = Public_Room,
     r_next_sequence = or_next_sequence r, r_created = or_created r\<rparr>"

definition migrated_message :: "old_message_row \<Rightarrow> message_row" where
  "migrated_message m = \<lparr>m_id = om_id m, m_group = om_group m, m_room = om_room m, m_sequence = om_sequence m,
     m_sender_session = om_sender_session m, m_sender_member = 0, m_sender_nickname = om_sender_nickname m,
     m_sent_at = om_sent_at m, m_body = om_body m\<rparr>"

definition migrated_tables :: "group_row list \<Rightarrow> request_row list \<Rightarrow> old_tables \<Rightarrow> database" where
  "migrated_tables groups requests old =
     \<lparr>db_gateway_id = ot_gateway_id old, t_groups = groups, t_rooms = map migrated_room (ot_rooms old),
      t_messages = map migrated_message (ot_messages old), t_requests = requests, t_members = [], t_room_members = []\<rparr>"

text \<open>Each migration is one transaction, so a failing one leaves the file alone.\<close>

definition migrate :: "data_conditions \<Rightarrow> database \<Rightarrow> error + database" where
  "migrate dc d = (if dc_fails dc Migrate_Database then Inl Io_Error else if schema_ok d then Inr d else Inl Sqlite_Constraint)"

definition initialize_schema :: "data_conditions \<Rightarrow> stored_schema \<Rightarrow> error + database" where
  "initialize_schema dc stored =
     (if dc_fails dc Read_Version then Inl Io_Error
      else case stored of
        Newer_Version n \<Rightarrow>
          Inl (Bail (str ''gateway database schema '' @ show_nat n @ str '' is newer than this binary supports''))
      | Version_0 \<Rightarrow> migrate dc empty_database
      | Version_1 groups old \<Rightarrow> migrate dc (migrated_tables (map migrated_group groups) [] old)
      | Version_2 groups requests old \<Rightarrow> migrate dc (migrated_tables groups requests old)
      | Version_3 d \<Rightarrow> Inr d)"

section \<open>Opening\<close>

record gateway_store =
  st_database :: database
  st_key :: "byte list"

definition open_blocking :: "data_conditions \<Rightarrow> path \<Rightarrow> data_disk \<Rightarrow> data_disk \<times> (error + gateway_store)" where
  "open_blocking dc p disk =
     (if dc_fails dc Create_Data_Directory
      then (disk, Inl (Bail (str ''failed to create gateway data directory '' @ show_path p)))
      else
        (let files = (case disk p of Some f \<Rightarrow> f | None \<Rightarrow> no_files)
         in case load_or_create_key dc files of
              (f1, Inl e) \<Rightarrow> (disk(p \<mapsto> f1), Inl e)
            | (f1, Inr key) \<Rightarrow>
                if dc_fails dc Open_Database
                then (disk(p \<mapsto> f1), Inl (Bail (str ''failed to open the gateway SQLite database'')))
                else
                  (let stored = (case df_database f1 of Some s \<Rightarrow> s | None \<Rightarrow> Version_0); f2 = f1\<lparr>df_database := Some stored\<rparr>
                   in if dc_fails dc Configure_Database then (disk(p \<mapsto> f2), Inl Io_Error)
                      else case initialize_schema dc stored of
                        Inl e \<Rightarrow> (disk(p \<mapsto> f2), Inl e)
                      | Inr d \<Rightarrow> (disk(p \<mapsto> f2\<lparr>df_database := Some (Version_3 d)\<rparr>), Inr \<lparr>st_database = d, st_key = key\<rparr>))))"

section \<open>The backup\<close>

definition copy_error :: "path \<Rightarrow> rstring \<Rightarrow> error" where
  "copy_error p name = Bail (str ''failed to copy gateway secret '' @ show_path (p @ [name]) @ str '' into the backup'')"

definition backup_gateway_data ::
  "data_conditions \<Rightarrow> path \<Rightarrow> path \<Rightarrow> data_disk \<Rightarrow> data_disk \<times> (error + unit)" where
  "backup_gateway_data dc source destination disk =
     (if (case disk source of Some f \<Rightarrow> df_database f = None | None \<Rightarrow> True)
      then (disk, Inl (Bail (show_path source @ str '' does not contain a gateway database'')))
      else if disk destination \<noteq> None
      then (disk, Inl (Bail (str ''backup destination '' @ show_path destination @ str '' already exists'')))
      else case open_blocking dc source disk of
        (disk1, Inl e) \<Rightarrow> (disk1, Inl e)
      | (disk1, Inr store) \<Rightarrow>
          if dc_fails dc Create_Backup
          then (disk1, Inl (Bail (str ''failed to create gateway data directory '' @ show_path destination)))
          else if dc_fails dc Backup_Database
          then (disk1(destination \<mapsto> no_files\<lparr>df_database := dc_partial dc\<rparr>), Inl (Bail (str ''SQLite online backup failed'')))
          else
            (let f1 = no_files\<lparr>df_database := Some (Version_3 (st_database store))\<rparr>;
                 key = Option.bind (disk1 source) df_key; noise = Option.bind (disk1 source) df_noise
             in if dc_fails dc Protect_Backup then (disk1(destination \<mapsto> f1), Inl Io_Error)
                else if key = None \<or> dc_fails dc Copy_Key
                then (disk1(destination \<mapsto> f1), Inl (copy_error source (str ''gateway-db.key'')))
                else if noise = None \<or> dc_fails dc Copy_Noise
                then (disk1(destination \<mapsto> f1\<lparr>df_key := key\<rparr>), Inl (copy_error source (str ''gateway-noise.key'')))
                else (disk1(destination \<mapsto> f1\<lparr>df_key := key, df_noise := noise\<rparr>), Inr ())))"

section \<open>Starting a gateway\<close>

record gateway_config =
  gc_bind :: socket_addr
  gc_name :: rstring
  gc_advertise :: bool
  gc_data_dir :: path

record gateway_info =
  gi_gateway_id :: uuid
  gi_gateway_name :: rstring
  gi_listen_addr :: socket_addr
  gi_fingerprint :: rstring
  gi_data_dir :: path

record started_gateway =
  sg_info :: gateway_info
  sg_store :: gateway_store
  sg_keypair :: noise_keypair
  sg_groups :: "world list"
  sg_beacon :: "discovery_beacon option"

fun is_loopback :: "ip_addr \<Rightarrow> bool" where
  "is_loopback (V4 a) \<longleftrightarrow> drop_bit 24 a = 127"
| "is_loopback (V6 a) \<longleftrightarrow> a = 1"

definition gateway_beacon :: "gateway_info \<Rightarrow> discovery_beacon" where
  "gateway_beacon info =
     \<lparr>beacon_app = str ''lan-chat-gateway'', beacon_protocol_min = PROTOCOL_MIN, beacon_protocol_max = PROTOCOL_MAX,
      beacon_gateway_id = gi_gateway_id info, beacon_gateway_name = gi_gateway_name info,
      beacon_port = sa_port (gi_listen_addr info), beacon_server_fingerprint = gi_fingerprint info\<rparr>"

text \<open>
  What the system gives to a start: the failing calls on the files, a fresh identifier of the gateway, a
  fresh key pair, and the address the listener is bound to, if it can be bound.
\<close>

record start_conditions =
  sn_data :: data_conditions
  sn_fresh_id :: uuid
  sn_fresh_pair :: "noise_keypair option"
  sn_bound :: "socket_addr option"

definition set_files :: "(data_files \<Rightarrow> data_files) \<Rightarrow> path \<Rightarrow> data_disk \<Rightarrow> data_disk" where
  "set_files change p disk = disk(p := map_option change (disk p))"

definition spawn_gateway ::
  "(byte list \<Rightarrow> byte list) \<Rightarrow> (socket_addr \<Rightarrow> rstring) \<Rightarrow> start_conditions \<Rightarrow> gateway_config \<Rightarrow> data_disk \<Rightarrow> data_disk \<times> (error + started_gateway)" where
  "spawn_gateway blake3 show_addr sn config disk =
     (let p = gc_data_dir config
      in case sanitize_group_name (gc_name config) of
           Inl e \<Rightarrow> (disk, Inl e)
         | Inr name \<Rightarrow>
             (case open_blocking (sn_data sn) p disk of
                (disk1, Inl e) \<Rightarrow> (disk1, Inl e)
              | (disk1, Inr store) \<Rightarrow>
                  (let (d, gw) = gateway_id (sn_fresh_id sn) (st_database store);
                       disk2 = set_files (\<lambda>f. f\<lparr>df_database := Some (Version_3 d)\<rparr>) p disk1;
                       (noise, pair) = load_or_create_keypair (sn_fresh_pair sn) (Option.bind (disk2 p) df_noise);
                       disk3 = set_files (\<lambda>f. f\<lparr>df_noise := noise\<rparr>) p disk2
                   in case pair of
                        Inl e \<Rightarrow> (disk3, Inl e)
                      | Inr pair \<Rightarrow>
                          (case sn_bound sn of
                             None \<Rightarrow> (disk3, Inl (Bail (str ''failed to listen on '' @ show_addr (gc_bind config))))
                           | Some addr \<Rightarrow>
                               (let info = \<lparr>gi_gateway_id = gw, gi_gateway_name = name, gi_listen_addr = addr,
                                      gi_fingerprint = public_key_fingerprint blake3 (nk_public pair), gi_data_dir = p\<rparr>
                                in (disk3, Inr \<lparr>sg_info = info, sg_store = store\<lparr>st_database := d\<rparr>, sg_keypair = pair,
                                      sg_groups = load_groups d,
                                      sg_beacon = (if gc_advertise config \<and> \<not> is_loopback (sa_ip addr)
                                        then Some (gateway_beacon info) else None)\<rparr>))))))"

end
