(* ===== verification/Data_Theorems.thy ===== *)
theory Data_Theorems
  imports Gateway_Files Store_Invariants Channel_Theorems Store_Samples
begin

text \<open>
  The data directory over the life of a gateway: what restarts, backups and migrations keep, and that the
  beacon of a started gateway is the entry the users see.
\<close>

section \<open>Opening\<close>

lemma load_key_Inr:
  "load_or_create_key dc f = (f', Inr key) \<Longrightarrow>
   (df_key f = Some key \<and> length key = 32 \<and> f' = f) \<or> (df_key f = None \<and> dc_fresh_key dc = Some key \<and> f' = f\<lparr>df_key := Some key\<rparr>)"
  by (auto simp: load_or_create_key_def split: if_splits option.splits)



lemma open_elsewhere: "q \<noteq> p \<Longrightarrow> fst (open_blocking dc p disk) q = disk q"
  by (auto simp: open_blocking_def Let_def split: prod.split sum.split)

lemma open_Inr:
  assumes "open_blocking dc p disk = (disk', Inr store)"
  obtains f1 stored where
    "load_or_create_key dc (case disk p of Some f \<Rightarrow> f | None \<Rightarrow> no_files) = (f1, Inr (st_key store))"
    "stored = (case df_database f1 of Some s \<Rightarrow> s | None \<Rightarrow> Version_0)"
    "initialize_schema dc stored = Inr (st_database store)"
    "disk' = disk(p \<mapsto> f1\<lparr>df_database := Some (Version_3 (st_database store))\<rparr>)"
  using assms by (auto simp: open_blocking_def Let_def split: if_splits prod.splits sum.splits)

lemma opened_files:
  assumes "open_blocking dc p disk = (disk', Inr store)"
  shows "\<exists>f1. load_or_create_key dc (case disk p of Some f \<Rightarrow> f | None \<Rightarrow> no_files) = (f1, Inr (st_key store)) \<and>
    disk' = disk(p \<mapsto> f1\<lparr>df_database := Some (Version_3 (st_database store))\<rparr>)"
  by (rule open_Inr [OF assms]) blast

section \<open>A directory over the life of its gateway\<close>


definition files_sound :: "externals \<Rightarrow> data_files option \<Rightarrow> bool" where
  "files_sound X files \<longleftrightarrow> (case files of None \<Rightarrow> True | Some f \<Rightarrow>
     (case df_database f of
        None \<Rightarrow> True
      | Some Version_0 \<Rightarrow> True
      | Some (Version_3 d) \<Rightarrow> (\<exists>key. df_key f = Some key \<and> length key = 32 \<and> reachable X key d)
      | Some _ \<Rightarrow> False))"

lemma files_sound_simps [simp]:
  "files_sound X None" "df_database f = None \<Longrightarrow> files_sound X (Some f)" "df_database f = Some Version_0 \<Longrightarrow> files_sound X (Some f)"
  "df_database f = Some (Version_3 d) \<Longrightarrow>
     files_sound X (Some f) \<longleftrightarrow> (\<exists>key. df_key f = Some key \<and> length key = 32 \<and> reachable X key d)"
  by (simp_all add: files_sound_def)


lemma backup_elsewhere: "r \<noteq> p \<Longrightarrow> r \<noteq> q \<Longrightarrow> fst (backup_gateway_data dc p q disk) r = disk r"
  using open_elsewhere [of r p dc disk] by (auto simp: backup_gateway_data_def Let_def split: prod.split sum.split)

lemma backup_source:
  "disk q = None \<or> fst (backup_gateway_data dc p q disk) = disk \<or> q = p" if "disk q \<noteq> None" for q
  using that by (simp add: backup_gateway_data_def)


lemma backup_Inr:
  assumes "backup_gateway_data dc p q disk = (disk', Inr ())"
  obtains store key noise where "snd (open_blocking dc p disk) = Inr store" "disk q = None" "p \<noteq> q"
    "Option.bind (fst (open_blocking dc p disk) p) df_key = Some key"
    "Option.bind (fst (open_blocking dc p disk) p) df_noise = Some noise"
    "disk' = (fst (open_blocking dc p disk))(q \<mapsto>
       \<lparr>df_database = Some (Version_3 (st_database store)), df_key = Some key, df_noise = Some noise\<rparr>)"
proof -
  obtain disk1 r where o: "open_blocking dc p disk = (disk1, r)" by (cases "open_blocking dc p disk")
  have "disk q = None" "p \<noteq> q" using assms by (auto simp: backup_gateway_data_def split: if_splits)
  with assms o that show thesis
    by (auto simp: backup_gateway_data_def no_files_def Let_def split: if_splits sum.splits)
qed



section \<open>Backups\<close>

abbreviation no_failure :: "data_conditions \<Rightarrow> bool" where
  "no_failure dc \<equiv> \<forall>c. \<not> dc_fails dc c"

text \<open>
  C28. A completed backup restores the gateway. Opening the backup gives the database and the key that opening
  the source gave, and the Noise key file is the same, so the history reads the same and clients that
  pinned the fingerprint still connect; the backup may be opened with any other fresh key at hand.
\<close>

theorem backup_restores:
  assumes "backup_gateway_data dc p q disk = (disk', Inr ())" "\<And>key. dc_fresh_key dc = Some key \<Longrightarrow> length key = 32" "no_failure dc'"
  shows "\<exists>store. snd (open_blocking dc p disk) = Inr store \<and> snd (open_blocking dc' q disk') = Inr store \<and>
    snd (open_blocking dc' p disk') = Inr store \<and> Option.bind (disk' q) df_noise = Option.bind (disk' p) df_noise \<and>
    load_or_create_keypair fresh (Option.bind (disk' q) df_noise) = load_or_create_keypair fresh' (Option.bind (disk' p) df_noise)"
proof -
  from backup_Inr [OF assms(1)] obtain store key noise where b: "snd (open_blocking dc p disk) = Inr store" "p \<noteq> q"
    "Option.bind (fst (open_blocking dc p disk) p) df_key = Some key" "Option.bind (fst (open_blocking dc p disk) p) df_noise = Some noise"
    "disk' = (fst (open_blocking dc p disk))(q \<mapsto>
       \<lparr>df_database = Some (Version_3 (st_database store)), df_key = Some key, df_noise = Some noise\<rparr>)" .
  obtain disk1 where o: "open_blocking dc p disk = (disk1, Inr store)" using b(1) by (cases "open_blocking dc p disk") auto
  from open_Inr [OF o] obtain f1 where f1:
    "load_or_create_key dc (case disk p of Some f \<Rightarrow> f | None \<Rightarrow> no_files) = (f1, Inr (st_key store))"
    "disk1 p = Some (f1\<lparr>df_database := Some (Version_3 (st_database store))\<rparr>)" by (metis fun_upd_same)
  have key: "df_key f1 = Some (st_key store)" "length (st_key store) = 32" using load_key_Inr [OF f1(1)] assms(2) by auto
  have reopened: "snd (open_blocking dc' r disk') = Inr store"
    if "disk' r = Some f" "df_key f = Some (st_key store)" "df_database f = Some (Version_3 (st_database store))" for r f
    using that key(2) assms(3) by (simp add: open_blocking_def load_or_create_key_def initialize_schema_def Let_def)
  have "disk' p = Some (f1\<lparr>df_database := Some (Version_3 (st_database store))\<rparr>)" using b(2,5) f1(2) o by simp
  moreover have "disk' q = Some \<lparr>df_database = Some (Version_3 (st_database store)), df_key = Some (st_key store), df_noise = Some noise\<rparr>"
    using b(3,5) f1(2) o key(1) by simp
  moreover have "df_noise f1 = Some noise" using b(4) f1(2) o by simp
  ultimately show ?thesis
    using reopened [of p] reopened [of q] b(1) key(1) by (intro exI [of _ store]) (simp add: load_or_create_keypair_def)
qed

text \<open>
  The backup opens its source like a start does, so a database of an older version is migrated in place by
  the program that is to save it, even if the backup itself fails then.
\<close>

theorem backup_migrates_the_source:
  assumes "disk p = Some f" "df_database f = Some (Version_1 groups old)" "disk q = None" "open_blocking dc p disk = (disk1, Inr store)"
  shows "\<exists>f'. fst (backup_gateway_data dc p q disk) p = Some f' \<and>
    df_database f' = Some (Version_3 (migrated_tables (map migrated_group groups) [] old))"
proof -
  have "p \<noteq> q" using assms(1,3) by auto
  from open_Inr [OF assms(4)] obtain f1 stored where o:
    "load_or_create_key dc (case disk p of Some f \<Rightarrow> f | None \<Rightarrow> no_files) = (f1, Inr (st_key store))"
    "stored = (case df_database f1 of Some s \<Rightarrow> s | None \<Rightarrow> Version_0)" "initialize_schema dc stored = Inr (st_database store)"
    "disk1 = disk(p \<mapsto> f1\<lparr>df_database := Some (Version_3 (st_database store))\<rparr>)" .
  have "df_database f1 = df_database f" using load_key_Inr [OF o(1)] assms(1) by auto
  then have "st_database store = migrated_tables (map migrated_group groups) [] old"
    using o(2,3) assms(2) by (auto simp: initialize_schema_def migrate_def split: if_splits)
  moreover have "fst (backup_gateway_data dc p q disk) p = disk1 p"
    using \<open>p \<noteq> q\<close> assms by (auto simp: backup_gateway_data_def Let_def)
  ultimately show ?thesis using o(4) by simp
qed

text \<open>
  An incomplete backup stands in the way. When the key can not be copied, the directory with the database
  stays: the next backup to it is refused, and a gateway that is started on it takes a fresh key without
  a word, under which no message opens that is not sealed under it too.
\<close>

theorem incomplete_backup_opens:
  assumes "disk q = None" "disk p = Some f" "df_database f \<noteq> None" "open_blocking dc p disk = (disk1, Inr store)"
    and "\<And>c. dc_fails dc c \<longleftrightarrow> c = Copy_Key" "no_failure dc'" "dc_fresh_key dc' = Some key"
  shows "\<exists>disk2. backup_gateway_data dc p q disk = (disk2, Inl (copy_error p (str ''gateway-db.key''))) \<and>
    snd (backup_gateway_data dc' p q disk2) = Inl (Bail (str ''backup destination '' @ show_path q @ str '' already exists'')) \<and>
    snd (open_blocking dc' q disk2) = Inr \<lparr>st_database = st_database store, st_key = key\<rparr>"
proof -
  have "p \<noteq> q" using assms(1,2) by auto
  from open_Inr [OF assms(4)] obtain f1 where disk1:
    "disk1 = disk(p \<mapsto> f1\<lparr>df_database := Some (Version_3 (st_database store))\<rparr>)" by metis
  obtain stored where version: "df_database f = Some stored" using assms(3) by auto
  let ?disk2 = "disk1(q \<mapsto> no_files\<lparr>df_database := Some (Version_3 (st_database store))\<rparr>)"
  have first: "backup_gateway_data dc p q disk = (?disk2, Inl (copy_error p (str ''gateway-db.key'')))"
    using assms(1,2,4,5) version by (simp add: backup_gateway_data_def Let_def)
  have again: "snd (backup_gateway_data dc' p q ?disk2) = Inl (Bail (str ''backup destination '' @ show_path q @ str '' already exists''))"
    using \<open>p \<noteq> q\<close> disk1 by (simp add: backup_gateway_data_def)
  have "snd (open_blocking dc' q ?disk2) = Inr \<lparr>st_database = st_database store, st_key = key\<rparr>"
    using assms(6,7) by (simp add: open_blocking_def load_or_create_key_def initialize_schema_def no_files_def Let_def)
  with first again show ?thesis by blast
qed

section \<open>Groups of version 1\<close>

text \<open>A group that has no administrator token and no administrator.\<close>

definition ownerless :: "uuid \<Rightarrow> database \<Rightarrow> bool" where
  "ownerless gid d \<longleftrightarrow> gid \<in> g_id ` set (t_groups d) \<and> (\<forall>g\<in>set (t_groups d). g_id g = gid \<longrightarrow> g_admin_hash g = None) \<and>
     (\<forall>m\<in>set (t_members d). gm_group m = gid \<longrightarrow> gm_role m \<noteq> Admin)"

lemma updated_ids:
  assumes "\<And>g. g_id (f g) = g_id g"
  shows "g_id ` set (update_where P f gs) = g_id ` set gs"
proof -
  have "map g_id (update_where P f gs) = map g_id gs" using assms by (simp add: update_where_def)
  then show ?thesis by (metis set_map)
qed

lemma effect_ownerless:
  assumes "effect X key d d'" "ownerless gid d"
  shows "ownerless gid d'"
  using assms
proof (induction rule: effect.induct)
  case (eff_group d' m r g d)
  then have "g_id g \<noteq> gid" by (auto simp: ownerless_def schema_ok_def groups_ok_def insert_group_row_def insert_room_row_def insert_member_row_def)
  with eff_group show ?case by (auto simp: ownerless_def insert_group_row_def insert_room_row_def insert_member_row_def)
next
  case (eff_admin d' m d g)
  have "g \<in> set (t_groups d)" "g_id g = gm_group m" using eff_admin by (auto simp: find_group_def dest: find_eq_Some_filter)
  moreover have "g_admin_hash g \<noteq> None" using eff_admin by (auto simp: both_match_def split: option.splits)
  ultimately have "gm_group m \<noteq> gid" using eff_admin by (auto simp: ownerless_def)
  with eff_admin show ?case by (auto simp: ownerless_def insert_member_row_def)
next
  case (eff_admin_token d' gid' actor h d)
  then have "gid' \<noteq> gid" by (auto simp: ownerless_def active_admin_def)
  with eff_admin_token show ?case by (auto simp: ownerless_def updated_ids update_members_def update_groups_def set_update_where)
qed (auto simp: ownerless_def insert_member_row_def insert_room_row_def insert_request_row_def insert_room_member_row_def insert_message_row_def
  updated_ids update_members_def update_groups_def update_requests_def update_rooms_def delete_requests_def delete_room_members_def set_update_where)

lemma issue_member_role: "issue_member X now mid entropy gid nick d = (d', Inr (Allowed role m t)) \<Longrightarrow> role = Member"
  by (auto simp: issue_member_def split: if_splits sum.splits)

lemma ownerless_join:
  assumes "ownerless gid d" "authorize_join X now mid entropy gid credential nick d = (d', Inr (Allowed role m t))"
  shows "role = Member"
proof -
  have known: "gm_role m \<noteq> Admin" if "member_by_hash d gid h = Some m" for h m
    using that assms(1) by (auto simp: member_by_hash_def ownerless_def dest!: find_eq_Some_filter)
  have none: "g_admin_hash g = None" if "find_group d gid = Some g" for g
    using that assms(1) by (auto simp: find_group_def ownerless_def dest!: find_eq_Some_filter)
  have "role \<noteq> Admin"
    using assms(2)
    by (auto simp: authorize_join_def authorize_known_member_def authorize_approval_def both_match_def none bind_eq_Some_conv
      split: option.splits sum.splits if_splits group_access_mode.splits prod.splits request_status.splits
      dest: known issue_member_role)
  then show ?thesis by (cases role) simp_all
qed

text \<open>
  A group of version 1 never gets an administrator. Version 1 had no administrator tokens; the migration
  keeps such a group, public and with all its messages, but whatever is done with the store afterwards,
  no join to it is granted the role of an administrator, so nobody is ever banned from it.
\<close>

theorem migrated_group_stays_ownerless:
  assumes "initialize_schema dc (Version_1 groups old) = Inr d" "og \<in> set groups" "(store_step X key)\<^sup>*\<^sup>* d d'"
    and "authorize_join X now mid entropy (og_id og) credential nick d' = (d'', Inr (Allowed role m t))"
  shows "role = Member"
proof -
  have "d = migrated_tables (map migrated_group groups) [] old"
    using assms(1) by (auto simp: initialize_schema_def migrate_def split: if_splits)
  then have "ownerless (og_id og) d"
    using assms(2) by (auto simp: ownerless_def migrated_tables_def migrated_group_def image_iff)
  moreover have "effects X key d d'"
    using assms(3) by (induction rule: rtranclp_induct) (auto intro: rtranclp_trans dest: store_step_effects)
  then have "ownerless (og_id og) d \<longrightarrow> ownerless (og_id og) d'"
    by (induction rule: rtranclp_induct) (auto intro: effect_ownerless)
  ultimately have "ownerless (og_id og) d'" by simp
  from ownerless_join [OF this assms(4)] show ?thesis .
qed

section \<open>The beacon\<close>

text \<open>
  C29. A started gateway is found as it is. The beacon it advertises, received from its address, becomes the
  entry that users see: the identifier, the name, the port and exactly the fingerprint of the key that the
  gateway proves in a handshake; given that a beacon is decoded as it was encoded and fits into a datagram,
  and that the name passes the filter a second time (which not every accepted name does).
\<close>

theorem started_gateway_is_found:
  assumes "spawn_gateway blake3 show_addr sn config disk = (disk', Inr gateway)" "sg_beacon gateway = Some beacon"
    and "decode (encode beacon) = Some beacon" "encode beacon \<noteq> []" "length (encode beacon) < MAX_BEACON_SIZE"
    and "\<And>key. length (blake3 key) = 32" "sa_port (gi_listen_addr (sg_info gateway)) \<noteq> 0"
    and "sanitize_group_name (gi_gateway_name (sg_info gateway)) = Inr (gi_gateway_name (sg_info gateway))"
  shows "accept_datagram decode source (encode beacon) = Some
    \<lparr>dg_gateway_id = gi_gateway_id (sg_info gateway), dg_gateway_name = gi_gateway_name (sg_info gateway),
     dg_endpoint = \<lparr>sa_ip = source, sa_port = sa_port (gi_listen_addr (sg_info gateway))\<rparr>,
     dg_server_fingerprint = public_key_fingerprint blake3 (nk_public (sg_keypair gateway)),
     dg_protocol_min = PROTOCOL_MIN, dg_protocol_max = PROTOCOL_MAX\<rparr>"
proof -
  have info: "gi_fingerprint (sg_info gateway) = public_key_fingerprint blake3 (nk_public (sg_keypair gateway))"
    "beacon = gateway_beacon (sg_info gateway)"
    using assms(1,2) by (auto simp: spawn_gateway_def Let_def split: sum.splits prod.splits option.splits if_splits)
  have "is_valid_fingerprint (gi_fingerprint (sg_info gateway))"
    using fingerprint_valid [of "take 12 (blake3 (nk_public (sg_keypair gateway)))"] assms(6)
    by (simp add: info(1) public_key_fingerprint_def)
  then have "beacon_acceptable beacon"
    using assms(7) by (simp add: beacon_acceptable_def info(2) gateway_beacon_def PROTOCOL_MIN_def PROTOCOL_MAX_def)
  moreover have "received_bytes (encode beacon) = encode beacon" using assms(5) by (simp add: received_bytes_def)
  ultimately show ?thesis
    using assms(3-5,8) by (simp add: accept_datagram_def Let_def info(1)) (simp add: info gateway_beacon_def)
qed

section \<open>Samples\<close>

definition sample_conditions :: "(data_call \<Rightarrow> bool) \<Rightarrow> data_conditions" where
  "sample_conditions fails = \<lparr>dc_fails = fails, dc_written = 0, dc_fresh_key = Some (replicate 32 7), dc_partial = None\<rparr>"

definition sample_data :: "stored_schema \<Rightarrow> data_disk" where
  "sample_data stored = (\<lambda>_. None)([[100]] \<mapsto> \<lparr>df_database = Some stored, df_key = Some (replicate 32 7), df_noise = Some [1]\<rparr>)"

lemma sample_reopens:
  "\<exists>disk'. open_blocking (sample_conditions fails) [[100]] (sample_data (Version_3 empty_database)) =
     (disk', Inr \<lparr>st_database = empty_database, st_key = replicate 32 7\<rparr>)" if "\<And>c. fails c \<Longrightarrow> c = Copy_Key"
proof -
  have "\<not> fails Create_Data_Directory" "\<not> fails Open_Key" "\<not> fails Read_Key" "\<not> fails Open_Database"
    "\<not> fails Configure_Database" "\<not> fails Read_Version" using that by blast+
  then show ?thesis
    by (simp add: open_blocking_def load_or_create_key_def initialize_schema_def sample_data_def sample_conditions_def Let_def)
qed


theorem backup_restores_witness:
  "\<exists>disk' store. backup_gateway_data (sample_conditions (\<lambda>_. False)) [[100]] [[98]] (sample_data (Version_3 empty_database)) = (disk', Inr ()) \<and>
     snd (open_blocking (sample_conditions (\<lambda>_. False)) [[98]] disk') = Inr store \<and> st_key store = replicate 32 7"
proof -
  let ?dc = "sample_conditions (\<lambda>_. False)" and ?disk = "sample_data (Version_3 empty_database)"
  obtain disk1 where o: "open_blocking ?dc [[100]] ?disk = (disk1, Inr \<lparr>st_database = empty_database, st_key = replicate 32 7\<rparr>)"
    using sample_reopens [of "\<lambda>_. False"] by blast
  from opened_files [OF o] obtain f1 where "load_or_create_key ?dc (the (?disk [[100]])) = (f1, Inr (replicate 32 7))"
    "disk1 = ?disk([[100]] \<mapsto> f1\<lparr>df_database := Some (Version_3 empty_database)\<rparr>)" by (auto simp: sample_data_def)
  then have d1: "disk1 = ?disk([[100]] \<mapsto> \<lparr>df_database = Some (Version_3 empty_database), df_key = Some (replicate 32 7), df_noise = Some [1]\<rparr>)"
    by (auto simp: sample_data_def dest!: load_key_Inr)
  obtain disk' where b: "backup_gateway_data ?dc [[100]] [[98]] ?disk = (disk', Inr ())"
    using o d1 by (simp add: backup_gateway_data_def sample_data_def Let_def) (simp add: sample_conditions_def Let_def)
  have key: "length key = 32" if "dc_fresh_key ?dc = Some key" for key using that by (auto simp: sample_conditions_def)
  have "no_failure ?dc" by (simp add: sample_conditions_def)
  from backup_restores [OF b key this] obtain store where
    "snd (open_blocking ?dc [[100]] ?disk) = Inr store" "snd (open_blocking ?dc [[98]] disk') = Inr store" by blast
  with b o show ?thesis by auto
qed

theorem incomplete_backup_opens_witness:
  "\<exists>disk2. backup_gateway_data (sample_conditions (\<lambda>c. c = Copy_Key)) [[100]] [[98]] (sample_data (Version_3 empty_database)) =
      (disk2, Inl (copy_error [[100]] (str ''gateway-db.key''))) \<and>
    snd (open_blocking (sample_conditions (\<lambda>_. False)) [[98]] disk2) = Inr \<lparr>st_database = empty_database, st_key = replicate 32 7\<rparr>"
proof -
  obtain disk1 where o: "open_blocking (sample_conditions (\<lambda>c. c = Copy_Key)) [[100]] (sample_data (Version_3 empty_database)) =
      (disk1, Inr \<lparr>st_database = empty_database, st_key = replicate 32 7\<rparr>)"
    using sample_reopens [of "\<lambda>c. c = Copy_Key"] by blast
  show ?thesis
    using incomplete_backup_opens [OF _ _ _ o, of "[[98]]" "\<lparr>df_database = Some (Version_3 empty_database), df_key = Some (replicate 32 7), df_noise = Some [1]\<rparr>"
      "sample_conditions (\<lambda>_. False)" "replicate 32 7"]
    by (auto simp: sample_data_def sample_conditions_def)
qed

definition sample_old_group :: old_group_row where
  "sample_old_group = \<lparr>og_id = 5, og_name = [108], og_created = 1\<rparr>"

definition sample_old_tables :: old_tables where
  "sample_old_tables = \<lparr>ot_gateway_id = None, ot_rooms = [], ot_messages = []\<rparr>"

theorem migrated_group_stays_ownerless_witness:
  "\<exists>d d'' role t. initialize_schema (sample_conditions (\<lambda>_. False)) (Version_1 [sample_old_group] sample_old_tables) = Inr d \<and>
     authorize_join sample_externals 1 9 (Some (replicate 32 1)) 5 None [97] d = (d'', Inr (Allowed role 9 t)) \<and> role = Member"
proof -
  let ?d = "migrated_tables [migrated_group sample_old_group] [] sample_old_tables"
  have d: "initialize_schema (sample_conditions (\<lambda>_. False)) (Version_1 [sample_old_group] sample_old_tables) = Inr ?d"
    by (simp add: initialize_schema_def migrate_def sample_conditions_def migrated_tables_def sample_old_tables_def schema_ok_def table_ok_defs)
  obtain token where token: "generate_credential (str ''member'') (Some (replicate 32 1)) = Inr token" "is_valid_group_credential token"
    using generate_credential_valid [of "str ''member''" "replicate 32 1"] by (auto simp: generate_credential_def token_kinds_def)
  have "\<exists>d''. authorize_join sample_externals 1 9 (Some (replicate 32 1)) 5 None [97] ?d = (d'', Inr (Allowed Member 9 (Some token)))"
    by (simp add: authorize_join_def find_group_def migrated_tables_def migrated_group_def sample_old_group_def sample_old_tables_def transpose_option_def
      both_match_def issue_member_def rows_matching_def MAX_GROUP_MEMBERS_def token insert_group_member_def credential_hash_def execute_def
      insert_member_row_def schema_ok_def table_ok_defs)
  then obtain d'' where j: "authorize_join sample_externals 1 9 (Some (replicate 32 1)) (og_id sample_old_group) None [97] ?d = (d'', Inr (Allowed Member 9 (Some token)))"
    by (auto simp: sample_old_group_def)
  have "Member = Member" using migrated_group_stays_ownerless [OF d _ rtranclp.rtrancl_refl j] by simp
  with d j show ?thesis by (auto simp: sample_old_group_def)
qed

definition sample_start :: start_conditions where
  "sample_start = \<lparr>sn_data = sample_conditions (\<lambda>_. False), sn_fresh_id = 1,
     sn_fresh_pair = Some \<lparr>nk_private = replicate 32 3, nk_public = replicate 32 4\<rparr>, sn_bound = Some \<lparr>sa_ip = V4 0xC0A80102, sa_port = 7373\<rparr>\<rparr>"

definition sample_config :: gateway_config where
  "sample_config = \<lparr>gc_bind = \<lparr>sa_ip = V4 0, sa_port = 7373\<rparr>, gc_name = [103], gc_advertise = True, gc_data_dir = [[100]]\<rparr>"

theorem started_gateway_is_found_witness:
  "\<exists>disk' gateway beacon entry. spawn_gateway (\<lambda>_. replicate 32 0) (\<lambda>_. []) sample_start sample_config (\<lambda>_. None) = (disk', Inr gateway) \<and>
     sg_beacon gateway = Some beacon \<and> accept_datagram (\<lambda>_. Some beacon) (V4 0xC0A80102) [1] = Some entry \<and>
     dg_endpoint entry = \<lparr>sa_ip = V4 0xC0A80102, sa_port = 7373\<rparr>"
proof -
  have name: "sanitize_group_name [103] = Inr [103]"
    by (simp add: sanitize_group_name_def sanitize_single_line_def flatten_char_def byte_len_def len_utf8_def limits is_forbidden_terminal_char_def
      is_control_def trim_def trim_start_def trim_end_def is_whitespace_def)
  obtain disk1 where o: "open_blocking (sample_conditions (\<lambda>_. False)) [[100]] (\<lambda>_. None) = (disk1, Inr \<lparr>st_database = empty_database, st_key = replicate 32 7\<rparr>)"
    by (simp add: open_blocking_def load_or_create_key_def initialize_schema_def migrate_def schema_ok_empty no_files_def sample_conditions_def Let_def)
  from opened_files [OF o] obtain f1 where f1: "load_or_create_key (sample_conditions (\<lambda>_. False)) no_files = (f1, Inr (replicate 32 7))"
    "disk1 [[100]] = Some (f1\<lparr>df_database := Some (Version_3 empty_database)\<rparr>)" by auto
  have noise: "Option.bind (map_option (df_database_update f) (disk1 [[100]])) df_noise = None" for f
    using load_key_Inr [OF f1(1)] f1(2) by (auto simp: no_files_def)
  have fresh: "db_gateway_id empty_database = None" by (simp add: empty_database_def)
  obtain disk' gateway beacon where g: "spawn_gateway (\<lambda>_. replicate 32 0) (\<lambda>_. []) sample_start sample_config (\<lambda>_. None) = (disk', Inr gateway)"
    "sg_beacon gateway = Some beacon" "gi_gateway_name (sg_info gateway) = [103]" "gi_listen_addr (sg_info gateway) = \<lparr>sa_ip = V4 0xC0A80102, sa_port = 7373\<rparr>"
    by (simp add: spawn_gateway_def sample_start_def sample_config_def name o gateway_id_def fresh load_or_create_keypair_def set_files_def noise Let_def)
  have key: "length (replicate 32 (0::byte)) = 32" by simp
  show ?thesis
    using started_gateway_is_found [OF g(1,2), of "\<lambda>_. Some beacon" "\<lambda>_. [1]" "V4 0xC0A80102"] g name
    by (auto simp: MAX_BEACON_SIZE_def)
qed

end
