(* ===== verification/Serving.thy ===== *)
theory Serving
  imports Gateway_Files Command_Line Direct_Chat Gateway_Session
begin

text \<open>
  The parts that run around a gateway: the loops that accept connections (\<open>run_accept_loop\<close> of
  \<open>src/server.rs\<close>, \<open>accept_direct_connections\<close> of \<open>src/direct.rs\<close>), the sending of beacons (\<open>advertise\<close> of
  \<open>src/discovery.rs\<close>), and the commands \<open>gateway\<close>, \<open>backup\<close> and \<open>host\<close> of \<open>src/main.rs\<close>. What the sockets
  do is a list of events.
\<close>

section \<open>Accepting connections\<close>

definition MAX_CONNECTIONS :: nat where [limits]: "MAX_CONNECTIONS = 128"

text \<open>A connection arrives or ends by itself, the listener fails, or the shutdown is signalled.\<close>

datatype accept_event = Arrives nat | Ends nat | Accept_Fails error | Shut_Down

text \<open>The connections that hold a permit and those that were dropped because there was none.\<close>

record acceptor =
  ac_serving :: "nat list"
  ac_dropped :: "nat list"

definition nobody :: acceptor where
  "nobody = \<lparr>ac_serving = [], ac_dropped = []\<rparr>"

definition admit :: "nat \<Rightarrow> nat \<Rightarrow> acceptor \<Rightarrow> acceptor" where
  "admit slots c ac =
     (if length (ac_serving ac) < slots then ac\<lparr>ac_serving := ac_serving ac @ [c]\<rparr> else ac\<lparr>ac_dropped := ac_dropped ac @ [c]\<rparr>)"

definition release :: "nat \<Rightarrow> acceptor \<Rightarrow> acceptor" where
  "release c ac = ac\<lparr>ac_serving := remove1 c (ac_serving ac)\<rparr>"

text \<open>The loop ends with the result of the task, \<open>None\<close> while it waits.\<close>

fun run_accept_loop :: "accept_event list \<Rightarrow> acceptor \<Rightarrow> acceptor \<times> (error + unit) option" where
  "run_accept_loop [] ac = (ac, None)"
| "run_accept_loop (Arrives c # events) ac = run_accept_loop events (admit MAX_CONNECTIONS c ac)"
| "run_accept_loop (Ends c # events) ac = run_accept_loop events (release c ac)"
| "run_accept_loop (Accept_Fails e # events) ac = (ac, Some (Inl (Bail (str ''failed to accept a client''))))"
| "run_accept_loop (Shut_Down # events) ac = (ac, Some (Inr ()))"

text \<open>For private links a failing listener ends the loop like a shutdown; the answer is whether it ended.\<close>

fun accept_direct_connections :: "accept_event list \<Rightarrow> acceptor \<Rightarrow> acceptor \<times> bool" where
  "accept_direct_connections [] ac = (ac, False)"
| "accept_direct_connections (Arrives c # events) ac = accept_direct_connections events (admit MAX_DIRECT_CONNECTIONS c ac)"
| "accept_direct_connections (Ends c # events) ac = accept_direct_connections events (release c ac)"
| "accept_direct_connections (Accept_Fails e # events) ac = (ac, True)"
| "accept_direct_connections (Shut_Down # events) ac = (ac, True)"

lemma admit_bounded: "length (ac_serving ac) \<le> slots \<Longrightarrow> length (ac_serving (admit slots c ac)) \<le> slots"
  by (simp add: admit_def)

lemma release_bounded: "length (ac_serving ac) \<le> slots \<Longrightarrow> length (ac_serving (release c ac)) \<le> slots"
  using length_remove1 [of c "ac_serving ac"] by (auto simp: release_def)

text \<open>
  The slots are never exceeded, and a connection that ends makes room: whatever happened, after one of the
  served connections has ended the next one is served.
\<close>

theorem connections_bounded:
  assumes "run_accept_loop events nobody = (ac, finish)"
  shows "length (ac_serving ac) \<le> MAX_CONNECTIONS \<and>
    (c \<in> set (ac_serving ac) \<longrightarrow> new \<in> set (ac_serving (admit MAX_CONNECTIONS new (release c ac))))"
proof -
  have "length (ac_serving (fst (run_accept_loop events a))) \<le> MAX_CONNECTIONS" if "length (ac_serving a) \<le> MAX_CONNECTIONS" for a
    using that by (induction events a rule: run_accept_loop.induct) (simp_all add: admit_bounded release_bounded)
  from this [of nobody] have len: "length (ac_serving ac) \<le> MAX_CONNECTIONS" using assms by (simp add: nobody_def)
  have "length (remove1 c (ac_serving ac)) < MAX_CONNECTIONS" if "c \<in> set (ac_serving ac)"
    using len length_pos_if_in_set [OF that] that by (cases "length (ac_serving ac)") (simp_all add: length_remove1)
  with len show ?thesis by (auto simp: admit_def release_def)
qed

theorem direct_connections_bounded:
  "length (ac_serving ac) \<le> MAX_DIRECT_CONNECTIONS \<Longrightarrow>
   length (ac_serving (fst (accept_direct_connections events ac))) \<le> MAX_DIRECT_CONNECTIONS"
  by (induction events ac rule: accept_direct_connections.induct) (simp_all add: admit_bounded release_bounded)

section \<open>One connection up to its group\<close>

text \<open>A read under a time limit.\<close>

datatype 'a timed = Timed_Out | In_Time "error + 'a"

definition within_time :: "string \<Rightarrow> 'a timed \<Rightarrow> error + 'a" where
  "within_time message t = (case t of Timed_Out \<Rightarrow> Inl (Bail (str message)) | In_Time r \<Rightarrow> r)"

text \<open>What is written before the connection ends or enters; a write that fails ends it with its error.\<close>

fun write_messages :: "(server_message \<Rightarrow> error + unit) \<Rightarrow> server_message list \<Rightarrow> error + unit" where
  "write_messages write [] = Inr ()"
| "write_messages write (m # ms) = and_then (write m) (\<lambda>_. write_messages write ms)"

text \<open>
  \<open>handle_client\<close> until \<open>enter_group\<close>: the handshake, the hello, the welcome and the selection in their order,
  each read with its time limit. \<open>shown\<close> are the groups at the time of the welcome, \<open>groups\<close> those at the time
  of the selection.
\<close>

record arrival =
  ar_remote :: ip_addr
  ar_handshake :: "unit timed"
  ar_hello :: "client_message timed"
  ar_selection :: "client_message timed"

definition handle_client ::
  "externals \<Rightarrow> selection_draws \<Rightarrow> uuid \<Rightarrow> rstring \<Rightarrow> (server_message \<Rightarrow> error + unit) \<Rightarrow> arrival \<Rightarrow>
   group_summary list \<Rightarrow> uuid set \<Rightarrow> database \<Rightarrow> database \<times> selection" where
  "handle_client X sd gw name write ar shown groups d =
     (case within_time ''Noise handshake timed out'' (ar_handshake ar) of
        Inl e \<Rightarrow> (d, Failed e)
      | Inr _ \<Rightarrow>
          (case within_time ''client hello timed out'' (ar_hello ar) of
             Inl e \<Rightarrow> (d, Failed e)
           | Inr message \<Rightarrow>
               (case accept_hello (ar_remote ar) message of
                  (out, Inl e) \<Rightarrow> (d, Failed (case write_messages write out of Inl e' \<Rightarrow> e' | Inr _ \<Rightarrow> e))
                | (out, Inr hello) \<Rightarrow>
                    (case and_then (write (gateway_welcome gw name hello shown))
                            (\<lambda>_. within_time ''client did not select a group in time'' (ar_selection ar)) of
                       Inl e \<Rightarrow> (d, Failed e)
                     | Inr chosen \<Rightarrow>
                         (case select_group X sd hello chosen groups d of
                            (d', out, result) \<Rightarrow>
                              (d', case write_messages write out of Inl e \<Rightarrow> Failed e | Inr _ \<Rightarrow> result))))))"

lemma accept_hello_Inr:
  assumes "accept_hello remote m = (out, Inr hello)"
  obtains lo hi nick port fp where "m = Hello lo hi nick port fp" "sanitize_nickname nick = Inr (ha_nickname hello)"
    "PROTOCOL_MIN \<le> ha_negotiated hello" "ha_negotiated hello \<le> PROTOCOL_MAX"
  using assms
  by (cases m) (auto simp: and_then_Inr negotiate_def Let_def min_def split: option.splits if_splits)

lemma select_group_entering:
  "select_group X sd hello chosen groups d = (d', out, Entering gid entry) \<Longrightarrow>
   ge_nickname entry = ha_nickname hello \<and> ge_negotiated entry = ha_negotiated hello"
  by (cases chosen)
    (auto simp: select_join_def select_create_def entry_for_def split: if_splits option.splits sum.splits prod.splits join_authorization.splits)

lemma select_group_writes:
  "select_group X sd hello chosen groups d = (d', out, result) \<Longrightarrow> d' \<noteq> d \<Longrightarrow>
   (\<exists>gid credential. chosen = Join_Group gid credential \<and> gid \<in> groups) \<or> (\<exists>name mode. chosen = Create_Group name mode)"
  by (cases chosen) (auto simp: select_join_def split: if_splits)

lemma handle_client_stages:
  assumes "handle_client X sd gw name write ar shown groups d = (d', result)"
  obtains (early) e where "d' = d" "result = Failed e"
    | (chosen) m w hello chosen out r where "ar_handshake ar = In_Time (Inr ())" "ar_hello ar = In_Time (Inr m)"
        "accept_hello (ar_remote ar) m = (w, Inr hello)" "ar_selection ar = In_Time (Inr chosen)"
        "select_group X sd hello chosen groups d = (d', out, r)" "result = r \<or> (\<exists>e. result = Failed e)"
  using assms
  by (auto simp: handle_client_def within_time_def and_then_Inr split: timed.splits sum.splits prod.splits)

text \<open>
  Who does not complete the handshake, the hello and the selection of a group in time leaves no trace in the
  store; and who enters a group does so with an accepted nickname and a common protocol version.
\<close>

theorem store_waits_for_the_selection:
  assumes "handle_client X sd gw name write ar shown groups d = (d', result)"
  shows "(d' \<noteq> d \<longrightarrow> ar_handshake ar = In_Time (Inr ()) \<and>
      (\<exists>lo hi nick port fp. ar_hello ar = In_Time (Inr (Hello lo hi nick port fp))) \<and>
      ((\<exists>gid credential. ar_selection ar = In_Time (Inr (Join_Group gid credential)) \<and> gid \<in> groups) \<or>
       (\<exists>name mode. ar_selection ar = In_Time (Inr (Create_Group name mode))))) \<and>
    (\<forall>gid entry. result = Entering gid entry \<longrightarrow>
      (\<exists>raw. sanitize_nickname raw = Inr (ge_nickname entry)) \<and> PROTOCOL_MIN \<le> ge_negotiated entry \<and> ge_negotiated entry \<le> PROTOCOL_MAX)"
  using assms
proof (cases rule: handle_client_stages)
  case early
  then show ?thesis by simp
next
  case (chosen m w hello chosen out r)
  from accept_hello_Inr [OF chosen(3)] obtain lo hi nick port fp where m: "m = Hello lo hi nick port fp"
    "sanitize_nickname nick = Inr (ha_nickname hello)" "PROTOCOL_MIN \<le> ha_negotiated hello" "ha_negotiated hello \<le> PROTOCOL_MAX" .
  have "d' \<noteq> d \<longrightarrow> (\<exists>gid credential. chosen = Join_Group gid credential \<and> gid \<in> groups) \<or> (\<exists>name mode. chosen = Create_Group name mode)"
    using select_group_writes [OF chosen(5)] by blast
  moreover have "ge_nickname entry = ha_nickname hello \<and> ge_negotiated entry = ha_negotiated hello" if "result = Entering gid entry" for gid entry
    using select_group_entering [of X sd hello chosen groups d d' out gid entry] chosen(5,6) that by auto
  ultimately show ?thesis using chosen m by (metis (no_types, lifting))
qed

section \<open>Sending beacons\<close>

text \<open>A tick of the clock with the outcome of sending, or the shutdown.\<close>

datatype advertise_event = Tick bool | Stop_Advertising

fun advertise_loop :: "byte list \<Rightarrow> advertise_event list \<Rightarrow> byte list list \<times> (error + unit) option" where
  "advertise_loop payload [] = ([], None)"
| "advertise_loop payload (Tick True # events) = (case advertise_loop payload events of (sent, r) \<Rightarrow> (payload # sent, r))"
| "advertise_loop payload (Tick False # events) = ([], Some (Inl (Bail (str ''failed to send discovery beacon''))))"
| "advertise_loop payload (Stop_Advertising # events) = ([], Some (Inr ()))"

definition advertise ::
  "bool \<Rightarrow> (discovery_beacon \<Rightarrow> byte list) \<Rightarrow> discovery_beacon \<Rightarrow> advertise_event list \<Rightarrow> byte list list \<times> (error + unit) option" where
  "advertise bound encode beacon events =
     (if \<not> bound then ([], Some (Inl (Bail (str ''failed to bind discovery sender'')))) else advertise_loop (encode beacon) events)"

lemma advertised: "set (fst (advertise_loop payload events)) \<subseteq> {payload}"
  by (induction payload events rule: advertise_loop.induct) (auto split: prod.splits)

section \<open>The private-chat listener\<close>

record direct_setup =
  ds_keypair :: noise_keypair
  ds_port :: u16
  ds_fingerprint :: rstring

definition bind_direct :: "(byte list \<Rightarrow> byte list) \<Rightarrow> u16 option \<Rightarrow> noise_keypair option \<Rightarrow> error + direct_setup" where
  "bind_direct blake3 bound fresh =
     (case bound of
        None \<Rightarrow> Inl (Bail (str ''failed to open the peer-to-peer private chat listener''))
      | Some port \<Rightarrow>
          (case fresh of
             None \<Rightarrow> Inl (Bail (str ''failed to generate Noise keypair''))
           | Some pair \<Rightarrow> Inr \<lparr>ds_keypair = pair, ds_port = port, ds_fingerprint = public_key_fingerprint blake3 (nk_public pair)\<rparr>))"

section \<open>The commands\<close>

datatype gateway_line =
    Name_Line rstring
  | Id_Line uuid
  | Listening_Line socket_addr
  | Fingerprint_Line rstring
  | Data_Line path
  | Stop_Hint

definition gateway_lines :: "gateway_info \<Rightarrow> gateway_line list" where
  "gateway_lines info =
     [Name_Line (gi_gateway_name info), Id_Line (gi_gateway_id info), Listening_Line (gi_listen_addr info),
      Fingerprint_Line (gi_fingerprint info), Data_Line (gi_data_dir info), Stop_Hint]"

text \<open>\<open>gateway\<close> waits for Ctrl+C and answers with the result of its task.\<close>

definition gateway_command ::
  "(byte list \<Rightarrow> byte list) \<Rightarrow> (socket_addr \<Rightarrow> rstring) \<Rightarrow> start_conditions \<Rightarrow> rstring \<Rightarrow> socket_addr \<Rightarrow> path \<Rightarrow> bool \<Rightarrow>
   error + unit \<Rightarrow> error + unit \<Rightarrow> data_disk \<Rightarrow> data_disk \<times> gateway_line list \<times> (error + unit)" where
  "gateway_command blake3 show_addr sn name bound_to data no_discovery interrupted finished disk =
     (case spawn_gateway blake3 show_addr sn
             \<lparr>gc_bind = bound_to, gc_name = name, gc_advertise = \<not> no_discovery, gc_data_dir = data\<rparr> disk of
        (disk, Inl e) \<Rightarrow> (disk, [], Inl e)
      | (disk, Inr gateway) \<Rightarrow> (disk, gateway_lines (sg_info gateway), and_then interrupted (\<lambda>_. finished)))"

text \<open>
  \<open>host\<close>: the credentials are opened before the gateway starts, the group is created through the address at
  which the gateway is reached from the same machine, and the gateway is stopped when the screen ends; the
  error of the screen goes first. The network is what the started gateway answers.
\<close>

definition host_config :: "socket_addr \<Rightarrow> path \<Rightarrow> bool \<Rightarrow> gateway_config" where
  "host_config bound_to data no_discovery =
     \<lparr>gc_bind = bound_to, gc_name = str ''LAN Chat Gateway'', gc_advertise = \<not> no_discovery, gc_data_dir = data\<rparr>"

definition host_session ::
  "(started_gateway \<Rightarrow> client_setup) \<Rightarrow> saving_conditions \<times> saving_conditions \<Rightarrow> credential_codec \<Rightarrow> (error \<Rightarrow> rstring) \<Rightarrow> rstring \<Rightarrow>
   rstring \<Rightarrow> group_access_mode \<Rightarrow> started_gateway \<Rightarrow> credential_store \<Rightarrow> disk \<Rightarrow> credential_store \<times> disk \<times> (error + session_info)" where
  "host_session network sv C describe nickname name mode gateway store d =
     (case client_create_group_with_access (fst (network gateway)) (local_join_address (gi_listen_addr (sg_info gateway))) nickname
             (Some (gi_fingerprint (sg_info gateway))) (snd (network gateway)) name mode of
        Inl e \<Rightarrow> (store, d, Inl e)
      | Inr session \<Rightarrow>
          (case persist_connection_credentials sv C describe session None store d of
             (store, d, r) \<Rightarrow> (store, d, and_then r (\<lambda>_. Inr session))))"

definition host_end :: "chat_end option \<Rightarrow> error + unit \<Rightarrow> error + chat_end option" where
  "host_end finish finished =
     (case finish of
        Some (Chat_Fails e) \<Rightarrow> Inl e
      | Some (Chat_Ends action) \<Rightarrow> and_then finished (\<lambda>_. Inr finish)
      | _ \<Rightarrow> Inr finish)"

definition host_command ::
  "(byte list \<Rightarrow> byte list) \<Rightarrow> (socket_addr \<Rightarrow> rstring) \<Rightarrow> start_conditions \<Rightarrow> socket_addr \<Rightarrow> path \<Rightarrow> bool \<Rightarrow>
   (started_gateway \<Rightarrow> client_setup) \<Rightarrow> saving_conditions \<times> saving_conditions \<Rightarrow> credential_codec \<Rightarrow> (error \<Rightarrow> rstring) \<Rightarrow> rstring \<Rightarrow>
   rstring \<Rightarrow> group_access_mode \<Rightarrow> chat_event list \<Rightarrow> error + unit \<Rightarrow> (disk \<Rightarrow> disk \<times> (error + credential_store)) \<Rightarrow>
   disk \<Rightarrow> data_disk \<Rightarrow> disk \<times> data_disk \<times> (error + chat_end option)" where
  "host_command blake3 show_addr sn bound_to data no_discovery network sv C describe nickname name mode events finished opened d disk =
     (case opened d of
        (d, Inl e) \<Rightarrow> (d, disk, Inl e)
      | (d, Inr store) \<Rightarrow>
          (case spawn_gateway blake3 show_addr sn (host_config bound_to data no_discovery) disk of
             (disk, Inl e) \<Rightarrow> (d, disk, Inl e)
           | (disk, Inr gateway) \<Rightarrow>
               (case host_session network sv C describe nickname name mode gateway store d of
                  (store, d, Inl e) \<Rightarrow> (d, disk, Inl e)
                | (store, d, Inr session) \<Rightarrow>
                    (case run_chat C session store d events of
                       (cw, sent, finish) \<Rightarrow> (cw_disk cw, disk, host_end finish finished)))))"

datatype backup_line = Created_Line path | Keep_Safe_Hint

definition backup_command ::
  "data_conditions \<Rightarrow> path \<Rightarrow> path \<Rightarrow> data_disk \<Rightarrow> data_disk \<times> (error + backup_line list)" where
  "backup_command dc data output disk =
     (case backup_gateway_data dc data output disk of
        (disk, r) \<Rightarrow> (disk, and_then r (\<lambda>_. Inr [Created_Line output, Keep_Safe_Hint])))"

end
