(* ===== verification/Room_Conversation.thy ===== *)
theory Room_Conversation
  imports Chat_Samples Client_Theorems
begin

text \<open>
  A message on its way through the whole system: the author's screen and client, the gateway, the reader's
  client and screen.
\<close>

section \<open>Broadcasts run alone\<close>

lemma send_each_runs:
  "distinct sids \<Longrightarrow> \<exists>v. run (send_each sids m Done) w = Some v \<and> wd_db v = wd_db w \<and>
     (\<forall>sid. queue_of v sid = (if sid \<in> set sids then map_option (offer CLIENT_QUEUE_CAPACITY m) (queue_of w sid) else queue_of w sid))"
proof (induction sids arbitrary: w)
  case (Cons s sids)
  then obtain v where "run (send_each sids m Done) (send_to_client s m w) = Some v" "wd_db v = wd_db (send_to_client s m w)"
    "\<forall>sid. queue_of v sid = (if sid \<in> set sids then map_option (offer CLIENT_QUEUE_CAPACITY m) (queue_of (send_to_client s m w) sid)
       else queue_of (send_to_client s m w) sid)" by (metis distinct.simps(2))
  with Cons.prems show ?case by (auto simp: send_to_client_def)
qed simp

lemma broadcast_reaches:
  assumes "distinct (map fst (wd_clients w))"
  shows "\<exists>v. run (broadcast_to_room rid m Done) w = Some v \<and> wd_db v = wd_db w \<and>
    (\<forall>sid. queue_of v sid = (if \<exists>e. client_of w sid = Some e \<and> rid \<in> ce_joined e
       then map_option (offer CLIENT_QUEUE_CAPACITY m) (queue_of w sid) else queue_of w sid))"
proof -
  let ?sids = "clients_where (\<lambda>_ e. rid \<in> ce_joined e) w"
  have "distinct ?sids" using assms by (simp add: clients_where_def distinct_map_filter)
  moreover have "sid \<in> set ?sids \<longleftrightarrow> (\<exists>e. client_of w sid = Some e \<and> rid \<in> ce_joined e)" for sid
    using assms by (auto simp: clients_where_def image_iff)
  ultimately show ?thesis
    using send_each_runs [of ?sids m w] by (simp add: broadcast_to_room_def broadcast_where_def)
qed

section \<open>From screen to screen\<close>

abbreviation enter_key :: key_event where
  "enter_key \<equiv> \<lparr>ke_code = Key_Enter, ke_control = False\<rparr>"

text \<open>
  C18. A message that is posted is shown. When the author presses the return key and the store takes the
  message, then it passes both clients and the gateway: it leaves the author's screen, which is cleared,
  goes to the gateway as it was typed (less what the filter drops), is queued for every client in the room
  that has a slot left, the author's included, passes the reader's filter unchanged, and appears on the
  reader's screen below what was there, under the author's name.
\<close>

theorem posted_message_is_shown:
  assumes "ca_overlay app = None" "ca_focus app = Focus_Input" "ca_active app = In_Room rid"
      "RBT.lookup (ca_rooms app) rid = Some own" "rv_joined own" "sanitize_chat_text (ca_input app) = Inr body"
      "trim (ca_input app) \<noteq> []"
    and "client_of w (p_session_id (ce_peer author)) = Some author" "rid \<in> ce_joined author" "sanitize_peer (ce_peer author) = Inr (ce_peer author)"
      "is_safe_identifier rid" "map_of (wd_rooms w) rid \<noteq> None" "distinct (map fst (wd_clients w))"
      "append_message X key (dw_nonce dw) gid rid fresh (ce_peer author) (dw_now_ms dw) body (wd_db w) = (d, Inr posted)"
    and "client_of w sid = Some reader" "rid \<in> ce_joined reader" "queue_of w sid = Some q" "length q < 256"
      "RBT.lookup (ca_rooms screen) rid = Some view"
  shows "(\<exists>cw. chat_step C gw gid (Chat_Key False enter_key fresh None) \<lparr>cw_app = app, cw_store = store, cw_disk = disk\<rparr> =
        (cw, [Chat rid fresh body], None) \<and> ca_input (cw_app cw) = []) \<and>
    client_turn describe (\<lambda>_. Inr ()) members (Outgoing (Chat rid fresh body)) = (members, [To_Gateway (Chat rid fresh body)], None) \<and>
    (\<exists>w'. run (dispatch X key json_len dw gid (ce_peer author) role (Chat rid fresh body)) w = Some w' \<and>
       wd_db w' = d \<and> queue_of w' sid = Some (q @ [Server_Chat posted])) \<and>
    client_turn describe write others (Incoming (Inr (Server_Chat posted))) = (others, [To_User (From_Server (Server_Chat posted))], None) \<and>
    map_option rv_items (RBT.lookup (ca_rooms (handle_server_event (From_Server (Server_Chat posted)) screen)) rid) =
      Some (push_bounded (rv_items view) (Chat_Item posted)) \<and>
    cr_text posted = body \<and> cr_sender posted = ce_peer author \<and> cr_message_id posted = fresh"
proof -
  have posted: "cr_message_id posted = fresh" "cr_sender posted = ce_peer author" "cr_room_id posted = rid" "cr_text posted = body"
    using assms(14) by (auto elim: append_message_Inr)
  note stable = chat_stable [OF assms(6)]
  have typed: "prepare_message fresh app = (app, Send_Message (Chat rid fresh body))"
    using assms(3-6) by (simp add: prepare_message_def)
  have pressed: "\<exists>cw. chat_step C gw gid (Chat_Key False enter_key fresh None) \<lparr>cw_app = app, cw_store = store, cw_disk = disk\<rparr> =
      (cw, [Chat rid fresh body], None) \<and> ca_input (cw_app cw) = []"
    using assms(1,2,7) typed
    by (simp add: chat_key_def control_key_def screen_key_def focused_key_def handle_input_key_def finish_send_def)
  let ?w = "w\<lparr>wd_db := d\<rparr>"
  have "distinct (map fst (wd_clients ?w))" using assms(13) by simp
  from broadcast_reaches [OF this, of rid "Server_Chat posted"] obtain w' where
    w': "run (broadcast_to_room rid (Server_Chat posted) Done) ?w = Some w'" "wd_db w' = d"
    and queues: "\<And>s. queue_of w' s = (if \<exists>e. client_of w s = Some e \<and> rid \<in> ce_joined e
       then map_option (offer CLIENT_QUEUE_CAPACITY (Server_Chat posted)) (queue_of ?w s) else queue_of ?w s)" by auto
  have queued: "queue_of w' sid = Some (q @ [Server_Chat posted])"
    using assms(15-18) by (simp add: queues offer_def CLIENT_QUEUE_CAPACITY_def)
  have "run (dispatch X key json_len dw gid (ce_peer author) role (Chat rid fresh body)) w = Some w'"
    using assms(8,9,11,12,14) stable w'(1) by (simp add: handle_room_chat_def has_joined_def store_call_def Let_def)
  with w'(2) queued have "\<exists>w'. run (dispatch X key json_len dw gid (ce_peer author) role (Chat rid fresh body)) w = Some w' \<and>
       wd_db w' = d \<and> queue_of w' sid = Some (q @ [Server_Chat posted])" by blast
  moreover have "sanitize_chat_record posted = Inr posted"
    using posted stable assms(10,11) by (simp add: sanitize_chat_record_def)
  ultimately show ?thesis
    using pressed posted assms(19) by (simp add: forward_incoming_def show_chat_def)
qed

theorem posted_message_is_shown_witness:
  "\<exists>w'. run (dispatch sample_externals [1] sample_len sample_draws 5 sample_peer Member (Chat (str ''r1'') 20 (str ''hi''))) sample_in_room = Some w' \<and>
     queue_of w' 90 = Some [Room_Joined sample_ops [], Server_Chat sample_posted] \<and> cr_text sample_posted = str ''hi''"
proof -
  let ?client = "sample_client {str ''general'', str ''r1''}"
  have "sanitize_nickname (str ''ada'') = Inr (str ''ada'')"
    by (simp add: sanitize_nickname_def sanitize_single_line_def str_def flatten_char_def byte_len_def len_utf8_def
      limits is_forbidden_terminal_char_def is_control_def trim_def trim_start_def trim_end_def is_whitespace_def)
  then have peer: "sanitize_peer sample_peer = Inr sample_peer" by (simp add: sanitize_peer_def sample_peer_def)
  have written: "trim (str ''hi'') \<noteq> []" by code_simp
  have session: "p_session_id sample_peer = 90" by (simp add: sample_peer_def)
  let ?app = "sample_chat (sample_view [] False) RBT.empty (In_Room (str ''r1'')) (str ''hi'')"
  have stored: "append_message sample_externals [1] (dw_nonce sample_draws) 5 (str ''r1'') 20 (ce_peer ?client) (dw_now_ms sample_draws)
      (str ''hi'') (wd_db sample_in_room) = (sample_store, Inr sample_posted)"
    by (simp add: sample_client_def sample_in_room_def sample_entered_def sample_start_eq sample_draws_def sample_append_store sample_posted_def)
  have screen: "ca_overlay ?app = None" "ca_focus ?app = Focus_Input" "ca_active ?app = In_Room (str ''r1'')"
      "RBT.lookup (ca_rooms ?app) (str ''r1'') = Some (sample_view [] False)" "rv_joined (sample_view [] False)"
      "sanitize_chat_text (ca_input ?app) = Inr (str ''hi'')" "trim (ca_input ?app) \<noteq> []"
    using hi_accepted written by (simp_all add: sample_chat_def sample_view_def)
  have member: "client_of sample_in_room (p_session_id (ce_peer ?client)) = Some ?client" "str ''r1'' \<in> ce_joined ?client"
      "sanitize_peer (ce_peer ?client) = Inr (ce_peer ?client)" "is_safe_identifier (str ''r1'')"
      "map_of (wd_rooms sample_in_room) (str ''r1'') \<noteq> None" "distinct (map fst (wd_clients sample_in_room))"
    using peer session r1_safe by (simp_all add: sample_in_room_def sample_entered_def sample_start_eq sample_client_def)
  have reading: "client_of sample_in_room 90 = Some ?client" "queue_of sample_in_room 90 = Some [Room_Joined sample_ops []]"
      "length [Room_Joined sample_ops []] < 256"
    by (simp_all add: sample_in_room_def sample_entered_def)
  note shown = posted_message_is_shown [where json_len = sample_len and role = Member, OF screen member stored reading(1) member(2) reading(2,3) screen(4)]
  have "\<exists>w'. run (dispatch sample_externals [1] sample_len sample_draws 5 (ce_peer ?client) Member (Chat (str ''r1'') 20 (str ''hi'')))
       sample_in_room = Some w' \<and> wd_db w' = sample_store \<and> queue_of w' 90 = Some ([Room_Joined sample_ops []] @ [Server_Chat sample_posted])"
    by (rule shown [THEN conjunct2, THEN conjunct2, THEN conjunct1])
  moreover have "ce_peer ?client = sample_peer" by (simp add: sample_client_def)
  ultimately show ?thesis by (auto simp: sample_posted_def simp del: dispatch.simps)
qed

end
