(* ===== verification/Session_Loop.thy ===== *)
theory Session_Loop
  imports Gateway_Session
begin

text \<open>
  The loop of a connection that is in a group (the \<open>select!\<close> of \<open>enter_group\<close> in \<open>src/server.rs\<close>): what it
  does with a message read, one to be written and a kick, and when it ends; and what a flood of messages
  gets. The handling of a message itself is \<open>dispatch\<close>.
\<close>

text \<open>
  A message is read at some time or reading fails, the next message of the queue is written (\<open>None\<close> when
  the queue was closed), the kick channel changes or closes.
\<close>

datatype session_event =
    Received nat "error + client_message"
  | Outbound "(server_message \<times> (error + unit)) option"
  | Kicked "kick_reason option"
  | Kick_Closed

datatype session_output = Dispatched client_message | Limit_Notice | Written server_message

type_synonym session_answer = "session_limits \<times> session_output list \<times> (error + unit) option"

definition new_session :: "nat \<Rightarrow> session_limits" where
  "new_session now = \<lparr>sl_limiter = new_rate_limiter now, sl_violations = 0\<rparr>"

definition RATE_EXCEEDED :: error where
  "RATE_EXCEEDED = Bail (str ''client repeatedly exceeded the message rate limit'')"

fun session_turn :: "session_event \<Rightarrow> session_limits \<Rightarrow> session_answer" where
  "session_turn (Received now (Inl e)) sl = (sl, [], Some (Inl e))"
| "session_turn (Received now (Inr message)) sl =
     (case receive_limit now sl of
        (sl, Handle_Message) \<Rightarrow> (sl, [Dispatched message], None)
      | (sl, Rate_Limited) \<Rightarrow> (sl, [Limit_Notice], None)
      | (sl, Rate_Exceeded) \<Rightarrow> (sl, [], Some (Inl RATE_EXCEEDED)))"
| "session_turn (Outbound None) sl = (sl, [], Some (Inr ()))"
| "session_turn (Outbound (Some (message, Inl e))) sl = (sl, [], Some (Inl e))"
| "session_turn (Outbound (Some (message, Inr _))) sl = (sl, [Written message], None)"
| "session_turn (Kicked None) sl = (sl, [], None)"
| "session_turn (Kicked (Some reason)) sl = (sl, [Written (kick_message reason)], Some (Inr ()))"
| "session_turn Kick_Closed sl = (sl, [], Some (Inl (Bail (str ''client session was revoked''))))"

fun session_loop :: "session_event list \<Rightarrow> session_limits \<Rightarrow> session_answer" where
  "session_loop [] sl = (sl, [], None)"
| "session_loop (event # events) sl =
     (case session_turn event sl of
        (sl, out, Some finish) \<Rightarrow> (sl, out, Some finish)
      | (sl, out, None) \<Rightarrow> (case session_loop events sl of (sl, later, finish) \<Rightarrow> (sl, out @ later, finish)))"

section \<open>A flood\<close>

abbreviation received :: "(nat \<times> client_message) list \<Rightarrow> session_event list" where
  "received ms \<equiv> map (\<lambda>(t, m). Received t (Inr m)) ms"

lemma small_words:
  assumes "x < 100" "y < 100"
  shows "(word_of_nat x :: u32) \<le> word_of_nat y \<longleftrightarrow> x \<le> y" "(word_of_nat x :: byte) \<le> word_of_nat y \<longleftrightarrow> x \<le> y"
  using assms by (simp_all add: word_of_nat_less_eq_iff take_bit_nat_eq_self)

lemma within_limit: "x < 99 \<Longrightarrow> (word_of_nat x + 1 :: u32) \<le> 24 \<longleftrightarrow> Suc x \<le> 24"
  using small_words(1) [of "Suc x" 24] by (simp add: add.commute)

lemma fifth: "v < 99 \<Longrightarrow> (5 :: byte) \<le> word_of_nat v + 1 \<longleftrightarrow> 5 \<le> Suc v"
  using small_words(2) [of 5 "Suc v"] by (simp add: add.commute)

text \<open>Beyond the limit: every message counts one violation, and the fifth ends the session.\<close>

lemma flood_over:
  "\<forall>(t, m)\<in>set ms. t < opened + second \<Longrightarrow> v < 5 \<Longrightarrow>
   snd (session_loop (received ms) \<lparr>sl_limiter = \<lparr>window_started = opened, window_used = word_of_nat (24 + v)\<rparr>, sl_violations = word_of_nat v\<rparr>) =
     (replicate (min (4 - v) (length ms)) Limit_Notice, if length ms + v \<ge> 5 then Some (Inl RATE_EXCEEDED) else None)"
proof (induction ms arbitrary: v)
  case (Cons tm ms)
  obtain t m where tm: "tm = (t, m)" by (cases tm)
  have t: "\<not> second \<le> t - opened" using Cons.prems(1) tm by (auto simp: second_def)
  have used: "\<not> (word_of_nat (24 + v) + 1 :: u32) \<le> 24"
    using Cons.prems(2) within_limit [of "24 + v"] by simp
  have five: "(5 :: byte) \<le> word_of_nat v + 1 \<longleftrightarrow> v = 4" using fifth [of v] Cons.prems(2) by auto
  show ?case
  proof (cases "v = 4")
    case True
    then show ?thesis
      using t used by (simp add: tm receive_limit_def allow_def limits five del: of_nat_add)
  next
    case False
    with Cons.prems have v: "Suc v < 5" "\<forall>(t, m)\<in>set ms. t < opened + second" by auto
    have step: "receive_limit t \<lparr>sl_limiter = \<lparr>window_started = opened, window_used = word_of_nat (24 + v)\<rparr>, sl_violations = word_of_nat v\<rparr> =
        (\<lparr>sl_limiter = \<lparr>window_started = opened, window_used = word_of_nat (24 + Suc v)\<rparr>, sl_violations = word_of_nat (Suc v)\<rparr>, Rate_Limited)"
      using t used five False by (simp add: receive_limit_def allow_def limits add.commute)
    have "min (4 - v) (Suc (length ms)) = Suc (min (4 - Suc v) (length ms))" using v(1) by linarith
    then show ?thesis
      using Cons.IH [OF v(2,1)] by (auto simp: tm step split: prod.splits simp del: of_nat_Suc of_nat_add)
  qed
qed simp

lemma flood_below:
  "\<forall>(t, m)\<in>set ms. t < opened + second \<Longrightarrow> u \<le> 24 \<Longrightarrow>
   snd (session_loop (received ms) \<lparr>sl_limiter = \<lparr>window_started = opened, window_used = word_of_nat u\<rparr>, sl_violations = 0\<rparr>) =
     (map (Dispatched \<circ> snd) (take (24 - u) ms) @ replicate (min 4 (length ms - (24 - u))) Limit_Notice,
      if length ms \<ge> 29 - u then Some (Inl RATE_EXCEEDED) else None)"
proof (induction ms arbitrary: u)
  case (Cons tm ms)
  obtain t m where tm: "tm = (t, m)" by (cases tm)
  show ?case
  proof (cases "u = 24")
    case True
    then show ?thesis using flood_over [of "tm # ms" opened 0] Cons.prems by (simp add: numeral_eq_Suc)
  next
    case False
    with Cons.prems have u: "Suc u \<le> 24" "\<forall>(t, m)\<in>set ms. t < opened + second" by auto
    have t: "\<not> second \<le> t - opened" using Cons.prems(1) tm by (auto simp: second_def)
    have used: "(word_of_nat u + 1 :: u32) \<le> 24"
      using u(1) within_limit [of u] by simp
    have step: "receive_limit t \<lparr>sl_limiter = \<lparr>window_started = opened, window_used = word_of_nat u\<rparr>, sl_violations = 0\<rparr> =
        (\<lparr>sl_limiter = \<lparr>window_started = opened, window_used = word_of_nat (Suc u)\<rparr>, sl_violations = 0\<rparr>, Handle_Message)"
      using t used by (simp add: receive_limit_def allow_def limits add.commute)
    have "24 - u = Suc (24 - Suc u)" using u(1) by simp
    then show ?thesis
      using Cons.IH [OF u(2,1)] u(1) by (auto simp: tm step split: prod.splits simp del: of_nat_Suc)
  qed
qed simp

text \<open>
  C19. A flood ends the session. Of the messages that arrive within a second of the entry into a group exactly
  the first 24 are handled, the next four are answered with the notice of the limit, and the 29th ends the
  connection; with fewer than 29 it stays.
\<close>

theorem flood_ends_the_session:
  assumes "\<forall>(t, m)\<in>set ms. t < entered + 1000000000"
  shows "snd (session_loop (map (\<lambda>(t, m). Received t (Inr m)) ms) (new_session entered)) =
    (map (Dispatched \<circ> snd) (take 24 ms) @ replicate (min 4 (length ms - 24)) Limit_Notice,
     if length ms \<ge> 29 then Some (Inl RATE_EXCEEDED) else None)"
  using flood_below [of ms entered 0] assms by (simp add: new_session_def new_rate_limiter_def second_def)

theorem flood_ends_the_session_witness:
  "snd (session_loop (map (\<lambda>(t, m). Received t (Inr m)) (replicate 40 (7, Ping))) (new_session 5)) =
     (replicate 24 (Dispatched Ping) @ replicate 4 Limit_Notice, Some (Inl RATE_EXCEEDED))"
  using flood_ends_the_session [of "replicate 40 (7, Ping)" 5] by simp

end
