(* ===== verification/Gateway_Races.thy ===== *)
theory Gateway_Races
  imports Gateway_Samples Room_Access
begin

text \<open>
  Taking access away from a member who is connected: what removing somebody from a private room and banning
  somebody does when it runs alone, and what it misses when the member is on the way in. The gateway checks
  access once, before a member is added to the clients of a room or a group.
\<close>

section \<open>Programs run alone\<close>

lemma run_send_each [simp]: "run (send_each sids m k) w = run k (fold (\<lambda>s. send_to_client s m) sids w)"
  by (induction sids arbitrary: w) simp_all

lemma run_kick_each [simp]:
  "run (kick_each sids reason k) w =
     run k (fold (\<lambda>sid w. w\<lparr>wd_clients := amap_adjust sid (\<lambda>entry. entry\<lparr>ce_kick := Some reason\<rparr>) (wd_clients w)\<rparr>) sids w)"
  by (induction sids arbitrary: w) simp_all

lemma sending_frame [simp]:
  "wd_db (send_to_client s m w) = wd_db w" "wd_clients (send_to_client s m w) = wd_clients w"
  "wd_rooms (send_to_client s m w) = wd_rooms w" "wd_summary (send_to_client s m w) = wd_summary w"
  by (simp_all add: send_to_client_def)

lemma sending_all_frame [simp]:
  "wd_db (fold (\<lambda>s. send_to_client s m) sids w) = wd_db w" "wd_clients (fold (\<lambda>s. send_to_client s m) sids w) = wd_clients w"
  "wd_rooms (fold (\<lambda>s. send_to_client s m) sids w) = wd_rooms w"
  by (induction sids arbitrary: w) simp_all

text \<open>A list of the members of a room or a group ends in one message to whoever asked.\<close>

lemma listing_runs:
  "\<exists>v. run (handle_list_room_members gid sid actor rid offset) w = Some v \<and> wd_db v = wd_db w \<and>
     wd_clients v = wd_clients w \<and> wd_rooms v = wd_rooms w"
  by (auto simp: handle_list_room_members_def store_query_def reply_error_def send_error_def split: sum.split prod.split)

text \<open>A schedule can let a program run to its end.\<close>

lemma schedule_append:
  "schedule (ts @ us) tasks w = Option.bind (schedule ts tasks w) (\<lambda>(tasks, w). schedule us tasks w)"
  by (induction ts arbitrary: tasks w) (auto split: option.splits)

lemma run_schedules:
  "run p w = Some v \<Longrightarrow> tasks t = p \<Longrightarrow> \<exists>n. schedule (replicate n t) tasks w = Some (tasks(t := Done), v)"
proof (induction p arbitrary: tasks w)
  case Done
  then have "tasks(t := Done) = tasks" "v = w" by auto
  then show ?case by (intro exI [of _ 0]) simp
next
  case (Step f)
  then obtain u q where q: "f w = Some (u, q)" "run q u = Some v" by (cases "f w") auto
  have "Some (u, q) \<in> range f" using q(1) by (metis rangeI)
  then have "\<exists>n. schedule (replicate n t) (tasks(t := q)) u = Some ((tasks(t := q))(t := Done), v)"
    by (rule Step.IH [of "Some (u, q)" "(u, q)" q]) (use q(2) in simp_all)
  then obtain n where "schedule (replicate n t) (tasks(t := q)) u = Some (tasks(t := Done), v)" by auto
  then show ?case using Step.prems(2) q(1) by (intro exI [of _ "Suc n"]) (simp del: fun_upd_apply)
qed

section \<open>Removing a member from a private room\<close>

lemma removed_has_no_access:
  assumes ok: "schema_ok d" and run: "set_room_member now gid rid actor role target False d = (d', Inr True)"
  shows "\<not> member_can_access_room d' gid rid target"
proof -
  let ?hit = "\<lambda>rm. rm_group rm = gid \<and> rm_room rm = rid \<and> rm_member rm = target \<and> rm_role rm = Room_Member"
  note change = set_room_member_Inr [OF run]
  obtain m r where r: "find_room d gid rid = Some r" "r_visibility r = Private_Room"
      and m: "m \<in> set (t_members d)" "gm_id m = target" "gm_role m \<noteq> Admin"
    using change by (auto simp: room_visibility_of_def)
  have "rows_matching ?hit (t_room_members d) = 1"
    using run by (auto simp: set_room_member_def transaction_def Let_def and_then_Inr split: if_splits sum.splits)
  then obtain row where row: "row \<in> set (t_room_members d)" "?hit row" using rows_matching_one by blast
  have "rm_role other = Room_Member"
    if "other \<in> set (t_room_members d)" "rm_group other = gid" "rm_room other = rid" "rm_member other = target" for other
  proof -
    have "distinct (map room_member_key (t_room_members d))" using ok by (simp add: schema_ok_def room_members_ok_def)
    then have "other = row" using that row by (auto simp: room_member_key_def dest: distinct_map_eqD [of room_member_key])
    then show ?thesis using row by simp
  qed
  moreover have d': "d' = delete_room_members ?hit d" using change by (simp add: room_member_change_def)
  ultimately have "\<not> on_access_list d' gid rid target"
    by (auto simp: on_access_list_def write_defs)
  moreover have "t_rooms d' = t_rooms d" "active_admin d' = active_admin d"
    by (simp_all add: d' write_defs active_admin_def fun_eq_iff)
  moreover have "\<not> active_admin d gid target" using active_admin_unique [OF ok m(1,3)] m(2) by simp
  ultimately show ?thesis using private_room_access [OF ok r, of d' target] by simp
qed

lemma removal_runs:
  assumes "is_safe_identifier rid" "map_of (wd_rooms w) rid = Some room" "schema_ok (wd_db w)"
    and "set_room_member (dw_now dw) gid rid (ra_member_id actor) (ra_role actor) mid False (wd_db w) = (d, Inr True)"
  shows "\<exists>v. run (handle_set_room_member dw gid adm actor rid mid False) w = Some v \<and> wd_db v = d \<and> wd_rooms v = wd_rooms w \<and>
    \<not> member_can_access_room d gid rid mid \<and>
    (\<forall>sid. client_of v sid = map_option (\<lambda>c. if p_member_id (ce_peer c) = mid then c\<lparr>ce_joined := ce_joined c - {rid}\<rparr> else c) (client_of w sid))"
proof -
  let ?w = "fold (\<lambda>s. send_to_client s (Room_Left rid)) (clients_where (\<lambda>_ c. p_member_id (ce_peer c) = mid) w)
    (drop_room_of_member mid rid (w\<lparr>wd_db := d\<rparr>))"
  obtain v where v: "run (handle_list_room_members gid adm actor rid 0) ?w = Some v" "wd_db v = wd_db ?w"
      "wd_clients v = wd_clients ?w" "wd_rooms v = wd_rooms ?w"
    using listing_runs by blast
  have "run (handle_set_room_member dw gid adm actor rid mid False) w = Some v"
    using assms(1,2,4) v(1) by (simp add: handle_set_room_member_def store_call_def remove_room_from_member_def clients_where_def)
  moreover have "\<not> member_can_access_room d gid rid mid" by (rule removed_has_no_access [OF assms(3,4)])
  ultimately show ?thesis
    using v(2-4) by (auto simp: drop_room_of_member_def update_clients_def)
qed

text \<open>
  C16. A removed member is out of the room. When the removal of a member from a private room succeeds and
  nobody else is at work, every session of that member has left the room afterwards: it may not enter it
  again, and what it still posts there is refused and not stored; the sessions of others stay as they are.
\<close>

theorem removal_closes_the_room:
  assumes "is_safe_identifier rid" "map_of (wd_rooms w) rid = Some room" "schema_ok (wd_db w)"
    and "set_room_member (dw_now dw) gid rid (ra_member_id actor) (ra_role actor) mid False (wd_db w) = (d, Inr True)"
    and "client_of w sid = Some client" "p_member_id (ce_peer client) = mid" "p_session_id (ce_peer client) = sid"
  shows "\<exists>v. run (handle_set_room_member dw gid adm actor rid mid False) w = Some v \<and>
    \<not> member_can_access_room (wd_db v) gid rid mid \<and> \<not> has_joined v sid rid \<and>
    run (handle_join_room X key json_len gid sid rid) v =
      Some (send_error sid (str ''private_room_denied'') (str ''this private room is not shared with you'') v) \<and>
    run (handle_room_chat X key dw' gid (ce_peer client) rid message_id body) v =
      Some (send_error sid (str ''room_not_joined'') (str ''join the room before sending messages'') v) \<and>
    (\<forall>other c. client_of w other = Some c \<and> p_member_id (ce_peer c) \<noteq> mid \<longrightarrow> client_of v other = Some c)"
proof -
  from removal_runs [OF assms(1-4), of adm] obtain v where v:
    "run (handle_set_room_member dw gid adm actor rid mid False) w = Some v" "wd_db v = d" "wd_rooms v = wd_rooms w"
    "\<not> member_can_access_room d gid rid mid"
    "\<And>sid. client_of v sid = map_option (\<lambda>c. if p_member_id (ce_peer c) = mid then c\<lparr>ce_joined := ce_joined c - {rid}\<rparr> else c) (client_of w sid)"
    by blast
  have client: "client_of v sid = Some (client\<lparr>ce_joined := ce_joined client - {rid}\<rparr>)" using v(5) assms(5,6) by simp
  have out: "\<not> has_joined v sid rid" using client by (simp add: has_joined_def)
  have "run (handle_join_room X key json_len gid sid rid) v =
      Some (send_error sid (str ''private_room_denied'') (str ''this private room is not shared with you'') v)"
    using assms(1,2,6) v(2-4) client by (simp add: handle_join_room_def store_query_def reply_error_def)
  moreover have "run (handle_room_chat X key dw' gid (ce_peer client) rid message_id body) v =
      Some (send_error sid (str ''room_not_joined'') (str ''join the room before sending messages'') v)"
    using assms(1,7) out by (simp add: handle_room_chat_def reply_error_def Let_def)
  moreover have "client_of v other = Some c" if "client_of w other = Some c" "p_member_id (ce_peer c) \<noteq> mid" for other c
    using v(5) that by simp
  ultimately show ?thesis using v(1,2,4) out by (intro exI [of _ v]) simp
qed

text \<open>
  C17. A removal misses a member who is entering. \<open>handle_join_room\<close> checks the access of a member, then reads
  the history, then adds the room to those of the session. A removal that runs between the check and the
  addition finds no session in the room to take out, and is reported as done; afterwards the removed member is
  in the room without access to it, receives what is posted there and can post.
\<close>

theorem removal_misses_a_join:
  assumes "is_safe_identifier rid" "map_of (wd_rooms w) rid = Some room" "rs_room_id room = rid" "schema_ok (wd_db w)"
    and "set_room_member (dw_now dw) gid rid (ra_member_id actor) (ra_role actor) mid False (wd_db w) = (d, Inr True)"
    and "client_of w sid = Some client" "p_member_id (ce_peer client) = mid" "member_can_access_room (wd_db w) gid rid mid"
    and "history X key d gid rid HISTORY_CAPACITY = Inr records" "sid \<noteq> adm"
  shows "\<exists>ts v. schedule ts ((\<lambda>_. Done)(sid := handle_join_room X key json_len gid sid rid,
       adm := handle_set_room_member dw gid adm actor rid mid False)) w = Some (\<lambda>_. Done, v) \<and>
    \<not> member_can_access_room (wd_db v) gid rid mid \<and> has_joined v sid rid"
proof -
  let ?removal = "handle_set_room_member dw gid adm actor rid mid False"
  let ?rest = "join_room X key json_len gid sid room Done"
  let ?tasks = "(\<lambda>_. Done)(sid := handle_join_room X key json_len gid sid rid, adm := ?removal)"
  let ?checked = "(\<lambda>_. Done)(sid := ?rest, adm := ?removal)"
  have "schedule [sid, sid, sid] ?tasks w = Some (?checked, w)"
    using assms(1,2,6,7,8,10)
    by (simp add: handle_join_room_def store_query_def ask_def fun_upd_twist [of sid adm])
  moreover from removal_runs [OF assms(1,2,4,5), of adm] obtain u where u:
    "run ?removal w = Some u" "wd_db u = d" "\<not> member_can_access_room d gid rid mid"
    "client_of u sid = Some (client\<lparr>ce_joined := ce_joined client - {rid}\<rparr>)"
    using assms(6,7) by auto
  obtain n where "schedule (replicate n adm) ?checked w = Some (?checked(adm := Done), u)"
    using run_schedules [OF u(1), of ?checked adm] by auto
  moreover obtain v where v: "run ?rest u = Some v" "wd_db v = d" "has_joined v sid rid"
    using assms(3,9) u(2,4)
    by (simp add: join_room_def store_query_def has_joined_def)
  obtain k where "schedule (replicate k sid) (?checked(adm := Done)) u = Some ((?checked(adm := Done))(sid := Done), v)"
    using run_schedules [OF v(1), of "?checked(adm := Done)" sid] assms(10) by auto
  moreover have "(?checked(adm := Done))(sid := Done) = (\<lambda>_. Done)" by auto
  ultimately have "schedule ([sid, sid, sid] @ replicate n adm @ replicate k sid) ?tasks w = Some (\<lambda>_. Done, v)"
    by (simp only: schedule_append) simp
  with u(3) v(2,3) show ?thesis by blast
qed

section \<open>Banning a member\<close>

lemma banned_member:
  assumes ok: "schema_ok d" and run: "set_member_banned now gid mid True d = (d', Inr True)" and m: "m \<in> set (t_members d')" "gm_id m = mid"
  shows "gm_status m = Banned"
proof -
  let ?hit = "\<lambda>m. gm_group m = gid \<and> gm_id m = mid \<and> gm_role m \<noteq> Admin"
  let ?ban = "\<lambda>m. m\<lparr>gm_status := Banned, gm_updated := now\<rparr>"
  have d': "d' = update_members ?hit ?ban d" and "rows_matching ?hit (t_members d) = 1"
    using run by (auto simp: set_member_banned_def Let_def execute_def split: if_splits)
  then obtain row where row: "row \<in> set (t_members d)" "?hit row" using rows_matching_one by blast
  obtain n where n: "n \<in> set (t_members d)" "m = (if ?hit n then ?ban n else n)"
    using m(1) by (auto simp: d' update_members_def set_update_where)
  then have "gm_id n = gm_id row" using m(2) row(2) by (auto split: if_splits)
  then have "n = row" using ok n(1) row(1) by (auto simp: schema_ok_def members_ok_def dest: distinct_map_eqD [of gm_id])
  then show ?thesis using n(2) row(2) by simp
qed

lemma kicking_frame [simp]:
  "wd_db (fold (\<lambda>sid w. w\<lparr>wd_clients := amap_adjust sid f (wd_clients w)\<rparr>) sids w) = wd_db w"
  "wd_summary (fold (\<lambda>sid w. w\<lparr>wd_clients := amap_adjust sid f (wd_clients w)\<rparr>) sids w) = wd_summary w"
  by (induction sids arbitrary: w) simp_all

lemma group_listing_runs:
  "\<exists>v. run (handle_list_group_members gid sid offset) w = Some v \<and> wd_db v = wd_db w \<and> wd_clients v = wd_clients w"
  by (auto simp: handle_list_group_members_def store_query_def reply_error_def send_error_def split: prod.split)

text \<open>
  A ban misses a member who is entering. A member is authorized while the selection is handled and becomes
  a client of the group only afterwards; a ban that runs in between kicks the clients it finds, reports
  success, and the member then enters with nothing pending: banned in the store, but present in the group
  and in its general room until it leaves by itself.
\<close>

theorem ban_misses_an_entry:
  assumes "select_group X sd hello chosen groups (wd_db w) = (d, out, Entering gid entry)" "schema_ok d"
    and "require_admin w adm" "set_member_banned (dw_now dw) gid (ge_member_id entry) True d = (banned, Inr True)"
    and "history X key banned gid DEFAULT_ROOM_ID HISTORY_CAPACITY = Inr records" "gid_of w = gid"
  shows "\<exists>u v client. run (handle_set_member_banned dw gid adm (ge_member_id entry) True) (w\<lparr>wd_db := d\<rparr>) = Some u \<and>
    run (enter_group X key json_len (\<lambda>_. True) (wd_summary w) sid entry) u = Some v \<and>
    (\<forall>m\<in>set (t_members (wd_db v)). gm_id m = ge_member_id entry \<longrightarrow> gm_status m = Banned) \<and>
    client_of v sid = Some client \<and> p_member_id (ce_peer client) = ge_member_id entry \<and> ce_kick client = None \<and>
    has_joined v sid DEFAULT_ROOM_ID"
proof -
  let ?kicked = "fold (\<lambda>sid w. w\<lparr>wd_clients := amap_adjust sid (\<lambda>entry. entry\<lparr>ce_kick := Some Kick_Banned\<rparr>) (wd_clients w)\<rparr>)
    (clients_where (\<lambda>_ c. p_member_id (ce_peer c) = ge_member_id entry) w) (w\<lparr>wd_db := banned\<rparr>)"
  obtain u where u: "run (handle_list_group_members gid adm 0) ?kicked = Some u" "wd_db u = banned"
    using group_listing_runs [of gid adm 0 ?kicked] by auto
  have "run (handle_set_member_banned dw gid adm (ge_member_id entry) True) (w\<lparr>wd_db := d\<rparr>) = Some u"
    using assms(3,4) u(1)
    by (simp add: handle_set_member_banned_def store_call_def kick_where_def clients_where_def require_admin_def)
  moreover obtain v where v: "run (enter_group X key json_len (\<lambda>_. True) (wd_summary w) sid entry) u = Some v" "wd_db v = banned"
      "wd_clients v = wd_clients (fst (add_client sid entry u))"
    using assms(5,6) u(2)
    by (simp add: enter_group_def Let_def store_query_def broadcast_except_def broadcast_where_def add_client_def)
  moreover have "gm_status m = Banned" if "m \<in> set (t_members banned)" "gm_id m = ge_member_id entry" for m
    using banned_member [OF assms(2,4)] that by blast
  ultimately show ?thesis
    by (intro exI [of _ u] exI [of _ v]) (simp add: add_client_def Let_def has_joined_def peer_for_def)
qed

section \<open>Samples\<close>

text \<open>Bob has been added to Ada's private room; both are connected, and so is the administrator.\<close>

definition sample_shared :: database where
  "sample_shared = sample_room
     \<lparr>t_members := t_members sample_room @ [\<lparr>gm_id = 12, gm_group = 5, gm_hash = [54], gm_role = Member, gm_status = Active,
        gm_nickname = str ''bob'', gm_created = 1003, gm_updated = 1003\<rparr>],
      t_room_members := t_room_members sample_room @
        [\<lparr>rm_group = 5, rm_room = str ''r1'', rm_member = 12, rm_role = Room_Member, rm_added = 1003\<rparr>]\<rparr>"

definition sample_bob :: client_entry where
  "sample_bob = \<lparr>ce_peer = \<lparr>p_session_id = 91, p_member_id = 12, p_nickname = str ''bob'', p_direct = None\<rparr>, ce_role = Member,
     ce_joined = {str ''general''}, ce_kick = None\<rparr>"

definition sample_administrator :: client_entry where
  "sample_administrator = \<lparr>ce_peer = \<lparr>p_session_id = 92, p_member_id = 10, p_nickname = str ''root'', p_direct = None\<rparr>,
     ce_role = Admin, ce_joined = {str ''general''}, ce_kick = None\<rparr>"

definition sample_shared_world :: world where
  "sample_shared_world = sample_start\<lparr>wd_db := sample_shared,
     wd_clients := [(90, sample_client {str ''general'', str ''r1''}), (91, sample_bob), (92, sample_administrator)],
     wd_queues := [(90, []), (91, []), (92, [])]\<rparr>"

definition sample_owner :: room_actor where
  "sample_owner = \<lparr>ra_member_id = 11, ra_role = Member\<rparr>"

definition sample_unshared :: database where
  "sample_unshared = sample_shared\<lparr>t_room_members := t_room_members sample_room\<rparr>"

lemma sample_shared_ok: "schema_ok sample_shared"
  by (simp add: sample_shared_def run_simps sample_rows nocase_def ascii_lower_def i64_max_def)

lemma sample_removal:
  "set_room_member (dw_now sample_draws) 5 (str ''r1'') (ra_member_id sample_owner) (ra_role sample_owner) 12 False (wd_db sample_shared_world) =
     (sample_unshared, Inr True)"
  unfolding sample_shared_world_def sample_unshared_def sample_shared_def sample_room_eq sample_joined_eq sample_created_eq
    sample_draws_def sample_owner_def by code_simp

lemma sample_shared_facts:
  "map_of (wd_rooms sample_shared_world) (str ''r1'') = Some sample_ops" "rs_room_id sample_ops = str ''r1''"
  "schema_ok (wd_db sample_shared_world)" "client_of sample_shared_world 91 = Some sample_bob"
  "p_member_id (ce_peer sample_bob) = 12" "p_session_id (ce_peer sample_bob) = 91"
  "member_can_access_room (wd_db sample_shared_world) 5 (str ''r1'') 12"
  "history sample_externals [1] sample_unshared 5 rid HISTORY_CAPACITY = Inr []"
proof -
  show "map_of (wd_rooms sample_shared_world) (str ''r1'') = Some sample_ops"
    by (simp add: sample_shared_world_def sample_start_eq str_def)
  show "rs_room_id sample_ops = str ''r1''" by (simp add: sample_ops_def)
  show "schema_ok (wd_db sample_shared_world)" using sample_shared_ok by (simp add: sample_shared_world_def)
  show "client_of sample_shared_world 91 = Some sample_bob" by (simp add: sample_shared_world_def)
  show "p_member_id (ce_peer sample_bob) = 12" "p_session_id (ce_peer sample_bob) = 91" by (simp_all add: sample_bob_def)
  show "member_can_access_room (wd_db sample_shared_world) 5 (str ''r1'') 12"
    unfolding sample_shared_world_def sample_shared_def sample_room_eq sample_joined_eq sample_created_eq by code_simp
  show "history sample_externals [1] sample_unshared 5 rid HISTORY_CAPACITY = Inr []"
    by (simp add: sample_unshared_def sample_shared_def sample_rows history_def newest_rows_def)
qed

lemma r1_identifier: "is_safe_identifier (str ''r1'')"
  by code_simp

theorem removal_closes_the_room_witness:
  "\<exists>v. run (handle_set_room_member sample_draws 5 90 sample_owner (str ''r1'') 12 False) sample_shared_world = Some v \<and>
     \<not> member_can_access_room (wd_db v) 5 (str ''r1'') 12 \<and> \<not> has_joined v 91 (str ''r1'')"
  using removal_closes_the_room [OF r1_identifier sample_shared_facts(1,3) sample_removal sample_shared_facts(4-6)] by blast

theorem removal_misses_a_join_witness:
  "\<exists>ts v. schedule ts ((\<lambda>_ :: uuid. Done)(91 := handle_join_room sample_externals [1] sample_len 5 91 (str ''r1''),
       90 := handle_set_room_member sample_draws 5 90 sample_owner (str ''r1'') 12 False)) sample_shared_world = Some (\<lambda>_. Done, v) \<and>
     \<not> member_can_access_room (wd_db v) 5 (str ''r1'') 12 \<and> has_joined v 91 (str ''r1'')"
  by (rule removal_misses_a_join [OF r1_identifier sample_shared_facts(1-3) sample_removal sample_shared_facts(4,5,7,8)]) simp

definition sample_selection :: selection_draws where
  "sample_selection = \<lparr>sd_now = 1004, sd_member_id = 40, sd_entropy = None, sd_request_id = 41, sd_request_entropy = None,
     sd_group_id = 42, sd_invite_entropy = None\<rparr>"

definition sample_hello :: hello_accepted where
  "sample_hello = \<lparr>ha_negotiated = 5, ha_nickname = str ''ada'', ha_direct = None\<rparr>"

definition sample_again :: database where
  "sample_again = sample_shared\<lparr>t_members := map (\<lambda>m. if gm_id m = 11 then m\<lparr>gm_updated := 1004\<rparr> else m) (t_members sample_shared)\<rparr>"

lemma sample_again_ok: "schema_ok sample_again"
  by (simp add: sample_again_def sample_shared_def run_simps sample_rows nocase_def ascii_lower_def i64_max_def)

lemma sample_select_again:
  "select_group sample_externals sample_selection sample_hello (Join_Group 5 (Some sample_member_token)) {5} sample_shared =
     (sample_again, [], Entering 5 (entry_for sample_hello Member 11 None None))"
  unfolding sample_again_def sample_shared_def sample_room_eq sample_joined_eq sample_created_eq by code_simp

lemma sample_ban: "snd (set_member_banned 1003 5 11 True sample_again) = Inr True"
  unfolding sample_again_def sample_shared_def sample_room_eq sample_joined_eq sample_created_eq by code_simp

lemma no_history: "t_messages d = [] \<Longrightarrow> history X key d gid rid n = Inr []"
  by (simp add: history_def newest_rows_def)

theorem ban_misses_an_entry_witness:
  "\<exists>u v client. run (handle_set_member_banned sample_draws 5 92 11 True) (sample_shared_world\<lparr>wd_db := sample_again\<rparr>) = Some u \<and>
     run (enter_group sample_externals [1] sample_len (\<lambda>_. True) sample_summary 93 (entry_for sample_hello Member 11 None None)) u = Some v \<and>
     client_of v 93 = Some client \<and> ce_kick client = None"
proof -
  let ?entry = "entry_for sample_hello Member 11 None None"
  let ?banned = "fst (set_member_banned 1003 5 11 True sample_again)"
  have selected: "select_group sample_externals sample_selection sample_hello (Join_Group 5 (Some sample_member_token)) {5}
      (wd_db sample_shared_world) = (sample_again, [], Entering 5 ?entry)"
    using sample_select_again by (simp add: sample_shared_world_def)
  have member: "ge_member_id ?entry = 11" by (simp add: entry_for_def)
  have ban: "set_member_banned (dw_now sample_draws) 5 (ge_member_id ?entry) True sample_again = (?banned, Inr True)"
    using sample_ban by (simp add: member sample_draws_def prod_eq_iff)
  have "t_messages ?banned = []"
    by (simp add: set_member_banned_def execute_def update_members_def Let_def sample_again_def sample_shared_def sample_rows)
  note history = no_history [OF this]
  have admin: "require_admin sample_shared_world 92"
    by (simp add: require_admin_def sample_shared_world_def sample_administrator_def)
  have world: "gid_of sample_shared_world = 5" "wd_summary sample_shared_world = sample_summary"
    by (simp_all add: sample_shared_world_def sample_start_eq sample_summary_def)
  from ban_misses_an_entry [where key = "[1]" and json_len = sample_len and sid = 93, OF selected sample_again_ok admin ban history world(1)] show ?thesis
    unfolding member world(2) by blast
qed

end
