(* ===== verification/Spec2Isabelle.thy ===== *)
theory Spec2Isabelle
  imports Store_Theorems Store_Admission Message_Log Room_Access Sanitizers Gateway_Theorems Direct_Theorems
    Channel_Theorems Client_Theorems Gateway_Progress Credentials_Theorems Identity Lobby Chat_Theorems Chat_Outcomes
    Command_Samples Display_Theorems Screen_Theorems Lobby_Theorems Data_Theorems Serving Room_Conversation Session_Loop Gateway_Races
begin

text \<open>
  A verification development for lan-chat (the Rust crate under \<open>src/\<close>): group chat on a local network. A
  gateway keeps groups, rooms, members and messages in SQLite and serves them over encrypted frames;
  clients show them in a terminal; two members talk privately over a connection of their own. The theories
  translate the crate's sources without its tests, file by file, and prove what each part owes to the others.

  \<^bold>\<open>The program and its parts.\<close> A run of \<open>lan-chat\<close> (\<open>main.rs\<close>) opens the saved tokens (\<open>credentials.rs\<close>), finds
  gateways by their beacons (\<open>discovery.rs\<close>), and shows the lobby and then the chat screen (\<open>tui.rs\<close>). The screen
  hands messages to the client task (\<open>client.rs\<close>), which writes them through the encrypted channel
  (\<open>crypto.rs\<close>) to the gateway (\<open>server.rs\<close>), or, when they are private, to the hub of the private links
  (\<open>direct.rs\<close>). The gateway authorizes, numbers and seals through its store (\<open>storage.rs\<close>) and broadcasts what was
  committed. What crosses a border is data of \<open>protocol.rs\<close> and passes a filter of \<open>security.rs\<close> on both sides.

  \<^bold>\<open>Foundations.\<close> \<open>Prelude\<close>: words of the widths of the source, association lists for hash maps and statements, results as
  \<open>error + 'a\<close> with \<open>and_then\<close> for the question mark. \<open>Text\<close>: the operations of Rust's \<open>char\<close> and \<open>str\<close>; a string
  is the list of its code points. \<open>Errors\<close>: \<open>anyhow::Error\<close>. \<open>Protocol\<close>: the types of \<open>protocol.rs\<close>. \<open>Security\<close>
  with \<open>Sanitizers\<close>: all of \<open>security.rs\<close>; the locales \<open>display_sanitizer\<close> and \<open>stable_sanitizer\<close> say what a filter
  promises (bounded, safe to display, unchanged by a second pass) and are interpreted for each filter that keeps it.

  \<^bold>\<open>The gateway store\<close> (\<open>storage.rs\<close>). \<open>Schema\<close> has one list of rows for each table and the declared constraints
  (\<open>schema_ok\<close>); \<open>Statements\<close> the shared SQL; \<open>Tokens\<close> drawing, hashing and comparing bearer tokens; \<open>Store_Groups\<close>,
  \<open>Store_Members\<close>, \<open>Store_Rooms\<close> and \<open>Store_Messages\<close> one definition for each method of \<open>GatewayStore\<close>, from a database to a
  database with a result. \<open>Store_Effects\<close> is the abstract store, a relation with one rule for each kind of committed
  change, and the refinement of every method to it; \<open>Store_Invariants\<close> and \<open>Store_Theorems\<close> derive what holds in every
  reachable store: numbering without gaps, one administrator, access lists, bounds. \<open>Store_Admission\<close> shows who gets
  in, \<open>Room_Access\<close> who sees a private room, \<open>Message_Log\<close> (locale \<open>append_log\<close>) that rooms are logs and the
  history their windows. \<open>Gateway_Files\<close> and \<open>Data_Theorems\<close>: the data directory with key creation, opening,
  migration and backup over explicit files, and what survives restarts and failures. \<open>Store_Samples\<close> holds the inputs of
  witnesses.

  \<^bold>\<open>The gateway\<close> (\<open>server.rs\<close>). \<open>Programs\<close>: an asynchronous handler is a program of atomic steps, one for each lock
  section, store call or channel operation; locale \<open>rely_guarantee\<close> carries invariants over every interleaving.
  \<open>Mutex\<close>: locale \<open>mutex\<close>, for data guarded by a lock and for progress. \<open>Gateway_State\<close>: the record \<open>world\<close> is
  \<open>GroupState\<close> together with the store and the outbound queues, whose capacity is the 256 of the source.
  \<open>Gateway_Handlers\<close>: every handler and \<open>dispatch\<close>; \<open>Gateway_Session\<close>: hello, choice of a group, entry, rate limit,
  departure, and the step relation of the whole group; \<open>Session_Loop\<close>: the loop of one connection; \<open>Serving\<close>: the accept
  loops and the stages of a connection with their time limits. \<open>Gateway_Invariants\<close>, \<open>Gateway_Theorems\<close> and
  \<open>Gateway_Progress\<close> show, under any interleaving, that nothing is delivered before it is stored, that cache, queues and
  membership stay consistent, that rooms stay limited, and that all work ends. \<open>Gateway_Races\<close>: what taking access
  away from a connected member does, and which member on the way in it misses. \<open>Rate_Limit\<close> has both limiters of the
  crate and their contract \<open>fixed_window\<close>.

  \<^bold>\<open>Transport, private chat, client.\<close> \<open>Framing\<close> (locale \<open>frame_codec\<close>), \<open>Secure_Channel\<close> and \<open>Channel_Theorems\<close>: \<open>crypto.rs\<close>,
  with frames, handshake, the channel with its counters, key file and fingerprints. \<open>Direct_Chat\<close>: \<open>direct.rs\<close>;
  \<open>Direct_Conversation\<close> connects two hubs over a link, \<open>Direct_Theorems\<close> shows what both ends see. \<open>Client\<close> and
  \<open>Client_Theorems\<close>: \<open>client.rs\<close>, the filter on everything received, connecting under a pinned fingerprint, the task.

  \<^bold>\<open>The user's side.\<close> \<open>Credentials\<close> and \<open>Credentials_Theorems\<close>: \<open>credentials.rs\<close> over an explicit disk on which any call may fail
  and the machine may stop. \<open>Discovery\<close>: beacons and their listing (sending them is in \<open>Serving\<close>). \<open>Identity\<close>: random
  nicknames. \<open>Terminal_Input\<close>, \<open>Lobby\<close>, \<open>Chat_View\<close> and \<open>Chat_Keys\<close>: the state and every operation of the two screens
  of \<open>tui.rs\<close>, with \<open>None\<close> for a panic; \<open>Chat_Display\<close>, \<open>Chat_Screen\<close> and \<open>Lobby_Display\<close>: what they draw. \<open>Command_Line\<close> and
  \<open>Serving\<close>: \<open>main.rs\<close>. \<open>Chat_Theorems\<close>, \<open>Chat_Requests\<close>, \<open>Chat_Outcomes\<close>, \<open>Display_Theorems\<close>, \<open>Screen_Theorems\<close>, \<open>Lobby_Theorems\<close> and
  \<open>Command_Theorems\<close> show that the screens do not panic, what keys can send, what becomes of requests, tokens and
  openings, and what is and is not drawn. \<open>Chat_Samples\<close> and \<open>Command_Samples\<close> serve the witnesses.

  \<^bold>\<open>Across the parts.\<close> \<open>Chat_Scrollback\<close> runs the screen, the gateway, the store and the client's filter together until
  the first message is reached. \<open>Room_Conversation\<close> follows a message from the author's screen to the reader's.
  \<open>Command_Theorems\<close> follows a token from the gateway to the file and back at the next start. \<open>Data_Theorems\<close> follows the
  identity of a gateway from its start to the entry that users see.

  \<^bold>\<open>Parameters and hypotheses.\<close> Code that is not in the repository is an argument: the record \<open>externals\<close> has BLAKE3, the
  comparison of \<open>subtle\<close> and the cipher, of which the theorems use that the comparison is equality
  (\<open>ct_eq_is_equality\<close>) and that a sealed text opens under the same inputs (\<open>aead_opens\<close>); the records \<open>noise\<close> and
  \<open>codec\<close> have the Noise state machine and its transport; the functions \<open>encode\<close> and \<open>decode\<close>, \<open>json_len\<close> and
  \<open>credential_codec\<close> are serde's; \<open>parse_addr\<close>, \<open>show_addr\<close>, \<open>show_uuid\<close> and \<open>describe\<close> parse and render. Time, random draws,
  and the answers of network, disk and terminal are arguments or lists of events, so a theorem holds for all
  of them. The interpretations and the samples show that the hypotheses can hold.

  \<^bold>\<open>Bounds.\<close> Every function ends, so there is no fuel: loops recurse over their input or come with a measure (the UTF-8
  decoder). Machine integers are words where the source computes with them; sequence numbers and times in the
  database are integers with the range of \<open>i64\<close> checked where the source converts. Unread and scroll counters of the
  screen are natural numbers.

  \<^bold>\<open>Not modelled.\<close> SQLite itself (a failing statement other than a broken constraint is left out of the operations; when
  opening and backing up it is an error), a poisoned lock, file modes of the gateway's directory; sockets, task spawning
  and the delivery of the shutdown signal, which are events; terminal setup, colours, borders, padding, the layout engine
  and the wrapping of lines; the parsing of arguments by clap; rendering of error causes on standard error
  (\<open>is_normal_disconnect\<close>). Collisions of random identifiers are not excluded: they are the errors of the constraints.
\<close>

end
